(* ===== verification/Prelude.thy ===== *)
theory Prelude
  imports Main "HOL-Library.Word" "HOL-Library.AList" "HOL-Library.Sublist"
begin

text \<open>
  Shared vocabulary of the development: Go's byte slices and strings, the big-endian and
  hexadecimal encodings of the standard library, Go channels with a non-blocking send, SQL
  tables as lists of rows, and the interfaces (locales) that several components implement.

  Conventions. A Go \<open>string\<close> is a \<open>char list\<close> (one \<open>char\<close> per byte), a
  \<open>[]byte\<close> is a list of 8-bit words (nil and the empty slice are identified), a
  \<open>time.Time\<close> is the integer number of nanoseconds since the Unix epoch, and
  \<open>time.Now()\<close> is an argument of every operation that reads the clock.
\<close>

unbundle bit_operations_syntax

section \<open>Types\<close>

type_synonym byte = "8 word"
type_synonym bytes = "byte list"
type_synonym gotime = int
type_synonym duration = int

datatype panic = SendOnClosedChannel | CloseOfClosedChannel | NilDereference | SliceOutOfRange

named_theorems chan_simps \<open>equations of channel operations\<close>
named_theorems table_simps \<open>equations of row-store operations\<close>
named_theorems codec_simps \<open>encoding and decoding equations\<close>

section \<open>Definitions\<close>

subsection \<open>Time\<close>

definition zero_time :: gotime where
  "zero_time = - 62135596800 * 1000000000"

definition UnixNano :: "gotime \<Rightarrow> int" where
  "UnixNano t = sint (word_of_int t :: 64 word)"

definition int64_range :: "int \<Rightarrow> bool" where
  "int64_range t = (- (2 ^ 63) \<le> t \<and> t < 2 ^ 63)"

abbreviation Nanosecond :: duration where "Nanosecond \<equiv> 1"
abbreviation Second :: duration where "Second \<equiv> 1000000000"
abbreviation Minute :: duration where "Minute \<equiv> 60000000000"
abbreviation Hour :: duration where "Hour \<equiv> 3600000000000"

subsection \<open>Strings and bytes\<close>

definition string_bytes :: "string \<Rightarrow> bytes" where
  "string_bytes s = map (\<lambda>c. of_nat (of_char c)) s"

definition bytes_string :: "bytes \<Rightarrow> string" where
  "bytes_string bs = map (\<lambda>b. char_of (unat b)) bs"

definition HasPrefix :: "'a list \<Rightarrow> 'a list \<Rightarrow> bool" where
  "HasPrefix s p = (length p \<le> length s \<and> take (length p) s = p)"

fun string_less :: "string \<Rightarrow> string \<Rightarrow> bool" where
  "string_less _ [] = False"
| "string_less [] (_ # _) = True"
| "string_less (c # cs) (d # ds) =
     (if c = d then string_less cs ds else (of_char c :: nat) < of_char d)"

definition copy_array :: "nat \<Rightarrow> bytes \<Rightarrow> bytes" where
  "copy_array n src = take n src @ replicate (n - length src) 0"

subsection \<open>Big-endian integers\<close>

fun put_be :: "nat \<Rightarrow> nat \<Rightarrow> bytes" where
  "put_be 0 v = []"
| "put_be (Suc n) v = put_be n (v div 256) @ [of_nat v]"

definition get_be :: "bytes \<Rightarrow> nat" where
  "get_be bs = foldl (\<lambda>a b. a * 256 + unat b) 0 bs"

definition PutUint :: "'a::len word \<Rightarrow> bytes" where
  "PutUint w = put_be (LENGTH('a) div 8) (unat w)"

definition GetUint :: "bytes \<Rightarrow> 'a::len word" where
  "GetUint bs = of_nat (get_be bs)"

subsection \<open>Hexadecimal\<close>

definition hex_digit :: "nat \<Rightarrow> char" where
  "hex_digit n = (if n < 10 then char_of (48 + n) else char_of (87 + n))"

definition hex_value :: "char \<Rightarrow> nat option" where
  "hex_value c = (let n = of_char c :: nat in
     if 48 \<le> n \<and> n \<le> 57 then Some (n - 48)
     else if 97 \<le> n \<and> n \<le> 102 then Some (n - 87)
     else if 65 \<le> n \<and> n \<le> 70 then Some (n - 55)
     else None)"

fun hex_EncodeToString :: "bytes \<Rightarrow> string" where
  "hex_EncodeToString [] = []"
| "hex_EncodeToString (b # bs) =
     hex_digit (unat b div 16) # hex_digit (unat b mod 16) # hex_EncodeToString bs"

fun hex_DecodeString :: "string \<Rightarrow> bytes option" where
  "hex_DecodeString [] = Some []"
| "hex_DecodeString [c] = None"
| "hex_DecodeString (c # d # s) =
     (case hex_value c of None \<Rightarrow> None
      | Some h \<Rightarrow> (case hex_value d of None \<Rightarrow> None
        | Some l \<Rightarrow> (case hex_DecodeString s of None \<Rightarrow> None
          | Some bs \<Rightarrow> Some (of_nat (16 * h + l) # bs))))"

fun hex_fixed :: "nat \<Rightarrow> nat \<Rightarrow> string" where
  "hex_fixed 0 v = []"
| "hex_fixed (Suc n) v = hex_fixed n (v div 16) @ [hex_digit (v mod 16)]"

fun hex_len :: "nat \<Rightarrow> nat" where
  "hex_len v = (if v < 16 then 1 else Suc (hex_len (v div 16)))"

declare hex_len.simps [simp del]

definition Sprintf_0x :: "nat \<Rightarrow> nat \<Rightarrow> string" where
  "Sprintf_0x width v = hex_fixed (max width (hex_len v)) v"

subsection \<open>Decimal\<close>

fun dec_fixed :: "nat \<Rightarrow> nat \<Rightarrow> string" where
  "dec_fixed 0 v = []"
| "dec_fixed (Suc n) v = dec_fixed n (v div 10) @ [char_of (48 + v mod 10)]"

fun dec_len :: "nat \<Rightarrow> nat" where
  "dec_len v = (if v < 10 then 1 else Suc (dec_len (v div 10)))"

declare dec_len.simps [simp del]

definition Sprintf_d :: "int \<Rightarrow> string" where
  "Sprintf_d i = (if i < 0 then ''-'' else '''') @ dec_fixed (dec_len (nat \<bar>i\<bar>)) (nat \<bar>i\<bar>)"

text \<open>\<open>strings.ToLower\<close> and \<open>strings.TrimSpace\<close> on ASCII text.\<close>

definition ascii_lower :: "char \<Rightarrow> char" where
  "ascii_lower c = (if 65 \<le> (of_char c :: nat) \<and> (of_char c :: nat) \<le> 90 then char_of (of_char c + (32 :: nat)) else c)"

definition ToLower :: "string \<Rightarrow> string" where
  "ToLower s = map ascii_lower s"

definition is_space :: "char \<Rightarrow> bool" where
  "is_space c = ((of_char c :: nat) \<in> set [9, 10, 11, 12, 13, 32])"

definition TrimSpace :: "string \<Rightarrow> string" where
  "TrimSpace s = rev (dropWhile is_space (rev (dropWhile is_space s)))"

subsection \<open>Channels\<close>

record 'a chan =
  ch_cap :: nat
  ch_buf :: "'a list"
  ch_closed :: bool

definition make_chan :: "nat \<Rightarrow> 'a chan" where
  "make_chan n = \<lparr>ch_cap = n, ch_buf = [], ch_closed = False\<rparr>"

definition chan_offer :: "'a \<Rightarrow> 'a chan \<Rightarrow> 'a chan" where
  "chan_offer x c =
     (if length (ch_buf c) < ch_cap c then c\<lparr>ch_buf := ch_buf c @ [x]\<rparr> else c)"

definition chan_trysend :: "'a \<Rightarrow> 'a chan \<Rightarrow> panic + 'a chan" where
  "chan_trysend x c = (if ch_closed c then Inl SendOnClosedChannel else Inr (chan_offer x c))"

definition chan_close :: "'a chan \<Rightarrow> panic + 'a chan" where
  "chan_close c = (if ch_closed c then Inl CloseOfClosedChannel else Inr (c\<lparr>ch_closed := True\<rparr>))"

definition chan_recv :: "'a chan \<Rightarrow> ('a \<times> 'a chan) option" where
  "chan_recv c = (case ch_buf c of [] \<Rightarrow> None | x # xs \<Rightarrow> Some (x, c\<lparr>ch_buf := xs\<rparr>))"

subsection \<open>SQL tables\<close>

text \<open>
  A table is the list of its rows in rowid order. \<open>INSERT OR REPLACE\<close> deletes the row
  with the same primary key and appends the new one; \<open>INSERT OR IGNORE\<close> keeps the old
  one; \<open>ORDER BY\<close> is a stable sort, so rows with equal sort keys come in rowid order.
\<close>

definition find_row :: "('r \<Rightarrow> 'k) \<Rightarrow> 'k \<Rightarrow> 'r list \<Rightarrow> 'r option" where
  "find_row key k rows = find (\<lambda>r. key r = k) rows"

definition delete_row :: "('r \<Rightarrow> 'k) \<Rightarrow> 'k \<Rightarrow> 'r list \<Rightarrow> 'r list" where
  "delete_row key k rows = filter (\<lambda>r. key r \<noteq> k) rows"

definition insert_or_replace :: "('r \<Rightarrow> 'k) \<Rightarrow> 'r \<Rightarrow> 'r list \<Rightarrow> 'r list" where
  "insert_or_replace key r rows = delete_row key (key r) rows @ [r]"

definition insert_or_ignore :: "('r \<Rightarrow> 'k) \<Rightarrow> 'r \<Rightarrow> 'r list \<Rightarrow> 'r list" where
  "insert_or_ignore key r rows = (if key r \<in> key ` set rows then rows else rows @ [r])"

definition update_where :: "('r \<Rightarrow> bool) \<Rightarrow> ('r \<Rightarrow> 'r) \<Rightarrow> 'r list \<Rightarrow> 'r list" where
  "update_where P f rows = map (\<lambda>r. if P r then f r else r) rows"

definition order_by_asc :: "('r \<Rightarrow> int) \<Rightarrow> 'r list \<Rightarrow> 'r list" where
  "order_by_asc f rows = sort_key f rows"

definition order_by_desc :: "('r \<Rightarrow> int) \<Rightarrow> 'r list \<Rightarrow> 'r list" where
  "order_by_desc f rows = sort_key (\<lambda>r. - f r) rows"

definition unique_key :: "('r \<Rightarrow> 'k) \<Rightarrow> 'r list \<Rightarrow> bool" where
  "unique_key key rows = distinct (map key rows)"

section \<open>Lemmas\<close>

subsection \<open>Folds\<close>

lemma fold_invariant_rule:
  "P s \<Longrightarrow> (\<And>x s. x \<in> set xs \<Longrightarrow> P s \<Longrightarrow> P (f x s)) \<Longrightarrow> P (fold f xs s)"
  by (induction xs arbitrary: s) auto

lemma fold_unchanged:
  "(\<And>x s. x \<in> set xs \<Longrightarrow> g (f x s) = g s) \<Longrightarrow> g (fold f xs s) = g s"
  by (induction xs arbitrary: s) auto

subsection \<open>Strings and bytes\<close>

lemma byte_bound [simp]: "unat (b :: byte) < 256"
  using unsigned_less [of b, where ?'a = nat] by simp

lemma of_nat_byte_eq [simp]: "(of_nat n :: byte) = of_nat m \<longleftrightarrow> n mod 256 = m mod 256"
  by (simp add: word_unat_eq_iff unat_of_nat)

lemma of_nat_unat_byte: "n mod 256 = unat b \<Longrightarrow> (of_nat n :: byte) = b"
  by (simp add: word_unat_eq_iff unat_of_nat)

lemma string_bytes_inverse [simp]: "bytes_string (string_bytes s) = s"
  by (simp add: bytes_string_def string_bytes_def comp_def unat_of_nat)

lemma bytes_string_inverse [simp]: "string_bytes (bytes_string bs) = bs"
proof -
  have "of_nat (of_char (char_of (unat b) :: char)) = b" for b :: byte
    by (rule of_nat_unat_byte) simp
  then show ?thesis by (simp add: bytes_string_def string_bytes_def comp_def)
qed

lemma string_bytes_inject [simp]: "string_bytes s = string_bytes t \<longleftrightarrow> s = t"
  by (metis string_bytes_inverse)

lemma length_string_bytes [simp]: "length (string_bytes s) = length s"
  by (simp add: string_bytes_def)

lemma length_copy_array [simp]: "length (copy_array n src) = n"
  by (simp add: copy_array_def)

lemma copy_array_Nil [simp]: "copy_array n src = [] \<longleftrightarrow> n = 0" "[] = copy_array n src \<longleftrightarrow> n = 0"
  by (metis length_copy_array length_0_conv)+

lemma copy_array_id [simp]: "length src = n \<Longrightarrow> copy_array n src = src"
  by (simp add: copy_array_def)

lemma string_less_irrefl [simp]: "\<not> string_less s s"
  by (induction s) auto

lemma string_less_total: "string_less s t \<or> s = t \<or> string_less t s"
proof (induction s t rule: string_less.induct)
  case (1 s)
  then show ?case by (cases s) auto
next
  case (3 c cs d ds)
  have "c = d \<or> (of_char c :: nat) < of_char d \<or> (of_char d :: nat) < of_char c"
    using of_char_eq_iff [of c d, where ?'a = nat] by linarith
  with 3 show ?case by auto
qed auto

lemma string_less_asym: "string_less s t \<Longrightarrow> \<not> string_less t s"
  by (induction s t rule: string_less.induct) (auto split: if_splits)

subsection \<open>Integers and digits\<close>

lemma UnixNano_id [simp]: "int64_range t \<Longrightarrow> UnixNano t = t"
  by (simp add: UnixNano_def int64_range_def signed_of_int signed_take_bit_int_eq_self)

lemma int64_range_UnixNano [simp]: "int64_range (UnixNano t)"
  using sint_greater_eq [of "word_of_int t :: 64 word"] sint_less [of "word_of_int t :: 64 word"]
  by (simp add: UnixNano_def int64_range_def)

lemma length_put_be [simp]: "length (put_be n v) = n"
  by (induction n arbitrary: v) auto

lemma get_be_snoc [simp]: "get_be (bs @ [b]) = get_be bs * 256 + unat b"
  by (simp add: get_be_def)

lemma get_be_Nil [simp]: "get_be [] = 0"
  by (simp add: get_be_def)

lemma get_be_bound: "get_be bs < 256 ^ length bs"
proof (induction bs rule: rev_induct)
  case (snoc b bs)
  have "(get_be bs + 1) * 256 \<le> 256 ^ length bs * 256"
    using snoc by (intro mult_le_mono1) simp
  then have "get_be bs * 256 + 256 \<le> 256 ^ length bs * 256" by (simp add: algebra_simps)
  with byte_bound [of b] have "get_be bs * 256 + unat b < 256 ^ length bs * 256" by linarith
  then show ?case by (simp add: mult.commute)
qed simp

lemma get_be_put_be [codec_simps]: "v < 256 ^ n \<Longrightarrow> get_be (put_be n v) = v"
proof (induction n arbitrary: v)
  case (Suc n)
  then have "v div 256 < 256 ^ n" by (simp add: less_mult_imp_div_less mult.commute)
  with Suc.IH have "get_be (put_be n (v div 256)) = v div 256" by simp
  then show ?case by (simp add: unat_of_nat)
qed simp

lemma put_be_get_be [codec_simps]: "put_be (length bs) (get_be bs) = bs"
proof (induction bs rule: rev_induct)
  case (snoc b bs)
  have "(get_be bs * 256 + unat b) div 256 = get_be bs" by simp
  moreover have "(of_nat (get_be bs * 256 + unat b) :: byte) = b"
    by (rule of_nat_unat_byte) simp
  ultimately show ?case using snoc by simp
qed simp

lemma GetUint_PutUint [codec_simps]:
  fixes w :: "'a::len word"
  assumes "8 dvd LENGTH('a)"
  shows "GetUint (PutUint w) = w"
proof -
  have "unat w < 2 ^ LENGTH('a)" by (rule unsigned_less)
  also have "(2::nat) ^ LENGTH('a) = 256 ^ (LENGTH('a) div 8)"
    using assms by (auto simp: dvd_def power_mult)
  finally show ?thesis by (simp add: GetUint_def PutUint_def get_be_put_be)
qed

lemma length_PutUint [simp]: "length (PutUint (w :: 'a::len word)) = LENGTH('a) div 8"
  by (simp add: PutUint_def)

lemma length_hex_Encode [simp]: "length (hex_EncodeToString bs) = 2 * length bs"
  by (induction bs) auto

lemma hex_value_digit [simp]: "n < 16 \<Longrightarrow> hex_value (hex_digit n) = Some n"
  by (auto simp: hex_value_def hex_digit_def Let_def)

lemma hex_Decode_Encode [codec_simps]: "hex_DecodeString (hex_EncodeToString bs) = Some bs"
proof (induction bs)
  case (Cons b bs)
  have "unat b div 16 < 16" by (simp add: less_mult_imp_div_less)
  moreover have "(of_nat (16 * (unat b div 16) + unat b mod 16) :: byte) = b"
    by (rule of_nat_unat_byte) simp
  ultimately show ?case using Cons by (simp del: of_nat_add of_nat_mult)
qed simp

lemma length_hex_fixed [simp]: "length (hex_fixed n v) = n"
  by (induction n arbitrary: v) auto

lemma length_dec_fixed [simp]: "length (dec_fixed n v) = n"
  by (induction n arbitrary: v) auto

lemma digit_char: "(n::nat) < 10 \<Longrightarrow> char_of (48 + n) \<in> set ''0123456789''"
proof -
  have "list_all (\<lambda>n. char_of (48 + n) \<in> set ''0123456789'') [0::nat, 1, 2, 3, 4, 5, 6, 7, 8, 9]"
    by code_simp
  moreover assume "n < 10"
  then have "n \<in> set [0, 1, 2, 3, 4, 5, 6, 7, 8, 9]" by auto
  ultimately show ?thesis unfolding list_all_iff by blast
qed

lemma dec_fixed_digits: "c \<in> set (dec_fixed n v) \<Longrightarrow> c \<in> set ''0123456789''"
proof (induction n arbitrary: v)
  case (Suc n)
  then consider "c \<in> set (dec_fixed n (v div 10))" | "c = char_of (48 + v mod 10)" by auto
  then show ?case
  proof cases
    case 1
    then show ?thesis by (rule Suc.IH)
  next
    case 2
    then show ?thesis using digit_char [of "v mod 10"] by simp
  qed
qed simp

subsection \<open>Channels\<close>

lemma chan_offer_cap [simp, chan_simps]: "ch_cap (chan_offer x c) = ch_cap c"
  by (simp add: chan_offer_def)

lemma chan_offer_closed [simp, chan_simps]: "ch_closed (chan_offer x c) = ch_closed c"
  by (simp add: chan_offer_def)

lemma chan_offer_buf [chan_simps]:
  "ch_buf (chan_offer x c) = (if length (ch_buf c) < ch_cap c then ch_buf c @ [x] else ch_buf c)"
  by (simp add: chan_offer_def)

lemma make_chan_simps [simp, chan_simps]:
  "ch_cap (make_chan n) = n" "ch_buf (make_chan n) = []" "\<not> ch_closed (make_chan n)"
  by (simp_all add: make_chan_def)

text \<open>
  A mailbox: a component that queues for one reader without blocking the writer. The
  provider says how one offer changes the queue; the client facts are about bursts.
\<close>

locale mailbox =
  fixes offer :: "'x \<Rightarrow> 's \<Rightarrow> 's"
    and contents :: "'s \<Rightarrow> 'x list"
    and capacity :: "'s \<Rightarrow> nat"
  assumes contents_offer: "contents (offer x s) =
      (if length (contents s) < capacity s then contents s @ [x] else contents s)"
    and capacity_offer: "capacity (offer x s) = capacity s"
begin

lemma capacity_burst: "capacity (fold offer xs s) = capacity s"
  by (induction xs arbitrary: s) (auto simp: capacity_offer)

lemma contents_burst:
  "length (contents s) \<le> capacity s \<Longrightarrow>
   contents (fold offer xs s) = contents s @ take (capacity s - length (contents s)) xs"
proof (induction xs arbitrary: s)
  case (Cons x xs)
  show ?case
  proof (cases "length (contents s) < capacity s")
    case True
    then have "contents (fold offer xs (offer x s)) =
        (contents s @ [x]) @ take (capacity s - Suc (length (contents s))) xs"
      using Cons.IH [of "offer x s"] by (simp add: contents_offer capacity_offer)
    with True show ?thesis by (simp add: take_Cons')
  next
    case False
    with Cons show ?thesis by (simp add: contents_offer capacity_offer)
  qed
qed simp

lemma bounded_burst:
  "length (contents s) \<le> capacity s \<Longrightarrow> length (contents (fold offer xs s)) \<le> capacity s"
  by (simp add: contents_burst)

end

interpretation go_chan: mailbox chan_offer ch_buf ch_cap
  by unfold_locales (simp_all add: chan_simps)

subsection \<open>Tables\<close>

lemma find_row_delete [table_simps]:
  "find_row key k (delete_row key k' rows) = (if k = k' then None else find_row key k rows)"
  by (induction rows) (auto simp: find_row_def delete_row_def)

lemma find_row_append [table_simps]:
  "find_row key k (rows @ rows') =
     (case find_row key k rows of None \<Rightarrow> find_row key k rows' | Some r \<Rightarrow> Some r)"
  by (induction rows) (auto simp: find_row_def)

lemma find_row_single [table_simps]:
  "find_row key k [r] = (if key r = k then Some r else None)"
  by (simp add: find_row_def)

lemma find_row_replace [table_simps]:
  "find_row key k (insert_or_replace key r rows) =
     (if k = key r then Some r else find_row key k rows)"
  by (auto simp: insert_or_replace_def find_row_append find_row_delete find_row_single
      split: option.splits)

lemma find_row_ignore [table_simps]:
  "find_row key k (insert_or_ignore key r rows) =
     (case find_row key k rows of None \<Rightarrow> (if k = key r then Some r else None) | Some r' \<Rightarrow> Some r')"
  by (auto simp: insert_or_ignore_def find_row_append find_row_single split: option.splits)
    (auto simp: find_row_def find_None_iff)

lemma find_row_Some: "find_row key k rows = Some r \<Longrightarrow> r \<in> set rows \<and> key r = k"
  by (auto simp: find_row_def find_Some_iff)

lemma find_row_None: "find_row key k rows = None \<longleftrightarrow> (\<forall>r\<in>set rows. key r \<noteq> k)"
  by (auto simp: find_row_def find_None_iff)

lemma find_row_update_where [table_simps]:
  "(\<And>r. key (f r) = key r) \<Longrightarrow>
   find_row key k (update_where P f rows) =
     map_option (\<lambda>r. if P r then f r else r) (find_row key k rows)"
  by (induction rows) (auto simp: find_row_def update_where_def)

lemma unique_key_delete_row [simp]: "unique_key key rows \<Longrightarrow> unique_key key (delete_row key' k rows)"
  by (simp add: unique_key_def delete_row_def distinct_map_filter)

lemma delete_row_absent: "find_row key k rows = None \<Longrightarrow> delete_row key k rows = rows"
  by (auto simp: find_row_def delete_row_def find_None_iff filter_id_conv)

lemma unique_key_delete [simp]: "unique_key key rows \<Longrightarrow> unique_key key (filter P rows)"
  by (simp add: unique_key_def distinct_map_filter)

lemma unique_key_replace [simp]:
  "unique_key key rows \<Longrightarrow> unique_key key (insert_or_replace key r rows)"
  by (auto simp: unique_key_def insert_or_replace_def delete_row_def distinct_map_filter)

lemma unique_key_ignore [simp]:
  "unique_key key rows \<Longrightarrow> unique_key key (insert_or_ignore key r rows)"
  by (auto simp: unique_key_def insert_or_ignore_def)

lemma unique_key_update [simp]:
  "(\<And>r. key (f r) = key r) \<Longrightarrow>
   unique_key key (update_where P f rows) = unique_key key rows"
  by (simp add: unique_key_def update_where_def comp_def if_distrib cong: if_cong)

lemma find_row_unique:
  "unique_key key rows \<Longrightarrow> r \<in> set rows \<Longrightarrow> find_row key (key r) rows = Some r"
  by (induction rows) (auto simp: find_row_def unique_key_def image_iff)

text \<open>
  A keyed store: what \<open>put\<close>, \<open>get\<close> and \<open>del\<close> promise each other. The clients only
  use these laws, so \<open>last_write_wins\<close> holds for every table or map that obeys them.
\<close>

locale keyed_store =
  fixes put :: "'v \<Rightarrow> 's \<Rightarrow> 's"
    and get :: "'s \<Rightarrow> 'k \<Rightarrow> 'w option"
    and del :: "'k \<Rightarrow> 's \<Rightarrow> 's"
    and key :: "'v \<Rightarrow> 'k"
    and val :: "'v \<Rightarrow> 'w"
  assumes get_put: "get (put v s) k = (if k = key v then Some (val v) else get s k)"
    and get_del: "get (del k s) k' = (if k' = k then None else get s k')"
begin

lemma get_put_same: "get (put v s) (key v) = Some (val v)"
  by (simp add: get_put)

lemma last_write_wins:
  "get (fold put vs s) k =
     (case find (\<lambda>v. key v = k) (rev vs) of None \<Rightarrow> get s k | Some v \<Rightarrow> Some (val v))"
proof (induction vs rule: rev_induct)
  case (snoc v vs)
  then show ?case by (simp add: get_put)
qed simp

lemma del_put_absent: "get s (key v) = None \<Longrightarrow> get (del (key v) (put v s)) = get s"
  by (rule ext) (simp add: get_put get_del)

end

subsection \<open>Transition systems\<close>

text \<open>
  The contract of a transition system with an invariant, and of one that implements the steps of
  an abstract system. A component proves the laws for one step; the client facts are about runs.
\<close>

locale safe_system =
  fixes step :: "'s \<Rightarrow> 's \<Rightarrow> bool" and inv :: "'s \<Rightarrow> bool"
  assumes step_inv: "inv s \<Longrightarrow> step s s' \<Longrightarrow> inv s'"
begin

lemma run_inv: "step\<^sup>*\<^sup>* s s' \<Longrightarrow> inv s \<Longrightarrow> inv s'"
  by (induction rule: rtranclp_induct) (auto intro: step_inv)

end

locale simulation = safe_system cstep inv
  for cstep :: "'c \<Rightarrow> 'c \<Rightarrow> bool" and inv :: "'c \<Rightarrow> bool" +
  fixes astep :: "'a \<Rightarrow> 'a \<Rightarrow> bool" and abstr :: "'c \<Rightarrow> 'a"
  assumes step_sim: "inv c \<Longrightarrow> cstep c c' \<Longrightarrow> astep (abstr c) (abstr c')"
begin

lemma run_sim: "cstep\<^sup>*\<^sup>* c c' \<Longrightarrow> inv c \<Longrightarrow> astep\<^sup>*\<^sup>* (abstr c) (abstr c')"
proof (induction rule: rtranclp_induct)
  case (step y z)
  then show ?case using run_inv [of c y] step_sim [of y z] by (simp add: rtranclp.rtrancl_into_rtrancl)
qed simp

end

end
