(* ===== verification/Core_Types.thy ===== *)
theory Core_Types
  imports Prelude
begin

text \<open>
  The data model of \<^verbatim>\<open>core/types.go\<close>: identities, messages, chats, peers, contact
  requests, stickers, call sessions, packets, relay frames and the configuration, with the
  methods declared on them. Enumerations that the program only ever sets from its own
  constants are datatypes; \<open>MessageType\<close>, \<open>PacketFlags\<close> and \<open>Permission\<close>, which arrive
  from the network or are combined bitwise, stay words of the width the source gives them.
  Lemmas: \<open>PeerID.String\<close> is injective on peers whose node ID has no colon, \<open>FindMember\<close>
  returns the first member with that name, and the iota encodings are order embeddings.
\<close>

section \<open>Definitions\<close>

subsection \<open>Identity\<close>

type_synonym NodeID = string
type_synonym NetworkID = string
type_synonym ChatID = string
type_synonym MessageID = string

record PeerID =
  pid_NodeID :: NodeID
  pid_Fingerprint :: string

definition PeerID_String :: "PeerID \<Rightarrow> string" where
  "PeerID_String p = pid_NodeID p @ '':'' @ pid_Fingerprint p"

definition PeerID_IsZero :: "PeerID \<Rightarrow> bool" where
  "PeerID_IsZero p = (pid_NodeID p = '''' \<and> pid_Fingerprint p = '''')"

subsection \<open>Messages\<close>

type_synonym MessageType = "8 word"

abbreviation MsgText :: MessageType where "MsgText \<equiv> 0x01"
abbreviation MsgImage :: MessageType where "MsgImage \<equiv> 0x02"
abbreviation MsgAudio :: MessageType where "MsgAudio \<equiv> 0x03"
abbreviation MsgVideo :: MessageType where "MsgVideo \<equiv> 0x04"
abbreviation MsgFile :: MessageType where "MsgFile \<equiv> 0x05"
abbreviation MsgSticker :: MessageType where "MsgSticker \<equiv> 0x06"
abbreviation MsgLocation :: MessageType where "MsgLocation \<equiv> 0x07"
abbreviation MsgReaction :: MessageType where "MsgReaction \<equiv> 0x08"
abbreviation MsgEdit :: MessageType where "MsgEdit \<equiv> 0x09"
abbreviation MsgDelete :: MessageType where "MsgDelete \<equiv> 0x0A"
abbreviation MsgRead :: MessageType where "MsgRead \<equiv> 0x0B"
abbreviation MsgDelivered :: MessageType where "MsgDelivered \<equiv> 0x0C"
abbreviation MsgTyping :: MessageType where "MsgTyping \<equiv> 0x0D"
abbreviation MsgForward :: MessageType where "MsgForward \<equiv> 0x0E"
abbreviation MsgMemberAdded :: MessageType where "MsgMemberAdded \<equiv> 0x11"
abbreviation MsgMemberRemoved :: MessageType where "MsgMemberRemoved \<equiv> 0x12"
abbreviation MsgMemberLeft :: MessageType where "MsgMemberLeft \<equiv> 0x13"
abbreviation MsgGroupRenamed :: MessageType where "MsgGroupRenamed \<equiv> 0x14"
abbreviation MsgAdminChanged :: MessageType where "MsgAdminChanged \<equiv> 0x15"
abbreviation MsgCallSignal :: MessageType where "MsgCallSignal \<equiv> 0x20"
abbreviation MsgCallEnd :: MessageType where "MsgCallEnd \<equiv> 0x21"
abbreviation MsgContactRequest :: MessageType where "MsgContactRequest \<equiv> 0x30"
abbreviation MsgContactAccept :: MessageType where "MsgContactAccept \<equiv> 0x31"
abbreviation MsgContactDecline :: MessageType where "MsgContactDecline \<equiv> 0x32"
abbreviation MsgKeyRotation :: MessageType where "MsgKeyRotation \<equiv> 0x40"
abbreviation MsgSenderKeyDist :: MessageType where "MsgSenderKeyDist \<equiv> 0x41"
abbreviation MsgSync :: MessageType where "MsgSync \<equiv> 0x50"
abbreviation MsgSyncAck :: MessageType where "MsgSyncAck \<equiv> 0x51"
abbreviation MsgPing :: MessageType where "MsgPing \<equiv> 0xF0"
abbreviation MsgPong :: MessageType where "MsgPong \<equiv> 0xF1"
abbreviation MsgHandshake :: MessageType where "MsgHandshake \<equiv> 0xF2"
abbreviation MsgHandshakeAck :: MessageType where "MsgHandshakeAck \<equiv> 0xF3"

datatype DeliveryStatus = StatusPending | StatusSent | StatusDelivered | StatusRead | StatusFailed

record Mention =
  mention_PeerID :: PeerID
  mention_DisplayName :: string
  mention_Offset :: int
  mention_Length :: int

record ReactionEntry =
  re_PeerID :: PeerID
  re_Emoji :: string
  re_CreatedAt :: gotime

record ForwardInfo =
  fi_OriginalSenderID :: PeerID
  fi_OriginalSenderName :: string
  fi_OriginalChatID :: ChatID
  fi_OriginalMsgID :: MessageID
  fi_OriginalSentAt :: gotime

record MessageMeta =
  meta_MimeType :: string
  meta_FileName :: string
  meta_FileSize :: int
  meta_Duration :: duration
  meta_Width :: int
  meta_Height :: int
  meta_Thumbnail :: bytes
  meta_MediaHash :: string
  meta_StickerPackID :: string
  meta_StickerID :: string
  meta_Mentions :: "Mention list"
  meta_ForwardInfo :: "ForwardInfo option"
  meta_Extra :: "(string \<times> string) list"

definition empty_meta :: MessageMeta where
  "empty_meta = \<lparr>meta_MimeType = '''', meta_FileName = '''', meta_FileSize = 0, meta_Duration = 0,
     meta_Width = 0, meta_Height = 0, meta_Thumbnail = [], meta_MediaHash = '''',
     meta_StickerPackID = '''', meta_StickerID = '''', meta_Mentions = [],
     meta_ForwardInfo = None, meta_Extra = []\<rparr>"

record Message =
  msg_ID :: MessageID
  msg_ChatID :: ChatID
  msg_SenderID :: PeerID
  msg_RecipientID :: "PeerID option"
  msg_Type :: MessageType
  msg_Payload :: bytes
  msg_Metadata :: MessageMeta
  msg_Status :: DeliveryStatus
  msg_SentAt :: gotime
  msg_EditedAt :: "gotime option"
  msg_ReplyTo :: "MessageID option"
  msg_ExpiresAt :: "gotime option"

subsection \<open>Groups and chats\<close>

datatype ChatType = ChatDirect | ChatGroup | ChatChannel

type_synonym Permission = "32 word"

abbreviation PermSendMessages :: Permission where "PermSendMessages \<equiv> 1"
abbreviation PermSendMedia :: Permission where "PermSendMedia \<equiv> 2"
abbreviation PermAddMembers :: Permission where "PermAddMembers \<equiv> 4"
abbreviation PermRemoveMembers :: Permission where "PermRemoveMembers \<equiv> 8"
abbreviation PermChangeInfo :: Permission where "PermChangeInfo \<equiv> 16"
abbreviation PermPinMessages :: Permission where "PermPinMessages \<equiv> 32"
abbreviation PermManageAdmins :: Permission where "PermManageAdmins \<equiv> 64"
abbreviation PermAll :: Permission where "PermAll \<equiv> 0xFFFFFFFF"

definition PermDefault :: Permission where
  "PermDefault = PermSendMessages OR PermSendMedia"

datatype MemberRole = RoleMember | RoleAdmin | RoleOwner

record ChatMember =
  cm_PeerID :: PeerID
  cm_Role :: MemberRole
  cm_Permissions :: Permission
  cm_JoinedAt :: gotime
  cm_InvitedBy :: "PeerID option"

record Chat =
  chat_ID :: ChatID
  chat_Type :: ChatType
  chat_Name :: string
  chat_Description :: string
  chat_AvatarHash :: string
  chat_Members :: "ChatMember list"
  chat_NetworkID :: NetworkID
  chat_Encrypted :: bool
  chat_CreatedAt :: gotime
  chat_UpdatedAt :: gotime
  chat_DisappearAfter :: duration
  chat_DefaultPermissions :: Permission

definition MemberPeerIDs :: "Chat \<Rightarrow> PeerID list" where
  "MemberPeerIDs c = map cm_PeerID (chat_Members c)"

text \<open>\<open>FindMember\<close> returns a pointer into the slice: here the index of the element.\<close>

fun find_member_from :: "nat \<Rightarrow> ChatMember list \<Rightarrow> PeerID \<Rightarrow> nat option" where
  "find_member_from i [] pid = None"
| "find_member_from i (m # ms) pid =
     (if PeerID_String (cm_PeerID m) = PeerID_String pid then Some i
      else find_member_from (Suc i) ms pid)"

definition FindMember :: "Chat \<Rightarrow> PeerID \<Rightarrow> nat option" where
  "FindMember c pid = find_member_from 0 (chat_Members c) pid"

subsection \<open>Peers and contacts\<close>

datatype PeerStatus = PeerOffline | PeerOnline | PeerAway | PeerBusy | PeerInvisible

record Peer =
  peer_ID :: PeerID
  peer_DisplayName :: string
  peer_AvatarHash :: string
  peer_Status :: PeerStatus
  peer_StatusText :: string
  peer_PublicKey :: bytes
  peer_SignKey :: bytes
  peer_LastSeen :: gotime
  peer_Networks :: "NetworkID list"
  peer_IsBlocked :: bool
  peer_IsContact :: bool

datatype ContactRequestStatus =
  ContactRequestPending | ContactRequestAccepted | ContactRequestDeclined

record ContactRequest =
  cr_ID :: string
  cr_FromPeer :: PeerID
  cr_DisplayName :: string
  cr_SignKey :: bytes
  cr_DHKey :: bytes
  cr_Message :: string
  cr_Status :: ContactRequestStatus
  cr_ReceivedAt :: gotime

record Sticker =
  st_ID :: string
  st_PackID :: string
  st_MediaHash :: string
  st_Emoji :: string

record StickerPack =
  sp_ID :: string
  sp_Name :: string
  sp_Author :: string
  sp_Stickers :: "Sticker list"
  sp_InstalledAt :: gotime

subsection \<open>Calls\<close>

datatype CallType = CallVoice | CallVideo | CallScreenShare

datatype CallState = CallIdle | CallRinging | CallConnecting | CallActive | CallHeld
  | CallEnded | CallDeclined | CallMissed | CallFailed

record CallSession =
  cs_ID :: string
  cs_ChatID :: ChatID
  cs_Type :: CallType
  cs_State :: CallState
  cs_Initiator :: PeerID
  cs_Participants :: "PeerID list"
  cs_StartedAt :: gotime
  cs_EndedAt :: "gotime option"
  cs_Duration :: duration

subsection \<open>Packets\<close>

type_synonym PacketFlags = "8 word"

abbreviation FlagCompressed :: PacketFlags where "FlagCompressed \<equiv> 1"
abbreviation FlagEncrypted :: PacketFlags where "FlagEncrypted \<equiv> 2"
abbreviation FlagReliable :: PacketFlags where "FlagReliable \<equiv> 4"
abbreviation FlagFragment :: PacketFlags where "FlagFragment \<equiv> 8"
abbreviation FlagMedia :: PacketFlags where "FlagMedia \<equiv> 16"

abbreviation PacketMagic :: "32 word" where "PacketMagic \<equiv> 0x4D534752"
abbreviation PacketVersion :: "8 word" where "PacketVersion \<equiv> 1"

text \<open>Fixed-size arrays are byte lists; \<open>wf_packet\<close> states the lengths the Go type fixes.\<close>

record Packet =
  pkt_Magic :: "32 word"
  pkt_Version :: "8 word"
  pkt_Type :: MessageType
  pkt_Flags :: PacketFlags
  pkt_TTL :: "8 word"
  pkt_PacketID :: bytes
  pkt_SenderNode :: bytes
  pkt_Timestamp :: "64 word"
  pkt_Body :: bytes
  pkt_HMAC :: bytes

definition wf_packet :: "Packet \<Rightarrow> bool" where
  "wf_packet p = (length (pkt_PacketID p) = 16 \<and> length (pkt_SenderNode p) = 5 \<and>
     length (pkt_HMAC p) = 32)"

definition zero_packet :: Packet where
  "zero_packet = \<lparr>pkt_Magic = 0, pkt_Version = 0, pkt_Type = 0, pkt_Flags = 0, pkt_TTL = 0,
     pkt_PacketID = replicate 16 0, pkt_SenderNode = replicate 5 0, pkt_Timestamp = 0,
     pkt_Body = [], pkt_HMAC = replicate 32 0\<rparr>"

record IncomingPacket =
  ip_From :: NodeID
  ip_Pkt :: Packet
  ip_ReceivedAt :: gotime

subsection \<open>Relay protocol\<close>

type_synonym RelayCommand = string

abbreviation CmdAuth :: RelayCommand where "CmdAuth \<equiv> ''auth''"
abbreviation CmdAuthOK :: RelayCommand where "CmdAuthOK \<equiv> ''auth_ok''"
abbreviation CmdRelay :: RelayCommand where "CmdRelay \<equiv> ''relay''"
abbreviation CmdSync :: RelayCommand where "CmdSync \<equiv> ''sync''"
abbreviation CmdSyncResp :: RelayCommand where "CmdSyncResp \<equiv> ''sync_resp''"
abbreviation CmdPresence :: RelayCommand where "CmdPresence \<equiv> ''presence''"
abbreviation CmdPing :: RelayCommand where "CmdPing \<equiv> ''ping''"
abbreviation CmdPong :: RelayCommand where "CmdPong \<equiv> ''pong''"
abbreviation CmdError :: RelayCommand where "CmdError \<equiv> ''error''"
abbreviation CmdRegister :: RelayCommand where "CmdRegister \<equiv> ''register''"
abbreviation CmdLogin :: RelayCommand where "CmdLogin \<equiv> ''login''"
abbreviation CmdListPeers :: RelayCommand where "CmdListPeers \<equiv> ''list_peers''"
abbreviation CmdUpdateProfile :: RelayCommand where "CmdUpdateProfile \<equiv> ''update_profile''"
abbreviation CmdHandshake :: RelayCommand where "CmdHandshake \<equiv> ''handshake''"
abbreviation CmdHandshakeAck :: RelayCommand where "CmdHandshakeAck \<equiv> ''handshake_ack''"

record 'p RelayFrame =
  rf_Cmd :: RelayCommand
  rf_ID :: string
  rf_PeerID :: string
  rf_Payload :: 'p
  rf_Timestamp :: int

record AuthPayload =
  ap_NodeID :: string
  ap_Fingerprint :: string
  ap_SignPub :: bytes
  ap_Signature :: bytes
  ap_Timestamp :: int

subsection \<open>Configuration\<close>

type_synonym TransportMode = string

abbreviation TransportP2P :: TransportMode where "TransportP2P \<equiv> ''p2p''"
abbreviation TransportServer :: TransportMode where "TransportServer \<equiv> ''server''"
abbreviation TransportBoth :: TransportMode where "TransportBoth \<equiv> ''both''"

record Config =
  cfg_ZeroTierPort :: "16 word"
  cfg_ZeroTierDataDir :: string
  cfg_Networks :: "NetworkID list"
  cfg_IdentityFile :: string
  cfg_DBPath :: string
  cfg_MediaDir :: string
  cfg_MaxMediaCacheMB :: int
  cfg_ListenPort :: "16 word"
  cfg_ServerAddresses :: "string list"
  cfg_UseServer :: bool
  cfg_TransportMode :: TransportMode
  cfg_E2EEnabled :: bool
  cfg_RotateKeysEvery :: duration
  cfg_RotateAfterNMsgs :: "64 word"
  cfg_RequireContactAccept :: bool
  cfg_MaxImageWidthPx :: int
  cfg_MaxVideoHeightPx :: int
  cfg_AudioBitrateKbps :: int
  cfg_VideoBitrateKbps :: int
  cfg_MaxRetries :: int
  cfg_RetryInterval :: duration
  cfg_MessageTTL :: duration
  cfg_PingInterval :: duration
  cfg_DisappearAfter :: duration
  cfg_LogLevel :: string
  cfg_LogFile :: string

text \<open>
  \<open>ExpandHome\<close>; the argument is the result of \<open>os.UserHomeDir\<close>. \<open>filepath.Join\<close> of a clean home
  directory and a clean relative path puts a slash between them.
\<close>

definition ExpandHome :: "string option \<Rightarrow> string \<Rightarrow> string" where
  "ExpandHome userHomeDir path =
     (if \<not> HasPrefix path ''~/'' then path
      else case userHomeDir of None \<Rightarrow> path | Some home \<Rightarrow> home @ ''/'' @ drop 2 path)"

definition DefaultConfig :: "string option \<Rightarrow> Config" where
  "DefaultConfig home = \<lparr>cfg_ZeroTierPort = 9993, cfg_ZeroTierDataDir = ExpandHome home ''~/.zerolink/zt'',
     cfg_Networks = [], cfg_IdentityFile = ExpandHome home ''~/.zerolink/identity.json'',
     cfg_DBPath = ExpandHome home ''~/.zerolink/messenger.db'',
     cfg_MediaDir = ExpandHome home ''~/.zerolink/media'', cfg_MaxMediaCacheMB = 512, cfg_ListenPort = 7777,
     cfg_ServerAddresses = [], cfg_UseServer = False, cfg_TransportMode = TransportBoth, cfg_E2EEnabled = True,
     cfg_RotateKeysEvery = 7 * 24 * Hour, cfg_RotateAfterNMsgs = 100, cfg_RequireContactAccept = True,
     cfg_MaxImageWidthPx = 2048, cfg_MaxVideoHeightPx = 1080, cfg_AudioBitrateKbps = 64,
     cfg_VideoBitrateKbps = 1500, cfg_MaxRetries = 5, cfg_RetryInterval = 5 * Second,
     cfg_MessageTTL = 7 * 24 * Hour, cfg_PingInterval = 30 * Second, cfg_DisappearAfter = 0,
     cfg_LogLevel = ''info'', cfg_LogFile = ''''\<rparr>"

subsection \<open>Enumeration values\<close>

fun DeliveryStatus_iota :: "DeliveryStatus \<Rightarrow> nat" where
  "DeliveryStatus_iota StatusPending = 0"
| "DeliveryStatus_iota StatusSent = 1"
| "DeliveryStatus_iota StatusDelivered = 2"
| "DeliveryStatus_iota StatusRead = 3"
| "DeliveryStatus_iota StatusFailed = 4"

fun MemberRole_iota :: "MemberRole \<Rightarrow> nat" where
  "MemberRole_iota RoleMember = 0"
| "MemberRole_iota RoleAdmin = 1"
| "MemberRole_iota RoleOwner = 2"

instantiation DeliveryStatus :: linorder
begin

definition less_eq_DeliveryStatus :: "DeliveryStatus \<Rightarrow> DeliveryStatus \<Rightarrow> bool" where
  "less_eq_DeliveryStatus s t = (DeliveryStatus_iota s \<le> DeliveryStatus_iota t)"

definition less_DeliveryStatus :: "DeliveryStatus \<Rightarrow> DeliveryStatus \<Rightarrow> bool" where
  "less_DeliveryStatus s t = (DeliveryStatus_iota s < DeliveryStatus_iota t)"

instance
proof
  fix s t :: DeliveryStatus
  show "s \<le> t \<Longrightarrow> t \<le> s \<Longrightarrow> s = t"
    by (cases s; cases t) (simp_all add: less_eq_DeliveryStatus_def)
qed (auto simp: less_eq_DeliveryStatus_def less_DeliveryStatus_def)

end

instantiation MemberRole :: linorder
begin

definition less_eq_MemberRole :: "MemberRole \<Rightarrow> MemberRole \<Rightarrow> bool" where
  "less_eq_MemberRole s t = (MemberRole_iota s \<le> MemberRole_iota t)"

definition less_MemberRole :: "MemberRole \<Rightarrow> MemberRole \<Rightarrow> bool" where
  "less_MemberRole s t = (MemberRole_iota s < MemberRole_iota t)"

instance
proof
  fix s t :: MemberRole
  show "s \<le> t \<Longrightarrow> t \<le> s \<Longrightarrow> s = t"
    by (cases s; cases t) (simp_all add: less_eq_MemberRole_def)
qed (auto simp: less_eq_MemberRole_def less_MemberRole_def)

end

section \<open>Lemmas\<close>

lemma append_colon_inject:
  "c \<notin> set xs \<Longrightarrow> c \<notin> set ys \<Longrightarrow> xs @ c # us = ys @ c # vs \<longleftrightarrow> xs = ys \<and> us = vs"
proof (induction xs arbitrary: ys)
  case Nil
  then show ?case by (cases ys) auto
next
  case (Cons x xs)
  then show ?case by (cases ys) auto
qed

lemma PeerID_String_inject:
  assumes "CHR '':'' \<notin> set (pid_NodeID p)" and "CHR '':'' \<notin> set (pid_NodeID q)"
  shows "PeerID_String p = PeerID_String q \<longleftrightarrow> p = q"
  using assms by (auto simp: PeerID_String_def append_colon_inject)

lemma find_member_from_Some:
  "find_member_from i ms pid = Some k \<longleftrightarrow>
     (\<exists>j. k = i + j \<and> j < length ms \<and> PeerID_String (cm_PeerID (ms ! j)) = PeerID_String pid \<and>
        (\<forall>l<j. PeerID_String (cm_PeerID (ms ! l)) \<noteq> PeerID_String pid))"
proof (induction ms arbitrary: i)
  case (Cons m ms)
  show ?case
  proof (cases "PeerID_String (cm_PeerID m) = PeerID_String pid")
    case True
    then show ?thesis by (force simp: gr0_conv_Suc)
  next
    case False
    then show ?thesis
      by (auto simp: Cons.IH less_Suc_eq_0_disj) (metis add_Suc_right not0_implies_Suc nth_Cons_0
          nth_Cons_Suc less_Suc_eq_0_disj Suc_less_eq)+
  qed
qed simp

lemma find_member_from_None:
  "find_member_from i ms pid = None \<longleftrightarrow>
     (\<forall>m\<in>set ms. PeerID_String (cm_PeerID m) \<noteq> PeerID_String pid)"
  by (induction ms arbitrary: i) auto

lemma FindMember_Some:
  "FindMember c pid = Some i \<Longrightarrow>
   i < length (chat_Members c) \<and> PeerID_String (cm_PeerID (chat_Members c ! i)) = PeerID_String pid"
  by (auto simp: FindMember_def find_member_from_Some)

lemma FindMember_None:
  "FindMember c pid = None \<longleftrightarrow>
     (\<forall>m\<in>set (chat_Members c). PeerID_String (cm_PeerID m) \<noteq> PeerID_String pid)"
  by (simp add: FindMember_def find_member_from_None)

end
