(* ===== verification/Event_Bus.thy ===== *)
theory Event_Bus
  imports Core_Types
begin

text \<open>
  The publish/subscribe bus of \<^verbatim>\<open>core/bus.go\<close>. A subscription holds a reference to its
  channel; the channels themselves live in a store, because a caller keeps the channel
  \<open>Subscribe\<close> returned after the subscription is gone. Iteration over the Go map of
  subscriptions is the order of an association list; \<open>Publish_order_irrelevant\<close> shows
  that the order does not matter. \<open>Unsubscribe\<close> removes the subscription under the lock and
  closes the channel after releasing it, so it is two atomic steps here, and the step relation
  \<open>bus_step\<close> interleaves them with every other operation.

  Results: no interleaving makes the bus send on, or close, a closed channel; a published
  event reaches exactly the matching subscribers with room in their buffer, in order, and is
  dropped for the others; a burst that overruns the buffer loses its tail.
\<close>

section \<open>Definitions\<close>

record 'd Event =
  evt_Type :: string
  evt_Timestamp :: gotime
  evt_Data :: 'd

record subscription =
  sub_id :: string
  sub_types :: "string list"
  sub_ch :: nat

record 'd bus =
  bus_subs :: "(string \<times> subscription) list"
  bus_chans :: "nat \<Rightarrow> 'd Event chan"
  bus_next :: nat
  bus_closing :: "nat list"

definition NewEventBus :: "'d bus" where
  "NewEventBus = \<lparr>bus_subs = [], bus_chans = (\<lambda>_. make_chan 256), bus_next = 0, bus_closing = []\<rparr>"

definition sub_matches :: "string \<Rightarrow> subscription \<Rightarrow> bool" where
  "sub_matches t sub = (sub_types sub = [] \<or> t \<in> set (sub_types sub))"

fun publish_loop ::
  "'d Event \<Rightarrow> subscription list \<Rightarrow> (nat \<Rightarrow> 'd Event chan) \<Rightarrow> panic + (nat \<Rightarrow> 'd Event chan)" where
  "publish_loop event [] chs = Inr chs"
| "publish_loop event (sub # subs) chs =
     (if \<not> sub_matches (evt_Type event) sub then publish_loop event subs chs
      else (case chan_trysend event (chs (sub_ch sub)) of
              Inl p \<Rightarrow> Inl p
            | Inr c \<Rightarrow> publish_loop event subs (chs(sub_ch sub := c))))"

definition stamp :: "gotime \<Rightarrow> 'd Event \<Rightarrow> 'd Event" where
  "stamp now event =
     (if evt_Timestamp event = zero_time then event\<lparr>evt_Timestamp := now\<rparr> else event)"

definition Publish :: "gotime \<Rightarrow> 'd Event \<Rightarrow> 'd bus \<Rightarrow> panic + 'd bus" where
  "Publish now event b =
     (case publish_loop (stamp now event) (map snd (bus_subs b)) (bus_chans b) of
        Inl p \<Rightarrow> Inl p
      | Inr chs \<Rightarrow> Inr (b\<lparr>bus_chans := chs\<rparr>))"

definition Subscribe :: "string \<Rightarrow> string list \<Rightarrow> 'd bus \<Rightarrow> panic + nat \<times> 'd bus" where
  "Subscribe sid types b =
     (let n = bus_next b;
          sub = \<lparr>sub_id = sid, sub_types = types, sub_ch = n\<rparr>;
          fresh = (\<lambda>chs. b\<lparr>bus_subs := AList.update sid sub (bus_subs b),
                           bus_chans := chs(n := make_chan 256), bus_next := Suc n\<rparr>)
      in case map_of (bus_subs b) sid of
           None \<Rightarrow> Inr (n, fresh (bus_chans b))
         | Some old \<Rightarrow> (case chan_close (bus_chans b (sub_ch old)) of
               Inl p \<Rightarrow> Inl p
             | Inr c \<Rightarrow> Inr (n, fresh ((bus_chans b)(sub_ch old := c)))))"

definition unsubscribe_delete :: "string \<Rightarrow> 'd bus \<Rightarrow> nat option \<times> 'd bus" where
  "unsubscribe_delete sid b =
     (case map_of (bus_subs b) sid of
        None \<Rightarrow> (None, b)
      | Some sub \<Rightarrow> (Some (sub_ch sub), b\<lparr>bus_subs := AList.delete sid (bus_subs b),
                                           bus_closing := sub_ch sub # bus_closing b\<rparr>))"

definition unsubscribe_close :: "nat \<Rightarrow> 'd bus \<Rightarrow> panic + 'd bus" where
  "unsubscribe_close ch b =
     (case chan_close (bus_chans b ch) of
        Inl p \<Rightarrow> Inl p
      | Inr c \<Rightarrow> Inr (b\<lparr>bus_chans := (bus_chans b)(ch := c), bus_closing := remove1 ch (bus_closing b)\<rparr>))"

definition Unsubscribe :: "string \<Rightarrow> 'd bus \<Rightarrow> panic + 'd bus" where
  "Unsubscribe sid b =
     (case unsubscribe_delete sid b of
        (None, b') \<Rightarrow> Inr b'
      | (Some ch, b') \<Rightarrow> unsubscribe_close ch b')"

text \<open>A run of publications, each with the clock reading it happens at.\<close>

fun publish_all :: "(gotime \<times> 'd Event) list \<Rightarrow> 'd bus \<Rightarrow> panic + 'd bus" where
  "publish_all [] b = Inr b"
| "publish_all ((now, e) # es) b =
     (case Publish now e b of Inl p \<Rightarrow> Inl p | Inr b' \<Rightarrow> publish_all es b')"

text \<open>A reader takes the next event out of a channel it was given.\<close>

definition bus_receive :: "nat \<Rightarrow> 'd bus \<Rightarrow> ('d Event \<times> 'd bus) option" where
  "bus_receive ch b =
     (case chan_recv (bus_chans b ch) of
        None \<Rightarrow> None
      | Some (e, c) \<Rightarrow> Some (e, b\<lparr>bus_chans := (bus_chans b)(ch := c)\<rparr>))"

text \<open>The interleavings: every operation is one atomic step, \<open>Unsubscribe\<close> is two.\<close>

inductive bus_step :: "'d bus \<Rightarrow> panic + 'd bus \<Rightarrow> bool" where
  step_publish: "bus_step b (Publish now event b)"
| step_subscribe: "bus_step b (map_sum id snd (Subscribe sid types b))"
| step_unsub_delete: "bus_step b (Inr (snd (unsubscribe_delete sid b)))"
| step_unsub_close: "ch \<in> set (bus_closing b) \<Longrightarrow> bus_step b (unsubscribe_close ch b)"
| step_receive: "bus_receive ch b = Some (e, b') \<Longrightarrow> bus_step b (Inr b')"

inductive bus_reachable :: "'d bus \<Rightarrow> bool" where
  bus_start: "bus_reachable NewEventBus"
| bus_next: "bus_reachable b \<Longrightarrow> bus_step b (Inr b') \<Longrightarrow> bus_reachable b'"

inductive_cases bus_stepE: "bus_step b r"

text \<open>The channels that may still be sent to or closed: registered, or deleted and not yet closed.\<close>

definition live_chans :: "'d bus \<Rightarrow> nat list" where
  "live_chans b = map (sub_ch \<circ> snd) (bus_subs b) @ bus_closing b"

definition chan_ok :: "'d Event chan \<Rightarrow> bool" where
  "chan_ok c = (ch_cap c = 256 \<and> length (ch_buf c) \<le> 256)"

definition bus_inv :: "'d bus \<Rightarrow> bool" where
  "bus_inv b \<longleftrightarrow>
     distinct (map fst (bus_subs b)) \<and> distinct (live_chans b) \<and>
     (\<forall>ch \<in> set (live_chans b). ch < bus_next b \<and> \<not> ch_closed (bus_chans b ch)) \<and>
     (\<forall>ch. chan_ok (bus_chans b ch))"

section \<open>Lemmas\<close>

subsection \<open>One publication\<close>

lemma publish_loop_open:
  assumes "\<forall>sub\<in>set subs. \<not> ch_closed (chs (sub_ch sub))"
    and "distinct (map sub_ch subs)"
  shows "publish_loop e subs chs =
     Inr (\<lambda>ch. if ch \<in> sub_ch ` {s \<in> set subs. sub_matches (evt_Type e) s}
               then chan_offer e (chs ch) else chs ch)"
  using assms
proof (induction subs arbitrary: chs)
  case (Cons s subs)
  let ?upd = "chs(sub_ch s := chan_offer e (chs (sub_ch s)))"
  have fresh: "sub_ch s \<notin> sub_ch ` set subs" using Cons.prems by simp
  then have "\<forall>sub\<in>set subs. \<not> ch_closed (?upd (sub_ch sub))"
    using Cons.prems by (metis fun_upd_apply image_eqI list.set_intros(2))
  then have IH: "publish_loop e subs ?upd =
      Inr (\<lambda>ch. if ch \<in> sub_ch ` {s \<in> set subs. sub_matches (evt_Type e) s}
                then chan_offer e (?upd ch) else ?upd ch)"
    using Cons.prems by (intro Cons.IH) auto
  show ?case
  proof (cases "sub_matches (evt_Type e) s")
    case True
    then show ?thesis
      using Cons.prems fresh by (auto simp: chan_trysend_def IH fun_eq_iff)
  next
    case False
    then have "{s' \<in> set (s # subs). sub_matches (evt_Type e) s'} =
        {s' \<in> set subs. sub_matches (evt_Type e) s'}"
      by auto
    with False Cons show ?thesis by simp
  qed
qed simp

lemma bus_inv_channels:
  assumes "bus_inv b"
  shows "distinct (map sub_ch (map snd (bus_subs b)))"
    and "\<forall>sub\<in>set (map snd (bus_subs b)). \<not> ch_closed (bus_chans b (sub_ch sub))"
  using assms by (auto simp: bus_inv_def live_chans_def)

lemma Publish_inv_eq:
  assumes "bus_inv b"
  shows "Publish now e b = Inr (b\<lparr>bus_chans := (\<lambda>ch.
     if ch \<in> sub_ch ` {s \<in> set (map snd (bus_subs b)). sub_matches (evt_Type e) s}
     then chan_offer (stamp now e) (bus_chans b ch) else bus_chans b ch)\<rparr>)"
proof -
  have "evt_Type (stamp now e) = evt_Type e" by (simp add: stamp_def)
  then show ?thesis
    using publish_loop_open [OF bus_inv_channels(2) [OF assms] bus_inv_channels(1) [OF assms],
        of "stamp now e"]
    by (simp add: Publish_def)
qed

subsection \<open>The invariant\<close>

lemma chan_ok_offer [simp]: "chan_ok c \<Longrightarrow> chan_ok (chan_offer x c)"
  by (simp add: chan_ok_def chan_simps)

lemma chan_ok_make [simp]: "chan_ok (make_chan 256)"
  by (simp add: chan_ok_def)

lemma chan_ok_close [simp]: "chan_ok (c\<lparr>ch_closed := x\<rparr>) = chan_ok c"
  by (simp add: chan_ok_def)

lemma bus_inv_init: "bus_inv NewEventBus"
  by (simp add: bus_inv_def NewEventBus_def live_chans_def)

lemma Publish_bus_inv:
  assumes "bus_inv b"
  shows "\<exists>b'. Publish now e b = Inr b' \<and> bus_inv b'"
  unfolding Publish_inv_eq [OF assms]
  using assms by (simp add: bus_inv_def live_chans_def)

lemma sub_ch_live:
  "map_of (bus_subs b) sid = Some sub \<Longrightarrow> sub_ch sub \<in> set (live_chans b)"
  by (drule map_of_SomeD) (force simp: live_chans_def)

lemma set_remove_pair:
  "distinct (map f xs) \<Longrightarrow> (k, v) \<in> set xs \<Longrightarrow>
   distinct (map fst xs) \<Longrightarrow> f ` set (AList.delete k xs) = f ` set xs - {f (k, v)}"
proof (induction xs)
  case (Cons x xs)
  show ?case
  proof (cases "fst x = k")
    case True
    with Cons.prems have "x = (k, v)" "k \<notin> fst ` set xs" by (auto simp: image_iff)
    with Cons.prems show ?thesis by auto
  next
    case False
    with Cons.prems have mem: "(k, v) \<in> set xs" by auto
    with Cons.prems have "f x \<noteq> f (k, v)" by (metis distinct.simps(2) image_eqI image_set list.simps(9))
    with Cons mem False show ?thesis by auto
  qed
qed simp

lemma distinct_map_delete: "distinct (map f xs) \<Longrightarrow> distinct (map f (AList.delete k xs))"
  by (simp add: AList.delete_eq distinct_map_filter)

lemma live_chans_update [simp]: "live_chans (b\<lparr>bus_chans := c\<rparr>) = live_chans b"
  by (simp add: live_chans_def)

lemma bus_inv_sub:
  assumes "bus_inv b" and "map_of (bus_subs b) sid = Some sub"
  shows "(sub_ch \<circ> snd) ` set (AList.delete sid (bus_subs b)) =
           (sub_ch \<circ> snd) ` set (bus_subs b) - {sub_ch sub}"
    and "sub_ch sub \<in> (sub_ch \<circ> snd) ` set (bus_subs b)"
    and "sub_ch sub \<notin> set (bus_closing b)"
proof -
  have d: "distinct (map (sub_ch \<circ> snd) (bus_subs b))" "distinct (map fst (bus_subs b))"
    using assms(1) by (auto simp: bus_inv_def live_chans_def)
  show "(sub_ch \<circ> snd) ` set (AList.delete sid (bus_subs b)) =
      (sub_ch \<circ> snd) ` set (bus_subs b) - {sub_ch sub}"
    using set_remove_pair [OF d(1) map_of_SomeD [OF assms(2)] d(2)] by simp
  show mem: "sub_ch sub \<in> (sub_ch \<circ> snd) ` set (bus_subs b)"
    using map_of_SomeD [OF assms(2)] by (metis comp_apply image_eqI snd_conv)
  show "sub_ch sub \<notin> set (bus_closing b)"
    using assms(1) mem by (auto simp: bus_inv_def live_chans_def)
qed

lemma unsubscribe_delete_inv:
  assumes "bus_inv b"
  shows "bus_inv (snd (unsubscribe_delete sid b))"
proof (cases "map_of (bus_subs b) sid")
  case (Some sub)
  let ?f = "sub_ch \<circ> snd" and ?b' = "snd (unsubscribe_delete sid b)"
  have d: "distinct (map ?f (bus_subs b))" "distinct (map fst (bus_subs b))"
    using assms by (auto simp: bus_inv_def live_chans_def)
  note del = bus_inv_sub [OF assms Some]
  have eq: "?b' = b\<lparr>bus_subs := AList.delete sid (bus_subs b), bus_closing := sub_ch sub # bus_closing b\<rparr>"
    using Some by (simp add: unsubscribe_delete_def)
  have "set (live_chans ?b') = set (live_chans b)"
    using del sub_ch_live [OF Some] by (auto simp: eq live_chans_def)
  moreover have "distinct (live_chans ?b')"
    using assms distinct_map_delete [OF d(1)] del
    unfolding eq live_chans_def bus_inv_def by auto
  ultimately show ?thesis
    using assms d(2) by (simp add: bus_inv_def eq distinct_map_delete)
qed (use assms in \<open>simp add: unsubscribe_delete_def\<close>)

lemma unsubscribe_close_inv:
  assumes "bus_inv b" and "ch \<in> set (bus_closing b)"
  shows "\<exists>b'. unsubscribe_close ch b = Inr b' \<and> bus_inv b' \<and> ch_closed (bus_chans b' ch)"
proof -
  have "\<not> ch_closed (bus_chans b ch)"
    using assms by (simp add: bus_inv_def live_chans_def)
  moreover have "distinct (bus_closing b)" "ch \<notin> (sub_ch \<circ> snd) ` set (bus_subs b)"
    using assms by (auto simp: bus_inv_def live_chans_def)
  ultimately show ?thesis
    using assms by (auto simp: unsubscribe_close_def chan_close_def bus_inv_def live_chans_def)
qed

lemma set_update_subset: "set (AList.update k v xs) \<subseteq> insert (k, v) (set xs)"
  by (induction xs) auto

lemma distinct_map_update:
  "distinct (map f xs) \<Longrightarrow> f (k, v) \<notin> f ` set xs \<Longrightarrow> distinct (map f (AList.update k v xs))"
proof (induction xs)
  case (Cons x xs)
  then show ?case using set_update_subset [of k v xs] by (cases x) auto
qed simp

lemma set_update_pair:
  "distinct (map fst xs) \<Longrightarrow> set (AList.update k v xs) = insert (k, v) (set (AList.delete k xs))"
  by (induction xs) (auto simp: image_iff)

lemma Subscribe_eq:
  assumes "bus_inv b"
  shows "Subscribe sid types b = Inr (bus_next b,
     b\<lparr>bus_subs := AList.update sid \<lparr>sub_id = sid, sub_types = types, sub_ch = bus_next b\<rparr> (bus_subs b),
       bus_chans := (case map_of (bus_subs b) sid of None \<Rightarrow> bus_chans b
          | Some old \<Rightarrow> (bus_chans b)(sub_ch old := (bus_chans b (sub_ch old))\<lparr>ch_closed := True\<rparr>))
          (bus_next b := make_chan 256),
       bus_next := Suc (bus_next b)\<rparr>)"
proof (cases "map_of (bus_subs b) sid")
  case (Some old)
  with assms have "\<not> ch_closed (bus_chans b (sub_ch old))"
    using sub_ch_live [OF Some] by (simp add: bus_inv_def)
  with Some show ?thesis by (simp add: Subscribe_def chan_close_def Let_def)
qed (simp add: Subscribe_def Let_def)

lemma Subscribe_bus_inv:
  assumes "bus_inv b"
  shows "\<exists>ch b'. Subscribe sid types b = Inr (ch, b') \<and> bus_inv b'"
proof -
  let ?n = "bus_next b" and ?f = "sub_ch \<circ> snd"
  let ?subs = "AList.update sid \<lparr>sub_id = sid, sub_types = types, sub_ch = ?n\<rparr> (bus_subs b)"
  obtain b' where b': "Subscribe sid types b = Inr (?n, b')" "bus_subs b' = ?subs"
    "bus_closing b' = bus_closing b" "bus_next b' = Suc ?n"
    "bus_chans b' = (case map_of (bus_subs b) sid of None \<Rightarrow> bus_chans b
          | Some old \<Rightarrow> (bus_chans b)(sub_ch old := (bus_chans b (sub_ch old))\<lparr>ch_closed := True\<rparr>))
          (?n := make_chan 256)"
    by (rule that [OF Subscribe_eq [OF assms]]) simp_all
  have fresh: "?n \<notin> ?f ` set (bus_subs b)" "?n \<notin> set (bus_closing b)"
    using assms by (auto simp: bus_inv_def live_chans_def)
  have d: "distinct (map ?f (bus_subs b))" "distinct (map fst (bus_subs b))"
    using assms by (auto simp: bus_inv_def live_chans_def)
  have live: "?f ` set ?subs = insert ?n (?f ` set (AList.delete sid (bus_subs b)))"
    using set_update_pair [OF d(2)] by simp
  have sub: "?f ` set (AList.delete sid (bus_subs b)) \<subseteq> ?f ` set (bus_subs b)"
    by (auto simp: AList.delete_eq)
  have disj: "?f ` set (bus_subs b) \<inter> set (bus_closing b) = {}" "distinct (bus_closing b)"
    using assms by (auto simp: bus_inv_def live_chans_def)
  have "?f ` set (AList.delete sid (bus_subs b)) \<inter> set (bus_closing b) = {}"
    using disj(1) sub by (meson disjoint_iff subsetD)
  then have "?f ` set ?subs \<inter> set (bus_closing b) = {}" unfolding live using fresh(2) by simp
  moreover have "distinct (map ?f ?subs)" using fresh by (intro distinct_map_update [OF d(1)]) simp
  ultimately have "distinct (live_chans b')" using disj(2) by (simp add: live_chans_def b')
  moreover have "distinct (map fst ?subs)" using d(2) by (rule distinct_update)
  moreover have "chan_ok (bus_chans b' ch)" for ch
    using assms by (auto simp: b' bus_inv_def split: option.splits)
  moreover have "ch < bus_next b' \<and> \<not> ch_closed (bus_chans b' ch)" if "ch \<in> set (live_chans b')" for ch
  proof (cases "ch = ?n")
    case False
    with that live sub have old: "ch \<in> ?f ` set (AList.delete sid (bus_subs b)) \<or> ch \<in> set (bus_closing b)"
      by (auto simp: live_chans_def b')
    then have "ch \<in> set (live_chans b)" using sub by (auto simp: live_chans_def)
    then have "ch < ?n \<and> \<not> ch_closed (bus_chans b ch)" using assms by (simp add: bus_inv_def)
    moreover have "ch \<noteq> sub_ch o'" if o': "map_of (bus_subs b) sid = Some o'" for o'
      using bus_inv_sub [OF assms o'] old by auto
    ultimately show ?thesis using False by (auto simp: b' split: option.splits)
  qed (simp add: b')
  ultimately show ?thesis using b'(1,2) by (auto simp: bus_inv_def)
qed

lemma chan_recv_ok:
  assumes "chan_ok c" and "chan_recv c = Some (e, c')"
  shows "chan_ok c'" and "ch_closed c' = ch_closed c"
  using assms by (auto simp: chan_ok_def chan_recv_def split: list.splits)

lemma bus_receive_inv:
  assumes "bus_inv b" and "bus_receive ch b = Some (e, b')"
  shows "bus_inv b'"
proof -
  obtain c where c: "chan_recv (bus_chans b ch) = Some (e, c)" "b' = b\<lparr>bus_chans := (bus_chans b)(ch := c)\<rparr>"
    using assms(2) by (auto simp: bus_receive_def split: option.splits)
  have "chan_ok (bus_chans b ch)" using assms(1) by (simp add: bus_inv_def)
  from chan_recv_ok [OF this c(1)] show ?thesis using assms(1) by (simp add: bus_inv_def c(2))
qed

lemma bus_step_inv: "bus_step b r \<Longrightarrow> bus_inv b \<Longrightarrow> \<exists>b'. r = Inr b' \<and> bus_inv b'"
proof (induction rule: bus_step.induct)
  case (step_publish b now event)
  then show ?case using Publish_bus_inv by metis
next
  case (step_subscribe b sid types)
  then show ?case using Subscribe_bus_inv [of b sid types] by auto
next
  case (step_unsub_delete b sid)
  then show ?case using unsubscribe_delete_inv by blast
next
  case (step_unsub_close ch b)
  then show ?case using unsubscribe_close_inv by metis
next
  case (step_receive ch b e b')
  then show ?case using bus_receive_inv by blast
qed

lemma bus_reachable_inv: "bus_reachable b \<Longrightarrow> bus_inv b"
proof (induction rule: bus_reachable.induct)
  case (bus_next b b')
  then show ?case using bus_step_inv by blast
qed (rule bus_inv_init)

lemma publish_target:
  assumes "bus_inv b" and "map_of (bus_subs b) sid = Some sub"
  shows "sub_ch sub \<in> sub_ch ` {s \<in> set (map snd (bus_subs b)). sub_matches t s} \<longleftrightarrow> sub_matches t sub"
proof -
  have "inj_on sub_ch (set (map snd (bus_subs b)))"
    using bus_inv_channels(1) [OF assms(1)] by (simp only: distinct_map)
  moreover have "sub \<in> set (map snd (bus_subs b))" using map_of_SomeD [OF assms(2)] by force
  ultimately show ?thesis by (auto dest: inj_onD)
qed

lemma Publish_channel:
  assumes "bus_inv b" and "Publish now e b = Inr b'" and "map_of (bus_subs b) sid = Some sub"
  shows "bus_chans b' (sub_ch sub) =
     (if sub_matches (evt_Type e) sub then chan_offer (stamp now e) (bus_chans b (sub_ch sub))
      else bus_chans b (sub_ch sub))"
  using assms(2) publish_target [OF assms(1,3)] by (auto simp: Publish_inv_eq [OF assms(1)])

lemma Publish_frame:
  assumes "bus_inv b" and "Publish now e b = Inr b'"
  shows "bus_subs b' = bus_subs b"
    and "ch \<notin> (sub_ch \<circ> snd) ` set (bus_subs b) \<Longrightarrow> bus_chans b' ch = bus_chans b ch"
  using assms(2) by (auto simp: Publish_inv_eq [OF assms(1)])

lemma publish_all_channel:
  assumes "bus_inv b" and "map_of (bus_subs b) sid = Some sub"
  shows "\<exists>b'. publish_all es b = Inr b' \<and> bus_subs b' = bus_subs b \<and>
     bus_chans b' (sub_ch sub) =
       fold chan_offer (map (\<lambda>(now, e). stamp now e) (filter (\<lambda>(now, e). sub_matches (evt_Type e) sub) es))
         (bus_chans b (sub_ch sub))"
  using assms
proof (induction es b rule: publish_all.induct)
  case (2 now e es b)
  obtain b1 where b1: "Publish now e b = Inr b1" "bus_inv b1"
    using Publish_bus_inv [OF 2(2)] by blast
  have "map_of (bus_subs b1) sid = Some sub" using Publish_frame(1) [OF 2(2) b1(1)] 2(3) by simp
  from 2(1) [OF b1(1) b1(2) this] show ?case
    using Publish_channel [OF 2(2) b1(1) 2(3)] Publish_frame(1) [OF 2(2) b1(1)] b1(1) by auto
qed auto

subsection \<open>Properties\<close>

text \<open>
  C3: the bus never panics. Whatever sequence of publications, subscriptions, receives and
  (two-step) unsubscriptions led to the current state, and whichever step comes next, the step
  neither sends on a closed channel nor closes a channel twice.
\<close>

theorem bus_never_panics:
  assumes "bus_reachable b" and "bus_step b r"
  shows "\<exists>b'. r = Inr b' \<and> bus_reachable b'"
proof -
  obtain b' where "r = Inr b'" using bus_step_inv [OF assms(2) bus_reachable_inv [OF assms(1)]] by blast
  with assms show ?thesis using bus_reachable.bus_next by blast
qed

text \<open>
  a publication reaches exactly the matching subscribers with room. In every reachable
  state, \<open>Publish\<close> appends the stamped event to the buffer of each subscriber whose type set
  is empty or contains the event's type and whose buffer holds fewer than 256 events; every
  other channel is left as it was.
\<close>

theorem Publish_delivers:
  assumes "bus_reachable b"
  shows "\<exists>b'. Publish now e b = Inr b' \<and> bus_subs b' = bus_subs b \<and>
    (\<forall>sid sub. map_of (bus_subs b) sid = Some sub \<longrightarrow>
       ch_buf (bus_chans b' (sub_ch sub)) = ch_buf (bus_chans b (sub_ch sub)) @
         (if sub_matches (evt_Type e) sub \<and> length (ch_buf (bus_chans b (sub_ch sub))) < 256
          then [stamp now e] else [])) \<and>
    (\<forall>ch. ch \<notin> (sub_ch \<circ> snd) ` set (bus_subs b) \<longrightarrow> bus_chans b' ch = bus_chans b ch)"
proof -
  have inv: "bus_inv b" using assms by (rule bus_reachable_inv)
  then obtain b' where b': "Publish now e b = Inr b'" using Publish_bus_inv by blast
  have "length (ch_buf (bus_chans b ch)) \<le> ch_cap (bus_chans b ch) \<and> ch_cap (bus_chans b ch) = 256" for ch
    using inv by (simp add: bus_inv_def chan_ok_def)
  with b' show ?thesis
    using Publish_channel [OF inv b'] Publish_frame [OF inv b'] by (auto simp: chan_simps)
qed

text \<open>
  C35: a burst loses its tail. When a subscriber does not read during a run of publications,
  its channel ends up with what it held followed by the first matching events that still fit
  in the 256-slot buffer, in publication order.
\<close>

theorem publish_burst:
  assumes "bus_reachable b" and "map_of (bus_subs b) sid = Some sub"
  shows "\<exists>b'. publish_all es b = Inr b' \<and>
    ch_buf (bus_chans b' (sub_ch sub)) = ch_buf (bus_chans b (sub_ch sub)) @
      take (256 - length (ch_buf (bus_chans b (sub_ch sub))))
        (map (\<lambda>(now, e). stamp now e) (filter (\<lambda>(now, e). sub_matches (evt_Type e) sub) es))"
proof -
  have inv: "bus_inv b" using assms(1) by (rule bus_reachable_inv)
  then have ok: "ch_cap (bus_chans b (sub_ch sub)) = 256"
    "length (ch_buf (bus_chans b (sub_ch sub))) \<le> ch_cap (bus_chans b (sub_ch sub))"
    by (simp_all add: bus_inv_def chan_ok_def)
  from publish_all_channel [OF inv assms(2)] go_chan.contents_burst [OF ok(2)] ok(1)
  show ?thesis by metis
qed

text \<open>
  the iteration order of the subscription map does not matter. Publishing over any
  rearrangement of the subscriptions leaves every channel in the same state.
\<close>

theorem Publish_order_irrelevant:
  assumes "bus_reachable b" and "set subs = set (bus_subs b)" and "distinct (map fst subs)"
  shows "map_sum id bus_chans (Publish now e (b\<lparr>bus_subs := subs\<rparr>)) = map_sum id bus_chans (Publish now e b)"
proof -
  have inv: "bus_inv b" using assms(1) by (rule bus_reachable_inv)
  have d: "distinct subs" "distinct (bus_subs b)" "distinct (map (sub_ch \<circ> snd) (bus_subs b))"
    using assms(3) inv by (auto simp: bus_inv_def live_chans_def distinct_map)
  then have "distinct (map (sub_ch \<circ> snd) subs)"
    using assms(2) by (simp add: distinct_map)
  then have "bus_inv (b\<lparr>bus_subs := subs\<rparr>)"
    using inv assms(2,3) by (auto simp: bus_inv_def live_chans_def)
  from Publish_inv_eq [OF this] Publish_inv_eq [OF inv] show ?thesis
    using assms(2) by (simp cong: if_cong)
qed

text \<open>
  subscribing again under the same name closes the old channel and hands out a new, empty
  one; the bus then holds exactly one subscription of that name, and no other channel changes.
\<close>

theorem Subscribe_replaces:
  assumes "bus_reachable b"
  shows "\<exists>ch b'. Subscribe sid types b = Inr (ch, b') \<and>
    map_of (bus_subs b') sid = Some \<lparr>sub_id = sid, sub_types = types, sub_ch = ch\<rparr> \<and>
    bus_chans b' ch = make_chan 256 \<and>
    (\<forall>sid'. sid' \<noteq> sid \<longrightarrow> map_of (bus_subs b') sid' = map_of (bus_subs b) sid') \<and>
    (\<forall>old. map_of (bus_subs b) sid = Some old \<longrightarrow> sub_ch old \<noteq> ch \<and>
       bus_chans b' (sub_ch old) = (bus_chans b (sub_ch old))\<lparr>ch_closed := True\<rparr>) \<and>
    (\<forall>c. c \<noteq> ch \<longrightarrow> (\<forall>old. map_of (bus_subs b) sid = Some old \<longrightarrow> sub_ch old \<noteq> c) \<longrightarrow>
       bus_chans b' c = bus_chans b c)"
proof -
  have inv: "bus_inv b" using assms by (rule bus_reachable_inv)
  have "sub_ch old \<noteq> bus_next b" if "map_of (bus_subs b) sid = Some old" for old
    using inv sub_ch_live [OF that] by (auto simp: bus_inv_def)
  then show ?thesis
    by (auto simp: Subscribe_eq [OF inv] AList.update_conv' split: option.splits)
qed

subsection \<open>Witnesses\<close>

definition demo_event :: "string \<Rightarrow> nat Event" where
  "demo_event t = \<lparr>evt_Type = t, evt_Timestamp = zero_time, evt_Data = 7\<rparr>"

definition demo_bus :: "nat bus" where
  "demo_bus = (case Subscribe ''ui'' [''msg''] NewEventBus of Inr (_, b) \<Rightarrow> b | Inl _ \<Rightarrow> NewEventBus)"

lemma demo_bus_reachable: "bus_reachable demo_bus"
  using bus_next [OF bus_start, of demo_bus] step_subscribe [of NewEventBus "''ui''" "[''msg'']"]
  by (simp add: demo_bus_def Subscribe_def NewEventBus_def Let_def)

theorem bus_never_panics_witness:
  "\<exists>b'. Publish 5 (demo_event ''msg'') demo_bus = Inr b' \<and> bus_reachable b'"
  by (rule bus_never_panics [OF demo_bus_reachable step_publish])

theorem Publish_delivers_witness:
  "\<exists>b'. Publish 5 (demo_event ''msg'') demo_bus = Inr b' \<and>
     ch_buf (bus_chans b' 0) = [\<lparr>evt_Type = ''msg'', evt_Timestamp = 5, evt_Data = 7\<rparr>]"
proof -
  obtain b' where "Publish 5 (demo_event ''msg'') demo_bus = Inr b'"
    "map_of (bus_subs demo_bus) ''ui'' = Some sub \<longrightarrow>
       ch_buf (bus_chans b' (sub_ch sub)) = ch_buf (bus_chans demo_bus (sub_ch sub)) @
         (if sub_matches (evt_Type (demo_event ''msg'')) sub \<and>
             length (ch_buf (bus_chans demo_bus (sub_ch sub))) < 256
          then [stamp 5 (demo_event ''msg'')] else [])" for sub
    using Publish_delivers [OF demo_bus_reachable, of 5 "demo_event ''msg''"] by blast
  note this(1) this(2) [of "\<lparr>sub_id = ''ui'', sub_types = [''msg''], sub_ch = 0\<rparr>"]
  then show ?thesis
    by (simp add: demo_bus_def Subscribe_def NewEventBus_def Let_def sub_matches_def demo_event_def
        stamp_def)
qed

theorem publish_burst_witness:
  "\<exists>b'. publish_all [(5, demo_event ''msg''), (6, demo_event ''call''), (9, demo_event ''msg'')] demo_bus = Inr b' \<and>
     map evt_Timestamp (ch_buf (bus_chans b' 0)) = [5, 9]"
  using publish_burst [OF demo_bus_reachable, of "''ui''" "\<lparr>sub_id = ''ui'', sub_types = [''msg''], sub_ch = 0\<rparr>"
      "[(5, demo_event ''msg''), (6, demo_event ''call''), (9, demo_event ''msg'')]"]
  by (auto simp: demo_bus_def Subscribe_def NewEventBus_def Let_def sub_matches_def demo_event_def
      stamp_def)

theorem Publish_order_irrelevant_witness:
  "map_sum id bus_chans (Publish 5 (demo_event ''msg'') (demo_bus\<lparr>bus_subs := bus_subs demo_bus\<rparr>)) =
   map_sum id bus_chans (Publish 5 (demo_event ''msg'') demo_bus)"
  by (rule Publish_order_irrelevant [OF demo_bus_reachable refl])
    (simp add: demo_bus_def Subscribe_def NewEventBus_def Let_def)

theorem Subscribe_replaces_witness:
  "\<exists>ch b'. Subscribe ''ui'' [] demo_bus = Inr (ch, b') \<and> ch_closed (bus_chans b' 0)"
  using Subscribe_replaces [OF demo_bus_reachable, of "''ui''" "[]"]
  by (auto simp: demo_bus_def Subscribe_def NewEventBus_def Let_def)

end
