(* ===== verification/Compress.thy ===== *)
theory Compress
  imports Core_Types
begin

text \<open>
  The compressor of \<^verbatim>\<open>transport/compress.go\<close>. The codecs themselves (zstd, LZ4, Snappy) are
  third-party packages and appear as the fields of a \<open>codecs\<close> record; the two facts the code
  relies on, that a decoder inverts its encoder, are the predicates \<open>zstd_law\<close> and
  \<open>lz4_law\<close>. Modelled: the table of magic numbers, the choice of the algorithm, the one-byte
  prefix, the block and the stream entry points. Results: what \<open>Compress\<close> and
  \<open>CompressFast\<close> produce is what \<open>Decompress\<close> reads back, the output is never longer than
  the input plus the prefix, and every malformed input is an error value.
\<close>

section \<open>Definitions\<close>

type_synonym CompressionAlgo = "8 word"

abbreviation AlgoNone :: CompressionAlgo where "AlgoNone \<equiv> 0"
abbreviation AlgoZstd :: CompressionAlgo where "AlgoZstd \<equiv> 1"
abbreviation AlgoLZ4 :: CompressionAlgo where "AlgoLZ4 \<equiv> 2"
abbreviation AlgoSnappy :: CompressionAlgo where "AlgoSnappy \<equiv> 3"

datatype compress_error = EmptyData | UnknownAlgorithm | UnknownStreamAlgorithm | ShortRead | CodecError string

record codecs =
  zstd_EncodeAll :: "bytes \<Rightarrow> bytes"
  zstd_DecodeAll :: "bytes \<Rightarrow> string + bytes"
  lz4_Write :: "bytes \<Rightarrow> string + bytes"
  lz4_Read :: "bytes \<Rightarrow> string + bytes"
  snappy_Decode :: "bytes \<Rightarrow> string + bytes"
  zstd_NewReader :: "bytes \<Rightarrow> string option"

definition alreadyCompressedMagics :: "bytes list" where
  "alreadyCompressedMagics =
    [[0xFF, 0xD8, 0xFF],
     [0x89, 0x50, 0x4E, 0x47],
     [0x47, 0x49, 0x46],
     [0x52, 0x49, 0x46, 0x46],
     [0x00, 0x00, 0x00],
     [0x1A, 0x45, 0xDF, 0xA3],
     [0x4F, 0x67, 0x67, 0x53],
     [0xFF, 0xFB],
     [0x66, 0x4C, 0x61, 0x43],
     [0x50, 0x4B],
     [0x1F, 0x8B],
     [0x28, 0xB5, 0x2F, 0xFD]]"

definition isAlreadyCompressed :: "bytes \<Rightarrow> bool" where
  "isAlreadyCompressed data =
     list_ex (\<lambda>magic. length magic \<le> length data \<and> HasPrefix data magic) alreadyCompressedMagics"

definition prependAlgo :: "CompressionAlgo \<Rightarrow> bytes \<Rightarrow> bytes" where
  "prependAlgo algo data = algo # data"

definition codec_result :: "string + bytes \<Rightarrow> compress_error + bytes" where
  "codec_result r = (case r of Inl e \<Rightarrow> Inl (CodecError e) | Inr d \<Rightarrow> Inr d)"

definition Compress :: "codecs \<Rightarrow> bytes \<Rightarrow> compress_error + bytes" where
  "Compress cc data =
     (if isAlreadyCompressed data then Inr (prependAlgo AlgoNone data)
      else let compressed = zstd_EncodeAll cc data in
        if length compressed \<ge> length data then Inr (prependAlgo AlgoNone data)
        else Inr (prependAlgo AlgoZstd compressed))"

definition CompressFast :: "codecs \<Rightarrow> bytes \<Rightarrow> compress_error + bytes" where
  "CompressFast cc data =
     (if isAlreadyCompressed data then Inr (prependAlgo AlgoNone data)
      else case lz4_Write cc data of
        Inl e \<Rightarrow> Inl (CodecError e)
      | Inr buf \<Rightarrow>
          if length buf \<ge> length data then Inr (prependAlgo AlgoNone data)
          else Inr (prependAlgo AlgoLZ4 buf))"

definition Decompress :: "codecs \<Rightarrow> bytes \<Rightarrow> compress_error + bytes" where
  "Decompress cc data =
     (case data of
        [] \<Rightarrow> Inl EmptyData
      | algo # payload \<Rightarrow>
          if algo = AlgoNone then Inr payload
          else if algo = AlgoZstd then codec_result (zstd_DecodeAll cc payload)
          else if algo = AlgoLZ4 then codec_result (lz4_Read cc payload)
          else if algo = AlgoSnappy then codec_result (snappy_Decode cc payload)
          else Inl UnknownAlgorithm)"

text \<open>
  The stream entry points. \<open>CompressStream\<close> writes the prefix and returns a zstd writer on the
  same destination; \<open>DecompressStream\<close> consumes the prefix and says which reader continues on
  the rest of the source.
\<close>

datatype stream_reader = NopReader bytes | ZstdReader bytes | Lz4Reader bytes

definition CompressStream :: "bytes \<Rightarrow> bytes" where
  "CompressStream dst = dst @ [AlgoZstd]"

definition DecompressStream :: "codecs \<Rightarrow> bytes \<Rightarrow> compress_error + stream_reader" where
  "DecompressStream cc src =
     (case src of
        [] \<Rightarrow> Inl ShortRead
      | algo # rest \<Rightarrow>
          if algo = AlgoNone then Inr (NopReader rest)
          else if algo = AlgoZstd then
            (case zstd_NewReader cc rest of
               Some e \<Rightarrow> Inl (CodecError e)
             | None \<Rightarrow> Inr (ZstdReader rest))
          else if algo = AlgoLZ4 then Inr (Lz4Reader rest)
          else Inl UnknownStreamAlgorithm)"

text \<open>What the code relies on from the codec packages.\<close>

definition zstd_law :: "codecs \<Rightarrow> bool" where
  "zstd_law cc = (\<forall>d. zstd_DecodeAll cc (zstd_EncodeAll cc d) = Inr d)"

definition lz4_law :: "codecs \<Rightarrow> bool" where
  "lz4_law cc = (\<forall>d c. lz4_Write cc d = Inr c \<longrightarrow> lz4_Read cc c = Inr d)"

section \<open>Lemmas\<close>

lemma Decompress_prepend [simp]:
  "Decompress cc (prependAlgo AlgoNone d) = Inr d"
  "Decompress cc (prependAlgo AlgoZstd d) = codec_result (zstd_DecodeAll cc d)"
  "Decompress cc (prependAlgo AlgoLZ4 d) = codec_result (lz4_Read cc d)"
  by (simp_all add: Decompress_def prependAlgo_def)

lemma length_prependAlgo [simp]: "length (prependAlgo a d) = Suc (length d)"
  by (simp add: prependAlgo_def)

lemma Compress_cases:
  "Compress cc d = Inr (prependAlgo AlgoNone d) \<or>
   Compress cc d = Inr (prependAlgo AlgoZstd (zstd_EncodeAll cc d)) \<and>
     length (zstd_EncodeAll cc d) < length d \<and> \<not> isAlreadyCompressed d"
  by (auto simp: Compress_def Let_def)

lemma CompressFast_cases:
  "CompressFast cc d = Inr (prependAlgo AlgoNone d) \<or>
   (\<exists>c. lz4_Write cc d = Inr c \<and> CompressFast cc d = Inr (prependAlgo AlgoLZ4 c) \<and> length c < length d) \<or>
   (\<exists>e. lz4_Write cc d = Inl e \<and> CompressFast cc d = Inl (CodecError e))"
  by (auto simp: CompressFast_def split: sum.splits)

subsection \<open>Properties\<close>

text \<open>
  C31: compression is undone by \<open>Decompress\<close>. Given decoders that invert their encoders,
  \<open>Compress\<close> always succeeds and its output decompresses to the input, and so does the output of
  \<open>CompressFast\<close> whenever the LZ4 writer does not fail; neither output is longer than the input
  by more than the one-byte prefix.
\<close>

theorem Decompress_Compress:
  assumes "zstd_law cc" and "lz4_law cc"
  shows "(\<exists>out. Compress cc d = Inr out \<and> Decompress cc out = Inr d \<and> length out \<le> length d + 1) \<and>
    (\<forall>out. CompressFast cc d = Inr out \<longrightarrow> Decompress cc out = Inr d \<and> length out \<le> length d + 1)"
proof (intro conjI allI impI)
  show "\<exists>out. Compress cc d = Inr out \<and> Decompress cc out = Inr d \<and> length out \<le> length d + 1"
    using Compress_cases [of cc d] assms(1) by (auto simp: zstd_law_def codec_result_def)
next
  fix out
  assume "CompressFast cc d = Inr out"
  then show "Decompress cc out = Inr d" "length out \<le> length d + 1"
    using CompressFast_cases [of cc d] assms(2) by (auto simp: lz4_law_def codec_result_def)
qed

text \<open>
  the prefix tells what was done. The output of \<open>Compress\<close> starts with \<open>AlgoNone\<close> exactly
  when the input carries the magic number of a compressed format or zstd does not shrink it, and
  the payload is then the input itself; otherwise it starts with \<open>AlgoZstd\<close>. Reading back a
  frame with any other first byte than the four algorithms, or an empty one, is an error.
\<close>

theorem Compress_selects:
  "Compress cc d = Inr (if isAlreadyCompressed d \<or> length d \<le> length (zstd_EncodeAll cc d)
     then AlgoNone # d else AlgoZstd # zstd_EncodeAll cc d) \<and>
   Decompress cc [] = Inl EmptyData \<and>
   (Decompress cc (a # p) = Inl UnknownAlgorithm) = (a > AlgoSnappy) \<and>
   (DecompressStream cc (a # p) = Inl UnknownStreamAlgorithm) = (a > AlgoLZ4)"
proof -
  have "(a > 3) = (a \<noteq> 0 \<and> a \<noteq> 1 \<and> a \<noteq> 2 \<and> a \<noteq> 3)" "(a > 2) = (a \<noteq> 0 \<and> a \<noteq> 1 \<and> a \<noteq> 2)" for a :: byte
    by (auto simp: word_less_nat_alt word_unat_eq_iff)
  then show ?thesis
    by (auto simp: Compress_def Let_def prependAlgo_def Decompress_def DecompressStream_def codec_result_def
        split: sum.splits option.splits if_splits)
qed

subsection \<open>Witnesses\<close>

text \<open>A codec that shortens constant runs, to show that the laws can hold.\<close>

definition run_enc :: "bytes \<Rightarrow> bytes" where
  "run_enc d = (case d of [] \<Rightarrow> [1] | b # _ \<Rightarrow>
     if d = replicate (length d) b \<and> length d < 256 then [0, of_nat (length d), b] else 1 # d)"

definition run_dec :: "bytes \<Rightarrow> string + bytes" where
  "run_dec c = (case c of [] \<Rightarrow> Inl ''short'' | t # r \<Rightarrow>
     if t = 1 then Inr r
     else case r of [n, b] \<Rightarrow> Inr (replicate (unat n) b) | _ \<Rightarrow> Inl ''corrupt'')"

definition run_codecs :: codecs where
  "run_codecs = \<lparr>zstd_EncodeAll = run_enc, zstd_DecodeAll = run_dec, lz4_Write = Inr \<circ> run_enc,
     lz4_Read = run_dec, snappy_Decode = run_dec, zstd_NewReader = (\<lambda>_. None)\<rparr>"

lemma run_dec_enc: "run_dec (run_enc d) = Inr d"
  by (cases d) (auto simp: run_enc_def run_dec_def unat_of_nat simp del: of_nat_Suc)

lemma run_codecs_laws: "zstd_law run_codecs" "lz4_law run_codecs"
  by (auto simp: zstd_law_def lz4_law_def run_codecs_def run_dec_enc)

theorem Decompress_Compress_witness:
  "(\<exists>out. Compress run_codecs [5, 5, 5, 5, 5] = Inr out \<and> Decompress run_codecs out = Inr [5, 5, 5, 5, 5] \<and>
      length out \<le> length [5, 5, 5, 5, 5 :: byte] + 1) \<and>
   Decompress run_codecs [2, 0, 4, 9] = Inr [9, 9, 9, 9]"
proof -
  have "CompressFast run_codecs [9, 9, 9, 9] = Inr [2, 0, 4, 9]"
    by (simp add: CompressFast_def run_codecs_def run_enc_def isAlreadyCompressed_def
        alreadyCompressedMagics_def HasPrefix_def prependAlgo_def)
  then show ?thesis
    using Decompress_Compress [OF run_codecs_laws] by blast
qed

end
