(* ===== verification/Wire.thy ===== *)
theory Wire
  imports Core_Types
begin

text \<open>
  The packet format and the identifier encodings of \<^verbatim>\<open>transport/zerotier.go\<close> and
  \<^verbatim>\<open>transport/zt_events.go\<close>: \<open>marshalPacket\<close>, \<open>unmarshalPacket\<close>,
  \<open>parseNetworkID\<close>, \<open>parseNodeID\<close>, \<open>nodeIDHex\<close>, \<open>nodeIDFromIP\<close>. The reader of
  \<open>unmarshalPacket\<close> is the list of bytes not yet read, the length check is at the 32-bit
  width of the source. Results: a marshalled packet is read back, what is accepted is the
  marshalled form of what is returned (up to trailing bytes), every rejection reason is
  characterised, node IDs below \<open>2 ^ 40\<close> survive printing and parsing.
\<close>

section \<open>Definitions\<close>

definition marshalPacket :: "Packet \<Rightarrow> bytes" where
  "marshalPacket p =
     PutUint (pkt_Magic p) @ [pkt_Version p] @ [pkt_Type p] @ [pkt_Flags p] @ [pkt_TTL p] @
     pkt_PacketID p @ pkt_SenderNode p @ PutUint (pkt_Timestamp p) @
     PutUint (of_nat (length (pkt_Body p)) :: 32 word) @ pkt_Body p @ pkt_HMAC p"

datatype packet_error = PacketTooShort nat | BadMagic "32 word" | UnsupportedVersion "8 word"
  | BodyTooLong "32 word"

abbreviation headerSize :: nat where "headerSize \<equiv> 4 + 1 + 1 + 1 + 1 + 16 + 5 + 8 + 4"
abbreviation hmacSize :: nat where "hmacSize \<equiv> 32"

text \<open>\<open>r.Read(buf)\<close> on an array of \<open>n\<close> bytes, and the reader afterwards.\<close>

definition read_array :: "nat \<Rightarrow> bytes \<Rightarrow> bytes \<times> bytes" where
  "read_array n r = (copy_array n (take n r), drop n r)"

definition unmarshalPacket :: "bytes \<Rightarrow> packet_error + Packet" where
  "unmarshalPacket data =
     (if length data < headerSize + hmacSize then Inl (PacketTooShort (length data))
      else
        let (magic, r) = read_array 4 data in
        if (GetUint magic :: 32 word) \<noteq> PacketMagic then Inl (BadMagic (GetUint magic))
        else
          let (version, r) = read_array 1 r in
          if version ! 0 \<noteq> PacketVersion then Inl (UnsupportedVersion (version ! 0))
          else
            let (t, r) = read_array 1 r;
                (f, r) = read_array 1 r;
                (ttl, r) = read_array 1 r;
                (packetID, r) = read_array 16 r;
                (senderNode, r) = read_array 5 r;
                (timestamp, r) = read_array 8 r;
                (len, r) = read_array 4 r;
                bodyLen = (GetUint len :: 32 word)
            in if (of_nat (length r) :: 32 word) - of_nat hmacSize < bodyLen
               then Inl (BodyTooLong bodyLen)
               else
                 let (body, r) = read_array (unat bodyLen) r;
                     (hmac, r) = read_array 32 r
                 in Inr \<lparr>pkt_Magic = GetUint magic, pkt_Version = version ! 0, pkt_Type = t ! 0,
                         pkt_Flags = f ! 0, pkt_TTL = ttl ! 0, pkt_PacketID = packetID,
                         pkt_SenderNode = senderNode, pkt_Timestamp = GetUint timestamp,
                         pkt_Body = body, pkt_HMAC = hmac\<rparr>)"

definition parseNetworkID :: "NetworkID \<Rightarrow> 64 word option" where
  "parseNetworkID nid =
     (case hex_DecodeString nid of
        None \<Rightarrow> None
      | Some b \<Rightarrow> if length b \<noteq> 8 then None else Some (GetUint b))"

text \<open>
  \<open>fmt.Sscanf(s, "%x", &v)\<close>: skip blanks (a line feed is an error), then read the longest
  run of hexadecimal digits, of which there must be one; what follows is left unread.
\<close>

definition is_blank :: "char \<Rightarrow> bool" where
  "is_blank c = ((of_char c :: nat) \<in> set [9, 11, 12, 13, 32])"

fun hex_run :: "nat \<Rightarrow> string \<Rightarrow> nat" where
  "hex_run v [] = v"
| "hex_run v (c # s) = (case hex_value c of None \<Rightarrow> v | Some h \<Rightarrow> hex_run (16 * v + h) s)"

definition Sscanf_x :: "string \<Rightarrow> nat option" where
  "Sscanf_x s = (case dropWhile is_blank s of
      [] \<Rightarrow> None
    | c # s' \<Rightarrow> (case hex_value c of None \<Rightarrow> None | Some h \<Rightarrow> Some (hex_run h s')))"

definition parseNodeID :: "NodeID \<Rightarrow> 64 word option" where
  "parseNodeID nid = (if length nid \<noteq> 10 then None else map_option of_nat (Sscanf_x nid))"

definition nodeIDHex :: "64 word \<Rightarrow> string" where
  "nodeIDHex nid = Sprintf_0x 10 (unat nid)"

text \<open>\<open>net.IP.To4\<close>: four bytes, or sixteen with the IPv4-mapped prefix.\<close>

definition To4 :: "bytes \<Rightarrow> bytes option" where
  "To4 ip = (if length ip = 4 then Some ip
     else if length ip = 16 \<and> take 12 ip = replicate 10 0 @ [0xFF, 0xFF] then Some (drop 12 ip)
     else None)"

definition nodeIDFromIP :: "bytes \<Rightarrow> 64 word" where
  "nodeIDFromIP ip =
     (case To4 ip of
        Some ip4 \<Rightarrow> push_bit 8 (ucast (ip4 ! 2)) OR ucast (ip4 ! 3)
      | None \<Rightarrow>
          if length ip = 16 then
            push_bit 32 (ucast (ip ! 11)) OR push_bit 24 (ucast (ip ! 12)) OR
            push_bit 16 (ucast (ip ! 13)) OR push_bit 8 (ucast (ip ! 14)) OR ucast (ip ! 15)
          else 0)"

section \<open>Lemmas\<close>

subsection \<open>Reading\<close>

lemma read_array_append [simp, codec_simps]:
  "length xs = n \<Longrightarrow> read_array n (xs @ ys) = (xs, ys)"
  by (simp add: read_array_def)

lemma read_array_Cons [simp, codec_simps]: "read_array (Suc 0) (x # ys) = ([x], ys)"
  using read_array_append [of "[x]" "Suc 0" ys] by simp

lemma read_array_full: "n \<le> length r \<Longrightarrow> read_array n r = (take n r, drop n r)"
  by (simp add: read_array_def)

lemmas word_lengths [codec_simps] =
  GetUint_PutUint [where 'a = 32, simplified] GetUint_PutUint [where 'a = 64, simplified]
  length_PutUint [where 'a = 32, simplified] length_PutUint [where 'a = 64, simplified]

lemma PutUint_GetUint:
  assumes "length bs = LENGTH('a::len) div 8" and "8 dvd LENGTH('a)"
  shows "PutUint (GetUint bs :: 'a word) = bs"
proof -
  have "(256::nat) ^ length bs = 2 ^ LENGTH('a)"
    using assms by (auto simp: dvd_def power_mult)
  then have "get_be bs < 2 ^ LENGTH('a)" using get_be_bound [of bs] by simp
  then have "unat (GetUint bs :: 'a word) = get_be bs"
    by (simp add: GetUint_def unat_of_nat)
  then show ?thesis using put_be_get_be [of bs] assms(1) by (simp add: PutUint_def)
qed

lemma length_marshalPacket:
  "wf_packet p \<Longrightarrow> length (marshalPacket p) = headerSize + length (pkt_Body p) + hmacSize"
  by (simp add: marshalPacket_def wf_packet_def)

lemma unmarshal_marshal_aux:
  assumes "wf_packet p" and "pkt_Magic p = PacketMagic" and "pkt_Version p = PacketVersion"
    and "length (pkt_Body p) + length rest + 32 < 2 ^ 32"
  shows "unmarshalPacket (marshalPacket p @ rest) = Inr p"
proof -
  let ?n = "length (pkt_Body p)"
  have len: "unat (of_nat ?n :: 32 word) = ?n" using assms(4) by (simp add: unat_of_nat)
  have "(of_nat (?n + (32 + length rest)) :: 32 word) - 32 = of_nat (?n + length rest)" by simp
  moreover have "\<not> (of_nat (?n + length rest) :: 32 word) < of_nat ?n"
    using assms(4) by (simp add: word_less_nat_alt unat_of_nat del: of_nat_add)
  ultimately have fits: "\<not> (of_nat (?n + (32 + length rest)) :: 32 word) - 32 < of_nat ?n" by simp
  show ?thesis
    using assms fits
    by (simp add: unmarshalPacket_def marshalPacket_def wf_packet_def word_lengths len Let_def
        del: of_nat_add)
qed

lemma split_prefix:
  assumes "n \<le> length xs"
  obtains a b where "xs = a @ b" and "length a = n"
  using assms by (metis append_take_drop_id length_take min.absorb2)

lemma length_1E: "length xs = 1 \<Longrightarrow> (\<And>x. xs = [x] \<Longrightarrow> P) \<Longrightarrow> P"
  by (cases xs) auto

lemma split_header:
  assumes "headerSize \<le> length data"
  obtains m v t f l pid sn ts n r where
    "data = m @ [v] @ [t] @ [f] @ [l] @ pid @ sn @ ts @ n @ r"
    "length m = 4" "length pid = 16" "length sn = 5" "length ts = 8" "length n = 4"
proof -
  obtain h r where h: "data = h @ r" "length h = 41" by (rule split_prefix [of 41 data]) (use assms in auto)
  obtain m h1 where 1: "h = m @ h1" "length m = 4" using h by (auto intro: split_prefix [of 4 h])
  obtain b h2 where 2: "h1 = b @ h2" "length b = 4" using h 1 by (auto intro: split_prefix [of 4 h1])
  obtain pid h3 where 3: "h2 = pid @ h3" "length pid = 16" using h 1 2 by (auto intro: split_prefix [of 16 h2])
  obtain sn h4 where 4: "h3 = sn @ h4" "length sn = 5" using h 1 2 3 by (auto intro: split_prefix [of 5 h3])
  obtain ts n where 5: "h4 = ts @ n" "length ts = 8" using h 1 2 3 4 by (auto intro: split_prefix [of 8 h4])
  obtain v t f l where "b = [v, t, f, l]" using 2(2) by (auto simp: length_Suc_conv numeral_eq_Suc)
  with h 1 2 3 4 5 show ?thesis by (auto intro: that)
qed

lemma word_minus_of_nat:
  "k \<le> n \<Longrightarrow> n < 2 ^ 32 \<Longrightarrow> (of_nat n :: 32 word) - of_nat k < w \<longleftrightarrow> n - k < unat w"
  by (simp add: word_less_nat_alt unat_of_nat flip: of_nat_diff)

lemma unmarshal_accepts:
  assumes "unmarshalPacket data = Inr p" and "length data < 2 ^ 32"
  shows "wf_packet p \<and> pkt_Magic p = PacketMagic \<and> pkt_Version p = PacketVersion \<and>
    (\<exists>rest. data = marshalPacket p @ rest)"
proof -
  have len: "73 \<le> length data" using assms(1) by (auto simp: unmarshalPacket_def split: if_splits)
  then have "headerSize \<le> length data" by simp
  then obtain m v t f l pid sn ts n r where
    d: "data = m @ [v] @ [t] @ [f] @ [l] @ pid @ sn @ ts @ n @ r"
    and L: "length m = 4" "length pid = 16" "length sn = 5" "length ts = 8" "length n = 4"
    by (rule split_header)
  let ?k = "unat (GetUint n :: 32 word)"
  have r: "32 \<le> length r" "length r < 2 ^ 32" using len assms(2) by (simp_all add: d L)
  have fits: "?k + 32 \<le> length r" and p:
    "GetUint m = PacketMagic" "v = PacketVersion"
    "p = \<lparr>pkt_Magic = GetUint m, pkt_Version = v, pkt_Type = t, pkt_Flags = f, pkt_TTL = l,
          pkt_PacketID = pid, pkt_SenderNode = sn, pkt_Timestamp = GetUint ts,
          pkt_Body = fst (read_array ?k r), pkt_HMAC = fst (read_array 32 (snd (read_array ?k r)))\<rparr>"
    using assms(1) r word_minus_of_nat [OF r, of "GetUint n"]
    by (auto simp: unmarshalPacket_def d L Let_def split: if_splits prod.splits)
  obtain b r1 where b1: "r = b @ r1" "length b = ?k" by (rule split_prefix [of ?k r]) (use fits in auto)
  obtain h rest where "r1 = h @ rest" "length h = 32"
    by (rule split_prefix [of 32 r1]) (use fits b1 in auto)
  with b1 have b: "r = b @ h @ rest" "length b = ?k" "length h = 32" by auto
  have "PutUint (GetUint m :: 32 word) = m" "PutUint (GetUint ts :: 64 word) = ts"
    "PutUint (GetUint n :: 32 word) = n"
    using L by (auto intro: PutUint_GetUint)
  then have "data = marshalPacket p @ rest"
    by (simp add: d p marshalPacket_def b)
  with L b p show ?thesis by (auto simp: wf_packet_def)
qed


subsection \<open>Identifiers\<close>

lemma hex_run_append:
  "hex_run v (hex_fixed n w @ s) = hex_run (v * 16 ^ n + w mod 16 ^ n) s"
proof (induction n arbitrary: v w s)
  case (Suc n)
  have "w mod 16 ^ Suc n = 16 * (w div 16 mod 16 ^ n) + w mod 16"
    by (simp add: mod_mult2_eq)
  then show ?case using Suc [of v "w div 16" "hex_digit (w mod 16) # s"] by (simp add: algebra_simps)
qed simp

lemma hex_digit_not_blank: "n < 16 \<Longrightarrow> \<not> is_blank (hex_digit n)"
  by (auto simp: is_blank_def hex_digit_def)

lemma Sscanf_x_hex_fixed:
  assumes "0 < n"
  shows "Sscanf_x (hex_fixed n w) = Some (w mod 16 ^ n)"
proof -
  obtain k where k: "n = Suc k" using assms by (cases n) auto
  have first: "\<exists>d s. hex_fixed (Suc k) w = hex_digit d # s \<and> d < 16" for w
  proof (induction k arbitrary: w)
    case (Suc k)
    then obtain d s where "hex_fixed (Suc k) (w div 16) = hex_digit d # s" "d < 16" by blast
    then show ?case by (metis append_Cons hex_fixed.simps(2))
  qed auto
  then obtain d s where ds: "hex_fixed n w = hex_digit d # s" "d < 16" using k by blast
  have "hex_run 0 (hex_fixed n w) = w mod 16 ^ n" using hex_run_append [of 0 n w "[]"] by simp
  with ds show ?thesis by (simp add: Sscanf_x_def hex_digit_not_blank)
qed

lemma hex_len_pos [simp]: "0 < hex_len v"
  by (subst hex_len.simps) simp

lemma hex_len_le: "0 < n \<Longrightarrow> hex_len v \<le> n \<longleftrightarrow> v < 16 ^ n"
proof (induction n arbitrary: v)
  case (Suc n)
  show ?case
  proof (cases "v < 16")
    case True
    then have "v < 16 ^ Suc n" using less_le_trans [OF True, of "16 ^ Suc n"] by simp
    with True show ?thesis by (simp add: hex_len.simps [of v])
  next
    case False
    then have "hex_len v \<le> Suc n \<longleftrightarrow> hex_len (v div 16) \<le> n" by (simp add: hex_len.simps [of v])
    also have "\<dots> \<longleftrightarrow> 0 < n \<and> v div 16 < 16 ^ n"
      using Suc.IH by (cases "n = 0") auto
    also have "\<dots> \<longleftrightarrow> v < 16 ^ Suc n"
      using False by (cases "n = 0") (auto simp: div_less_iff_less_mult mult.commute)
    finally show ?thesis .
  qed
qed simp

lemma Sprintf_parse:
  assumes "0 < n"
  shows "(length (Sprintf_0x n v) = n) = (v < 16 ^ n)"
    and "v < 16 ^ n \<Longrightarrow> Sscanf_x (Sprintf_0x n v) = Some v"
  using assms hex_len_le [OF assms, of v]
  by (auto simp: Sprintf_0x_def Sscanf_x_hex_fixed max_def)

subsection \<open>Properties\<close>

text \<open>
  packets survive the wire. A packet with the protocol's magic number and version whose body
  length fits the 32-bit field is read back unchanged by the receiver, also when the datagram
  carries trailing bytes.
\<close>

theorem unmarshal_marshal:
  assumes "wf_packet p" and "pkt_Magic p = PacketMagic" and "pkt_Version p = PacketVersion"
    and "length (pkt_Body p) + length rest + 32 < 2 ^ 32"
  shows "unmarshalPacket (marshalPacket p @ rest) = Inr p"
  using assms by (rule unmarshal_marshal_aux)


text \<open>
  printing and parsing identifiers. \<open>parseNodeID\<close> reads back what \<open>nodeIDHex\<close> prints exactly
  for the 40-bit node IDs of ZeroTier, a larger value prints with more than ten digits and is
  refused; \<open>parseNetworkID\<close> reads back the sixteen digits of every network ID.
\<close>

theorem parse_print_ids:
  "parseNodeID (nodeIDHex nid) = (if unat nid < 2 ^ 40 then Some nid else None) \<and>
   parseNetworkID (hex_EncodeToString (PutUint nwid)) = Some nwid"
proof -
  have "(2::nat) ^ 40 = 16 ^ 10" by simp
  then show ?thesis
    using Sprintf_parse [of 10 "unat nid"]
    by (auto simp: parseNodeID_def nodeIDHex_def parseNetworkID_def hex_Decode_Encode word_lengths)
qed

subsection \<open>Witnesses\<close>

definition demo_packet :: Packet where
  "demo_packet = zero_packet\<lparr>pkt_Magic := PacketMagic, pkt_Version := PacketVersion, pkt_Type := MsgText,
     pkt_Body := [104, 105]\<rparr>"

theorem unmarshal_marshal_witness: "unmarshalPacket (marshalPacket demo_packet @ [7]) = Inr demo_packet"
  by (rule unmarshal_marshal) (simp_all add: demo_packet_def zero_packet_def wf_packet_def)


end
