(* ===== verification/Crypto_Provider.thy ===== *)
theory Crypto_Provider
  imports Core_Types
begin

text \<open>
  The cryptographic provider of \<^verbatim>\<open>crypto/crypto.go\<close>: identities, safety numbers, the
  two-chain ratchet session, sender keys, the provider's session tables and the packet-level
  helpers. The primitives (SHA-2, HKDF, X25519, AES-GCM, ChaCha20-Poly1305, Ed25519, HMAC) are
  packages the file calls; they are the fields of a \<open>primitives\<close> record, and what the code
  relies on is stated by the predicates \<open>aead_law\<close>, \<open>hkdf_law\<close>, \<open>sha_law\<close>,
  \<open>sign_law\<close>. Random bytes are arguments (\<open>None\<close> when the reader fails).
  A \<open>nil\<close> salt is \<open>None\<close>. A method that mutates its receiver returns it updated, also on its
  error paths.

  Results: the safety number has sixty digits and is symmetric between peers with different
  node IDs; sealed data opens to what was sealed; a sender and a receiver whose chains agree
  stay in step over any sequence of messages; a rejected ciphertext moves the receiving chain;
  rotation bookkeeping; private DH keys are clamped.
\<close>

section \<open>Definitions\<close>

subsection \<open>Primitives\<close>

record primitives =
  sha256 :: "bytes \<Rightarrow> bytes"
  sha512 :: "bytes \<Rightarrow> bytes"
  hkdf_read :: "bytes \<Rightarrow> bytes \<Rightarrow> bytes \<Rightarrow> nat \<Rightarrow> bytes option"
  X25519 :: "bytes \<Rightarrow> bytes \<Rightarrow> bytes option"
  Basepoint :: bytes
  gcm_Seal :: "bytes \<Rightarrow> bytes \<Rightarrow> bytes \<Rightarrow> bytes \<Rightarrow> bytes"
  gcm_Open :: "bytes \<Rightarrow> bytes \<Rightarrow> bytes \<Rightarrow> bytes \<Rightarrow> bytes option"
  chacha_Seal :: "bytes \<Rightarrow> bytes \<Rightarrow> bytes \<Rightarrow> bytes \<Rightarrow> bytes"
  chacha_Open :: "bytes \<Rightarrow> bytes \<Rightarrow> bytes \<Rightarrow> bytes \<Rightarrow> bytes option"
  ed25519_GenerateKey :: "bytes \<Rightarrow> bytes \<times> bytes"
  ed25519_Sign :: "bytes \<Rightarrow> bytes \<Rightarrow> bytes"
  ed25519_Verify :: "bytes \<Rightarrow> bytes \<Rightarrow> bytes \<Rightarrow> bool"
  hmac_sha256 :: "bytes \<Rightarrow> bytes \<Rightarrow> bytes"

datatype crypto_error = RandError | HKDFError | X25519Error | BadKeySize
  | CiphertextTooShort | AuthFailed | BadRemoteKey

text \<open>What the code relies on from the primitives.\<close>

definition aead_law :: "primitives \<Rightarrow> bool" where
  "aead_law pr = (\<forall>k n pt aad.
     gcm_Open pr k n (gcm_Seal pr k n pt aad) aad = Some pt \<and>
     chacha_Open pr k n (chacha_Seal pr k n pt aad) aad = Some pt)"

definition hkdf_law :: "primitives \<Rightarrow> bool" where
  "hkdf_law pr = (\<forall>s t i n. n \<le> 255 * 32 \<longrightarrow> (\<exists>k. hkdf_read pr s t i n = Some k \<and> length k = n))"

definition sha_law :: "primitives \<Rightarrow> bool" where
  "sha_law pr = (\<forall>d. length (sha256 pr d) = 32 \<and> length (sha512 pr d) = 64)"

definition sign_law :: "primitives \<Rightarrow> bool" where
  "sign_law pr = (\<forall>seed m. let (pub, priv) = ed25519_GenerateKey pr seed in
     length pub = 32 \<and> ed25519_Verify pr pub m (ed25519_Sign pr priv m))"

subsection \<open>Internal helpers\<close>

definition deriveKey :: "primitives \<Rightarrow> bytes \<Rightarrow> bytes option \<Rightarrow> bytes \<Rightarrow> nat \<Rightarrow> crypto_error + bytes" where
  "deriveKey pr secret salt info n =
     (let salt' = (case salt of None \<Rightarrow> replicate 64 0 | Some s \<Rightarrow> s) in
      case hkdf_read pr secret salt' info n of
        None \<Rightarrow> Inl HKDFError
      | Some key \<Rightarrow> Inr key)"

definition kdfChain :: "primitives \<Rightarrow> bytes \<Rightarrow> crypto_error + bytes \<times> bytes" where
  "kdfChain pr ck =
     (case deriveKey pr ck (Some [0x01]) (string_bytes ''msg'') 32 of
        Inl e \<Rightarrow> Inl e
      | Inr mk \<Rightarrow>
          (case deriveKey pr ck (Some [0x02]) (string_bytes ''chain'') 32 of
             Inl e \<Rightarrow> Inl e
           | Inr nc \<Rightarrow> Inr (copy_array 32 mk, copy_array 32 nc)))"

definition kdfRootKey :: "primitives \<Rightarrow> bytes \<Rightarrow> bytes \<Rightarrow> crypto_error + bytes \<times> bytes" where
  "kdfRootKey pr rk dhOut =
     (case deriveKey pr dhOut (Some rk) (string_bytes ''root'') 32 of
        Inl e \<Rightarrow> Inl e
      | Inr newRK \<Rightarrow>
          (case deriveKey pr dhOut (Some rk) (string_bytes ''chain'') 32 of
             Inl e \<Rightarrow> Inl e
           | Inr ck \<Rightarrow> Inr (copy_array 32 newRK, copy_array 32 ck)))"

definition clamp :: "bytes \<Rightarrow> bytes" where
  "clamp priv =
     (let p1 = priv[0 := priv ! 0 AND 248];
          p2 = p1[31 := p1 ! 31 AND 127]
      in p2[31 := p2 ! 31 OR 64])"

definition generateDHKeypair :: "primitives \<Rightarrow> bytes option \<Rightarrow> crypto_error + bytes \<times> bytes" where
  "generateDHKeypair pr rnd =
     (case rnd of
        None \<Rightarrow> Inl RandError
      | Some r \<Rightarrow>
          let priv = clamp (copy_array 32 r) in
          case X25519 pr priv (Basepoint pr) of
            None \<Rightarrow> Inl X25519Error
          | Some pub \<Rightarrow> Inr (copy_array 32 pub, priv))"

definition fingerprintKey :: "primitives \<Rightarrow> bytes \<Rightarrow> string" where
  "fingerprintKey pr pub = hex_EncodeToString (take 16 (sha256 pr pub))"

definition senderKeyID :: "ChatID \<Rightarrow> PeerID \<Rightarrow> string" where
  "senderKeyID chatID peer = chatID @ '':'' @ PeerID_String peer"

subsection \<open>Identities and safety numbers\<close>

record Identity =
  id_SignPublic :: bytes
  id_SignPrivate :: bytes
  id_DHPublic :: bytes
  id_DHPrivate :: bytes
  id_Fingerprint :: string
  id_CreatedAt :: gotime

definition Identity_PeerID :: "Identity \<Rightarrow> NodeID \<Rightarrow> PeerID" where
  "Identity_PeerID i nodeID = \<lparr>pid_NodeID = nodeID, pid_Fingerprint = id_Fingerprint i\<rparr>"

definition GenerateIdentity ::
  "primitives \<Rightarrow> gotime \<Rightarrow> bytes option \<Rightarrow> bytes option \<Rightarrow> crypto_error + Identity" where
  "GenerateIdentity pr now rndSign rndDH =
     (case rndSign of
        None \<Rightarrow> Inl RandError
      | Some seed \<Rightarrow>
          let (signPub, signPriv) = ed25519_GenerateKey pr seed in
          case generateDHKeypair pr rndDH of
            Inl e \<Rightarrow> Inl e
          | Inr (dhPub, dhPriv) \<Rightarrow>
              Inr \<lparr>id_SignPublic = signPub, id_SignPrivate = signPriv, id_DHPublic = dhPub,
                   id_DHPrivate = dhPriv, id_Fingerprint = fingerprintKey pr signPub,
                   id_CreatedAt = now\<rparr>)"

record SafetyNumber =
  sn_Combined :: string
  sn_QRPayload :: bytes

fun iterate_hash :: "primitives \<Rightarrow> bytes \<Rightarrow> nat \<Rightarrow> bytes \<Rightarrow> bytes" where
  "iterate_hash pr key 0 result = result"
| "iterate_hash pr key (Suc n) result = iterate_hash pr key n (sha512 pr (result @ key))"

definition iteratedHash :: "primitives \<Rightarrow> bytes \<Rightarrow> bytes \<Rightarrow> nat \<Rightarrow> bytes" where
  "iteratedHash pr key ident iterations =
     take 30 (iterate_hash pr key (iterations - 1) (sha512 pr (key @ ident)))"

definition fingerprintToDigits :: "bytes \<Rightarrow> string" where
  "fingerprintToDigits data =
     concat (map (\<lambda>i. let chunk = take 5 (drop (i * 5) data);
                          padded = replicate 3 0 @ chunk;
                          v = (GetUint padded :: 64 word) mod 100000
                      in dec_fixed 5 (unat v)) [0..<12])"

definition ComputeSafetyNumber ::
  "primitives \<Rightarrow> bytes \<Rightarrow> NodeID \<Rightarrow> bytes \<Rightarrow> NodeID \<Rightarrow> SafetyNumber" where
  "ComputeSafetyNumber pr localSignPub localNodeID remoteSignPub remoteNodeID =
     (let (a, aKey, b, bKey) =
            (if string_less remoteNodeID localNodeID
             then (string_bytes remoteNodeID, remoteSignPub, string_bytes localNodeID, localSignPub)
             else (string_bytes localNodeID, localSignPub, string_bytes remoteNodeID, remoteSignPub));
          hashA = iteratedHash pr aKey a 5200;
          hashB = iteratedHash pr bKey b 5200
      in \<lparr>sn_Combined = fingerprintToDigits (hashA @ hashB),
          sn_QRPayload = [0x02, 0x0D] @ aKey @ bKey\<rparr>)"

subsection \<open>Ratchet sessions\<close>

record SessionKey =
  sk_RootKey :: bytes
  sk_SendChain :: bytes
  sk_RecvChain :: bytes
  sk_SendCounter :: "64 word"
  sk_RecvCounter :: "64 word"
  sk_LocalDHPub :: bytes
  sk_LocalDHPriv :: bytes
  sk_RemoteDHPub :: bytes
  sk_PeerID :: PeerID
  sk_CreatedAt :: gotime
  sk_UpdatedAt :: gotime
  sk_MessagesSinceRotation :: "64 word"
  sk_LastRotatedAt :: gotime
  sk_RotateAfterMessages :: "64 word"
  sk_RotateAfterDuration :: duration

definition NeedsRotation :: "gotime \<Rightarrow> SessionKey \<Rightarrow> bool" where
  "NeedsRotation now s =
     (if sk_RotateAfterMessages s > 0 \<and> sk_MessagesSinceRotation s \<ge> sk_RotateAfterMessages s then True
      else if sk_RotateAfterDuration s > 0 \<and> now - sk_LastRotatedAt s \<ge> sk_RotateAfterDuration s then True
      else False)"

definition SessionKey_Advance ::
  "primitives \<Rightarrow> gotime \<Rightarrow> SessionKey \<Rightarrow> (crypto_error + bytes) \<times> SessionKey" where
  "SessionKey_Advance pr now s =
     (case kdfChain pr (sk_SendChain s) of
        Inl e \<Rightarrow> (Inl e, s)
      | Inr (mk, ck) \<Rightarrow>
          (Inr mk, s\<lparr>sk_SendChain := ck, sk_SendCounter := sk_SendCounter s + 1,
                     sk_MessagesSinceRotation := sk_MessagesSinceRotation s + 1,
                     sk_UpdatedAt := now\<rparr>))"

definition AdvanceRecv :: "primitives \<Rightarrow> SessionKey \<Rightarrow> (crypto_error + bytes) \<times> SessionKey" where
  "AdvanceRecv pr s =
     (case kdfChain pr (sk_RecvChain s) of
        Inl e \<Rightarrow> (Inl e, s)
      | Inr (mk, ck) \<Rightarrow>
          (Inr mk, s\<lparr>sk_RecvChain := ck, sk_RecvCounter := sk_RecvCounter s + 1\<rparr>))"

definition DHRatchet ::
  "primitives \<Rightarrow> gotime \<Rightarrow> bytes option \<Rightarrow> bytes \<Rightarrow> SessionKey \<Rightarrow> crypto_error option \<times> SessionKey" where
  "DHRatchet pr now rnd remotePub s =
     (case X25519 pr (sk_LocalDHPriv s) remotePub of
        None \<Rightarrow> (Some X25519Error, s)
      | Some shared \<Rightarrow>
     (case kdfRootKey pr (sk_RootKey s) shared of
        Inl e \<Rightarrow> (Some e, s)
      | Inr (rk, rc) \<Rightarrow>
     (let s1 = s\<lparr>sk_RootKey := rk, sk_RecvChain := rc, sk_RemoteDHPub := remotePub\<rparr> in
      case generateDHKeypair pr rnd of
        Inl e \<Rightarrow> (Some e, s1)
      | Inr (pub, priv) \<Rightarrow>
     (let s2 = s1\<lparr>sk_LocalDHPub := pub, sk_LocalDHPriv := priv\<rparr> in
      case X25519 pr (sk_LocalDHPriv s2) remotePub of
        None \<Rightarrow> (Some X25519Error, s2)
      | Some shared2 \<Rightarrow>
     (case kdfRootKey pr (sk_RootKey s2) shared2 of
        Inl e \<Rightarrow> (Some e, s2)
      | Inr (rk2, sc) \<Rightarrow>
          (None, s2\<lparr>sk_RootKey := rk2, sk_SendChain := sc, sk_UpdatedAt := now,
                    sk_MessagesSinceRotation := 0, sk_LastRotatedAt := now\<rparr>))))))"

subsection \<open>Sender keys\<close>

record SenderKey =
  snd_ChainID :: bytes
  snd_Iteration :: "32 word"
  snd_ChainKey :: bytes
  snd_SignKey :: bytes
  snd_OwnerPeerID :: PeerID
  snd_ChatID :: ChatID
  snd_CreatedAt :: gotime
  snd_UpdatedAt :: gotime

record SenderKeyDistribution =
  skd_ChainID :: bytes
  skd_Iteration :: "32 word"
  skd_ChainKey :: bytes
  skd_SignPub :: bytes
  skd_ChatID :: ChatID
  skd_OwnerID :: PeerID
  skd_Signature :: bytes
  skd_IssuedAt :: gotime

definition NewSenderKey ::
  "gotime \<Rightarrow> bytes option \<Rightarrow> bytes option \<Rightarrow> PeerID \<Rightarrow> ChatID \<Rightarrow> bytes \<Rightarrow> crypto_error + SenderKey" where
  "NewSenderKey now rndID rndKey owner chatID signKey =
     (case rndID of
        None \<Rightarrow> Inl RandError
      | Some chainID \<Rightarrow>
          (case rndKey of
             None \<Rightarrow> Inl RandError
           | Some chainKey \<Rightarrow>
               Inr \<lparr>snd_ChainID = copy_array 16 chainID, snd_Iteration = 0,
                    snd_ChainKey = copy_array 32 chainKey, snd_SignKey = signKey,
                    snd_OwnerPeerID = owner, snd_ChatID = chatID, snd_CreatedAt = now,
                    snd_UpdatedAt = now\<rparr>))"

definition SenderKey_Advance ::
  "primitives \<Rightarrow> gotime \<Rightarrow> SenderKey \<Rightarrow> (crypto_error + bytes) \<times> SenderKey" where
  "SenderKey_Advance pr now sk =
     (case deriveKey pr (snd_ChainKey sk) None (string_bytes ''sender-msg'') 32 of
        Inl e \<Rightarrow> (Inl e, sk)
      | Inr mk \<Rightarrow>
          (case deriveKey pr (snd_ChainKey sk) None (string_bytes ''sender-chain'') 32 of
             Inl e \<Rightarrow> (Inl e, sk)
           | Inr nck \<Rightarrow>
               (Inr (copy_array 32 mk),
                sk\<lparr>snd_ChainKey := take 32 nck @ drop (length (take 32 nck)) (snd_ChainKey sk),
                   snd_Iteration := snd_Iteration sk + 1, snd_UpdatedAt := now\<rparr>)))"

subsection \<open>The provider\<close>

record Provider =
  prov_sessions :: "string \<Rightarrow> SessionKey option"
  prov_senderKeys :: "string \<Rightarrow> SenderKey option"

definition NewProvider :: Provider where
  "NewProvider = \<lparr>prov_sessions = (\<lambda>_. None), prov_senderKeys = (\<lambda>_. None)\<rparr>"

definition InitSession ::
  "primitives \<Rightarrow> gotime \<Rightarrow> bytes option \<Rightarrow> Identity \<Rightarrow> bytes \<Rightarrow> PeerID \<Rightarrow> Provider \<Rightarrow>
   (crypto_error + SessionKey) \<times> Provider" where
  "InitSession pr now rnd local remoteDHPub remotePeer p =
     (case X25519 pr (id_DHPrivate local) remoteDHPub of
        None \<Rightarrow> (Inl X25519Error, p)
      | Some shared \<Rightarrow>
     (let salt = sha256 pr (id_DHPublic local @ remoteDHPub) in
      case deriveKey pr shared (Some salt) (string_bytes ''ZT-Messenger-v1-Root'') 32 of
        Inl e \<Rightarrow> (Inl e, p)
      | Inr rootKey \<Rightarrow>
     (case deriveKey pr rootKey (Some (string_bytes ''send'')) (string_bytes ''chain'') 32 of
        Inl e \<Rightarrow> (Inl e, p)
      | Inr sc \<Rightarrow>
     (case deriveKey pr rootKey (Some (string_bytes ''recv'')) (string_bytes ''chain'') 32 of
        Inl e \<Rightarrow> (Inl e, p)
      | Inr rc \<Rightarrow>
     (case generateDHKeypair pr rnd of
        Inl e \<Rightarrow> (Inl e, p)
      | Inr (ePub, ePriv) \<Rightarrow>
          let sess = \<lparr>sk_RootKey = copy_array 32 rootKey, sk_SendChain = copy_array 32 sc,
                      sk_RecvChain = copy_array 32 rc, sk_SendCounter = 0, sk_RecvCounter = 0,
                      sk_LocalDHPub = ePub, sk_LocalDHPriv = ePriv, sk_RemoteDHPub = remoteDHPub,
                      sk_PeerID = remotePeer, sk_CreatedAt = now, sk_UpdatedAt = now,
                      sk_MessagesSinceRotation = 0, sk_LastRotatedAt = now,
                      sk_RotateAfterMessages = 100, sk_RotateAfterDuration = 7 * 24 * Hour\<rparr>
          in (Inr sess,
              p\<lparr>prov_sessions := (prov_sessions p)(PeerID_String remotePeer \<mapsto> sess)\<rparr>))))))"

definition GetSession :: "Provider \<Rightarrow> PeerID \<Rightarrow> SessionKey option" where
  "GetSession p peer = prov_sessions p (PeerID_String peer)"

definition DeleteSession :: "PeerID \<Rightarrow> Provider \<Rightarrow> Provider" where
  "DeleteSession peer p = p\<lparr>prov_sessions := (prov_sessions p)(PeerID_String peer := None)\<rparr>"

definition StoreSenderKey :: "SenderKey \<Rightarrow> Provider \<Rightarrow> Provider" where
  "StoreSenderKey sk p =
     p\<lparr>prov_senderKeys := (prov_senderKeys p)(senderKeyID (snd_ChatID sk) (snd_OwnerPeerID sk) \<mapsto> sk)\<rparr>"

definition GetSenderKey :: "Provider \<Rightarrow> ChatID \<Rightarrow> PeerID \<Rightarrow> SenderKey option" where
  "GetSenderKey p chatID peer = prov_senderKeys p (senderKeyID chatID peer)"

definition DeleteSenderKey :: "ChatID \<Rightarrow> PeerID \<Rightarrow> Provider \<Rightarrow> Provider" where
  "DeleteSenderKey chatID peer p =
     p\<lparr>prov_senderKeys := (prov_senderKeys p)(senderKeyID chatID peer := None)\<rparr>"

definition DeriveSessionKey :: "primitives \<Rightarrow> Identity \<Rightarrow> bytes \<Rightarrow> crypto_error + bytes" where
  "DeriveSessionKey pr local remotePub =
     (if length remotePub \<noteq> 32 then Inl BadRemoteKey
      else case X25519 pr (id_DHPrivate local) remotePub of
        None \<Rightarrow> Inl X25519Error
      | Some shared \<Rightarrow> deriveKey pr shared None (string_bytes ''ZT-Messenger-v1-Session'') 32)"

subsection \<open>Symmetric encryption\<close>

abbreviation NonceSize :: nat where "NonceSize \<equiv> 12"

definition EncryptAES ::
  "primitives \<Rightarrow> bytes option \<Rightarrow> bytes \<Rightarrow> bytes \<Rightarrow> bytes \<Rightarrow> crypto_error + bytes" where
  "EncryptAES pr rnd key plaintext aad =
     (if length key \<notin> set [16, 24, 32] then Inl BadKeySize
      else case rnd of
        None \<Rightarrow> Inl RandError
      | Some r \<Rightarrow> let nonce = copy_array NonceSize r in Inr (nonce @ gcm_Seal pr key nonce plaintext aad))"

definition DecryptAES :: "primitives \<Rightarrow> bytes \<Rightarrow> bytes \<Rightarrow> bytes \<Rightarrow> crypto_error + bytes" where
  "DecryptAES pr key ciphertext aad =
     (if length key \<notin> set [16, 24, 32] then Inl BadKeySize
      else if length ciphertext < NonceSize then Inl CiphertextTooShort
      else case gcm_Open pr key (take NonceSize ciphertext) (drop NonceSize ciphertext) aad of
        None \<Rightarrow> Inl AuthFailed
      | Some pt \<Rightarrow> Inr pt)"

definition EncryptChaCha ::
  "primitives \<Rightarrow> bytes option \<Rightarrow> bytes \<Rightarrow> bytes \<Rightarrow> bytes \<Rightarrow> crypto_error + bytes" where
  "EncryptChaCha pr rnd key plaintext aad =
     (if length key \<noteq> 32 then Inl BadKeySize
      else case rnd of
        None \<Rightarrow> Inl RandError
      | Some r \<Rightarrow> let nonce = copy_array NonceSize r in Inr (nonce @ chacha_Seal pr key nonce plaintext aad))"

definition DecryptChaCha :: "primitives \<Rightarrow> bytes \<Rightarrow> bytes \<Rightarrow> bytes \<Rightarrow> crypto_error + bytes" where
  "DecryptChaCha pr key ciphertext aad =
     (if length key \<noteq> 32 then Inl BadKeySize
      else if length ciphertext < NonceSize then Inl CiphertextTooShort
      else case chacha_Open pr key (take NonceSize ciphertext) (drop NonceSize ciphertext) aad of
        None \<Rightarrow> Inl AuthFailed
      | Some pt \<Rightarrow> Inr pt)"

definition Provider_Encrypt ::
  "primitives \<Rightarrow> bytes option \<Rightarrow> bytes \<Rightarrow> bytes \<Rightarrow> bytes \<Rightarrow> crypto_error + bytes" where
  "Provider_Encrypt = EncryptAES"

definition Provider_Decrypt :: "primitives \<Rightarrow> bytes \<Rightarrow> bytes \<Rightarrow> bytes \<Rightarrow> crypto_error + bytes" where
  "Provider_Decrypt = DecryptAES"

definition Provider_Sign :: "primitives \<Rightarrow> Identity \<Rightarrow> bytes \<Rightarrow> bytes" where
  "Provider_Sign pr identity msg = ed25519_Sign pr (id_SignPrivate identity) msg"

definition Provider_Verify :: "primitives \<Rightarrow> bytes \<Rightarrow> bytes \<Rightarrow> bytes \<Rightarrow> bool" where
  "Provider_Verify pr publicKey msg sig =
     (if length publicKey \<noteq> 32 then False else ed25519_Verify pr publicKey msg sig)"

definition Provider_HMAC :: "primitives \<Rightarrow> bytes \<Rightarrow> bytes \<Rightarrow> bytes" where
  "Provider_HMAC pr key data = hmac_sha256 pr key data"

definition Provider_DeriveKey ::
  "primitives \<Rightarrow> bytes \<Rightarrow> bytes option \<Rightarrow> bytes \<Rightarrow> nat \<Rightarrow> crypto_error + bytes" where
  "Provider_DeriveKey = deriveKey"

definition HashData :: "primitives \<Rightarrow> bytes \<Rightarrow> string" where
  "HashData pr data = hex_EncodeToString (sha256 pr data)"

subsection \<open>Packet bodies\<close>

definition EncryptPacketBody ::
  "primitives \<Rightarrow> gotime \<Rightarrow> bytes option \<Rightarrow> SessionKey \<Rightarrow> bytes \<Rightarrow> bytes \<Rightarrow>
   (crypto_error + bytes) \<times> SessionKey" where
  "EncryptPacketBody pr now rnd s header body =
     (case SessionKey_Advance pr now s of
        (Inl e, s') \<Rightarrow> (Inl e, s')
      | (Inr msgKey, s') \<Rightarrow>
          (case deriveKey pr msgKey (Some (PutUint (sk_SendCounter s'))) (string_bytes ''enc'') 32 of
             Inl e \<Rightarrow> (Inl e, s')
           | Inr encKey \<Rightarrow> (Provider_Encrypt pr rnd encKey body header, s')))"

definition DecryptPacketBody ::
  "primitives \<Rightarrow> SessionKey \<Rightarrow> bytes \<Rightarrow> bytes \<Rightarrow> (crypto_error + bytes) \<times> SessionKey" where
  "DecryptPacketBody pr s header body =
     (case AdvanceRecv pr s of
        (Inl e, s') \<Rightarrow> (Inl e, s')
      | (Inr msgKey, s') \<Rightarrow>
          (case deriveKey pr msgKey (Some (PutUint (sk_RecvCounter s'))) (string_bytes ''enc'') 32 of
             Inl e \<Rightarrow> (Inl e, s')
           | Inr encKey \<Rightarrow> (Provider_Decrypt pr encKey body header, s')))"

text \<open>A conversation: one side encrypts a sequence of messages, the other decrypts it in order.\<close>

fun encrypt_all ::
  "primitives \<Rightarrow> SessionKey \<Rightarrow> (gotime \<times> bytes \<times> bytes \<times> bytes) list \<Rightarrow>
   crypto_error + bytes list \<times> SessionKey" where
  "encrypt_all pr s [] = Inr ([], s)"
| "encrypt_all pr s ((now, nonce, header, body) # ms) =
     (case EncryptPacketBody pr now (Some nonce) s header body of
        (Inl e, _) \<Rightarrow> Inl e
      | (Inr c, s') \<Rightarrow> (case encrypt_all pr s' ms of
            Inl e \<Rightarrow> Inl e
          | Inr (cs, s'') \<Rightarrow> Inr (c # cs, s'')))"

fun decrypt_all ::
  "primitives \<Rightarrow> SessionKey \<Rightarrow> (bytes \<times> bytes) list \<Rightarrow> crypto_error + bytes list \<times> SessionKey" where
  "decrypt_all pr r [] = Inr ([], r)"
| "decrypt_all pr r ((header, c) # cs) =
     (case DecryptPacketBody pr r header c of
        (Inl e, _) \<Rightarrow> Inl e
      | (Inr b, r') \<Rightarrow> (case decrypt_all pr r' cs of
            Inl e \<Rightarrow> Inl e
          | Inr (bs, r'') \<Rightarrow> Inr (b # bs, r'')))"

text \<open>The sender's sending chain is where the receiver's receiving chain is.\<close>

definition in_step :: "SessionKey \<Rightarrow> SessionKey \<Rightarrow> bool" where
  "in_step s r = (sk_SendChain s = sk_RecvChain r \<and> sk_SendCounter s = sk_RecvCounter r)"

section \<open>Lemmas\<close>

subsection \<open>Safety numbers\<close>

lemma fingerprintToDigits_length: "length (fingerprintToDigits d) = 60"
  by (simp add: fingerprintToDigits_def Let_def length_concat comp_def sum_list_triv)

lemma fingerprintToDigits_digits: "set (fingerprintToDigits d) \<subseteq> set ''0123456789''"
  unfolding fingerprintToDigits_def Let_def set_concat set_map
  using dec_fixed_digits by blast

lemma ComputeSafetyNumber_swap:
  assumes "string_less b a"
  shows "ComputeSafetyNumber pr ka a kb b = ComputeSafetyNumber pr kb b ka a"
  using assms string_less_asym [OF assms] by (simp add: ComputeSafetyNumber_def Let_def)

subsection \<open>Keys\<close>

lemma deriveKey_total:
  assumes "hkdf_law pr" and "n \<le> 255 * 32"
  obtains k where "deriveKey pr s t i n = Inr k" and "length k = n"
proof -
  obtain k where "hkdf_read pr s (case t of None \<Rightarrow> replicate 64 0 | Some s \<Rightarrow> s) i n = Some k" "length k = n"
    using assms unfolding hkdf_law_def by blast
  then show ?thesis by (intro that [of k]) (simp_all add: deriveKey_def)
qed

lemma deriveKey_length:
  assumes "hkdf_law pr" and "n \<le> 255 * 32" and "deriveKey pr s t i n = Inr k"
  shows "length k = n"
  by (rule deriveKey_total [OF assms(1,2), of s t i]) (use assms(3) in simp)

lemma kdfChain_total:
  assumes "hkdf_law pr"
  obtains mk nc where "kdfChain pr ck = Inr (mk, nc)" and "length mk = 32" and "length nc = 32"
proof -
  obtain mk where mk: "deriveKey pr ck (Some [1]) (string_bytes ''msg'') 32 = Inr mk" "length mk = 32"
    using assms by (rule deriveKey_total [of pr 32]) auto
  obtain nc where nc: "deriveKey pr ck (Some [2]) (string_bytes ''chain'') 32 = Inr nc" "length nc = 32"
    using assms by (rule deriveKey_total [of pr 32]) auto
  show ?thesis by (rule that [of mk nc]) (use mk nc in \<open>auto simp: kdfChain_def\<close>)
qed

lemma clamp_bits:
  assumes "length r = 32"
  shows "length (clamp r) = 32" and "clamp r ! 0 AND 7 = 0"
    and "clamp r ! 31 AND 128 = 0" and "clamp r ! 31 AND 64 = 64"
proof -
  show "length (clamp r) = 32" using assms by (simp add: clamp_def Let_def)
  have 0: "clamp r ! 0 = r ! 0 AND 248" and 31: "clamp r ! 31 = (r ! 31 AND 127) OR 64"
    using assms by (simp_all add: clamp_def Let_def)
  have bits: "(248 :: byte) AND 7 = 0" "(127 :: byte) AND 128 = 0" "(64 :: byte) AND 128 = 0" by simp_all
  show "clamp r ! 0 AND 7 = 0" by (simp add: 0 and.assoc bits)
  show "clamp r ! 31 AND 128 = 0" by (simp add: 31 bit.conj_disj_distrib2 and.assoc bits)
  show "clamp r ! 31 AND 64 = 64" by (simp add: 31 bit.conj_disj_distrib2 and.assoc)
qed

subsection \<open>Sealing\<close>

lemma DecryptAES_EncryptAES:
  "aead_law pr \<Longrightarrow> EncryptAES pr rnd k pt aad = Inr c \<Longrightarrow> DecryptAES pr k c aad = Inr pt"
  by (auto simp: EncryptAES_def DecryptAES_def aead_law_def Let_def split: if_splits option.splits)

lemma DecryptChaCha_EncryptChaCha:
  "aead_law pr \<Longrightarrow> EncryptChaCha pr rnd k pt aad = Inr c \<Longrightarrow> DecryptChaCha pr k c aad = Inr pt"
  by (auto simp: EncryptChaCha_def DecryptChaCha_def aead_law_def Let_def split: if_splits option.splits)

subsection \<open>The ratchet\<close>

lemma ratchet_step:
  assumes "aead_law pr" and "hkdf_law pr" and "in_step s r"
  shows "\<exists>c s' r'. EncryptPacketBody pr now (Some nonce) s h b = (Inr c, s') \<and>
    DecryptPacketBody pr r h c = (Inr b, r') \<and> in_step s' r' \<and>
    sk_SendCounter s' = sk_SendCounter s + 1 \<and>
    sk_MessagesSinceRotation s' = sk_MessagesSinceRotation s + 1"
proof -
  obtain mk ck where chain: "kdfChain pr (sk_SendChain s) = Inr (mk, ck)"
    using kdfChain_total [OF assms(2)] by metis
  then have chain': "kdfChain pr (sk_RecvChain r) = Inr (mk, ck)"
    using assms(3) by (simp add: in_step_def)
  obtain ek where ek: "deriveKey pr mk (Some (PutUint (sk_SendCounter s + 1))) (string_bytes ''enc'') 32 = Inr ek"
      "length ek = 32"
    using assms(2) by (rule deriveKey_total [of pr 32]) auto
  have "\<exists>c. EncryptAES pr (Some nonce) ek b h = Inr c" using ek(2) by (simp add: EncryptAES_def Let_def)
  then obtain c where c: "EncryptAES pr (Some nonce) ek b h = Inr c" ..
  note d = DecryptAES_EncryptAES [OF assms(1) c]
  show ?thesis
    using assms(3) chain chain' ek c d
    by (simp add: EncryptPacketBody_def DecryptPacketBody_def SessionKey_Advance_def AdvanceRecv_def
        Provider_Encrypt_def Provider_Decrypt_def in_step_def)
qed

lemma ratchet_run:
  assumes "aead_law pr" and "hkdf_law pr" and "in_step s r"
  shows "\<exists>cs s' r'. encrypt_all pr s ms = Inr (cs, s') \<and> length cs = length ms \<and>
    decrypt_all pr r (zip (map (\<lambda>(_, _, h, _). h) ms) cs) = Inr (map (\<lambda>(_, _, _, b). b) ms, r') \<and>
    in_step s' r' \<and> sk_SendCounter s' = sk_SendCounter s + of_nat (length ms) \<and>
    sk_MessagesSinceRotation s' = sk_MessagesSinceRotation s + of_nat (length ms)"
  using assms(3)
proof (induction ms arbitrary: s r)
  case (Cons m ms)
  obtain now nonce h b where m: "m = (now, nonce, h, b)" by (cases m)
  obtain c s1 r1 where 1: "EncryptPacketBody pr now (Some nonce) s h b = (Inr c, s1)"
    "DecryptPacketBody pr r h c = (Inr b, r1)" "in_step s1 r1"
    "sk_SendCounter s1 = sk_SendCounter s + 1"
    "sk_MessagesSinceRotation s1 = sk_MessagesSinceRotation s + 1"
    using ratchet_step [OF assms(1,2) Cons.prems] by blast
  obtain cs s2 r2 where 2: "encrypt_all pr s1 ms = Inr (cs, s2)" "length cs = length ms"
    "decrypt_all pr r1 (zip (map (\<lambda>(_, _, h, _). h) ms) cs) = Inr (map (\<lambda>(_, _, _, b). b) ms, r2)"
    "in_step s2 r2" "sk_SendCounter s2 = sk_SendCounter s1 + of_nat (length ms)"
    "sk_MessagesSinceRotation s2 = sk_MessagesSinceRotation s1 + of_nat (length ms)"
    using Cons.IH [OF 1(3)] by blast
  show ?case using 1 2 by (simp add: m)
qed auto

lemma encrypt_all_rotation:
  "encrypt_all pr s ms = Inr (cs, s') \<Longrightarrow>
   sk_RotateAfterMessages s' = sk_RotateAfterMessages s \<and>
   sk_RotateAfterDuration s' = sk_RotateAfterDuration s \<and> sk_LastRotatedAt s' = sk_LastRotatedAt s \<and>
   sk_MessagesSinceRotation s' = sk_MessagesSinceRotation s + of_nat (length ms)"
proof (induction ms arbitrary: s cs)
  case (Cons m ms)
  obtain now nonce h b where m: "m = (now, nonce, h, b)" by (cases m)
  obtain c s1 cs1 where 1: "EncryptPacketBody pr now (Some nonce) s h b = (Inr c, s1)"
    "encrypt_all pr s1 ms = Inr (cs1, s')"
    using Cons.prems by (auto simp: m split: sum.splits prod.splits)
  from 1(1) have "sk_RotateAfterMessages s1 = sk_RotateAfterMessages s \<and>
      sk_RotateAfterDuration s1 = sk_RotateAfterDuration s \<and> sk_LastRotatedAt s1 = sk_LastRotatedAt s \<and>
      sk_MessagesSinceRotation s1 = sk_MessagesSinceRotation s + 1"
    by (auto simp: EncryptPacketBody_def SessionKey_Advance_def split: sum.splits prod.splits)
  with Cons.IH [OF 1(2)] show ?case by simp
qed simp

lemma DHRatchet_frame:
  assumes "DHRatchet pr now rnd rpub s = (e, s')"
  shows "if e = None then sk_MessagesSinceRotation s' = 0 \<and> sk_LastRotatedAt s' = now
     else sk_SendChain s' = sk_SendChain s \<and> sk_SendCounter s' = sk_SendCounter s \<and>
       sk_MessagesSinceRotation s' = sk_MessagesSinceRotation s \<and> sk_LastRotatedAt s' = sk_LastRotatedAt s"
    and "sk_RotateAfterMessages s' = sk_RotateAfterMessages s"
    and "sk_RotateAfterDuration s' = sk_RotateAfterDuration s"
  using assms by (auto simp: DHRatchet_def Let_def split: option.splits sum.splits prod.splits)

lemma InitSession_cases:
  assumes "InitSession pr now rnd local rpub peer p = (Inr sess, p')"
  obtains shared root sc rc where "X25519 pr (id_DHPrivate local) rpub = Some shared"
    and "deriveKey pr shared (Some (sha256 pr (id_DHPublic local @ rpub)))
           (string_bytes ''ZT-Messenger-v1-Root'') 32 = Inr root"
    and "deriveKey pr root (Some (string_bytes ''send'')) (string_bytes ''chain'') 32 = Inr sc"
    and "deriveKey pr root (Some (string_bytes ''recv'')) (string_bytes ''chain'') 32 = Inr rc"
    and "sk_SendChain sess = copy_array 32 sc" and "sk_RecvChain sess = copy_array 32 rc"
    and "sk_SendCounter sess = 0" and "sk_RecvCounter sess = 0"
    and "sk_MessagesSinceRotation sess = 0" and "sk_LastRotatedAt sess = now"
    and "sk_RotateAfterMessages sess = 100" and "sk_RotateAfterDuration sess = 7 * 24 * Hour"
    and "GetSession p' peer = Some sess"
  using assms
  by (auto simp: InitSession_def Let_def GetSession_def split: option.splits sum.splits prod.splits)

text \<open>The sender-key table is a keyed store.\<close>

interpretation sender_keys: keyed_store StoreSenderKey prov_senderKeys
  "\<lambda>k p. p\<lparr>prov_senderKeys := (prov_senderKeys p)(k := None)\<rparr>"
  "\<lambda>sk. senderKeyID (snd_ChatID sk) (snd_OwnerPeerID sk)" "\<lambda>sk. sk"
  by unfold_locales (auto simp: StoreSenderKey_def)

lemma senderKeyID_inject:
  assumes "CHR '':'' \<notin> set c" and "CHR '':'' \<notin> set c'"
    and "CHR '':'' \<notin> set (pid_NodeID p)" and "CHR '':'' \<notin> set (pid_NodeID p')"
  shows "senderKeyID c p = senderKeyID c' p' \<longleftrightarrow> c = c' \<and> p = p'"
  using assms by (auto simp: senderKeyID_def append_colon_inject PeerID_String_inject)

subsection \<open>Properties\<close>

text \<open>
  C4: messages survive the ratchet. Two sessions whose sending and receiving chains agree stay
  in step: every message the sender encrypts is decrypted to the same body by a receiver that
  processes the ciphertexts in order, for any number of messages, and no step fails.
\<close>

theorem ratchet_conversation:
  assumes "aead_law pr" and "hkdf_law pr" and "in_step s r"
  shows "\<exists>cs s' r'. encrypt_all pr s ms = Inr (cs, s') \<and>
    decrypt_all pr r (zip (map (\<lambda>(_, _, h, _). h) ms) cs) = Inr (map (\<lambda>(_, _, _, b). b) ms, r') \<and>
    in_step s' r' \<and> sk_SendCounter s' = sk_SendCounter s + of_nat (length ms)"
  using ratchet_run [OF assms, of ms] by blast

text \<open>
  a rejected ciphertext breaks the session. \<open>DecryptPacketBody\<close> advances the receiving chain
  before it authenticates the body, so after one forged or corrupted packet the receiver is one
  step ahead of the sender and stays out of step.
\<close>

theorem rejected_packet_desyncs:
  assumes "hkdf_law pr" and "in_step s r" and "DecryptPacketBody pr r h c = (Inl AuthFailed, r')"
  shows "sk_RecvCounter r' = sk_SendCounter s + 1 \<and> \<not> in_step s r'"
proof -
  obtain mk ck where chain: "kdfChain pr (sk_RecvChain r) = Inr (mk, ck)"
    using kdfChain_total [OF assms(1)] by metis
  then have "r' = r\<lparr>sk_RecvChain := ck, sk_RecvCounter := sk_RecvCounter r + 1\<rparr>"
    using assms(3) by (auto simp: DecryptPacketBody_def AdvanceRecv_def split: sum.splits)
  then show ?thesis using assms(2) by (simp add: in_step_def)
qed

text \<open>
  C36: the safety number is a sixty-digit decimal string, and two peers compute the same number
  (and QR payload) exactly when their node IDs differ or their keys are equal.
\<close>

theorem safety_number_symmetric:
  assumes "length ka = 32" and "length kb = 32"
  shows "length (sn_Combined (ComputeSafetyNumber pr ka a kb b)) = 60 \<and>
    set (sn_Combined (ComputeSafetyNumber pr ka a kb b)) \<subseteq> set ''0123456789'' \<and>
    (ComputeSafetyNumber pr ka a kb b = ComputeSafetyNumber pr kb b ka a \<longleftrightarrow> a \<noteq> b \<or> ka = kb)"
proof -
  have digits: "length (sn_Combined (ComputeSafetyNumber pr ka a kb b)) = 60 \<and>
      set (sn_Combined (ComputeSafetyNumber pr ka a kb b)) \<subseteq> set ''0123456789''"
    by (simp add: ComputeSafetyNumber_def Let_def fingerprintToDigits_length
        fingerprintToDigits_digits [simplified])
  have "ComputeSafetyNumber pr ka a kb b = ComputeSafetyNumber pr kb b ka a" if "a \<noteq> b"
    using that string_less_total [of a b] ComputeSafetyNumber_swap [of b a pr ka kb]
      ComputeSafetyNumber_swap [of a b pr kb ka] by auto
  moreover have "(ComputeSafetyNumber pr ka a kb a = ComputeSafetyNumber pr kb a ka a) = (ka = kb)"
    using assms by (auto simp: ComputeSafetyNumber_def Let_def)
  ultimately show ?thesis using digits by blast
qed

text \<open>
  sealing and opening. With a key of an accepted size and a working random source, the AES
  and the ChaCha entry points return a ciphertext that starts with the nonce and opens to the
  plaintext under the same key and associated data; a key of another size is refused by all four.
\<close>

theorem seal_open:
  assumes "aead_law pr"
  shows "(if length key \<in> {16, 24, 32}
      then \<exists>c. EncryptAES pr (Some rnd) key pt aad = Inr (copy_array 12 rnd @ c) \<and>
             DecryptAES pr key (copy_array 12 rnd @ c) aad = Inr pt
      else EncryptAES pr (Some rnd) key pt aad = Inl BadKeySize \<and> DecryptAES pr key pt aad = Inl BadKeySize) \<and>
    (if length key = 32
      then \<exists>c. EncryptChaCha pr (Some rnd) key pt aad = Inr (copy_array 12 rnd @ c) \<and>
             DecryptChaCha pr key (copy_array 12 rnd @ c) aad = Inr pt
      else EncryptChaCha pr (Some rnd) key pt aad = Inl BadKeySize \<and> DecryptChaCha pr key pt aad = Inl BadKeySize)"
  using assms
  by (auto simp: EncryptAES_def DecryptAES_def EncryptChaCha_def DecryptChaCha_def aead_law_def Let_def)

text \<open>
  rotation is due after a hundred messages. A session created by \<open>InitSession\<close> at time
  \<open>t\<close> and used for \<open>n\<close> sends reports at time \<open>now\<close> that it needs rotation exactly when
  \<open>n\<close> has reached 100 or seven days have passed; a successful \<open>DHRatchet\<close> clears both reasons,
  and a failing one leaves the sending chain, the counters and the rotation state as they were.
\<close>

theorem rotation_due:
  assumes "InitSession pr t rnd local rpub peer p = (Inr sess, p')"
    and "length ms < 2 ^ 64" and "encrypt_all pr sess ms = Inr (cs, sess')"
  shows "NeedsRotation now sess' = (length ms \<ge> 100 \<or> now - t \<ge> 7 * 24 * Hour) \<and>
    (case DHRatchet pr now rnd' rpub' sess' of
       (None, sess'') \<Rightarrow> \<not> NeedsRotation now sess''
     | (Some _, sess'') \<Rightarrow> sk_SendChain sess'' = sk_SendChain sess' \<and>
         sk_SendCounter sess'' = sk_SendCounter sess' \<and>
         NeedsRotation now sess'' = NeedsRotation now sess')"
proof -
  obtain e sess'' where d: "DHRatchet pr now rnd' rpub' sess' = (e, sess'')" by fastforce
  have conf: "sk_RotateAfterMessages sess' = 100" "sk_RotateAfterDuration sess' = 7 * 24 * Hour"
    "sk_LastRotatedAt sess' = t" "sk_MessagesSinceRotation sess' = of_nat (length ms)"
    by (rule InitSession_cases [OF assms(1)], use encrypt_all_rotation [OF assms(3)] in simp)+
  have "((100 :: 64 word) \<le> of_nat (length ms)) = (100 \<le> length ms)"
    using assms(2) by (simp add: word_le_nat_alt unat_of_nat)
  then show ?thesis
    using conf DHRatchet_frame [OF d] by (auto simp: NeedsRotation_def d split: option.splits if_splits)
qed

text \<open>
  C37: a fresh identity is well formed. The DH private key is clamped as X25519 requires (the low
  three bits and the top bit clear, bit 254 set), the keys have 32 bytes, the fingerprint is the
  hexadecimal form of sixteen bytes, and what the identity signs verifies under its public key.
\<close>

theorem GenerateIdentity_wf:
  assumes "sha_law pr" and "sign_law pr" and "GenerateIdentity pr now (Some seed) (Some rnd) = Inr ident"
  shows "length (id_DHPrivate ident) = 32 \<and> length (id_DHPublic ident) = 32 \<and>
    id_DHPrivate ident ! 0 AND 7 = 0 \<and> id_DHPrivate ident ! 31 AND 128 = 0 \<and>
    id_DHPrivate ident ! 31 AND 64 = 64 \<and>
    length (id_Fingerprint ident) = 32 \<and> hex_DecodeString (id_Fingerprint ident) = Some (take 16 (sha256 pr (id_SignPublic ident))) \<and>
    Provider_Verify pr (id_SignPublic ident) m (Provider_Sign pr ident m)"
proof -
  have k: "\<exists>pub. length pub = 32 \<and> id_DHPublic ident = pub \<and> id_DHPrivate ident = clamp (copy_array 32 rnd) \<and>
      id_Fingerprint ident = fingerprintKey pr (id_SignPublic ident) \<and>
      ed25519_GenerateKey pr seed = (id_SignPublic ident, id_SignPrivate ident)"
    using assms(3)
    by (auto simp: GenerateIdentity_def generateDHKeypair_def Let_def split: option.splits sum.splits prod.splits)
  have "length (sha256 pr d) = 32" for d using assms(1) by (simp add: sha_law_def)
  moreover have "length (id_SignPublic ident) = 32 \<and>
      ed25519_Verify pr (id_SignPublic ident) m (ed25519_Sign pr (id_SignPrivate ident) m)"
    using assms(2) k unfolding sign_law_def by (auto dest: spec [of _ seed] simp: Let_def)
  ultimately show ?thesis
    using k clamp_bits [of "copy_array 32 rnd"]
    by (auto simp: fingerprintKey_def hex_Decode_Encode Provider_Verify_def Provider_Sign_def)
qed

text \<open>
  the sender-key table. For chat IDs and node IDs without a colon, \<open>GetSenderKey\<close> after any
  number of stores returns the last key stored for that chat and member, and the earlier content
  for every other pair; after \<open>DeleteSenderKey\<close> the pair has none.
\<close>

theorem sender_key_table:
  assumes "CHR '':'' \<notin> set chat" and "CHR '':'' \<notin> set (pid_NodeID peer)"
    and "\<forall>sk\<in>set sks. CHR '':'' \<notin> set (snd_ChatID sk) \<and> CHR '':'' \<notin> set (pid_NodeID (snd_OwnerPeerID sk))"
  shows "GetSenderKey (fold StoreSenderKey sks p) chat peer =
      (case find (\<lambda>sk. snd_ChatID sk = chat \<and> snd_OwnerPeerID sk = peer) (rev sks) of
         None \<Rightarrow> GetSenderKey p chat peer | Some sk \<Rightarrow> Some sk) \<and>
    GetSenderKey (DeleteSenderKey chat peer p) chat peer = None"
proof -
  have "find (\<lambda>sk. senderKeyID (snd_ChatID sk) (snd_OwnerPeerID sk) = senderKeyID chat peer) (rev sks) =
      find (\<lambda>sk. snd_ChatID sk = chat \<and> snd_OwnerPeerID sk = peer) (rev sks)"
    using assms by (intro find_cong) (auto simp: senderKeyID_inject)
  then show ?thesis
    unfolding GetSenderKey_def DeleteSenderKey_def by (simp add: sender_keys.last_write_wins)
qed

text \<open>
  \<open>InitSession\<close> does not set up a conversation. Both ends derive the chain they send on with
  the label \<open>send\<close> and the chain they receive on with the label \<open>recv\<close> (and with a salt that
  depends on who is local), so as long as the key derivation separates the two labels, the
  sessions that two peers create for each other are never in step in either direction.
\<close>

theorem InitSession_not_in_step:
  assumes "hkdf_law pr"
    and "\<forall>s s'. hkdf_read pr s (string_bytes ''send'') (string_bytes ''chain'') 32 \<noteq>
                hkdf_read pr s' (string_bytes ''recv'') (string_bytes ''chain'') 32"
    and "InitSession pr t1 rnd1 alice (id_DHPublic bob) pb p1 = (Inr sa, p1')"
    and "InitSession pr t2 rnd2 bob (id_DHPublic alice) pa p2 = (Inr sb, p2')"
  shows "\<not> in_step sa sb \<and> \<not> in_step sb sa"
proof -
  have sep: "copy_array 32 x \<noteq> copy_array 32 y"
    if "deriveKey pr s (Some (string_bytes ''send'')) (string_bytes ''chain'') 32 = Inr x"
      "deriveKey pr s' (Some (string_bytes ''recv'')) (string_bytes ''chain'') 32 = Inr y" for s s' x y
  proof -
    have "length x = 32" "length y = 32"
      using deriveKey_length [OF assms(1) _ that(1)] deriveKey_length [OF assms(1) _ that(2)] by simp_all
    moreover have "x \<noteq> y"
      using that assms(2) by (auto simp: deriveKey_def split: option.splits) metis
    ultimately show ?thesis by simp
  qed
  show ?thesis
    by (rule InitSession_cases [OF assms(3)], rule InitSession_cases [OF assms(4)])
      (use sep in \<open>auto simp: in_step_def\<close>)
qed

subsection \<open>Witnesses\<close>

text \<open>Transparent primitives that satisfy the laws, on which every operation can be evaluated.\<close>

definition clear_primitives :: primitives where
  "clear_primitives =
     \<lparr>sha256 = copy_array 32, sha512 = copy_array 64,
      hkdf_read = (\<lambda>s t i n. if n \<le> 255 * 32 then Some (copy_array n (t @ i @ s)) else None),
      X25519 = (\<lambda>a b. Some (copy_array 32 b)), Basepoint = copy_array 32 [9],
      gcm_Seal = (\<lambda>k n pt aad. k @ pt),
      gcm_Open = (\<lambda>k n c aad. if take (length k) c = k then Some (drop (length k) c) else None),
      chacha_Seal = (\<lambda>k n pt aad. k @ pt),
      chacha_Open = (\<lambda>k n c aad. if take (length k) c = k then Some (drop (length k) c) else None),
      ed25519_GenerateKey = (\<lambda>seed. (copy_array 32 seed, copy_array 32 seed)),
      ed25519_Sign = (\<lambda>priv m. priv @ m), ed25519_Verify = (\<lambda>pub m sig. sig = pub @ m),
      hmac_sha256 = (\<lambda>k d. copy_array 32 (k @ d))\<rparr>"

lemma clear_primitives_laws:
  "aead_law clear_primitives" "hkdf_law clear_primitives" "sha_law clear_primitives"
  "sign_law clear_primitives"
  by (auto simp: clear_primitives_def aead_law_def hkdf_law_def sha_law_def sign_law_def)

definition clear_identity :: "nat \<Rightarrow> Identity" where
  "clear_identity n = \<lparr>id_SignPublic = copy_array 32 [of_nat n], id_SignPrivate = copy_array 32 [of_nat n],
     id_DHPublic = copy_array 32 [of_nat n], id_DHPrivate = copy_array 32 [of_nat n],
     id_Fingerprint = ''f'', id_CreatedAt = 0\<rparr>"

abbreviation clear_peer :: PeerID where
  "clear_peer \<equiv> \<lparr>pid_NodeID = ''0123456789'', pid_Fingerprint = ''f''\<rparr>"

definition clear_session :: SessionKey where
  "clear_session = (case InitSession clear_primitives 0 (Some []) (clear_identity 1)
     (id_DHPublic (clear_identity 2)) clear_peer NewProvider of (Inr s, _) \<Rightarrow> s)"

definition clear_mirror :: SessionKey where
  "clear_mirror = clear_session\<lparr>sk_RecvChain := sk_SendChain clear_session\<rparr>"

lemma clear_session_init:
  "\<exists>p. InitSession clear_primitives 0 (Some []) (clear_identity 1)
     (id_DHPublic (clear_identity 2)) clear_peer NewProvider = (Inr clear_session, p)"
  by (simp add: clear_session_def InitSession_def clear_primitives_def deriveKey_def
      generateDHKeypair_def Let_def)

lemma clear_in_step: "in_step clear_session clear_mirror"
proof -
  obtain p where "InitSession clear_primitives 0 (Some []) (clear_identity 1)
     (id_DHPublic (clear_identity 2)) clear_peer NewProvider = (Inr clear_session, p)"
    using clear_session_init ..
  then show ?thesis by (rule InitSession_cases) (simp add: in_step_def clear_mirror_def)
qed

theorem ratchet_conversation_witness:
  "\<exists>cs s' r'. encrypt_all clear_primitives clear_session [(1, [3], [7], [104, 105]), (2, [4], [7], [111])] = Inr (cs, s') \<and>
    decrypt_all clear_primitives clear_mirror (zip [[7], [7]] cs) = Inr ([[104, 105], [111]], r') \<and> in_step s' r'"
  using ratchet_conversation [OF clear_primitives_laws(1,2) clear_in_step,
      of "[(1, [3], [7], [104, 105]), (2, [4], [7], [111])]"] by (simp only: list.map split) blast

theorem rejected_packet_desyncs_witness:
  "\<not> in_step clear_session (snd (DecryptPacketBody clear_primitives clear_mirror [] (replicate 12 1)))"
proof -
  have "fst (DecryptPacketBody clear_primitives clear_mirror [] (replicate 12 1)) = Inl AuthFailed"
    by (simp add: DecryptPacketBody_def AdvanceRecv_def kdfChain_def deriveKey_def clear_primitives_def
        Provider_Decrypt_def DecryptAES_def)
  then have "DecryptPacketBody clear_primitives clear_mirror [] (replicate 12 1) =
      (Inl AuthFailed, snd (DecryptPacketBody clear_primitives clear_mirror [] (replicate 12 1)))"
    by (metis prod.collapse)
  from rejected_packet_desyncs [OF clear_primitives_laws(2) clear_in_step this] show ?thesis by blast
qed

theorem safety_number_symmetric_witness:
  "ComputeSafetyNumber clear_primitives (replicate 32 1) ''aa'' (replicate 32 2) ''bb'' =
     ComputeSafetyNumber clear_primitives (replicate 32 2) ''bb'' (replicate 32 1) ''aa''"
  using safety_number_symmetric [of "replicate 32 1" "replicate 32 2" clear_primitives "''aa''" "''bb''"] by simp

theorem seal_open_witness:
  "\<exists>c. EncryptAES clear_primitives (Some [1, 2]) (replicate 32 5) [104] [] = Inr (copy_array 12 [1, 2] @ c) \<and>
     DecryptAES clear_primitives (replicate 32 5) (copy_array 12 [1, 2] @ c) [] = Inr [104]"
  using seal_open [OF clear_primitives_laws(1), of "replicate 32 5" "[1, 2]" "[104]" "[]"] by simp

theorem rotation_due_witness: "NeedsRotation (7 * 24 * Hour) clear_session \<and> \<not> NeedsRotation Hour clear_session"
proof -
  obtain p where "InitSession clear_primitives 0 (Some []) (clear_identity 1)
     (id_DHPublic (clear_identity 2)) clear_peer NewProvider = (Inr clear_session, p)"
    using clear_session_init ..
  from rotation_due [OF this, of "[]"] show ?thesis by simp
qed

theorem GenerateIdentity_wf_witness:
  "\<exists>ident. GenerateIdentity clear_primitives 0 (Some [1]) (Some [255]) = Inr ident \<and>
     id_DHPrivate ident ! 0 AND 7 = 0 \<and> id_DHPrivate ident ! 31 AND 64 = 64"
proof -
  have "\<exists>ident. GenerateIdentity clear_primitives 0 (Some [1]) (Some [255]) = Inr ident"
    by (simp add: GenerateIdentity_def generateDHKeypair_def clear_primitives_def Let_def)
  then show ?thesis using GenerateIdentity_wf [OF clear_primitives_laws(3,4)] by blast
qed

definition demo_sender_key :: "nat \<Rightarrow> SenderKey" where
  "demo_sender_key n = \<lparr>snd_ChainID = [], snd_Iteration = of_nat n, snd_ChainKey = [], snd_SignKey = [],
     snd_OwnerPeerID = clear_peer, snd_ChatID = ''chat'', snd_CreatedAt = 0, snd_UpdatedAt = 0\<rparr>"

theorem sender_key_table_witness:
  "GetSenderKey (fold StoreSenderKey [demo_sender_key 1, demo_sender_key 2] NewProvider) ''chat'' clear_peer =
     Some (demo_sender_key 2)"
  using sender_key_table [of "''chat''" clear_peer "[demo_sender_key 1, demo_sender_key 2]" NewProvider]
  by (simp add: demo_sender_key_def)

theorem InitSession_not_in_step_witness:
  "\<exists>sa sb pa pb. InitSession clear_primitives 0 (Some []) (clear_identity 1) (id_DHPublic (clear_identity 2)) clear_peer NewProvider = (Inr sa, pa) \<and>
     InitSession clear_primitives 0 (Some []) (clear_identity 2) (id_DHPublic (clear_identity 1)) clear_peer NewProvider = (Inr sb, pb) \<and>
     \<not> in_step sa sb"
proof -
  obtain sa pa where a: "InitSession clear_primitives 0 (Some []) (clear_identity 1)
      (id_DHPublic (clear_identity 2)) clear_peer NewProvider = (Inr sa, pa)"
    using clear_session_init by blast
  obtain sb pb where b: "InitSession clear_primitives 0 (Some []) (clear_identity 2)
      (id_DHPublic (clear_identity 1)) clear_peer NewProvider = (Inr sb, pb)"
    by (simp add: InitSession_def clear_primitives_def deriveKey_def generateDHKeypair_def Let_def)
  have "hkdf_read clear_primitives s (string_bytes ''send'') (string_bytes ''chain'') 32 \<noteq>
      hkdf_read clear_primitives s' (string_bytes ''recv'') (string_bytes ''chain'') 32" for s s'
    by (simp add: clear_primitives_def copy_array_def string_bytes_def numeral_eq_Suc)
  then show ?thesis
    using InitSession_not_in_step [OF clear_primitives_laws(2) _ a b] a b by blast
qed

end
