(* ===== verification/Storage.thy ===== *)
theory Storage
  imports Core_Types "HOL-Library.Char_ord" "HOL-Library.List_Lexorder"
begin

text \<open>
  The persistence layer of \<^verbatim>\<open>storage/sqlite.go\<close>. The database is a record of tables, a
  table the list of its rows in rowid order, a row a record of the columns the statements name;
  \<open>NULL\<close> is \<open>None\<close>, a JSON text column holds the value it encodes, a time column the 64-bit
  number of nanoseconds that \<open>UnixNano\<close> gives. Foreign keys are enforced, as the DSN asks:
  inserting a message for an unknown chat fails, and deleting or replacing a chat row deletes
  the messages that refer to it. The media directory is a map from paths (as lists of
  components) to contents. The connection pool is explicit where it matters: a statement issued
  while \<open>rows\<close> of another one are open needs a second connection, and a statement that cannot
  get one never returns (\<open>None\<close>). A \<open>nil\<close> slice is not told apart from an empty one, so the
  \<open>NOT NULL\<close> constraints on blobs never fire here.

  Results: every sequence of operations keeps primary keys unique and messages attached to
  chats; what is saved is read back; message pages are sorted, unexpired and seamless;
  expiry removes exactly the expired; replacing a chat row loses its messages; cache pruning
  evicts in LRU order down to the limit when a second connection is available and hangs with
  the single connection the code configures.
\<close>

section \<open>Definitions\<close>

subsection \<open>Rows\<close>

record chat_row =
  c_id :: string
  c_type :: ChatType
  c_name :: string
  c_description :: string
  c_avatar_hash :: string
  c_members :: "ChatMember list"
  c_network_id :: string
  c_encrypted :: int
  c_disappear_after_ns :: int
  c_default_permissions :: "32 word"
  c_created_at :: int
  c_updated_at :: int

record peer_row =
  p_node_id :: string
  p_fingerprint :: string
  p_display_name :: string
  p_avatar_hash :: string
  p_status :: PeerStatus
  p_status_text :: string
  p_public_key :: bytes
  p_sign_key :: bytes
  p_last_seen :: int
  p_networks :: "NetworkID list"
  p_is_blocked :: int
  p_is_contact :: int

record message_row =
  m_id :: string
  m_chat_id :: string
  m_sender_node :: string
  m_sender_fp :: string
  m_recipient_node :: "string option"
  m_recipient_fp :: "string option"
  m_type :: MessageType
  m_payload :: bytes
  m_meta :: MessageMeta
  m_status :: DeliveryStatus
  m_sent_at :: int
  m_edited_at :: "int option"
  m_reply_to :: "string option"
  m_expires_at :: "int option"

record fts_row =
  f_id :: string
  f_chat_id :: string
  f_body :: string

record reaction_row =
  r_msg_id :: string
  r_node_id :: string
  r_fingerprint :: string
  r_emoji :: string
  r_created_at :: int

record receipt_row =
  rr_msg_id :: string
  rr_node_id :: string
  rr_fingerprint :: string
  rr_read_at :: int

record contact_row =
  cr_id :: string
  cr_node_id :: string
  cr_fingerprint :: string
  cr_display_name :: string
  cr_sign_key :: bytes
  cr_dh_key :: bytes
  cr_message :: string
  cr_status :: ContactRequestStatus
  cr_received_at :: int

record pack_row =
  s_id :: string
  s_name :: string
  s_author :: string
  s_stickers :: "Sticker list"
  s_installed_at :: int

record media_row =
  mm_hash :: string
  mm_size :: int
  mm_last_used :: int

record pending_row =
  q_id :: string
  q_chat_id :: string
  q_payload :: Message
  q_attempt :: int
  q_created_at :: int
  q_next_try :: int

record SQLiteStorage =
  tb_chats :: "chat_row list"
  tb_peers :: "peer_row list"
  tb_messages :: "message_row list"
  tb_messages_fts :: "fts_row list"
  tb_reactions :: "reaction_row list"
  tb_read_receipts :: "receipt_row list"
  tb_contact_requests :: "contact_row list"
  tb_sticker_packs :: "pack_row list"
  tb_media_meta :: "media_row list"
  tb_pending_queue :: "pending_row list"
  media_files :: "string list \<Rightarrow> bytes option"

text \<open>The state after \<open>NewSQLiteStorage\<close> on an empty directory: \<open>migrate\<close> creates the tables.\<close>

definition migrate :: SQLiteStorage where
  "migrate = \<lparr>tb_chats = [], tb_peers = [], tb_messages = [], tb_messages_fts = [], tb_reactions = [],
     tb_read_receipts = [], tb_contact_requests = [], tb_sticker_packs = [], tb_media_meta = [],
     tb_pending_queue = [], media_files = (\<lambda>_. None)\<rparr>"

datatype storage_error = ForeignKeyViolation | FileError | MatchSyntaxError

definition sql_limit :: "int \<Rightarrow> int \<Rightarrow> 'r list \<Rightarrow> 'r list" where
  "sql_limit limit offset rows =
     (let r = drop (nat offset) rows in if limit < 0 then r else take (nat limit) r)"

definition boolToInt :: "bool \<Rightarrow> int" where
  "boolToInt b = (if b then 1 else 0)"

subsection \<open>Scanning\<close>

definition scanMessage :: "message_row \<Rightarrow> Message" where
  "scanMessage r =
     \<lparr>msg_ID = m_id r, msg_ChatID = m_chat_id r,
      msg_SenderID = \<lparr>pid_NodeID = m_sender_node r, pid_Fingerprint = m_sender_fp r\<rparr>,
      msg_RecipientID = (case m_recipient_node r of None \<Rightarrow> None
         | Some node \<Rightarrow> Some \<lparr>pid_NodeID = node,
             pid_Fingerprint = (case m_recipient_fp r of None \<Rightarrow> '''' | Some fp \<Rightarrow> fp)\<rparr>),
      msg_Type = m_type r, msg_Payload = m_payload r, msg_Metadata = m_meta r,
      msg_Status = m_status r, msg_SentAt = m_sent_at r, msg_EditedAt = m_edited_at r,
      msg_ReplyTo = m_reply_to r, msg_ExpiresAt = m_expires_at r\<rparr>"

definition scanMessages :: "message_row list \<Rightarrow> Message list" where
  "scanMessages rows = map scanMessage rows"

definition scanChat :: "chat_row \<Rightarrow> Chat" where
  "scanChat r =
     \<lparr>chat_ID = c_id r, chat_Type = c_type r, chat_Name = c_name r, chat_Description = c_description r,
      chat_AvatarHash = c_avatar_hash r, chat_Members = c_members r, chat_NetworkID = c_network_id r,
      chat_Encrypted = (c_encrypted r = 1), chat_CreatedAt = c_created_at r,
      chat_UpdatedAt = c_updated_at r, chat_DisappearAfter = c_disappear_after_ns r,
      chat_DefaultPermissions = c_default_permissions r\<rparr>"

definition scanPeer :: "peer_row \<Rightarrow> Peer" where
  "scanPeer r =
     \<lparr>peer_ID = \<lparr>pid_NodeID = p_node_id r, pid_Fingerprint = p_fingerprint r\<rparr>,
      peer_DisplayName = p_display_name r, peer_AvatarHash = p_avatar_hash r, peer_Status = p_status r,
      peer_StatusText = p_status_text r, peer_PublicKey = p_public_key r, peer_SignKey = p_sign_key r,
      peer_LastSeen = p_last_seen r, peer_Networks = p_networks r,
      peer_IsBlocked = (p_is_blocked r = 1), peer_IsContact = (p_is_contact r = 1)\<rparr>"

definition scanContactRequest :: "contact_row \<Rightarrow> ContactRequest" where
  "scanContactRequest r =
     \<lparr>cr_ID = cr_id r, cr_FromPeer = \<lparr>pid_NodeID = cr_node_id r, pid_Fingerprint = cr_fingerprint r\<rparr>,
      cr_DisplayName = cr_display_name r, cr_SignKey = cr_sign_key r, cr_DHKey = cr_dh_key r,
      cr_Message = cr_message r, cr_Status = cr_status r, cr_ReceivedAt = cr_received_at r\<rparr>"

definition scan_pack :: "pack_row \<Rightarrow> StickerPack" where
  "scan_pack r = \<lparr>sp_ID = s_id r, sp_Name = s_name r, sp_Author = s_author r,
     sp_Stickers = s_stickers r, sp_InstalledAt = s_installed_at r\<rparr>"

subsection \<open>Messages\<close>

definition message_values :: "Message \<Rightarrow> message_row" where
  "message_values msg =
     \<lparr>m_id = msg_ID msg, m_chat_id = msg_ChatID msg,
      m_sender_node = pid_NodeID (msg_SenderID msg), m_sender_fp = pid_Fingerprint (msg_SenderID msg),
      m_recipient_node = map_option pid_NodeID (msg_RecipientID msg),
      m_recipient_fp = map_option pid_Fingerprint (msg_RecipientID msg),
      m_type = msg_Type msg, m_payload = msg_Payload msg, m_meta = msg_Metadata msg,
      m_status = msg_Status msg, m_sent_at = UnixNano (msg_SentAt msg),
      m_edited_at = map_option UnixNano (msg_EditedAt msg), m_reply_to = msg_ReplyTo msg,
      m_expires_at = map_option UnixNano (msg_ExpiresAt msg)\<rparr>"

definition SaveMessage :: "Message \<Rightarrow> SQLiteStorage \<Rightarrow> storage_error + SQLiteStorage" where
  "SaveMessage msg s =
     (if find_row c_id (msg_ChatID msg) (tb_chats s) = None then Inl ForeignKeyViolation
      else Inr (s\<lparr>tb_messages := insert_or_replace m_id (message_values msg) (tb_messages s)\<rparr>))"

definition GetMessage :: "SQLiteStorage \<Rightarrow> MessageID \<Rightarrow> Message option" where
  "GetMessage s i = map_option scanMessage (find_row m_id i (tb_messages s))"

definition visible_row :: "gotime \<Rightarrow> ChatID \<Rightarrow> message_row \<Rightarrow> bool" where
  "visible_row now chatID r =
     (m_chat_id r = chatID \<and> (case m_expires_at r of None \<Rightarrow> True | Some e \<Rightarrow> e > UnixNano now))"

definition GetMessages :: "gotime \<Rightarrow> SQLiteStorage \<Rightarrow> ChatID \<Rightarrow> int \<Rightarrow> int \<Rightarrow> Message list" where
  "GetMessages now s chatID limit offset =
     scanMessages (sql_limit limit offset
       (order_by_desc m_sent_at (filter (visible_row now chatID) (tb_messages s))))"

definition UpdateMessageStatus :: "MessageID \<Rightarrow> DeliveryStatus \<Rightarrow> SQLiteStorage \<Rightarrow> SQLiteStorage" where
  "UpdateMessageStatus i status s =
     s\<lparr>tb_messages := update_where (\<lambda>r. m_id r = i) (\<lambda>r. r\<lparr>m_status := status\<rparr>) (tb_messages s)\<rparr>"

definition DeleteMessage :: "MessageID \<Rightarrow> SQLiteStorage \<Rightarrow> SQLiteStorage" where
  "DeleteMessage i s =
     s\<lparr>tb_messages_fts := delete_row f_id i (tb_messages_fts s),
       tb_messages := delete_row m_id i (tb_messages s)\<rparr>"

definition expired_row :: "gotime \<Rightarrow> message_row \<Rightarrow> bool" where
  "expired_row now r = (case m_expires_at r of None \<Rightarrow> False | Some e \<Rightarrow> e \<le> UnixNano now)"

definition DeleteExpiredMessages :: "gotime \<Rightarrow> SQLiteStorage \<Rightarrow> int \<times> SQLiteStorage" where
  "DeleteExpiredMessages now s =
     (int (length (filter (expired_row now) (tb_messages s))),
      s\<lparr>tb_messages := filter (\<lambda>r. \<not> expired_row now r) (tb_messages s)\<rparr>)"

text \<open>
  Full-text search. The FTS5 engine is a parameter: \<open>match query\<close> is \<open>None\<close> for a query with a
  syntax error and otherwise says which bodies match. The virtual table has no unique column,
  so \<open>INSERT OR REPLACE\<close> never finds a row to replace.
\<close>

definition SearchMessages ::
  "(string \<Rightarrow> (string \<Rightarrow> bool) option) \<Rightarrow> SQLiteStorage \<Rightarrow> ChatID \<Rightarrow> string \<Rightarrow> storage_error + Message list" where
  "SearchMessages match s chatID query =
     (case match query of
        None \<Rightarrow> Inl MatchSyntaxError
      | Some hit \<Rightarrow>
          Inr (scanMessages (sql_limit 200 0 (order_by_desc m_sent_at
            (concat (map (\<lambda>m. map (\<lambda>_. m)
               (filter (\<lambda>f. f_id f = m_id m \<and> f_chat_id f = chatID \<and> hit (f_body f)) (tb_messages_fts s)))
               (tb_messages s)))))))"

definition IndexMessageText :: "MessageID \<Rightarrow> string \<Rightarrow> SQLiteStorage \<Rightarrow> SQLiteStorage" where
  "IndexMessageText i plaintext s =
     s\<lparr>tb_messages_fts := tb_messages_fts s @
         map (\<lambda>m. \<lparr>f_id = m_id m, f_chat_id = m_chat_id m, f_body = plaintext\<rparr>)
           (filter (\<lambda>m. m_id m = i) (tb_messages s))\<rparr>"

subsection \<open>Reactions and read receipts\<close>

definition reaction_key :: "reaction_row \<Rightarrow> string \<times> string \<times> string \<times> string" where
  "reaction_key r = (r_msg_id r, r_node_id r, r_fingerprint r, r_emoji r)"

definition SaveReaction :: "MessageID \<Rightarrow> ReactionEntry \<Rightarrow> SQLiteStorage \<Rightarrow> SQLiteStorage" where
  "SaveReaction msgID r s =
     s\<lparr>tb_reactions := insert_or_replace reaction_key
         \<lparr>r_msg_id = msgID, r_node_id = pid_NodeID (re_PeerID r),
          r_fingerprint = pid_Fingerprint (re_PeerID r), r_emoji = re_Emoji r,
          r_created_at = UnixNano (re_CreatedAt r)\<rparr> (tb_reactions s)\<rparr>"

definition DeleteReaction :: "MessageID \<Rightarrow> PeerID \<Rightarrow> string \<Rightarrow> SQLiteStorage \<Rightarrow> SQLiteStorage" where
  "DeleteReaction msgID peerID emoji s =
     s\<lparr>tb_reactions := delete_row reaction_key
         (msgID, pid_NodeID peerID, pid_Fingerprint peerID, emoji) (tb_reactions s)\<rparr>"

definition group_reaction :: "reaction_row \<Rightarrow> (string \<Rightarrow> PeerID list option) \<Rightarrow> string \<Rightarrow> PeerID list option" where
  "group_reaction r result =
     result(r_emoji r \<mapsto> (case result (r_emoji r) of None \<Rightarrow> [] | Some ps \<Rightarrow> ps) @
       [\<lparr>pid_NodeID = r_node_id r, pid_Fingerprint = r_fingerprint r\<rparr>])"

definition GetReactions :: "SQLiteStorage \<Rightarrow> MessageID \<Rightarrow> string \<Rightarrow> PeerID list option" where
  "GetReactions s msgID =
     fold group_reaction
       (sort_key r_emoji (sort_key r_created_at (filter (\<lambda>r. r_msg_id r = msgID) (tb_reactions s))))
       (\<lambda>_. None)"

definition receipt_key :: "receipt_row \<Rightarrow> string \<times> string \<times> string" where
  "receipt_key r = (rr_msg_id r, rr_node_id r, rr_fingerprint r)"

definition SaveReadReceipt :: "gotime \<Rightarrow> MessageID \<Rightarrow> PeerID \<Rightarrow> SQLiteStorage \<Rightarrow> SQLiteStorage" where
  "SaveReadReceipt now msgID peerID s =
     s\<lparr>tb_read_receipts := insert_or_ignore receipt_key
         \<lparr>rr_msg_id = msgID, rr_node_id = pid_NodeID peerID, rr_fingerprint = pid_Fingerprint peerID,
          rr_read_at = UnixNano now\<rparr> (tb_read_receipts s)\<rparr>"

definition GetReaders :: "SQLiteStorage \<Rightarrow> MessageID \<Rightarrow> PeerID list" where
  "GetReaders s msgID =
     map (\<lambda>r. \<lparr>pid_NodeID = rr_node_id r, pid_Fingerprint = rr_fingerprint r\<rparr>)
       (order_by_asc rr_read_at (filter (\<lambda>r. rr_msg_id r = msgID) (tb_read_receipts s)))"

subsection \<open>Chats\<close>

definition chat_values :: "Chat \<Rightarrow> chat_row" where
  "chat_values chat =
     \<lparr>c_id = chat_ID chat, c_type = chat_Type chat, c_name = chat_Name chat,
      c_description = chat_Description chat, c_avatar_hash = chat_AvatarHash chat,
      c_members = chat_Members chat, c_network_id = chat_NetworkID chat,
      c_encrypted = boolToInt (chat_Encrypted chat), c_disappear_after_ns = chat_DisappearAfter chat,
      c_default_permissions = chat_DefaultPermissions chat,
      c_created_at = UnixNano (chat_CreatedAt chat), c_updated_at = UnixNano (chat_UpdatedAt chat)\<rparr>"

text \<open>Deleting a chat row, explicitly or to make room for a replacement, cascades to its messages.\<close>

definition delete_chat_row :: "ChatID \<Rightarrow> SQLiteStorage \<Rightarrow> SQLiteStorage" where
  "delete_chat_row i s =
     (if find_row c_id i (tb_chats s) = None then s
      else s\<lparr>tb_chats := delete_row c_id i (tb_chats s),
             tb_messages := filter (\<lambda>m. m_chat_id m \<noteq> i) (tb_messages s)\<rparr>)"

definition SaveChat :: "Chat \<Rightarrow> SQLiteStorage \<Rightarrow> SQLiteStorage" where
  "SaveChat chat s =
     (let s' = delete_chat_row (chat_ID chat) s in s'\<lparr>tb_chats := tb_chats s' @ [chat_values chat]\<rparr>)"

definition GetChat :: "SQLiteStorage \<Rightarrow> ChatID \<Rightarrow> Chat option" where
  "GetChat s i = map_option scanChat (find_row c_id i (tb_chats s))"

definition ListChats :: "SQLiteStorage \<Rightarrow> Chat list" where
  "ListChats s = map scanChat (order_by_desc c_updated_at (tb_chats s))"

definition DeleteChat :: "ChatID \<Rightarrow> SQLiteStorage \<Rightarrow> SQLiteStorage" where
  "DeleteChat i s = delete_chat_row i s"

subsection \<open>Peers\<close>

definition peer_key :: "peer_row \<Rightarrow> string \<times> string" where
  "peer_key r = (p_node_id r, p_fingerprint r)"

definition peer_values :: "Peer \<Rightarrow> peer_row" where
  "peer_values peer =
     \<lparr>p_node_id = pid_NodeID (peer_ID peer), p_fingerprint = pid_Fingerprint (peer_ID peer),
      p_display_name = peer_DisplayName peer, p_avatar_hash = peer_AvatarHash peer,
      p_status = peer_Status peer, p_status_text = peer_StatusText peer,
      p_public_key = peer_PublicKey peer, p_sign_key = peer_SignKey peer,
      p_last_seen = UnixNano (peer_LastSeen peer), p_networks = peer_Networks peer,
      p_is_blocked = boolToInt (peer_IsBlocked peer), p_is_contact = boolToInt (peer_IsContact peer)\<rparr>"

definition SavePeer :: "Peer \<Rightarrow> SQLiteStorage \<Rightarrow> SQLiteStorage" where
  "SavePeer peer s = s\<lparr>tb_peers := insert_or_replace peer_key (peer_values peer) (tb_peers s)\<rparr>"

definition GetPeer :: "SQLiteStorage \<Rightarrow> PeerID \<Rightarrow> Peer option" where
  "GetPeer s i = map_option scanPeer (find_row peer_key (pid_NodeID i, pid_Fingerprint i) (tb_peers s))"

definition ListPeers :: "SQLiteStorage \<Rightarrow> Peer list" where
  "ListPeers s = map scanPeer (sort_key p_display_name (tb_peers s))"

definition DeletePeer :: "PeerID \<Rightarrow> SQLiteStorage \<Rightarrow> SQLiteStorage" where
  "DeletePeer i s = s\<lparr>tb_peers := delete_row peer_key (pid_NodeID i, pid_Fingerprint i) (tb_peers s)\<rparr>"

subsection \<open>Contact requests\<close>

definition SaveContactRequest :: "ContactRequest \<Rightarrow> SQLiteStorage \<Rightarrow> SQLiteStorage" where
  "SaveContactRequest req s =
     s\<lparr>tb_contact_requests := insert_or_replace cr_id
         \<lparr>cr_id = cr_ID req, cr_node_id = pid_NodeID (cr_FromPeer req),
          cr_fingerprint = pid_Fingerprint (cr_FromPeer req), cr_display_name = cr_DisplayName req,
          cr_sign_key = cr_SignKey req, cr_dh_key = cr_DHKey req, cr_message = cr_Message req,
          cr_status = cr_Status req, cr_received_at = UnixNano (cr_ReceivedAt req)\<rparr>
         (tb_contact_requests s)\<rparr>"

definition GetContactRequest :: "SQLiteStorage \<Rightarrow> string \<Rightarrow> ContactRequest option" where
  "GetContactRequest s i = map_option scanContactRequest (find_row cr_id i (tb_contact_requests s))"

definition ListContactRequests :: "SQLiteStorage \<Rightarrow> ContactRequestStatus \<Rightarrow> ContactRequest list" where
  "ListContactRequests s status =
     map scanContactRequest (order_by_desc cr_received_at
       (filter (\<lambda>r. cr_status r = status) (tb_contact_requests s)))"

subsection \<open>Sticker packs\<close>

definition SaveStickerPack :: "StickerPack \<Rightarrow> SQLiteStorage \<Rightarrow> SQLiteStorage" where
  "SaveStickerPack pack s =
     s\<lparr>tb_sticker_packs := insert_or_replace s_id
         \<lparr>s_id = sp_ID pack, s_name = sp_Name pack, s_author = sp_Author pack,
          s_stickers = sp_Stickers pack, s_installed_at = UnixNano (sp_InstalledAt pack)\<rparr>
         (tb_sticker_packs s)\<rparr>"

definition GetStickerPack :: "SQLiteStorage \<Rightarrow> string \<Rightarrow> StickerPack option" where
  "GetStickerPack s i = map_option scan_pack (find_row s_id i (tb_sticker_packs s))"

definition ListStickerPacks :: "SQLiteStorage \<Rightarrow> StickerPack list" where
  "ListStickerPacks s = map scan_pack (sort_key s_name (tb_sticker_packs s))"

definition DeleteStickerPack :: "string \<Rightarrow> SQLiteStorage \<Rightarrow> SQLiteStorage" where
  "DeleteStickerPack i s = s\<lparr>tb_sticker_packs := delete_row s_id i (tb_sticker_packs s)\<rparr>"

subsection \<open>Media\<close>

definition mediaPath :: "string \<Rightarrow> string list" where
  "mediaPath hash = (if length hash < 4 then [hash] else [take 2 hash, take 2 (drop 2 hash), hash])"

text \<open>The arguments say whether creating the directory and writing the file succeed.\<close>

definition SaveMedia ::
  "gotime \<Rightarrow> bool \<Rightarrow> bool \<Rightarrow> string \<Rightarrow> bytes \<Rightarrow> SQLiteStorage \<Rightarrow> storage_error option \<times> SQLiteStorage" where
  "SaveMedia now mkdirOK writeOK hash data s =
     (if \<not> mkdirOK then (Some FileError, s)
      else if \<not> writeOK then (Some FileError, s)
      else (None, s\<lparr>media_files := (media_files s)(mediaPath hash \<mapsto> data),
                    tb_media_meta := insert_or_replace mm_hash
                      \<lparr>mm_hash = hash, mm_size = int (length data), mm_last_used = UnixNano now\<rparr>
                      (tb_media_meta s)\<rparr>))"

definition GetMedia :: "gotime \<Rightarrow> string \<Rightarrow> SQLiteStorage \<Rightarrow> (storage_error + bytes) \<times> SQLiteStorage" where
  "GetMedia now hash s =
     (let s' = s\<lparr>tb_media_meta := update_where (\<lambda>r. mm_hash r = hash)
                   (\<lambda>r. r\<lparr>mm_last_used := UnixNano now\<rparr>) (tb_media_meta s)\<rparr>
      in (case media_files s' (mediaPath hash) of None \<Rightarrow> Inl FileError | Some d \<Rightarrow> Inr d, s'))"

text \<open>
  \<open>pool\<close> is the limit that \<open>SetMaxOpenConns\<close> sets (one, in \<open>NewSQLiteStorage\<close>) and
  \<open>held\<close> the number of connections the caller holds through open \<open>rows\<close>. The file is removed
  before the statement asks for its connection.
\<close>

abbreviation MaxOpenConns :: nat where "MaxOpenConns \<equiv> 1"

definition DeleteMedia :: "nat \<Rightarrow> nat \<Rightarrow> string \<Rightarrow> SQLiteStorage \<Rightarrow> SQLiteStorage option" where
  "DeleteMedia pool held hash s =
     (let s' = s\<lparr>media_files := (media_files s)(mediaPath hash := None)\<rparr> in
      if held < pool then Some (s'\<lparr>tb_media_meta := delete_row mm_hash hash (tb_media_meta s')\<rparr>) else None)"

fun prune_loop ::
  "nat \<Rightarrow> int \<Rightarrow> media_row list \<Rightarrow> int \<Rightarrow> int \<Rightarrow> SQLiteStorage \<Rightarrow> (int \<times> SQLiteStorage) option" where
  "prune_loop pool maxBytes [] freed current s = Some (freed, s)"
| "prune_loop pool maxBytes (r # rows) freed current s =
     (if \<not> current > maxBytes then Some (freed, s)
      else case DeleteMedia pool 1 (mm_hash r) s of
        None \<Rightarrow> None
      | Some s' \<Rightarrow> prune_loop pool maxBytes rows (freed + mm_size r) (current - mm_size r) s')"

definition PruneMediaCache :: "nat \<Rightarrow> int \<Rightarrow> SQLiteStorage \<Rightarrow> (int \<times> SQLiteStorage) option" where
  "PruneMediaCache pool maxBytes s =
     (let total = sum_list (map mm_size (tb_media_meta s)) in
      if tb_media_meta s = [] \<or> total \<le> maxBytes then Some (0, s)
      else prune_loop pool maxBytes (order_by_asc mm_last_used (tb_media_meta s)) 0 total s)"

subsection \<open>Pending queue\<close>

definition EnqueuePending :: "gotime \<Rightarrow> gotime \<Rightarrow> Message \<Rightarrow> SQLiteStorage \<Rightarrow> SQLiteStorage" where
  "EnqueuePending now now' msg s =
     s\<lparr>tb_pending_queue := insert_or_ignore q_id
         \<lparr>q_id = msg_ID msg, q_chat_id = msg_ChatID msg, q_payload = msg, q_attempt = 0,
          q_created_at = UnixNano now, q_next_try = UnixNano now'\<rparr> (tb_pending_queue s)\<rparr>"

definition DequeuePending :: "gotime \<Rightarrow> int \<Rightarrow> SQLiteStorage \<Rightarrow> Message list" where
  "DequeuePending now limit s =
     map q_payload (sql_limit limit 0 (order_by_asc q_created_at
       (filter (\<lambda>r. q_next_try r \<le> UnixNano now) (tb_pending_queue s))))"

definition RemovePending :: "MessageID \<Rightarrow> SQLiteStorage \<Rightarrow> SQLiteStorage" where
  "RemovePending i s = s\<lparr>tb_pending_queue := delete_row q_id i (tb_pending_queue s)\<rparr>"

text \<open>Every way a call can change the database.\<close>

inductive storage_step :: "SQLiteStorage \<Rightarrow> SQLiteStorage \<Rightarrow> bool" where
  "SaveMessage m s = Inr s' \<Longrightarrow> storage_step s s'"
| "storage_step s (UpdateMessageStatus i st s)"
| "storage_step s (DeleteMessage i s)"
| "storage_step s (snd (DeleteExpiredMessages now s))"
| "storage_step s (IndexMessageText i txt s)"
| "storage_step s (SaveReaction i r s)"
| "storage_step s (DeleteReaction i pid e s)"
| "storage_step s (SaveReadReceipt now i pid s)"
| "storage_step s (SaveChat c s)"
| "storage_step s (DeleteChat i s)"
| "storage_step s (SavePeer p s)"
| "storage_step s (DeletePeer pid s)"
| "storage_step s (SaveContactRequest req s)"
| "storage_step s (SaveStickerPack pack s)"
| "storage_step s (DeleteStickerPack i s)"
| "storage_step s (snd (SaveMedia now mk wr h d s))"
| "storage_step s (snd (GetMedia now h s))"
| "DeleteMedia pool held h s = Some s' \<Longrightarrow> storage_step s s'"
| "PruneMediaCache pool mx s = Some (freed, s') \<Longrightarrow> storage_step s s'"
| "storage_step s (EnqueuePending now now' m s)"
| "storage_step s (RemovePending i s)"

inductive storage_reachable :: "SQLiteStorage \<Rightarrow> bool" where
  storage_open: "storage_reachable migrate"
| storage_more: "storage_reachable s \<Longrightarrow> storage_step s s' \<Longrightarrow> storage_reachable s'"

definition keys_unique :: "SQLiteStorage \<Rightarrow> bool" where
  "keys_unique s = (unique_key c_id (tb_chats s) \<and> unique_key peer_key (tb_peers s) \<and>
     unique_key m_id (tb_messages s) \<and> unique_key reaction_key (tb_reactions s) \<and>
     unique_key receipt_key (tb_read_receipts s) \<and> unique_key cr_id (tb_contact_requests s) \<and>
     unique_key s_id (tb_sticker_packs s) \<and> unique_key mm_hash (tb_media_meta s) \<and>
     unique_key q_id (tb_pending_queue s))"

definition messages_attached :: "SQLiteStorage \<Rightarrow> bool" where
  "messages_attached s = (\<forall>m\<in>set (tb_messages s). m_chat_id m \<in> c_id ` set (tb_chats s))"

definition media_sizes_ok :: "SQLiteStorage \<Rightarrow> bool" where
  "media_sizes_ok s = (\<forall>r\<in>set (tb_media_meta s). 0 \<le> mm_size r)"

definition storage_inv :: "SQLiteStorage \<Rightarrow> bool" where
  "storage_inv s = (keys_unique s \<and> messages_attached s \<and> media_sizes_ok s)"

definition message_times_ok :: "Message \<Rightarrow> bool" where
  "message_times_ok m = (int64_range (msg_SentAt m) \<and> pred_option int64_range (msg_EditedAt m) \<and>
     pred_option int64_range (msg_ExpiresAt m))"

section \<open>Lemmas\<close>

subsection \<open>Rows\<close>

lemma scan_message_values:
  "message_times_ok m \<Longrightarrow> scanMessage (message_values m) = m"
  by (cases "msg_RecipientID m"; cases "msg_EditedAt m"; cases "msg_ExpiresAt m")
    (simp_all add: scanMessage_def message_values_def message_times_ok_def)

lemma scan_chat_values:
  "scanChat (chat_values c) =
     c\<lparr>chat_CreatedAt := UnixNano (chat_CreatedAt c), chat_UpdatedAt := UnixNano (chat_UpdatedAt c)\<rparr>"
  by (simp add: scanChat_def chat_values_def boolToInt_def)

lemma scan_peer_values:
  "scanPeer (peer_values p) = p\<lparr>peer_LastSeen := UnixNano (peer_LastSeen p)\<rparr>"
  by (simp add: scanPeer_def peer_values_def boolToInt_def)

lemma m_id_values [simp]: "m_id (message_values m) = msg_ID m" "m_chat_id (message_values m) = msg_ChatID m"
  by (simp_all add: message_values_def)

lemma c_id_values [simp]: "c_id (chat_values c) = chat_ID c"
  by (simp add: chat_values_def)

lemma peer_key_values [simp]: "peer_key (peer_values p) = (pid_NodeID (peer_ID p), pid_Fingerprint (peer_ID p))"
  by (simp add: peer_key_def peer_values_def)

lemma find_row_image: "find_row key k rows = None \<longleftrightarrow> k \<notin> key ` set rows"
  by (auto simp: find_row_None)

lemma SaveChat_tables:
  "tb_chats (SaveChat c s) = insert_or_replace c_id (chat_values c) (tb_chats s)"
  "tb_messages (SaveChat c s) =
     (if chat_ID c \<in> c_id ` set (tb_chats s) then filter (\<lambda>m. m_chat_id m \<noteq> chat_ID c) (tb_messages s)
      else tb_messages s)"
  by (auto simp: SaveChat_def delete_chat_row_def insert_or_replace_def delete_row_absent find_row_image)

lemma SaveChat_frame [simp]:
  "tb_peers (SaveChat c s) = tb_peers s" "tb_reactions (SaveChat c s) = tb_reactions s"
  "tb_read_receipts (SaveChat c s) = tb_read_receipts s"
  "tb_contact_requests (SaveChat c s) = tb_contact_requests s"
  "tb_sticker_packs (SaveChat c s) = tb_sticker_packs s" "tb_media_meta (SaveChat c s) = tb_media_meta s"
  "tb_pending_queue (SaveChat c s) = tb_pending_queue s" "tb_messages_fts (SaveChat c s) = tb_messages_fts s"
  by (simp_all add: SaveChat_def delete_chat_row_def Let_def)

lemma set_insert_or_replace [simp]:
  "set (insert_or_replace key r rows) = insert r {x \<in> set rows. key x \<noteq> key r}"
  by (auto simp: insert_or_replace_def delete_row_def)

lemma set_delete_row [simp]: "set (delete_row key k rows) = {x \<in> set rows. key x \<noteq> k}"
  by (auto simp: delete_row_def)

lemma set_update_where [simp]: "set (update_where P f rows) = (\<lambda>r. if P r then f r else r) ` set rows"
  by (simp add: update_where_def)

lemma image_key_minus [simp]: "key ` {x \<in> A. key x \<noteq> k} = key ` A - {k}"
  by auto

subsection \<open>Interfaces\<close>

text \<open>Chats and peers are keyed stores up to the truncation of times to 64 bits.\<close>

interpretation chats: keyed_store SaveChat GetChat DeleteChat chat_ID
  "\<lambda>c. c\<lparr>chat_CreatedAt := UnixNano (chat_CreatedAt c), chat_UpdatedAt := UnixNano (chat_UpdatedAt c)\<rparr>"
proof
  show "GetChat (SaveChat v s) k = (if k = chat_ID v then Some (v\<lparr>chat_CreatedAt := UnixNano (chat_CreatedAt v),
      chat_UpdatedAt := UnixNano (chat_UpdatedAt v)\<rparr>) else GetChat s k)" for v s k
    by (simp add: GetChat_def SaveChat_tables table_simps scan_chat_values)
  show "GetChat (DeleteChat k s) k' = (if k' = k then None else GetChat s k')" for k s k'
    by (auto simp: GetChat_def DeleteChat_def delete_chat_row_def table_simps)
qed

interpretation peers: keyed_store SavePeer GetPeer DeletePeer peer_ID
  "\<lambda>p. p\<lparr>peer_LastSeen := UnixNano (peer_LastSeen p)\<rparr>"
proof
  show "GetPeer (SavePeer v s) k = (if k = peer_ID v then Some (v\<lparr>peer_LastSeen := UnixNano (peer_LastSeen v)\<rparr>)
      else GetPeer s k)" for v s k
    by (auto simp: GetPeer_def SavePeer_def table_simps scan_peer_values)
  show "GetPeer (DeletePeer k s) k' = (if k' = k then None else GetPeer s k')" for k s k'
    by (auto simp: GetPeer_def DeletePeer_def table_simps)
qed

interpretation packs: keyed_store SaveStickerPack GetStickerPack DeleteStickerPack sp_ID
  "\<lambda>p. p\<lparr>sp_InstalledAt := UnixNano (sp_InstalledAt p)\<rparr>"
  by unfold_locales
    (auto simp: GetStickerPack_def SaveStickerPack_def DeleteStickerPack_def table_simps scan_pack_def)

subsection \<open>The invariant\<close>

lemmas storage_inv_defs = storage_inv_def keys_unique_def messages_attached_def media_sizes_ok_def

lemma storage_inv_init: "storage_inv migrate"
  by (simp add: storage_inv_defs migrate_def unique_key_def)

lemma DeleteMedia_inv: "storage_inv s \<Longrightarrow> DeleteMedia pool held h s = Some s' \<Longrightarrow> storage_inv s'"
  by (auto simp: DeleteMedia_def Let_def storage_inv_defs split: if_splits)

lemma prune_loop_inv:
  "storage_inv s \<Longrightarrow> prune_loop pool mx rows f c s = Some (freed, s') \<Longrightarrow> storage_inv s'"
proof (induction pool mx rows f c s rule: prune_loop.induct)
  case (2 pool mx r rows f c s)
  then show ?case by (auto split: if_splits option.splits dest: DeleteMedia_inv)
qed auto

lemma storage_step_inv: "storage_step s s' \<Longrightarrow> storage_inv s \<Longrightarrow> storage_inv s'"
proof (induction rule: storage_step.induct)
  case (1 m s s')
  then show ?case by (auto simp: SaveMessage_def storage_inv_defs find_row_image split: if_splits)
next
  case (9 s c)
  then show ?case by (auto simp: storage_inv_defs SaveChat_tables)
next
  case (10 s i)
  then show ?case by (auto simp: DeleteChat_def delete_chat_row_def storage_inv_defs)
next
  case (18 pool held h s s')
  then show ?case by (blast intro: DeleteMedia_inv)
next
  case (19 pool mx s freed s')
  then show ?case by (auto simp: PruneMediaCache_def Let_def split: if_splits dest: prune_loop_inv)
qed (auto simp: storage_inv_defs UpdateMessageStatus_def DeleteMessage_def DeleteExpiredMessages_def
    IndexMessageText_def SaveReaction_def DeleteReaction_def SaveReadReceipt_def SavePeer_def DeletePeer_def
    SaveContactRequest_def SaveStickerPack_def DeleteStickerPack_def SaveMedia_def GetMedia_def
    EnqueuePending_def RemovePending_def Let_def split: if_splits)

interpretation store: safe_system storage_step storage_inv
  by unfold_locales (rule storage_step_inv)

lemma storage_reachable_inv: "storage_reachable s \<Longrightarrow> storage_inv s"
  by (induction rule: storage_reachable.induct) (auto intro: storage_inv_init store.step_inv)

subsection \<open>Pages\<close>

lemma sql_limit_append:
  "0 \<le> l \<Longrightarrow> 0 \<le> l' \<Longrightarrow> 0 \<le> off \<Longrightarrow>
   sql_limit l off rows @ sql_limit l' (off + l) rows = sql_limit (l + l') off rows"
  by (simp add: sql_limit_def Let_def nat_add_distrib take_add add.commute flip: drop_drop)

lemma sql_limit_set: "set (sql_limit l off rows) \<subseteq> set rows"
  by (auto simp: sql_limit_def Let_def dest: in_set_dropD in_set_takeD)

lemma sorted_sql_limit: "sorted (map f rows) \<Longrightarrow> sorted (map f (sql_limit l off rows))"
  by (simp add: sql_limit_def Let_def drop_map take_map sorted_wrt_drop sorted_wrt_take
      flip: drop_map take_map)

lemma visible_not_expired: "visible_row now c r \<Longrightarrow> \<not> expired_row now r"
  by (auto simp: visible_row_def expired_row_def split: option.splits)

subsection \<open>Pruning\<close>

lemma DeleteMedia_ok:
  "held < pool \<Longrightarrow> DeleteMedia pool held h s =
     Some (s\<lparr>media_files := (media_files s)(mediaPath h := None),
             tb_media_meta := delete_row mm_hash h (tb_media_meta s)\<rparr>)"
  by (simp add: DeleteMedia_def Let_def)

text \<open>The loop evicts the shortest prefix of its rows that brings the total under the limit.\<close>

lemma prune_loop_prefix:
  assumes "2 \<le> pool"
  shows "\<exists>n \<le> length rows. \<exists>s'. prune_loop pool mx rows f c s = Some (f + sum_list (map mm_size (take n rows)), s') \<and>
    tb_media_meta s' = filter (\<lambda>r. mm_hash r \<notin> mm_hash ` set (take n rows)) (tb_media_meta s) \<and>
    (n = length rows \<or> c - sum_list (map mm_size (take n rows)) \<le> mx) \<and>
    (\<forall>k<n. c - sum_list (map mm_size (take k rows)) > mx)"
proof (induction rows arbitrary: f c s)
  case (Cons r rows)
  show ?case
  proof (cases "c > mx")
    case True
    let ?s = "s\<lparr>media_files := (media_files s)(mediaPath (mm_hash r) := None),
             tb_media_meta := delete_row mm_hash (mm_hash r) (tb_media_meta s)\<rparr>"
    obtain n s' where n: "n \<le> length rows"
      "prune_loop pool mx rows (f + mm_size r) (c - mm_size r) ?s =
         Some (f + mm_size r + sum_list (map mm_size (take n rows)), s')"
      "tb_media_meta s' = filter (\<lambda>r. mm_hash r \<notin> mm_hash ` set (take n rows)) (tb_media_meta ?s)"
      "n = length rows \<or> c - mm_size r - sum_list (map mm_size (take n rows)) \<le> mx"
      "\<forall>k<n. c - mm_size r - sum_list (map mm_size (take k rows)) > mx"
      using Cons.IH by metis
    have "prune_loop pool mx (r # rows) f c s = Some (f + sum_list (map mm_size (take (Suc n) (r # rows))), s')"
      using True assms n(2) by (simp add: DeleteMedia_ok add.assoc)
    moreover have "tb_media_meta s' =
        filter (\<lambda>x. mm_hash x \<notin> mm_hash ` set (take (Suc n) (r # rows))) (tb_media_meta s)"
      using n(3) by (auto simp: delete_row_def intro!: filter_cong)
    moreover have "\<forall>k<Suc n. c - sum_list (map mm_size (take k (r # rows))) > mx"
      using n(5) True by (auto simp: take_Cons' less_Suc_eq_0_disj algebra_simps)
    ultimately show ?thesis using n(1,4) by (intro exI [of _ "Suc n"]) (auto simp: algebra_simps)
  qed (intro exI [of _ 0], simp)
qed simp

lemma prune_loop_hangs:
  "pool \<le> 1 \<Longrightarrow> rows \<noteq> [] \<Longrightarrow> c > mx \<Longrightarrow> prune_loop pool mx rows f c s = None"
  by (cases rows) (auto simp: DeleteMedia_def Let_def)

lemma filter_not_taken:
  "distinct (map h rows) \<Longrightarrow> filter (\<lambda>r. h r \<notin> h ` set (take n rows)) rows = drop n rows"
proof (induction rows arbitrary: n)
  case (Cons r rows)
  show ?case
  proof (cases n)
    case (Suc k)
    have "filter (\<lambda>x. h x \<notin> h ` set (take n (r # rows))) (r # rows) =
        filter (\<lambda>x. h x \<notin> h ` set (take k rows)) rows"
      using Cons.prems by (auto simp: Suc image_iff intro!: filter_cong)
    with Cons show ?thesis by (simp add: Suc)
  qed simp
qed simp

lemma sum_list_sort_key:
  "distinct (map h rows) \<Longrightarrow> sum_list (map f (sort_key g rows)) = sum_list (map f rows)" for f :: "'a \<Rightarrow> int"
  by (simp add: sum_list_distinct_conv_sum_set distinct_map)

lemma distinct_sort_key: "distinct (map h rows) \<Longrightarrow> distinct (map h (sort_key g rows))"
  by (simp add: distinct_map)

lemma prune_evicts:
  assumes "unique_key mm_hash (tb_media_meta s)" and "0 \<le> mx" and "2 \<le> pool"
    and "rows = order_by_asc mm_last_used (tb_media_meta s)"
  shows "\<exists>s' n. prune_loop pool mx rows 0 (sum_list (map mm_size rows)) s =
       Some (sum_list (map mm_size (take n rows)), s') \<and>
     set (tb_media_meta s') = set (drop n rows) \<and> sum_list (map mm_size (tb_media_meta s')) \<le> mx"
proof -
  let ?total = "sum_list (map mm_size rows)"
  obtain n s' where n: "n \<le> length rows"
    "prune_loop pool mx rows 0 ?total s = Some (0 + sum_list (map mm_size (take n rows)), s')"
    "tb_media_meta s' = filter (\<lambda>r. mm_hash r \<notin> mm_hash ` set (take n rows)) (tb_media_meta s)"
    "n = length rows \<or> ?total - sum_list (map mm_size (take n rows)) \<le> mx"
    using prune_loop_prefix [OF assms(3)] by metis
  have u: "distinct (map mm_hash (tb_media_meta s))" "distinct (map mm_hash (tb_media_meta s'))"
    using assms(1) by (simp_all add: unique_key_def n(3) distinct_map_filter)
  have "sort_key mm_last_used (tb_media_meta s') = filter (\<lambda>r. mm_hash r \<notin> mm_hash ` set (take n rows)) rows"
    by (simp add: n(3) assms(4) order_by_asc_def filter_sort)
  also have "\<dots> = drop n rows"
    by (rule filter_not_taken) (simp add: assms(4) order_by_asc_def distinct_sort_key u)
  finally have left: "sort_key mm_last_used (tb_media_meta s') = drop n rows" .
  have "sum_list (map mm_size (tb_media_meta s')) = sum_list (map mm_size (drop n rows))"
    using sum_list_sort_key [OF u(2), of mm_size mm_last_used] by (simp add: left)
  also have "\<dots> = ?total - sum_list (map mm_size (take n rows))"
    by (metis add_diff_cancel_left' append_take_drop_id map_append sum_list_append)
  finally have "sum_list (map mm_size (tb_media_meta s')) \<le> mx" using n(4) assms(2) by auto
  moreover have "set (tb_media_meta s') = set (drop n rows)" by (metis left set_sort)
  ultimately show ?thesis using n(2) by auto
qed

subsection \<open>Properties\<close>

text \<open>
  C6: the database invariant. Whatever sequence of calls was made on a freshly migrated
  database, every table's primary key is unique, every message belongs to an existing chat and
  no recorded media size is negative.
\<close>

theorem storage_invariant:
  assumes "storage_reachable s"
  shows "keys_unique s \<and> messages_attached s \<and> media_sizes_ok s"
  using storage_reachable_inv [OF assms] by (simp add: storage_inv_def)


lemma GetMessages_sorted: "sorted (rev (map msg_SentAt (GetMessages now s c limit offset)))"
proof -
  let ?page = "sql_limit limit offset (order_by_desc m_sent_at (filter (visible_row now c) (tb_messages s)))"
  have "sorted (map (\<lambda>r. - m_sent_at r) ?page)" by (rule sorted_sql_limit) (simp add: order_by_desc_def)
  then have "sorted (rev (map m_sent_at ?page))" by (simp add: sorted_wrt_rev sorted_wrt_map)
  then show ?thesis by (simp add: GetMessages_def scanMessages_def scanMessage_def comp_def)
qed

lemma GetMessages_length: "0 \<le> limit \<Longrightarrow> int (length (GetMessages now s c limit offset)) \<le> limit"
  by (simp add: GetMessages_def scanMessages_def sql_limit_def Let_def)

text \<open>
  C23: message pages. \<open>GetMessages\<close> returns messages of that chat only, newest first, none of
  them expired at the time of the call and at most \<open>limit\<close> of them; asking for the next page
  continues exactly where the previous one ended.
\<close>

theorem GetMessages_pages:
  assumes "0 \<le> limit" and "0 \<le> limit'" and "0 \<le> offset"
  shows "(\<forall>m \<in> set (GetMessages now s c limit offset).
        msg_ChatID m = c \<and> (\<forall>e. msg_ExpiresAt m = Some e \<longrightarrow> e > UnixNano now)) \<and>
    sorted (rev (map msg_SentAt (GetMessages now s c limit offset))) \<and>
    int (length (GetMessages now s c limit offset)) \<le> limit \<and>
    GetMessages now s c limit offset @ GetMessages now s c limit' (offset + limit) =
      GetMessages now s c (limit + limit') offset"
proof -
  let ?rows = "order_by_desc m_sent_at (filter (visible_row now c) (tb_messages s))"
  have rows: "visible_row now c r" if "r \<in> set (sql_limit limit offset ?rows)" for r
    using that sql_limit_set [of limit offset ?rows] by (auto simp: order_by_desc_def)
  have content: "\<forall>m \<in> set (GetMessages now s c limit offset).
      msg_ChatID m = c \<and> (\<forall>e. msg_ExpiresAt m = Some e \<longrightarrow> e > UnixNano now)"
  proof
    fix m
    assume "m \<in> set (GetMessages now s c limit offset)"
    then obtain r where "m = scanMessage r" "r \<in> set (sql_limit limit offset ?rows)"
      by (auto simp: GetMessages_def scanMessages_def)
    moreover from this rows have "visible_row now c r" by blast
    ultimately show "msg_ChatID m = c \<and> (\<forall>e. msg_ExpiresAt m = Some e \<longrightarrow> e > UnixNano now)"
      by (simp add: scanMessage_def visible_row_def split: option.splits)
  qed
  then show ?thesis
    using GetMessages_sorted GetMessages_length [OF assms(1)] sql_limit_append [OF assms, of ?rows]
    by (simp add: GetMessages_def scanMessages_def flip: map_append)
qed

text \<open>
  expiry. \<open>DeleteExpiredMessages\<close> removes exactly the messages whose expiry time has been
  reached, reports how many it removed, and does not change any page that \<open>GetMessages\<close>
  returns at that time.
\<close>

theorem DeleteExpiredMessages_correct:
  assumes "DeleteExpiredMessages now s = (n, s')"
  shows "n = int (length (tb_messages s)) - int (length (tb_messages s')) \<and>
    set (tb_messages s') = {r \<in> set (tb_messages s). \<forall>e. m_expires_at r = Some e \<longrightarrow> e > UnixNano now} \<and>
    GetMessages now s' c limit offset = GetMessages now s c limit offset"
proof -
  have n: "n = int (length (filter (expired_row now) (tb_messages s)))"
    and s': "tb_messages s' = filter (\<lambda>r. \<not> expired_row now r) (tb_messages s)"
    using assms by (auto simp: DeleteExpiredMessages_def)
  have "filter (\<lambda>r. visible_row now c r \<and> \<not> expired_row now r) (tb_messages s) =
      filter (visible_row now c) (tb_messages s)"
    by (rule filter_cong) (auto dest: visible_not_expired)
  then have "GetMessages now s' c limit offset = GetMessages now s c limit offset"
    by (simp add: GetMessages_def s' conj_commute)
  moreover have "set (tb_messages s') = {r \<in> set (tb_messages s). \<forall>e. m_expires_at r = Some e \<longrightarrow> e > UnixNano now}"
    by (auto simp: s' expired_row_def split: option.splits)
  ultimately show ?thesis
    using sum_length_filter_compl [of "expired_row now" "tb_messages s"] by (simp add: n s' flip: of_nat_add)
qed

text \<open>
  updating a chat deletes its history. \<open>SaveChat\<close> replaces the row of an existing chat, and
  the replacement deletes the old row: with the cascading foreign key, every message of that
  chat is gone afterwards, while the messages of the other chats stay.
\<close>

theorem SaveChat_loses_messages:
  assumes "storage_reachable s"
  shows "GetChat (SaveChat chat s) (chat_ID chat) \<noteq> None \<and>
    GetMessages now (SaveChat chat s) (chat_ID chat) limit offset = [] \<and>
    (c \<noteq> chat_ID chat \<longrightarrow>
       GetMessages now (SaveChat chat s) c limit offset = GetMessages now s c limit offset)"
proof -
  have "chat_ID chat \<notin> c_id ` set (tb_chats s) \<Longrightarrow>
      filter (\<lambda>m. m_chat_id m \<noteq> chat_ID chat) (tb_messages s) = tb_messages s"
    using storage_reachable_inv [OF assms] unfolding storage_inv_def messages_attached_def
    by (metis (mono_tags, lifting) filter_True)
  then have tb: "tb_messages (SaveChat chat s) = filter (\<lambda>m. m_chat_id m \<noteq> chat_ID chat) (tb_messages s)"
    by (auto simp: SaveChat_tables)
  have "filter (visible_row now (chat_ID chat)) (tb_messages (SaveChat chat s)) = []"
    by (auto simp: tb visible_row_def filter_empty_conv)
  then have "GetMessages now (SaveChat chat s) (chat_ID chat) limit offset = []"
    unfolding GetMessages_def by (simp add: order_by_desc_def scanMessages_def sql_limit_def)
  moreover have "filter (visible_row now c) (tb_messages (SaveChat chat s)) = filter (visible_row now c) (tb_messages s)"
    if "c \<noteq> chat_ID chat"
    unfolding tb filter_filter by (rule filter_cong) (use that in \<open>auto simp: visible_row_def\<close>)
  ultimately show ?thesis
    by (simp add: GetMessages_def chats.get_put)
qed


text \<open>
  the last write wins. After any sequence of \<open>SaveChat\<close>, \<open>SavePeer\<close> or
  \<open>SaveStickerPack\<close> calls, the lookup of a key returns the record last saved under it (with its
  times truncated to 64-bit nanoseconds) and the earlier content for keys that were not saved.
\<close>

theorem last_saved_is_read:
  "GetChat (fold SaveChat cs s) k =
     (case find (\<lambda>c. chat_ID c = k) (rev cs) of None \<Rightarrow> GetChat s k
      | Some c \<Rightarrow> Some (c\<lparr>chat_CreatedAt := UnixNano (chat_CreatedAt c), chat_UpdatedAt := UnixNano (chat_UpdatedAt c)\<rparr>)) \<and>
   GetPeer (fold SavePeer ps s) pid =
     (case find (\<lambda>p. peer_ID p = pid) (rev ps) of None \<Rightarrow> GetPeer s pid
      | Some p \<Rightarrow> Some (p\<lparr>peer_LastSeen := UnixNano (peer_LastSeen p)\<rparr>)) \<and>
   GetStickerPack (fold SaveStickerPack sps s) k =
     (case find (\<lambda>p. sp_ID p = k) (rev sps) of None \<Rightarrow> GetStickerPack s k
      | Some p \<Rightarrow> Some (p\<lparr>sp_InstalledAt := UnixNano (sp_InstalledAt p)\<rparr>))"
  by (simp add: chats.last_write_wins peers.last_write_wins packs.last_write_wins)

subsection \<open>Witnesses\<close>

definition demo_chat :: Chat where
  "demo_chat = \<lparr>chat_ID = ''c1'', chat_Type = ChatDirect, chat_Name = '''', chat_Description = '''',
     chat_AvatarHash = '''', chat_Members = [], chat_NetworkID = '''', chat_Encrypted = True,
     chat_CreatedAt = 5, chat_UpdatedAt = 6, chat_DisappearAfter = 0, chat_DefaultPermissions = 3\<rparr>"

definition demo_message :: "string \<Rightarrow> gotime \<Rightarrow> Message" where
  "demo_message i t = \<lparr>msg_ID = i, msg_ChatID = ''c1'',
     msg_SenderID = \<lparr>pid_NodeID = ''n'', pid_Fingerprint = ''f''\<rparr>, msg_RecipientID = None,
     msg_Type = MsgText, msg_Payload = [104], msg_Metadata = empty_meta, msg_Status = StatusSent,
     msg_SentAt = t, msg_EditedAt = None, msg_ReplyTo = None, msg_ExpiresAt = Some (t + 100)\<rparr>"

definition demo_store :: SQLiteStorage where
  "demo_store = snd (SaveMedia 9 True True ''hash'' [1, 2, 3]
     (projr (SaveMessage (demo_message ''m1'' 10) (SaveChat demo_chat migrate))))"

lemma demo_store_reachable: "storage_reachable demo_store"
proof -
  have "storage_reachable (SaveChat demo_chat migrate)"
    by (rule storage_more [OF storage_open]) (rule storage_step.intros)
  moreover have "SaveMessage (demo_message ''m1'' 10) (SaveChat demo_chat migrate) =
      Inr (projr (SaveMessage (demo_message ''m1'' 10) (SaveChat demo_chat migrate)))"
    by (simp add: SaveMessage_def SaveChat_tables table_simps demo_message_def demo_chat_def)
  ultimately have "storage_reachable (projr (SaveMessage (demo_message ''m1'' 10) (SaveChat demo_chat migrate)))"
    by (rule storage_more [OF _ storage_step.intros(1)])
  then show ?thesis unfolding demo_store_def by (rule storage_more) (rule storage_step.intros)
qed

lemma demo_store_chats: "find_row c_id ''c1'' (tb_chats demo_store) = Some (chat_values demo_chat)"
  by (simp add: demo_store_def SaveMessage_def SaveChat_def delete_chat_row_def SaveMedia_def migrate_def
      demo_message_def demo_chat_def find_row_def Let_def chat_values_def)

theorem storage_invariant_witness: "keys_unique demo_store \<and> messages_attached demo_store \<and> media_sizes_ok demo_store"
  by (rule storage_invariant [OF demo_store_reachable])

lemma demo_message_times: "message_times_ok (demo_message i 10)"
  by (simp add: message_times_ok_def demo_message_def int64_range_def)


theorem GetMessages_pages_witness:
  "GetMessages 50 demo_store ''c1'' 10 0 @ GetMessages 50 demo_store ''c1'' 10 (0 + 10) =
     GetMessages 50 demo_store ''c1'' (10 + 10) 0"
  using GetMessages_pages [of 10 10 0 50 demo_store "''c1''"] by simp

theorem DeleteExpiredMessages_correct_witness:
  "GetMessages 200 (snd (DeleteExpiredMessages 200 demo_store)) ''c1'' 10 0 = GetMessages 200 demo_store ''c1'' 10 0"
  using DeleteExpiredMessages_correct [of 200 demo_store] by (metis prod.collapse)

theorem SaveChat_loses_messages_witness: "GetMessages 50 (SaveChat demo_chat demo_store) ''c1'' 10 0 = []"
  using SaveChat_loses_messages [OF demo_store_reachable, of demo_chat 50 10 0] by (simp add: demo_chat_def)


end
