(* ===== verification/Transfers.thy ===== *)
theory Transfers
  imports Complex_Main Core_Types
begin

text \<open>
  The media transfer manager of \<^verbatim>\<open>messenger/transfer.go\<close>. One upload is a small concurrent
  system: the worker goroutine \<open>runUpload\<close>, cut at the points where it releases the mutex or
  touches a channel, and the calls \<open>Cancel\<close>, \<open>Pause\<close> and \<open>Resume\<close>, each of which changes
  the state under the mutex and signals a one-slot channel afterwards. \<open>upload_step\<close> executes
  one such atomic action, \<open>upload_reachable\<close> closes it over every interleaving. The chunks
  handed to \<open>SaveMedia\<close> are recorded. The manager's table and the download worker are
  functions. Percentages are exact rationals (rounding of \<open>float64\<close> is not modelled).

  Results: progress stays between zero and the total under every interleaving, and the chunks
  saved so far are always a prefix of the data; a finished upload never leaves its final state;
  an undisturbed worker saves everything and completes; a call to \<open>Cancel\<close> on a finished
  transfer is refused; a \<open>Resume\<close> token that was not consumed makes a later \<open>Pause\<close> void.
\<close>

section \<open>Definitions\<close>

subsection \<open>Data\<close>

datatype TransferDirection = TransferUpload | TransferDownload

datatype TransferState = TransferPending | TransferActive | TransferPaused | TransferCompleted
  | TransferFailed | TransferCancelled

record TransferProgress =
  tp_TransferID :: string
  tp_MessageID :: MessageID
  tp_ChatID :: ChatID
  tp_Direction :: TransferDirection
  tp_State :: TransferState
  tp_BytesTotal :: int
  tp_BytesDone :: int
  tp_Percent :: rat
  tp_SpeedBps :: int
  tp_Error :: string

record transfer =
  tr_id :: string
  tr_msgID :: MessageID
  tr_chatID :: ChatID
  tr_direction :: TransferDirection
  tr_state :: TransferState
  tr_total :: int
  tr_done :: int
  tr_startedAt :: gotime
  tr_pauseCh :: "unit chan"
  tr_resumeCh :: "unit chan"
  tr_cancelCh :: "unit chan"
  tr_err :: string

datatype transfer_error = TransferNotFound | TransferAlreadyFinished | TransferNotActive | TransferNotPaused

type_synonym transferManager = "string \<Rightarrow> transfer option"

abbreviation terminal :: "TransferState \<Rightarrow> bool" where
  "terminal st \<equiv> st = TransferCompleted \<or> st = TransferFailed \<or> st = TransferCancelled"

subsection \<open>The manager\<close>

definition newTransferManager :: transferManager where
  "newTransferManager = (\<lambda>_. None)"

definition new_transfer ::
  "string \<Rightarrow> MessageID \<Rightarrow> ChatID \<Rightarrow> TransferDirection \<Rightarrow> int \<Rightarrow> gotime \<Rightarrow> transfer" where
  "new_transfer tid msgID chatID dir tot now =
     \<lparr>tr_id = tid, tr_msgID = msgID, tr_chatID = chatID, tr_direction = dir, tr_state = TransferPending,
      tr_total = tot, tr_done = 0, tr_startedAt = now, tr_pauseCh = make_chan 1,
      tr_resumeCh = make_chan 1, tr_cancelCh = make_chan 1, tr_err = ''''\<rparr>"

definition Transfer_Send ::
  "gotime \<Rightarrow> string \<Rightarrow> ChatID \<Rightarrow> MessageID \<Rightarrow> bytes \<Rightarrow> transferManager \<Rightarrow> string \<times> transferManager" where
  "Transfer_Send now uuid chatID msgID data tm =
     (uuid, tm(uuid \<mapsto> new_transfer uuid msgID chatID TransferUpload (int (length data)) now))"

definition Transfer_Receive ::
  "gotime \<Rightarrow> string \<Rightarrow> ChatID \<Rightarrow> MessageID \<Rightarrow> transferManager \<Rightarrow> string \<times> transferManager" where
  "Transfer_Receive now uuid chatID msgID tm =
     (uuid, tm(uuid \<mapsto> new_transfer uuid msgID chatID TransferDownload 0 now))"

definition transfer_remove :: "string \<Rightarrow> transferManager \<Rightarrow> transferManager" where
  "transfer_remove tid tm = tm(tid := None)"

definition finish :: "TransferState \<Rightarrow> string \<Rightarrow> transfer \<Rightarrow> transfer" where
  "finish st errMsg t = t\<lparr>tr_state := st, tr_err := errMsg\<rparr>"

text \<open>The part of each call that runs under the mutex, and its signal.\<close>

definition cancel_mark :: "transfer \<Rightarrow> transfer_error + transfer" where
  "cancel_mark t =
     (if tr_state t = TransferCompleted \<or> tr_state t = TransferFailed \<or> tr_state t = TransferCancelled
      then Inl TransferAlreadyFinished else Inr (t\<lparr>tr_state := TransferCancelled\<rparr>))"

definition pause_mark :: "transfer \<Rightarrow> transfer_error + transfer" where
  "pause_mark t =
     (if tr_state t \<noteq> TransferActive then Inl TransferNotActive
      else Inr (t\<lparr>tr_state := TransferPaused\<rparr>))"

definition resume_mark :: "transfer \<Rightarrow> transfer_error + transfer" where
  "resume_mark t =
     (if tr_state t \<noteq> TransferPaused then Inl TransferNotPaused
      else Inr (t\<lparr>tr_state := TransferActive\<rparr>))"

definition cancel_signal :: "transfer \<Rightarrow> transfer" where
  "cancel_signal t = t\<lparr>tr_cancelCh := chan_offer () (tr_cancelCh t)\<rparr>"

definition pause_signal :: "transfer \<Rightarrow> transfer" where
  "pause_signal t = t\<lparr>tr_pauseCh := chan_offer () (tr_pauseCh t)\<rparr>"

definition resume_signal :: "transfer \<Rightarrow> transfer" where
  "resume_signal t = t\<lparr>tr_resumeCh := chan_offer () (tr_resumeCh t)\<rparr>"

definition manager_call ::
  "(transfer \<Rightarrow> transfer_error + transfer) \<Rightarrow> (transfer \<Rightarrow> transfer) \<Rightarrow> string \<Rightarrow> transferManager \<Rightarrow>
   transfer_error + transferManager" where
  "manager_call mark signal tid tm =
     (case tm tid of
        None \<Rightarrow> Inl TransferNotFound
      | Some t \<Rightarrow> (case mark t of Inl e \<Rightarrow> Inl e | Inr t' \<Rightarrow> Inr (tm(tid \<mapsto> signal t'))))"

definition Cancel :: "string \<Rightarrow> transferManager \<Rightarrow> transfer_error + transferManager" where
  "Cancel = manager_call cancel_mark cancel_signal"

definition Pause :: "string \<Rightarrow> transferManager \<Rightarrow> transfer_error + transferManager" where
  "Pause = manager_call pause_mark pause_signal"

definition Resume :: "string \<Rightarrow> transferManager \<Rightarrow> transfer_error + transferManager" where
  "Resume = manager_call resume_mark resume_signal"

definition progress :: "gotime \<Rightarrow> transfer \<Rightarrow> TransferProgress" where
  "progress now t =
     (let pct = (if tr_total t > 0 then Fract (tr_done t) (tr_total t) * 100 else 0);
          elapsed = Fract (now - tr_startedAt t) Second;
          speed = (if elapsed > 0 then \<lfloor>of_int (tr_done t) / elapsed\<rfloor> else 0)
      in \<lparr>tp_TransferID = tr_id t, tp_MessageID = tr_msgID t, tp_ChatID = tr_chatID t,
          tp_Direction = tr_direction t, tp_State = tr_state t, tp_BytesTotal = tr_total t,
          tp_BytesDone = tr_done t, tp_Percent = pct, tp_SpeedBps = speed, tp_Error = tr_err t\<rparr>)"

definition Transfer_Status :: "gotime \<Rightarrow> transferManager \<Rightarrow> string \<Rightarrow> transfer_error + TransferProgress" where
  "Transfer_Status now tm tid =
     (case tm tid of None \<Rightarrow> Inl TransferNotFound | Some t \<Rightarrow> Inr (progress now t))"

subsection \<open>The upload worker\<close>

abbreviation chunkSize :: nat where "chunkSize \<equiv> 64 * 1024"

text \<open>Where \<open>runUpload\<close> is between two atomic actions.\<close>

datatype upload_pc = UStart | ULoop | UPauseCheck | UWait | UResumed | UChunk | URemove | UGone

datatype signal = SigCancel | SigPause | SigResume

record upload =
  up_t :: transfer
  up_data :: bytes
  up_pc :: upload_pc
  up_uploaded :: nat
  up_saved :: "(nat \<times> bytes) list"
  up_signals :: "signal list"

definition chunk_at :: "bytes \<Rightarrow> nat \<Rightarrow> bytes" where
  "chunk_at data uploaded =
     (let end = min (uploaded + chunkSize) (length data) in take (end - uploaded) (drop uploaded data))"

datatype upload_action =
    AStart
  | ATakeCancel
  | ACtxDone string
  | ANoCancel
  | AComplete
  | ACheckPause
  | ATakeResume
  | ASetActive
  | ASaveOK
  | ASaveFail string
  | ARemove
  | ACancel
  | APause
  | AResume
  | ASignal

definition end_upload :: "TransferState \<Rightarrow> string \<Rightarrow> upload \<Rightarrow> upload" where
  "end_upload st e u = u\<lparr>up_t := finish st e (up_t u), up_pc := URemove\<rparr>"

definition token :: "unit chan \<Rightarrow> bool" where
  "token c = (ch_buf c \<noteq> [])"

definition take_token :: "unit chan \<Rightarrow> unit chan" where
  "take_token c = (case chan_recv c of None \<Rightarrow> c | Some (_, c') \<Rightarrow> c')"

definition api_mark :: "(transfer \<Rightarrow> transfer_error + transfer) \<Rightarrow> signal \<Rightarrow> upload \<Rightarrow> upload option" where
  "api_mark mark sig u =
     (if up_pc u = UGone then None
      else case mark (up_t u) of
        Inl _ \<Rightarrow> None
      | Inr t' \<Rightarrow> Some (u\<lparr>up_t := t', up_signals := up_signals u @ [sig]\<rparr>))"

fun send_signal :: "signal \<Rightarrow> transfer \<Rightarrow> transfer" where
  "send_signal SigCancel t = cancel_signal t"
| "send_signal SigPause t = pause_signal t"
| "send_signal SigResume t = resume_signal t"

fun upload_step :: "upload_action \<Rightarrow> upload \<Rightarrow> upload option" where
  "upload_step AStart u =
     (if up_pc u = UStart
      then Some (u\<lparr>up_t := (up_t u)\<lparr>tr_state := TransferActive\<rparr>, up_pc := ULoop, up_uploaded := 0\<rparr>)
      else None)"
| "upload_step ATakeCancel u =
     (if (up_pc u = ULoop \<and> up_uploaded u < length (up_data u) \<or> up_pc u = UWait) \<and> token (tr_cancelCh (up_t u))
      then Some (end_upload TransferCancelled ''''
             (u\<lparr>up_t := (up_t u)\<lparr>tr_cancelCh := take_token (tr_cancelCh (up_t u))\<rparr>\<rparr>))
      else None)"
| "upload_step (ACtxDone e) u =
     (if up_pc u = ULoop \<and> up_uploaded u < length (up_data u) \<or> up_pc u = UWait
      then Some (end_upload TransferCancelled e u) else None)"
| "upload_step ANoCancel u =
     (if up_pc u = ULoop \<and> up_uploaded u < length (up_data u) \<and> \<not> token (tr_cancelCh (up_t u))
      then Some (u\<lparr>up_pc := UPauseCheck\<rparr>) else None)"
| "upload_step AComplete u =
     (if up_pc u = ULoop \<and> \<not> up_uploaded u < length (up_data u)
      then Some (end_upload TransferCompleted '''' u) else None)"
| "upload_step ACheckPause u =
     (if up_pc u = UPauseCheck
      then Some (u\<lparr>up_pc := (if tr_state (up_t u) = TransferPaused then UWait else UChunk)\<rparr>) else None)"
| "upload_step ATakeResume u =
     (if up_pc u = UWait \<and> token (tr_resumeCh (up_t u))
      then Some (u\<lparr>up_t := (up_t u)\<lparr>tr_resumeCh := take_token (tr_resumeCh (up_t u))\<rparr>, up_pc := UResumed\<rparr>)
      else None)"
| "upload_step ASetActive u =
     (if up_pc u = UResumed
      then Some (u\<lparr>up_t := (up_t u)\<lparr>tr_state := TransferActive\<rparr>, up_pc := UChunk\<rparr>) else None)"
| "upload_step ASaveOK u =
     (if up_pc u = UChunk
      then let chunk = chunk_at (up_data u) (up_uploaded u);
               uploaded = up_uploaded u + length chunk
           in Some (u\<lparr>up_saved := up_saved u @ [(up_uploaded u, chunk)], up_uploaded := uploaded,
                      up_t := (up_t u)\<lparr>tr_done := int uploaded\<rparr>, up_pc := ULoop\<rparr>)
      else None)"
| "upload_step (ASaveFail e) u =
     (if up_pc u = UChunk then Some (end_upload TransferFailed e u) else None)"
| "upload_step ARemove u = (if up_pc u = URemove then Some (u\<lparr>up_pc := UGone\<rparr>) else None)"
| "upload_step ACancel u = api_mark cancel_mark SigCancel u"
| "upload_step APause u = api_mark pause_mark SigPause u"
| "upload_step AResume u = api_mark resume_mark SigResume u"
| "upload_step ASignal u =
     (case up_signals u of
        [] \<Rightarrow> None
      | sig # sigs \<Rightarrow> Some (u\<lparr>up_t := send_signal sig (up_t u), up_signals := sigs\<rparr>))"

fun upload_run :: "upload_action list \<Rightarrow> upload \<Rightarrow> upload option" where
  "upload_run [] u = Some u"
| "upload_run (a # as) u = (case upload_step a u of None \<Rightarrow> None | Some u' \<Rightarrow> upload_run as u')"

definition new_upload :: "string \<Rightarrow> MessageID \<Rightarrow> ChatID \<Rightarrow> bytes \<Rightarrow> gotime \<Rightarrow> upload" where
  "new_upload tid msgID chatID data now =
     \<lparr>up_t = new_transfer tid msgID chatID TransferUpload (int (length data)) now, up_data = data,
      up_pc = UStart, up_uploaded = 0, up_saved = [], up_signals = []\<rparr>"

inductive upload_reachable :: "upload \<Rightarrow> upload \<Rightarrow> bool" for u0 :: upload where
  upload_init: "upload_reachable u0 u0"
| upload_more: "upload_reachable u0 u \<Longrightarrow> upload_step a u = Some u' \<Longrightarrow> upload_reachable u0 u'"

definition data_inv :: "bytes \<Rightarrow> upload \<Rightarrow> bool" where
  "data_inv data u \<longleftrightarrow>
     up_data u = data \<and> tr_total (up_t u) = int (length data) \<and>
     up_uploaded u \<le> length data \<and> tr_done (up_t u) = int (up_uploaded u) \<and>
     concat (map snd (up_saved u)) = take (up_uploaded u) data"

fun pc_inv :: "upload_pc \<Rightarrow> TransferState \<Rightarrow> nat \<Rightarrow> nat \<Rightarrow> bool" where
  "pc_inv UStart st n len = (st \<noteq> TransferCompleted \<and> n = 0)"
| "pc_inv ULoop st n len = (st \<noteq> TransferCompleted)"
| "pc_inv URemove st n len = (terminal st \<and> (st = TransferCompleted \<longrightarrow> n = len))"
| "pc_inv UGone st n len = (terminal st \<and> (st = TransferCompleted \<longrightarrow> n = len))"
| "pc_inv _ st n len = (st \<noteq> TransferCompleted \<and> n < len)"

definition upload_inv :: "bytes \<Rightarrow> upload \<Rightarrow> bool" where
  "upload_inv data u \<longleftrightarrow>
     data_inv data u \<and> pc_inv (up_pc u) (tr_state (up_t u)) (up_uploaded u) (length data)"

subsection \<open>The download worker\<close>

text \<open>
  The arguments are what \<open>GetMedia\<close> returns and, when the relay connection is up, what
  \<open>FetchMedia\<close> returns; the second result says whether the fetched bytes were stored.
\<close>

definition runDownload :: "bytes option \<Rightarrow> bytes option option \<Rightarrow> transfer \<Rightarrow> transfer \<times> bytes option" where
  "runDownload cached fetched t =
     (let t1 = t\<lparr>tr_state := TransferActive\<rparr>;
          got = (\<lambda>d. finish TransferCompleted '''' (t1\<lparr>tr_total := int (length d), tr_done := int (length d)\<rparr>));
          fail = (finish TransferFailed ''media not available'' t1, None)
      in case cached of
           Some d \<Rightarrow> (if length d > 0 then (got d, None)
                      else (case fetched of
                         Some (Some d') \<Rightarrow> if length d' > 0 then (got d', Some d') else fail
                       | _ \<Rightarrow> fail))
         | None \<Rightarrow> (case fetched of
                         Some (Some d') \<Rightarrow> if length d' > 0 then (got d', Some d') else fail
                       | _ \<Rightarrow> fail))"

section \<open>Lemmas\<close>

lemma chunk_at_bounds:
  "u < length d \<Longrightarrow> 0 < length (chunk_at d u) \<and> u + length (chunk_at d u) \<le> length d"
  by (simp add: chunk_at_def Let_def min_def)

lemma take_chunk: "take u d @ chunk_at d u = take (u + length (chunk_at d u)) d"
  by (simp add: chunk_at_def Let_def take_add min_def)

lemma data_inv_frame:
  assumes "data_inv data u" and "up_data u' = up_data u" and "up_uploaded u' = up_uploaded u"
    and "up_saved u' = up_saved u" and "tr_total (up_t u') = tr_total (up_t u)"
    and "tr_done (up_t u') = tr_done (up_t u)"
  shows "data_inv data u'"
  using assms by (simp add: data_inv_def)

lemma pc_inv_api:
  assumes "pc_inv pc st n len" and "st' \<noteq> TransferCompleted" and "terminal st \<Longrightarrow> terminal st'"
  shows "pc_inv pc st' n len"
  using assms by (cases pc) auto

lemma api_mark_inv:
  assumes "upload_inv data u" and "api_mark mark sig u = Some u'"
    and "\<And>t t'. mark t = Inr t' \<Longrightarrow> \<exists>st. t' = t\<lparr>tr_state := st\<rparr> \<and> st \<noteq> TransferCompleted \<and> \<not> terminal (tr_state t)"
  shows "upload_inv data u'"
proof -
  obtain t' where t': "mark (up_t u) = Inr t'" "u' = u\<lparr>up_t := t', up_signals := up_signals u @ [sig]\<rparr>"
    using assms(2) by (auto simp: api_mark_def split: if_splits sum.splits)
  obtain st where st: "t' = (up_t u)\<lparr>tr_state := st\<rparr>" "st \<noteq> TransferCompleted" "\<not> terminal (tr_state (up_t u))"
    using assms(3) [OF t'(1)] by blast
  have "data_inv data u'"
    by (rule data_inv_frame [of data u]) (use assms(1) in \<open>simp_all add: t' st upload_inv_def\<close>)
  moreover have "pc_inv (up_pc u) st (up_uploaded u) (length data)"
    by (rule pc_inv_api [of _ "tr_state (up_t u)"]) (use assms(1) st in \<open>simp_all add: upload_inv_def\<close>)
  ultimately show ?thesis by (simp add: upload_inv_def t' st)
qed

lemma signal_inv:
  assumes "upload_inv data u"
  shows "upload_inv data (u\<lparr>up_t := send_signal sig (up_t u), up_signals := sigs\<rparr>)"
  using assms
  by (cases sig) (simp_all add: upload_inv_def data_inv_def cancel_signal_def pause_signal_def resume_signal_def)

lemma save_inv:
  assumes "upload_inv data u" and "upload_step ASaveOK u = Some u'"
  shows "upload_inv data u'"
proof -
  have pc: "up_pc u = UChunk" using assms(2) by (simp split: if_splits)
  then have lt: "up_uploaded u < length data" and d: "up_data u = data" and st: "tr_state (up_t u) \<noteq> TransferCompleted"
    using assms(1) by (simp_all add: upload_inv_def data_inv_def)
  from assms(2) pc have u': "u' = u\<lparr>up_saved := up_saved u @ [(up_uploaded u, chunk_at data (up_uploaded u))],
      up_uploaded := up_uploaded u + length (chunk_at data (up_uploaded u)),
      up_t := (up_t u)\<lparr>tr_done := int (up_uploaded u + length (chunk_at data (up_uploaded u)))\<rparr>, up_pc := ULoop\<rparr>"
    by (simp add: Let_def d)
  from chunk_at_bounds [OF lt] show ?thesis
    using assms(1) st take_chunk [of "up_uploaded u" data] by (simp add: u' upload_inv_def data_inv_def)
qed

lemma upload_step_inv:
  assumes "upload_inv data u" and "upload_step a u = Some u'"
  shows "upload_inv data u'"
proof (cases a)
  case ASaveOK
  with assms show ?thesis using save_inv by simp
next
  case ASignal
  with assms show ?thesis using signal_inv by (auto split: list.splits)
next
  case ACancel
  with assms show ?thesis
    by (auto elim!: api_mark_inv simp: cancel_mark_def split: if_splits)
next
  case APause
  with assms show ?thesis
    by (auto elim!: api_mark_inv simp: pause_mark_def split: if_splits)
next
  case AResume
  with assms show ?thesis
    by (auto elim!: api_mark_inv simp: resume_mark_def split: if_splits)
next
  case AStart
  with assms show ?thesis by (auto simp: upload_inv_def data_inv_def split: if_splits)
next
  case ATakeCancel
  with assms show ?thesis
    by (auto simp: upload_inv_def data_inv_def end_upload_def finish_def split: if_splits)
next
  case (ACtxDone e)
  with assms show ?thesis by (auto simp: upload_inv_def data_inv_def end_upload_def finish_def split: if_splits)
next
  case (ASaveFail e)
  with assms show ?thesis by (auto simp: upload_inv_def data_inv_def end_upload_def finish_def split: if_splits)
next
  case AComplete
  with assms show ?thesis
    by (auto simp: upload_inv_def data_inv_def end_upload_def finish_def split: if_splits)
qed (use assms in \<open>auto simp: upload_inv_def data_inv_def split: if_splits\<close>)

lemma new_upload_inv: "upload_inv data (new_upload tid msgID chatID data now)"
  by (simp add: upload_inv_def data_inv_def new_upload_def new_transfer_def)

lemma upload_reachable_inv:
  "upload_reachable (new_upload tid msgID chatID data now) u \<Longrightarrow> upload_inv data u"
  by (induction rule: upload_reachable.induct) (auto intro: new_upload_inv upload_step_inv)

lemma upload_run_reachable: "upload_run as u = Some u' \<Longrightarrow> upload_reachable u0 u \<Longrightarrow> upload_reachable u0 u'"
  by (induction as arbitrary: u) (auto split: option.splits intro: upload_more)

lemma upload_run_append:
  "upload_run (as @ bs) u = (case upload_run as u of None \<Rightarrow> None | Some u' \<Rightarrow> upload_run bs u')"
  by (induction as arbitrary: u) (auto split: option.splits)

text \<open>A finished worker: no action changes the state, the progress or the saved chunks.\<close>

lemma finished_stable:
  assumes "up_pc u \<in> {URemove, UGone}" and "terminal (tr_state (up_t u))" and "upload_step a u = Some u'"
  shows "up_pc u' \<in> {URemove, UGone} \<and> tr_state (up_t u') = tr_state (up_t u) \<and>
    tr_done (up_t u') = tr_done (up_t u) \<and> up_saved u' = up_saved u"
proof (cases a)
  case ASignal
  then obtain sig sigs where s: "up_signals u = sig # sigs" using assms(3) by (auto split: list.splits)
  then have "u' = u\<lparr>up_t := send_signal sig (up_t u), up_signals := sigs\<rparr>"
    using assms(3) ASignal by simp
  then show ?thesis
    using assms(1) by (cases sig) (simp_all add: cancel_signal_def pause_signal_def resume_signal_def)
qed (use assms in \<open>auto simp: api_mark_def cancel_mark_def pause_mark_def resume_mark_def split: if_splits\<close>)

subsection \<open>An undisturbed worker\<close>

text \<open>One round of the loop when nobody cancels, pauses or fails.\<close>

abbreviation quiet_round :: "upload_action list" where
  "quiet_round \<equiv> [ANoCancel, ACheckPause, ASaveOK]"

definition at_loop :: "bytes \<Rightarrow> upload \<Rightarrow> bool" where
  "at_loop data u = (upload_inv data u \<and> up_pc u = ULoop \<and> \<not> token (tr_cancelCh (up_t u)) \<and>
     tr_state (up_t u) = TransferActive)"

lemma quiet_round_step:
  assumes "at_loop data u" and "up_uploaded u < length data"
  shows "\<exists>u'. upload_run quiet_round u = Some u' \<and> at_loop data u' \<and>
    up_uploaded u' = min (up_uploaded u + chunkSize) (length data)"
proof -
  have d: "up_data u = data" using assms(1) by (simp add: at_loop_def upload_inv_def data_inv_def)
  obtain u' where u': "upload_run quiet_round u = Some u'" "up_pc u' = ULoop"
    "tr_cancelCh (up_t u') = tr_cancelCh (up_t u)" "tr_state (up_t u') = tr_state (up_t u)"
    "up_uploaded u' = up_uploaded u + length (chunk_at data (up_uploaded u))"
    using assms by (simp add: at_loop_def d Let_def)
  have "upload_reachable u u'" by (rule upload_run_reachable [OF u'(1) upload_init])
  then have "upload_inv data u'"
    using assms(1) by (induction rule: upload_reachable.induct) (auto simp: at_loop_def intro: upload_step_inv)
  with u' assms show ?thesis by (auto simp: at_loop_def chunk_at_def Let_def)
qed

lemma quiet_rounds:
  assumes "at_loop data u" and "length data - up_uploaded u \<le> n * chunkSize"
  shows "\<exists>k\<le>n. \<exists>u'. upload_run (concat (replicate k quiet_round)) u = Some u' \<and> at_loop data u' \<and>
    up_uploaded u' = length data"
  using assms
proof (induction n arbitrary: u)
  case 0
  then have "up_uploaded u = length data" by (simp add: at_loop_def upload_inv_def data_inv_def)
  with 0 show ?case by (intro exI [of _ 0]) auto
next
  case (Suc n)
  show ?case
  proof (cases "up_uploaded u < length data")
    case True
    from quiet_round_step [OF Suc.prems(1) True] obtain u1 where
      u1: "upload_run quiet_round u = Some u1" "at_loop data u1"
        "up_uploaded u1 = min (up_uploaded u + chunkSize) (length data)" by blast
    have "length data - up_uploaded u1 \<le> n * chunkSize" using Suc.prems(2) True u1(3) by auto
    from Suc.IH [OF u1(2) this] obtain k u' where "k \<le> n"
      "upload_run (concat (replicate k quiet_round)) u1 = Some u'" "at_loop data u'" "up_uploaded u' = length data"
      by blast
    then have "upload_run (concat (replicate (Suc k) quiet_round)) u = Some u' \<and> Suc k \<le> Suc n"
      unfolding replicate_Suc concat.simps upload_run_append u1(1) by simp
    with \<open>at_loop data u'\<close> \<open>up_uploaded u' = length data\<close> show ?thesis by blast
  next
    case False
    with Suc.prems have "up_uploaded u = length data" by (simp add: at_loop_def upload_inv_def data_inv_def)
    with Suc.prems show ?thesis by (intro exI [of _ 0]) auto
  qed
qed

lemma percent_bounds:
  assumes "0 \<le> tr_done t" and "tr_done t \<le> tr_total t"
  shows "0 \<le> tp_Percent (progress now t) \<and> tp_Percent (progress now t) \<le> 100"
proof (cases "tr_total t > 0")
  case True
  define q :: rat where "q = of_int (tr_done t) / of_int (tr_total t)"
  have "0 \<le> q" "q \<le> 1" using True assms by (simp_all add: q_def)
  moreover have "tp_Percent (progress now t) = q * 100"
    using True by (simp add: progress_def Let_def Fract_of_int_quotient q_def)
  ultimately show ?thesis by simp
qed (simp add: progress_def Let_def)

subsection \<open>Properties\<close>

text \<open>
  C11: progress is sound under every interleaving of the worker with \<open>Cancel\<close>, \<open>Pause\<close> and
  \<open>Resume\<close>. The bytes reported done are between zero and the total, the percentage between 0
  and 100, the chunks saved so far concatenate to exactly the first \<open>done\<close> bytes of the data,
  and a transfer reported as completed has saved all of it.
\<close>

theorem upload_progress_sound:
  assumes "upload_reachable (new_upload tid msgID chatID data t0) u"
  shows "0 \<le> tp_BytesDone (progress now (up_t u)) \<and>
    tp_BytesDone (progress now (up_t u)) \<le> tp_BytesTotal (progress now (up_t u)) \<and>
    0 \<le> tp_Percent (progress now (up_t u)) \<and> tp_Percent (progress now (up_t u)) \<le> 100 \<and>
    concat (map snd (up_saved u)) = take (nat (tp_BytesDone (progress now (up_t u)))) data \<and>
    (tp_State (progress now (up_t u)) = TransferCompleted \<longrightarrow> concat (map snd (up_saved u)) = data)"
proof -
  have inv: "upload_inv data u" using assms by (rule upload_reachable_inv)
  then have d: "data_inv data u" by (simp add: upload_inv_def)
  have "tr_state (up_t u) = TransferCompleted \<longrightarrow> up_uploaded u = length data"
    using inv by (cases "up_pc u") (auto simp: upload_inv_def)
  moreover have "0 \<le> tr_done (up_t u)" "tr_done (up_t u) \<le> tr_total (up_t u)"
    using d by (simp_all add: data_inv_def)
  note percent_bounds [OF this, of now]
  ultimately show ?thesis using d by (auto simp: data_inv_def progress_def Let_def)
qed

text \<open>
  a finished transfer stays finished. Once the worker has ended, in whatever way, no later
  action changes the reported state, the progress or the saved chunks, and \<open>Cancel\<close>,
  \<open>Pause\<close> and \<open>Resume\<close> are refused.
\<close>

theorem upload_finished_stable:
  assumes "upload_reachable (new_upload tid msgID chatID data t0) u" and "up_pc u \<in> {URemove, UGone}"
    and "upload_reachable u u'"
  shows "terminal (tr_state (up_t u)) \<and> tr_state (up_t u') = tr_state (up_t u) \<and>
    tr_done (up_t u') = tr_done (up_t u) \<and> up_saved u' = up_saved u \<and>
    upload_step ACancel u' = None \<and> upload_step APause u' = None \<and> upload_step AResume u' = None"
proof -
  have "upload_inv data u" using assms(1) by (rule upload_reachable_inv)
  then have final: "terminal (tr_state (up_t u))" using assms(2) by (auto simp: upload_inv_def)
  have "up_pc u' \<in> {URemove, UGone} \<and> tr_state (up_t u') = tr_state (up_t u) \<and>
      tr_done (up_t u') = tr_done (up_t u) \<and> up_saved u' = up_saved u"
    using assms(3)
  proof (induction rule: upload_reachable.induct)
    case (upload_more v a v')
    then show ?case using finished_stable [of v a v'] final by simp
  qed (use assms(2) in simp)
  with final show ?thesis
    by (auto simp: api_mark_def cancel_mark_def pause_mark_def resume_mark_def)
qed

text \<open>
  C34: an undisturbed upload completes. The worker, run by itself with successful writes, needs
  at most one round per 64 KiB chunk, ends in the completed state, has saved the whole data and
  is removed from the table.
\<close>

theorem upload_completes:
  "\<exists>k \<le> length data div chunkSize + 1. \<exists>u.
     upload_run (AStart # concat (replicate k quiet_round) @ [AComplete, ARemove])
       (new_upload tid msgID chatID data t0) = Some u \<and>
     up_pc u = UGone \<and> tr_state (up_t u) = TransferCompleted \<and>
     tr_done (up_t u) = int (length data) \<and> concat (map snd (up_saved u)) = data"
proof -
  let ?u0 = "new_upload tid msgID chatID data t0"
  obtain u1 where u1: "upload_step AStart ?u0 = Some u1" "up_pc u1 = ULoop" "up_uploaded u1 = 0"
    "tr_state (up_t u1) = TransferActive" "\<not> token (tr_cancelCh (up_t u1))"
    by (simp add: new_upload_def new_transfer_def token_def)
  then have "at_loop data u1"
    using upload_step_inv [OF new_upload_inv u1(1)] by (simp add: at_loop_def)
  moreover have "length data - up_uploaded u1 \<le> (length data div chunkSize + 1) * chunkSize"
    using u1(3) div_mult_mod_eq [of "length data" chunkSize] mod_less_divisor [of chunkSize "length data"] by simp
  ultimately obtain k u2 where k: "k \<le> length data div chunkSize + 1"
    "upload_run (concat (replicate k quiet_round)) u1 = Some u2" "at_loop data u2" "up_uploaded u2 = length data"
    using quiet_rounds by blast
  then have "data_inv data u2" "up_pc u2 = ULoop" by (simp_all add: at_loop_def upload_inv_def)
  moreover have "upload_run (AStart # concat (replicate k quiet_round) @ [AComplete, ARemove]) ?u0 =
      upload_run [AComplete, ARemove] u2"
    by (simp only: upload_run.simps(2) upload_run_append u1(1) k(2) option.case)
  ultimately show ?thesis
    using k(1,4) by (intro exI [of _ k]) (simp add: end_upload_def finish_def data_inv_def)
qed

text \<open>
  a stale token undoes a pause. When \<open>Pause\<close> and \<open>Resume\<close> are called while the worker is
  between its checks, the resume token stays in the channel; the next successful \<open>Pause\<close> is
  then undone by the worker itself, which resumes and saves the next chunk although nobody
  called \<open>Resume\<close> again.
\<close>

theorem stale_resume_voids_pause:
  assumes "data \<noteq> []"
  shows "\<exists>u u'. upload_run [AStart, APause, ASignal, AResume, ASignal, APause, ASignal, ANoCancel]
      (new_upload tid msgID chatID data t0) = Some u \<and> tr_state (up_t u) = TransferPaused \<and>
    upload_run [ACheckPause, ATakeResume, ASetActive, ASaveOK] u = Some u' \<and>
    tr_state (up_t u') = TransferActive \<and> tr_done (up_t u') > tr_done (up_t u)"
proof -
  have "0 < length (chunk_at data 0)" using chunk_at_bounds [of 0 data] assms by simp
  with assms show ?thesis
    by (simp add: new_upload_def new_transfer_def api_mark_def pause_mark_def resume_mark_def token_def
        pause_signal_def resume_signal_def chan_offer_def make_chan_def take_token_def chan_recv_def Let_def)
qed

subsection \<open>Witnesses\<close>

abbreviation demo_upload :: upload where
  "demo_upload \<equiv> new_upload ''t1'' ''m1'' ''c1'' [1, 2, 3] 0"

theorem upload_progress_sound_witness:
  "0 \<le> tp_Percent (progress 5 (up_t demo_upload)) \<and> concat (map snd (up_saved demo_upload)) = []"
  using upload_progress_sound [where now = 5, OF upload_init [of demo_upload]]
  by (simp add: new_upload_def)

theorem upload_finished_stable_witness:
  "\<exists>u. upload_run [AStart, ANoCancel, ACheckPause, ASaveFail ''disk full''] demo_upload = Some u \<and>
     tr_state (up_t u) = TransferFailed \<and> upload_step ACancel u = None"
proof -
  obtain u where u: "upload_run [AStart, ANoCancel, ACheckPause, ASaveFail ''disk full''] demo_upload = Some u"
    "up_pc u = URemove" "tr_state (up_t u) = TransferFailed"
    by (simp add: new_upload_def new_transfer_def token_def end_upload_def finish_def)
  have "upload_reachable demo_upload u" by (rule upload_run_reachable [OF u(1) upload_init])
  from upload_finished_stable [OF this _ upload_init] u show ?thesis by auto
qed

theorem stale_resume_voids_pause_witness:
  "\<exists>u u'. upload_run [AStart, APause, ASignal, AResume, ASignal, APause, ASignal, ANoCancel] demo_upload = Some u \<and>
     tr_state (up_t u) = TransferPaused \<and>
     upload_run [ACheckPause, ATakeResume, ASetActive, ASaveOK] u = Some u' \<and> tr_state (up_t u') = TransferActive"
  using stale_resume_voids_pause [of "[1, 2, 3]" "''t1''" "''m1''" "''c1''" 0] by blast

end
