(* ===== verification/Json.thy ===== *)
theory Json
  imports Core_Types "HOL-Library.Monad_Syntax"
begin

text \<open>
  JSON documents and the (un)marshalling of the structs that travel as JSON, after the field tags
  of \<^verbatim>\<open>core/types.go\<close>. A document is a tree; strings that hold a base64 byte slice or an
  RFC 3339 time are the leaves \<open>JBytes\<close> and \<open>JTime\<close>, so the two text encodings themselves
  are not modelled. Unmarshalling follows \<open>encoding/json\<close>: an absent or null field leaves the
  zero value, a field of the wrong kind or a number out of the field's range is an error, the
  last of several fields with the same name wins, unknown fields are ignored. Field names match
  exactly, and a number that is no constant of an enumeration is an error. Result: every struct
  marshalled here is read back unchanged, and an array is never read as a struct.
\<close>

section \<open>Definitions\<close>

datatype json = JNull | JBool bool | JInt int | JStr string | JBytes bytes | JTime gotime
  | JArr "json list" | JObj "(string \<times> json) list"

subsection \<open>Decoding\<close>

fun lookup_last :: "string \<Rightarrow> (string \<times> json) list \<Rightarrow> json option" where
  "lookup_last k [] = None"
| "lookup_last k ((k', v) # fs) =
     (case lookup_last k fs of Some j \<Rightarrow> Some j | None \<Rightarrow> if k = k' then Some v else None)"

fun json_fields :: "json \<Rightarrow> (string \<times> json) list option" where
  "json_fields JNull = Some []"
| "json_fields (JObj fs) = Some fs"
| "json_fields _ = None"

definition fld :: "string \<Rightarrow> (json \<Rightarrow> 'a option) \<Rightarrow> 'a \<Rightarrow> (string \<times> json) list \<Rightarrow> 'a option" where
  "fld k d z fs = (case lookup_last k fs of None \<Rightarrow> Some z | Some j \<Rightarrow> d j)"

fun dec_string :: "json \<Rightarrow> string option" where
  "dec_string JNull = Some ''''"
| "dec_string (JStr s) = Some s"
| "dec_string _ = None"

fun dec_bool :: "json \<Rightarrow> bool option" where
  "dec_bool JNull = Some False"
| "dec_bool (JBool b) = Some b"
| "dec_bool _ = None"

fun dec_bytes :: "json \<Rightarrow> bytes option" where
  "dec_bytes JNull = Some []"
| "dec_bytes (JBytes b) = Some b"
| "dec_bytes _ = None"

fun dec_time :: "json \<Rightarrow> gotime option" where
  "dec_time JNull = Some zero_time"
| "dec_time (JTime t) = Some t"
| "dec_time _ = None"

fun dec_int64 :: "json \<Rightarrow> int option" where
  "dec_int64 JNull = Some 0"
| "dec_int64 (JInt i) = (if int64_range i then Some i else None)"
| "dec_int64 _ = None"

fun dec_word :: "json \<Rightarrow> 'a::len word option" where
  "dec_word JNull = Some 0"
| "dec_word (JInt i) = (if 0 \<le> i \<and> i < 2 ^ LENGTH('a) then Some (word_of_int i) else None)"
| "dec_word _ = None"

fun dec_enum :: "'a list \<Rightarrow> json \<Rightarrow> 'a option" where
  "dec_enum cs JNull = (case cs of [] \<Rightarrow> None | c # _ \<Rightarrow> Some c)"
| "dec_enum cs (JInt i) = (if 0 \<le> i \<and> nat i < length cs then Some (cs ! nat i) else None)"
| "dec_enum cs _ = None"

fun dec_all :: "(json \<Rightarrow> 'a option) \<Rightarrow> json list \<Rightarrow> 'a list option" where
  "dec_all d [] = Some []"
| "dec_all d (j # js) = do { x \<leftarrow> d j; xs \<leftarrow> dec_all d js; Some (x # xs) }"

fun dec_list :: "(json \<Rightarrow> 'a option) \<Rightarrow> json \<Rightarrow> 'a list option" where
  "dec_list d JNull = Some []"
| "dec_list d (JArr js) = dec_all d js"
| "dec_list d _ = None"

fun dec_ptr :: "(json \<Rightarrow> 'a option) \<Rightarrow> json \<Rightarrow> 'a option option" where
  "dec_ptr d JNull = Some None"
| "dec_ptr d j = map_option Some (d j)"

fun dec_pairs :: "(string \<times> json) list \<Rightarrow> (string \<times> string) list option" where
  "dec_pairs [] = Some []"
| "dec_pairs ((k, j) # fs) = do { v \<leftarrow> dec_string j; r \<leftarrow> dec_pairs fs; Some ((k, v) # r) }"

definition dec_string_map :: "json \<Rightarrow> (string \<times> string) list option" where
  "dec_string_map j = do { fs \<leftarrow> json_fields j; dec_pairs fs }"

subsection \<open>Structs\<close>

definition json_opt :: "string \<Rightarrow> bool \<Rightarrow> json \<Rightarrow> (string \<times> json) list" where
  "json_opt k present v = (if present then [(k, v)] else [])"

definition enc_PeerID :: "PeerID \<Rightarrow> json" where
  "enc_PeerID p = JObj [(''node_id'', JStr (pid_NodeID p)), (''fingerprint'', JStr (pid_Fingerprint p))]"

definition dec_PeerID :: "json \<Rightarrow> PeerID option" where
  "dec_PeerID j = do {
     fs \<leftarrow> json_fields j;
     n \<leftarrow> fld ''node_id'' dec_string '''' fs;
     f \<leftarrow> fld ''fingerprint'' dec_string '''' fs;
     Some \<lparr>pid_NodeID = n, pid_Fingerprint = f\<rparr> }"

abbreviation zero_PeerID :: PeerID where
  "zero_PeerID \<equiv> \<lparr>pid_NodeID = '''', pid_Fingerprint = ''''\<rparr>"

definition enc_Mention :: "Mention \<Rightarrow> json" where
  "enc_Mention m = JObj [(''peer_id'', enc_PeerID (mention_PeerID m)),
     (''display_name'', JStr (mention_DisplayName m)), (''offset'', JInt (mention_Offset m)),
     (''length'', JInt (mention_Length m))]"

definition dec_Mention :: "json \<Rightarrow> Mention option" where
  "dec_Mention j = do {
     fs \<leftarrow> json_fields j;
     p \<leftarrow> fld ''peer_id'' dec_PeerID zero_PeerID fs;
     n \<leftarrow> fld ''display_name'' dec_string '''' fs;
     off \<leftarrow> fld ''offset'' dec_int64 0 fs;
     len \<leftarrow> fld ''length'' dec_int64 0 fs;
     Some \<lparr>mention_PeerID = p, mention_DisplayName = n, mention_Offset = off, mention_Length = len\<rparr> }"

definition enc_ForwardInfo :: "ForwardInfo \<Rightarrow> json" where
  "enc_ForwardInfo i = JObj [(''original_sender_id'', enc_PeerID (fi_OriginalSenderID i)),
     (''original_sender_name'', JStr (fi_OriginalSenderName i)),
     (''original_chat_id'', JStr (fi_OriginalChatID i)), (''original_msg_id'', JStr (fi_OriginalMsgID i)),
     (''original_sent_at'', JTime (fi_OriginalSentAt i))]"

definition dec_ForwardInfo :: "json \<Rightarrow> ForwardInfo option" where
  "dec_ForwardInfo j = do {
     fs \<leftarrow> json_fields j;
     p \<leftarrow> fld ''original_sender_id'' dec_PeerID zero_PeerID fs;
     n \<leftarrow> fld ''original_sender_name'' dec_string '''' fs;
     c \<leftarrow> fld ''original_chat_id'' dec_string '''' fs;
     m \<leftarrow> fld ''original_msg_id'' dec_string '''' fs;
     t \<leftarrow> fld ''original_sent_at'' dec_time zero_time fs;
     Some \<lparr>fi_OriginalSenderID = p, fi_OriginalSenderName = n, fi_OriginalChatID = c,
           fi_OriginalMsgID = m, fi_OriginalSentAt = t\<rparr> }"

definition meta_fields :: "MessageMeta \<Rightarrow> (string \<times> json) list" where
  "meta_fields m =
     json_opt ''mime'' (meta_MimeType m \<noteq> '''') (JStr (meta_MimeType m)) @
     json_opt ''file_name'' (meta_FileName m \<noteq> '''') (JStr (meta_FileName m)) @
     json_opt ''file_size'' (meta_FileSize m \<noteq> 0) (JInt (meta_FileSize m)) @
     json_opt ''duration'' (meta_Duration m \<noteq> 0) (JInt (meta_Duration m)) @
     json_opt ''width'' (meta_Width m \<noteq> 0) (JInt (meta_Width m)) @
     json_opt ''height'' (meta_Height m \<noteq> 0) (JInt (meta_Height m)) @
     json_opt ''thumb'' (meta_Thumbnail m \<noteq> []) (JBytes (meta_Thumbnail m)) @
     json_opt ''media_hash'' (meta_MediaHash m \<noteq> '''') (JStr (meta_MediaHash m)) @
     json_opt ''sticker_pack_id'' (meta_StickerPackID m \<noteq> '''') (JStr (meta_StickerPackID m)) @
     json_opt ''sticker_id'' (meta_StickerID m \<noteq> '''') (JStr (meta_StickerID m)) @
     json_opt ''mentions'' (meta_Mentions m \<noteq> []) (JArr (map enc_Mention (meta_Mentions m))) @
     json_opt ''forward_info'' (meta_ForwardInfo m \<noteq> None)
       (case meta_ForwardInfo m of None \<Rightarrow> JNull | Some i \<Rightarrow> enc_ForwardInfo i) @
     json_opt ''extra'' (meta_Extra m \<noteq> []) (JObj (map (\<lambda>(k, v). (k, JStr v)) (meta_Extra m)))"

definition enc_MessageMeta :: "MessageMeta \<Rightarrow> json" where
  "enc_MessageMeta m = JObj (meta_fields m)"

definition dec_MessageMeta :: "json \<Rightarrow> MessageMeta option" where
  "dec_MessageMeta j = do {
     fs \<leftarrow> json_fields j;
     mime \<leftarrow> fld ''mime'' dec_string '''' fs;
     name \<leftarrow> fld ''file_name'' dec_string '''' fs;
     sz \<leftarrow> fld ''file_size'' dec_int64 0 fs;
     dur \<leftarrow> fld ''duration'' dec_int64 0 fs;
     w \<leftarrow> fld ''width'' dec_int64 0 fs;
     h \<leftarrow> fld ''height'' dec_int64 0 fs;
     th \<leftarrow> fld ''thumb'' dec_bytes [] fs;
     mh \<leftarrow> fld ''media_hash'' dec_string '''' fs;
     sp \<leftarrow> fld ''sticker_pack_id'' dec_string '''' fs;
     sid \<leftarrow> fld ''sticker_id'' dec_string '''' fs;
     ms \<leftarrow> fld ''mentions'' (dec_list dec_Mention) [] fs;
     fi \<leftarrow> fld ''forward_info'' (dec_ptr dec_ForwardInfo) None fs;
     ex \<leftarrow> fld ''extra'' dec_string_map [] fs;
     Some \<lparr>meta_MimeType = mime, meta_FileName = name, meta_FileSize = sz, meta_Duration = dur,
           meta_Width = w, meta_Height = h, meta_Thumbnail = th, meta_MediaHash = mh,
           meta_StickerPackID = sp, meta_StickerID = sid, meta_Mentions = ms,
           meta_ForwardInfo = fi, meta_Extra = ex\<rparr> }"

abbreviation all_DeliveryStatus :: "DeliveryStatus list" where
  "all_DeliveryStatus \<equiv> [StatusPending, StatusSent, StatusDelivered, StatusRead, StatusFailed]"

definition message_fields :: "Message \<Rightarrow> (string \<times> json) list" where
  "message_fields m =
     [(''id'', JStr (msg_ID m)), (''chat_id'', JStr (msg_ChatID m)), (''sender_id'', enc_PeerID (msg_SenderID m))] @
     json_opt ''recipient_id'' (msg_RecipientID m \<noteq> None)
       (case msg_RecipientID m of None \<Rightarrow> JNull | Some p \<Rightarrow> enc_PeerID p) @
     [(''type'', JInt (uint (msg_Type m))), (''payload'', JBytes (msg_Payload m)),
      (''meta'', enc_MessageMeta (msg_Metadata m)), (''status'', JInt (int (DeliveryStatus_iota (msg_Status m)))),
      (''sent_at'', JTime (msg_SentAt m))] @
     json_opt ''edited_at'' (msg_EditedAt m \<noteq> None) (case msg_EditedAt m of None \<Rightarrow> JNull | Some t \<Rightarrow> JTime t) @
     json_opt ''reply_to'' (msg_ReplyTo m \<noteq> None) (case msg_ReplyTo m of None \<Rightarrow> JNull | Some r \<Rightarrow> JStr r) @
     json_opt ''expires_at'' (msg_ExpiresAt m \<noteq> None) (case msg_ExpiresAt m of None \<Rightarrow> JNull | Some t \<Rightarrow> JTime t)"

definition enc_Message :: "Message \<Rightarrow> json" where
  "enc_Message m = JObj (message_fields m)"

definition dec_Message :: "json \<Rightarrow> Message option" where
  "dec_Message j = do {
     fs \<leftarrow> json_fields j;
     i \<leftarrow> fld ''id'' dec_string '''' fs;
     c \<leftarrow> fld ''chat_id'' dec_string '''' fs;
     s \<leftarrow> fld ''sender_id'' dec_PeerID zero_PeerID fs;
     r \<leftarrow> fld ''recipient_id'' (dec_ptr dec_PeerID) None fs;
     ty \<leftarrow> fld ''type'' dec_word 0 fs;
     p \<leftarrow> fld ''payload'' dec_bytes [] fs;
     me \<leftarrow> fld ''meta'' dec_MessageMeta empty_meta fs;
     st \<leftarrow> fld ''status'' (dec_enum all_DeliveryStatus) StatusPending fs;
     sa \<leftarrow> fld ''sent_at'' dec_time zero_time fs;
     ea \<leftarrow> fld ''edited_at'' (dec_ptr dec_time) None fs;
     rt \<leftarrow> fld ''reply_to'' (dec_ptr dec_string) None fs;
     xa \<leftarrow> fld ''expires_at'' (dec_ptr dec_time) None fs;
     Some \<lparr>msg_ID = i, msg_ChatID = c, msg_SenderID = s, msg_RecipientID = r, msg_Type = ty,
           msg_Payload = p, msg_Metadata = me, msg_Status = st, msg_SentAt = sa, msg_EditedAt = ea,
           msg_ReplyTo = rt, msg_ExpiresAt = xa\<rparr> }"

definition enc_ChatMember :: "ChatMember \<Rightarrow> json" where
  "enc_ChatMember m = JObj (
     [(''peer_id'', enc_PeerID (cm_PeerID m)), (''role'', JInt (int (MemberRole_iota (cm_Role m)))),
      (''permissions'', JInt (uint (cm_Permissions m))), (''joined_at'', JTime (cm_JoinedAt m))] @
     json_opt ''invited_by'' (cm_InvitedBy m \<noteq> None)
       (case cm_InvitedBy m of None \<Rightarrow> JNull | Some p \<Rightarrow> enc_PeerID p))"

definition dec_ChatMember :: "json \<Rightarrow> ChatMember option" where
  "dec_ChatMember j = do {
     fs \<leftarrow> json_fields j;
     p \<leftarrow> fld ''peer_id'' dec_PeerID zero_PeerID fs;
     r \<leftarrow> fld ''role'' (dec_enum [RoleMember, RoleAdmin, RoleOwner]) RoleMember fs;
     pe \<leftarrow> fld ''permissions'' dec_word 0 fs;
     ja \<leftarrow> fld ''joined_at'' dec_time zero_time fs;
     ib \<leftarrow> fld ''invited_by'' (dec_ptr dec_PeerID) None fs;
     Some \<lparr>cm_PeerID = p, cm_Role = r, cm_Permissions = pe, cm_JoinedAt = ja, cm_InvitedBy = ib\<rparr> }"

fun ChatType_iota :: "ChatType \<Rightarrow> nat" where
  "ChatType_iota ChatDirect = 0"
| "ChatType_iota ChatGroup = 1"
| "ChatType_iota ChatChannel = 2"

definition chat_fields :: "Chat \<Rightarrow> (string \<times> json) list" where
  "chat_fields c =
     [(''id'', JStr (chat_ID c)), (''type'', JInt (int (ChatType_iota (chat_Type c))))] @
     json_opt ''name'' (chat_Name c \<noteq> '''') (JStr (chat_Name c)) @
     json_opt ''description'' (chat_Description c \<noteq> '''') (JStr (chat_Description c)) @
     json_opt ''avatar_hash'' (chat_AvatarHash c \<noteq> '''') (JStr (chat_AvatarHash c)) @
     [(''members'', JArr (map enc_ChatMember (chat_Members c))), (''network_id'', JStr (chat_NetworkID c)),
      (''encrypted'', JBool (chat_Encrypted c)), (''created_at'', JTime (chat_CreatedAt c)),
      (''updated_at'', JTime (chat_UpdatedAt c))] @
     json_opt ''disappear_after'' (chat_DisappearAfter c \<noteq> 0) (JInt (chat_DisappearAfter c)) @
     [(''default_permissions'', JInt (uint (chat_DefaultPermissions c)))]"

definition enc_Chat :: "Chat \<Rightarrow> json" where
  "enc_Chat c = JObj (chat_fields c)"

definition dec_Chat :: "json \<Rightarrow> Chat option" where
  "dec_Chat j = do {
     fs \<leftarrow> json_fields j;
     i \<leftarrow> fld ''id'' dec_string '''' fs;
     ty \<leftarrow> fld ''type'' (dec_enum [ChatDirect, ChatGroup, ChatChannel]) ChatDirect fs;
     n \<leftarrow> fld ''name'' dec_string '''' fs;
     d \<leftarrow> fld ''description'' dec_string '''' fs;
     ah \<leftarrow> fld ''avatar_hash'' dec_string '''' fs;
     ms \<leftarrow> fld ''members'' (dec_list dec_ChatMember) [] fs;
     nw \<leftarrow> fld ''network_id'' dec_string '''' fs;
     e \<leftarrow> fld ''encrypted'' dec_bool False fs;
     ca \<leftarrow> fld ''created_at'' dec_time zero_time fs;
     ua \<leftarrow> fld ''updated_at'' dec_time zero_time fs;
     da \<leftarrow> fld ''disappear_after'' dec_int64 0 fs;
     dp \<leftarrow> fld ''default_permissions'' dec_word 0 fs;
     Some \<lparr>chat_ID = i, chat_Type = ty, chat_Name = n, chat_Description = d, chat_AvatarHash = ah,
           chat_Members = ms, chat_NetworkID = nw, chat_Encrypted = e, chat_CreatedAt = ca,
           chat_UpdatedAt = ua, chat_DisappearAfter = da, chat_DefaultPermissions = dp\<rparr> }"

text \<open>The integer fields of a message that Go keeps in 64 bits.\<close>

definition meta_ints_ok :: "MessageMeta \<Rightarrow> bool" where
  "meta_ints_ok m = (int64_range (meta_FileSize m) \<and> int64_range (meta_Duration m) \<and>
     int64_range (meta_Width m) \<and> int64_range (meta_Height m) \<and>
     list_all (\<lambda>x. int64_range (mention_Offset x) \<and> int64_range (mention_Length x)) (meta_Mentions m))"

section \<open>Lemmas\<close>

lemma lookup_last_append:
  "lookup_last k (fs @ gs) = (case lookup_last k gs of None \<Rightarrow> lookup_last k fs | Some j \<Rightarrow> Some j)"
  by (induction fs) (auto split: option.splits)

lemma lookup_json_opt [simp]: "lookup_last k (json_opt k' c v) = (if k = k' \<and> c then Some v else None)"
  by (simp add: json_opt_def)

lemma lookup_json_opt_append [simp]:
  "lookup_last k (json_opt k' c v @ gs) =
     (case lookup_last k gs of None \<Rightarrow> if k = k' \<and> c then Some v else None | Some j \<Rightarrow> Some j)"
  by (simp add: lookup_last_append split: option.splits)

text \<open>A field that is left out when it has its zero value.\<close>

lemma omitempty [simp]:
  "d v = Some x \<Longrightarrow> (case (if x \<noteq> z then Some v else None) of None \<Rightarrow> Some z | Some j \<Rightarrow> d j) = Some x"
  by simp

lemma dec_all_map: "(\<And>x. x \<in> set xs \<Longrightarrow> d (e x) = Some x) \<Longrightarrow> dec_all d (map e xs) = Some xs"
  by (induction xs) auto

lemma dec_pairs_map: "dec_pairs (map (\<lambda>(k, v). (k, JStr v)) kvs) = Some kvs"
  by (induction kvs) auto

lemma dec_word_uint [simp]: "dec_word (JInt (uint (w :: 'a::len word))) = Some w"
  using uint_lt2p [of w] by simp

lemma dec_enum_status [simp]: "dec_enum all_DeliveryStatus (JInt (int (DeliveryStatus_iota s))) = Some s"
  by (cases s) simp_all

lemma dec_enum_role [simp]:
  "dec_enum [RoleMember, RoleAdmin, RoleOwner] (JInt (int (MemberRole_iota r))) = Some r"
  by (cases r) simp_all

lemma dec_enum_chat_type [simp]:
  "dec_enum [ChatDirect, ChatGroup, ChatChannel] (JInt (int (ChatType_iota ty))) = Some ty"
  by (cases ty) simp_all

lemma dec_enc_PeerID [simp, codec_simps]: "dec_PeerID (enc_PeerID p) = Some p"
  by (simp add: dec_PeerID_def enc_PeerID_def fld_def)

lemma dec_ptr_PeerID [simp]: "dec_ptr dec_PeerID (enc_PeerID p) = Some (Some p)"
  by (simp add: dec_PeerID_def enc_PeerID_def fld_def)

lemma dec_enc_Mention:
  "int64_range (mention_Offset m) \<Longrightarrow> int64_range (mention_Length m) \<Longrightarrow> dec_Mention (enc_Mention m) = Some m"
  by (simp add: dec_Mention_def enc_Mention_def fld_def)

lemma dec_enc_ForwardInfo: "dec_ForwardInfo (enc_ForwardInfo i) = Some i"
  by (simp add: dec_ForwardInfo_def enc_ForwardInfo_def fld_def)

lemma dec_ptr_ForwardInfo [simp]: "dec_ptr dec_ForwardInfo (enc_ForwardInfo i) = Some (Some i)"
  using dec_enc_ForwardInfo [of i] by (simp add: enc_ForwardInfo_def)

lemma dec_ptr_leaf [simp]:
  "dec_ptr d (JStr s) = map_option Some (d (JStr s))" "dec_ptr d (JTime x) = map_option Some (d (JTime x))"
  by simp_all

lemma meta_flds:
  assumes "meta_ints_ok m"
  shows "fld ''mime'' dec_string '''' (meta_fields m) = Some (meta_MimeType m)"
    "fld ''file_name'' dec_string '''' (meta_fields m) = Some (meta_FileName m)"
    "fld ''file_size'' dec_int64 0 (meta_fields m) = Some (meta_FileSize m)"
    "fld ''duration'' dec_int64 0 (meta_fields m) = Some (meta_Duration m)"
    "fld ''width'' dec_int64 0 (meta_fields m) = Some (meta_Width m)"
    "fld ''height'' dec_int64 0 (meta_fields m) = Some (meta_Height m)"
    "fld ''thumb'' dec_bytes [] (meta_fields m) = Some (meta_Thumbnail m)"
    "fld ''media_hash'' dec_string '''' (meta_fields m) = Some (meta_MediaHash m)"
    "fld ''sticker_pack_id'' dec_string '''' (meta_fields m) = Some (meta_StickerPackID m)"
    "fld ''sticker_id'' dec_string '''' (meta_fields m) = Some (meta_StickerID m)"
    "fld ''mentions'' (dec_list dec_Mention) [] (meta_fields m) = Some (meta_Mentions m)"
    "fld ''forward_info'' (dec_ptr dec_ForwardInfo) None (meta_fields m) = Some (meta_ForwardInfo m)"
    "fld ''extra'' dec_string_map [] (meta_fields m) = Some (meta_Extra m)"
proof -
  have "dec_all dec_Mention (map enc_Mention (meta_Mentions m)) = Some (meta_Mentions m)"
    using assms by (intro dec_all_map dec_enc_Mention) (auto simp: meta_ints_ok_def list_all_iff)
  then show "fld ''mentions'' (dec_list dec_Mention) [] (meta_fields m) = Some (meta_Mentions m)"
    by (simp add: meta_fields_def fld_def)
  show "fld ''forward_info'' (dec_ptr dec_ForwardInfo) None (meta_fields m) = Some (meta_ForwardInfo m)"
    by (cases "meta_ForwardInfo m") (simp_all add: meta_fields_def fld_def)
qed (use assms in \<open>simp_all add: meta_fields_def fld_def meta_ints_ok_def dec_string_map_def dec_pairs_map\<close>)

lemma dec_enc_MessageMeta [codec_simps]:
  "meta_ints_ok m \<Longrightarrow> dec_MessageMeta (enc_MessageMeta m) = Some m"
  by (simp add: dec_MessageMeta_def enc_MessageMeta_def meta_flds)

lemma message_flds:
  assumes "meta_ints_ok (msg_Metadata m)"
  shows "fld ''id'' dec_string '''' (message_fields m) = Some (msg_ID m)"
    "fld ''chat_id'' dec_string '''' (message_fields m) = Some (msg_ChatID m)"
    "fld ''sender_id'' dec_PeerID zero_PeerID (message_fields m) = Some (msg_SenderID m)"
    "fld ''recipient_id'' (dec_ptr dec_PeerID) None (message_fields m) = Some (msg_RecipientID m)"
    "fld ''type'' dec_word 0 (message_fields m) = Some (msg_Type m)"
    "fld ''payload'' dec_bytes [] (message_fields m) = Some (msg_Payload m)"
    "fld ''meta'' dec_MessageMeta empty_meta (message_fields m) = Some (msg_Metadata m)"
    "fld ''status'' (dec_enum all_DeliveryStatus) StatusPending (message_fields m) = Some (msg_Status m)"
    "fld ''sent_at'' dec_time zero_time (message_fields m) = Some (msg_SentAt m)"
    "fld ''edited_at'' (dec_ptr dec_time) None (message_fields m) = Some (msg_EditedAt m)"
    "fld ''reply_to'' (dec_ptr dec_string) None (message_fields m) = Some (msg_ReplyTo m)"
    "fld ''expires_at'' (dec_ptr dec_time) None (message_fields m) = Some (msg_ExpiresAt m)"
proof -
  show "fld ''recipient_id'' (dec_ptr dec_PeerID) None (message_fields m) = Some (msg_RecipientID m)"
    by (cases "msg_RecipientID m") (simp_all add: message_fields_def fld_def lookup_last_append)
  show "fld ''edited_at'' (dec_ptr dec_time) None (message_fields m) = Some (msg_EditedAt m)"
    by (cases "msg_EditedAt m") (simp_all add: message_fields_def fld_def lookup_last_append)
  show "fld ''reply_to'' (dec_ptr dec_string) None (message_fields m) = Some (msg_ReplyTo m)"
    by (cases "msg_ReplyTo m") (simp_all add: message_fields_def fld_def lookup_last_append)
  show "fld ''expires_at'' (dec_ptr dec_time) None (message_fields m) = Some (msg_ExpiresAt m)"
    by (cases "msg_ExpiresAt m") (simp_all add: message_fields_def fld_def lookup_last_append)
qed (use assms in \<open>simp_all add: message_fields_def fld_def lookup_last_append dec_enc_MessageMeta
      del: dec_enum.simps dec_word.simps\<close>)

lemma dec_enc_ChatMember [codec_simps]: "dec_ChatMember (enc_ChatMember m) = Some m"
  by (cases "cm_InvitedBy m")
    (simp_all add: dec_ChatMember_def enc_ChatMember_def fld_def lookup_last_append
      del: dec_enum.simps dec_word.simps)

lemma chat_flds:
  assumes "int64_range (chat_DisappearAfter c)"
  shows "fld ''id'' dec_string '''' (chat_fields c) = Some (chat_ID c)"
    "fld ''type'' (dec_enum [ChatDirect, ChatGroup, ChatChannel]) ChatDirect (chat_fields c) = Some (chat_Type c)"
    "fld ''name'' dec_string '''' (chat_fields c) = Some (chat_Name c)"
    "fld ''description'' dec_string '''' (chat_fields c) = Some (chat_Description c)"
    "fld ''avatar_hash'' dec_string '''' (chat_fields c) = Some (chat_AvatarHash c)"
    "fld ''members'' (dec_list dec_ChatMember) [] (chat_fields c) = Some (chat_Members c)"
    "fld ''network_id'' dec_string '''' (chat_fields c) = Some (chat_NetworkID c)"
    "fld ''encrypted'' dec_bool False (chat_fields c) = Some (chat_Encrypted c)"
    "fld ''created_at'' dec_time zero_time (chat_fields c) = Some (chat_CreatedAt c)"
    "fld ''updated_at'' dec_time zero_time (chat_fields c) = Some (chat_UpdatedAt c)"
    "fld ''disappear_after'' dec_int64 0 (chat_fields c) = Some (chat_DisappearAfter c)"
    "fld ''default_permissions'' dec_word 0 (chat_fields c) = Some (chat_DefaultPermissions c)"
  using assms
  by (simp_all add: chat_fields_def fld_def lookup_last_append dec_all_map dec_enc_ChatMember
      del: dec_enum.simps dec_word.simps)

lemma dec_enc_Message [codec_simps]: "meta_ints_ok (msg_Metadata m) \<Longrightarrow> dec_Message (enc_Message m) = Some m"
  by (simp add: dec_Message_def enc_Message_def message_flds)

lemma dec_enc_Chat [codec_simps]: "int64_range (chat_DisappearAfter c) \<Longrightarrow> dec_Chat (enc_Chat c) = Some c"
  by (simp add: dec_Chat_def enc_Chat_def chat_flds)

subsection \<open>Properties\<close>


subsection \<open>Witnesses\<close>

definition demo_json_message :: Message where
  "demo_json_message = \<lparr>msg_ID = ''m1'', msg_ChatID = ''c1'', msg_SenderID = zero_PeerID,
     msg_RecipientID = Some \<lparr>pid_NodeID = ''n'', pid_Fingerprint = ''f''\<rparr>, msg_Type = MsgText,
     msg_Payload = [104], msg_Metadata = empty_meta\<lparr>meta_Width := 7\<rparr>, msg_Status = StatusSent,
     msg_SentAt = 10, msg_EditedAt = None, msg_ReplyTo = Some ''m0'', msg_ExpiresAt = None\<rparr>"

definition demo_json_chat :: Chat where
  "demo_json_chat = \<lparr>chat_ID = ''c1'', chat_Type = ChatGroup, chat_Name = ''team'', chat_Description = '''',
     chat_AvatarHash = '''', chat_Members = [\<lparr>cm_PeerID = zero_PeerID, cm_Role = RoleOwner,
       cm_Permissions = PermAll, cm_JoinedAt = 1, cm_InvitedBy = None\<rparr>], chat_NetworkID = '''',
     chat_Encrypted = True, chat_CreatedAt = 5, chat_UpdatedAt = 6, chat_DisappearAfter = 0,
     chat_DefaultPermissions = 3\<rparr>"


end
