(* ===== verification/Relay_Server.thy ===== *)
theory Relay_Server
  imports Json
begin

text \<open>
  The relay server of \<^verbatim>\<open>server/server.go\<close>. The server state is a record: the database tables,
  the connection objects (a store indexed by connection ID, because a \<open>client\<close> is shared by the
  registry and the pumps), the registry \<open>clients\<close> from peer IDs to lists of connections, and the
  presence map. Each frame handler is one state transformer; what it sends is offered to the
  256-slot channel of the connection. SHA-256, HMAC, the clock and the random salt are arguments.
  Registration, login, authentication, relay with fan-out, offline delivery, sync, handshake
  forwarding, the HTTP endpoints, the media endpoint and the two background ticks are modelled.
  \<open>ToLower\<close> and \<open>TrimSpace\<close> are modelled on ASCII text.

  Results: no frame but auth, register and login does anything on a connection that is not
  authenticated; accounts have unique, valid names and can log in with their password; the
  token handed out authenticates; a relayed message is stored once and reaches the recipient on
  the next authentication, in order; a message delivered online is delivered again later; a
  connection that authenticates under a second identity stays registered under the first.
\<close>

section \<open>Definitions\<close>

subsection \<open>State\<close>

record ServerConfig =
  sc_MaxMsgAgeDays :: int
  sc_MaxMediaSizeMB :: int
  sc_TokenSecret :: string

record UserAccount =
  ua_Username :: string
  ua_PasswordHash :: string
  ua_Salt :: string
  ua_Nickname :: string
  ua_Bio :: string
  ua_AvatarPath :: string
  ua_NodeID :: string
  ua_Fingerprint :: string
  ua_CreatedAt :: gotime
  ua_LastLogin :: gotime

record srv_message =
  sm_id :: string
  sm_chat_id :: string
  sm_sender_peer_id :: string
  sm_recipient_peer_id :: string
  sm_sent_at :: int
  sm_payload :: json
  sm_delivered :: int

record srv_chat =
  sch_id :: string
  sch_payload :: json
  sch_updated_at :: int

type_synonym frame = "json option RelayFrame"

record client =
  cl_id :: string
  cl_peerID :: PeerID
  cl_sendCh :: "frame chan"
  cl_authed :: bool
  cl_username :: string

record Server =
  srv_cfg :: ServerConfig
  srv_users :: "UserAccount list"
  srv_messages :: "srv_message list"
  srv_chats :: "srv_chat list"
  srv_conns :: "string \<Rightarrow> client option"
  srv_clients :: "(string \<times> string list) list"
  srv_presence :: "string \<Rightarrow> gotime option"
  srv_media :: "string \<Rightarrow> bytes option"

text \<open>The hash functions of the standard library the server calls.\<close>

record hashes =
  sum256 :: "bytes \<Rightarrow> bytes"
  hmac256 :: "bytes \<Rightarrow> bytes \<Rightarrow> bytes"

definition NewServer :: "ServerConfig \<Rightarrow> Server" where
  "NewServer cfg = \<lparr>srv_cfg = cfg, srv_users = [], srv_messages = [], srv_chats = [],
     srv_conns = (\<lambda>_. None), srv_clients = [], srv_presence = (\<lambda>_. None), srv_media = (\<lambda>_. None)\<rparr>"

subsection \<open>Sending\<close>

definition mk_frame :: "RelayCommand \<Rightarrow> json option \<Rightarrow> int \<Rightarrow> frame" where
  "mk_frame cmd payload ts = \<lparr>rf_Cmd = cmd, rf_ID = '''', rf_PeerID = '''', rf_Payload = payload, rf_Timestamp = ts\<rparr>"

definition errFrame :: "gotime \<Rightarrow> string \<Rightarrow> frame" where
  "errFrame now msg = mk_frame CmdError (Some (JStr msg)) (UnixNano now)"

definition jsonMsg :: "(string \<times> string) list \<Rightarrow> json" where
  "jsonMsg kvs = JObj (map (\<lambda>(k, v). (k, JStr v)) kvs)"

definition client_send :: "string \<Rightarrow> frame \<Rightarrow> Server \<Rightarrow> Server" where
  "client_send cid f s =
     (case srv_conns s cid of
        None \<Rightarrow> s
      | Some c \<Rightarrow> s\<lparr>srv_conns := (srv_conns s)(cid \<mapsto> c\<lparr>cl_sendCh := chan_offer f (cl_sendCh c)\<rparr>)\<rparr>)"

definition deliverTo :: "PeerID \<Rightarrow> frame \<Rightarrow> Server \<Rightarrow> Server" where
  "deliverTo peer f s =
     (case map_of (srv_clients s) (PeerID_String peer) of
        None \<Rightarrow> s
      | Some cids \<Rightarrow> fold (\<lambda>cid. client_send cid f) cids s)"

subsection \<open>Registry\<close>

definition handleWSUpgrade :: "string \<Rightarrow> Server \<Rightarrow> Server" where
  "handleWSUpgrade uuid s =
     s\<lparr>srv_conns := (srv_conns s)(uuid \<mapsto>
         \<lparr>cl_id = uuid, cl_peerID = zero_PeerID, cl_sendCh = make_chan 256, cl_authed = False,
          cl_username = ''''\<rparr>)\<rparr>"

definition register :: "client \<Rightarrow> Server \<Rightarrow> Server" where
  "register c s =
     (let key = PeerID_String (cl_peerID c) in
      case map_of (srv_clients s) key of
        None \<Rightarrow> s\<lparr>srv_clients := AList.update key [cl_id c] (srv_clients s)\<rparr>
      | Some conns \<Rightarrow>
          if cl_id c \<in> set conns then s
          else s\<lparr>srv_clients := AList.update key (conns @ [cl_id c]) (srv_clients s)\<rparr>)"

definition unregister :: "gotime \<Rightarrow> client \<Rightarrow> Server \<Rightarrow> Server" where
  "unregister now c s =
     (let key = PeerID_String (cl_peerID c) in
      case map_of (srv_clients s) key of
        None \<Rightarrow> s
      | Some conns \<Rightarrow>
          let filtered = filter (\<lambda>cid. cid \<noteq> cl_id c) conns in
          if filtered = []
          then s\<lparr>srv_clients := AList.delete key (srv_clients s),
                 srv_presence := (srv_presence s)(key \<mapsto> now)\<rparr>
          else s\<lparr>srv_clients := AList.update key filtered (srv_clients s)\<rparr>)"

subsection \<open>Accounts\<close>

definition getUserByUsername :: "Server \<Rightarrow> string \<Rightarrow> UserAccount option" where
  "getUserByUsername s username = find_row ua_Username username (srv_users s)"

definition generateToken :: "hashes \<Rightarrow> ServerConfig \<Rightarrow> UserAccount \<Rightarrow> string" where
  "generateToken hs cfg user =
     (let data = ua_Username user @ '':'' @ Sprintf_d (UnixNano (ua_CreatedAt user)) @ '':'' @ sc_TokenSecret cfg
      in hex_EncodeToString (hmac256 hs (string_bytes (sc_TokenSecret cfg)) (string_bytes data)))"

definition validateToken :: "hashes \<Rightarrow> ServerConfig \<Rightarrow> UserAccount \<Rightarrow> string \<Rightarrow> bool" where
  "validateToken hs cfg user token = (generateToken hs cfg user = token)"

definition hashPassword :: "hashes \<Rightarrow> bytes \<Rightarrow> string \<Rightarrow> string \<times> string" where
  "hashPassword hs saltBytes password =
     (let salt = hex_EncodeToString saltBytes in
      (hex_EncodeToString (sum256 hs (string_bytes (salt @ password))), salt))"

definition checkPassword :: "hashes \<Rightarrow> string \<Rightarrow> string \<Rightarrow> string \<Rightarrow> bool" where
  "checkPassword hs storedHash salt password =
     (storedHash = hex_EncodeToString (sum256 hs (string_bytes (salt @ password))))"

definition username_char :: "char \<Rightarrow> bool" where
  "username_char r = (let n = (of_char r :: nat) in
     97 \<le> n \<and> n \<le> 122 \<or> 48 \<le> n \<and> n \<le> 57 \<or> n = 95)"

definition isValidUsername :: "string \<Rightarrow> bool" where
  "isValidUsername username =
     (if length username < 3 \<or> length username > 32 then False
      else list_all username_char username)"

record register_req =
  rq_Username :: string
  rq_Password :: string
  rq_Nickname :: string
  rq_Bio :: string
  rq_AvatarPath :: string

definition dec_register :: "json \<Rightarrow> register_req option" where
  "dec_register j = do {
     fs \<leftarrow> json_fields j;
     u \<leftarrow> fld ''username'' dec_string '''' fs;
     p \<leftarrow> fld ''password'' dec_string '''' fs;
     n \<leftarrow> fld ''nickname'' dec_string '''' fs;
     b \<leftarrow> fld ''bio'' dec_string '''' fs;
     a \<leftarrow> fld ''avatar_path'' dec_string '''' fs;
     Some \<lparr>rq_Username = u, rq_Password = p, rq_Nickname = n, rq_Bio = b, rq_AvatarPath = a\<rparr> }"

definition dec_login :: "json \<Rightarrow> (string \<times> string) option" where
  "dec_login j = do {
     fs \<leftarrow> json_fields j;
     u \<leftarrow> fld ''username'' dec_string '''' fs;
     p \<leftarrow> fld ''password'' dec_string '''' fs;
     Some (u, p) }"

text \<open>Unmarshalling the payload of a frame; an absent payload is an error.\<close>

definition unmarshal :: "(json \<Rightarrow> 'a option) \<Rightarrow> json option \<Rightarrow> 'a option" where
  "unmarshal d payload = (case payload of None \<Rightarrow> None | Some j \<Rightarrow> d j)"

definition new_user :: "hashes \<Rightarrow> gotime \<Rightarrow> bytes \<Rightarrow> string \<Rightarrow> register_req \<Rightarrow> UserAccount" where
  "new_user hs now rnd name req =
     (let (hash, salt) = hashPassword hs rnd (rq_Password req) in
      \<lparr>ua_Username = name, ua_PasswordHash = hash, ua_Salt = salt, ua_Nickname = rq_Nickname req,
       ua_Bio = rq_Bio req, ua_AvatarPath = rq_AvatarPath req, ua_NodeID = '''', ua_Fingerprint = '''',
       ua_CreatedAt = UnixNano now, ua_LastLogin = UnixNano now\<rparr>)"

text \<open>\<open>INSERT INTO users\<close>: fails on a duplicate primary key.\<close>

definition insert_user :: "UserAccount \<Rightarrow> Server \<Rightarrow> Server option" where
  "insert_user u s =
     (if getUserByUsername s (ua_Username u) \<noteq> None then None else Some (s\<lparr>srv_users := srv_users s @ [u]\<rparr>))"

definition update_user :: "string \<Rightarrow> (UserAccount \<Rightarrow> UserAccount) \<Rightarrow> Server \<Rightarrow> Server" where
  "update_user name f s = s\<lparr>srv_users := update_where (\<lambda>u. ua_Username u = name) f (srv_users s)\<rparr>"

definition handleRegister :: "hashes \<Rightarrow> gotime \<Rightarrow> bytes \<Rightarrow> string \<Rightarrow> frame \<Rightarrow> Server \<Rightarrow> Server" where
  "handleRegister hs now rnd cid f s =
     (case unmarshal dec_register (rf_Payload f) of
        None \<Rightarrow> client_send cid (errFrame now ''invalid register payload'') s
      | Some req \<Rightarrow>
          let name = TrimSpace (ToLower (rq_Username req)) in
          if \<not> isValidUsername name
          then client_send cid (errFrame now ''invalid username: use 3-32 english letters, digits, underscores'') s
          else if length (rq_Password req) < 4
          then client_send cid (errFrame now ''password must be at least 4 characters'') s
          else if getUserByUsername s name \<noteq> None
          then client_send cid (errFrame now ''username already taken'') s
          else let user = new_user hs now rnd name req in
            case insert_user user s of
              None \<Rightarrow> client_send cid (errFrame now ''registration failed'') s
            | Some s' \<Rightarrow>
                client_send cid (mk_frame CmdAuthOK (Some (jsonMsg
                  [(''ok'', ''true''), (''message'', ''registered''),
                   (''token'', generateToken hs (srv_cfg s) user), (''username'', name)])) (UnixNano now)) s')"

definition handleLogin :: "hashes \<Rightarrow> gotime \<Rightarrow> string \<Rightarrow> frame \<Rightarrow> Server \<Rightarrow> Server" where
  "handleLogin hs now cid f s =
     (case unmarshal dec_login (rf_Payload f) of
        None \<Rightarrow> client_send cid (errFrame now ''invalid login payload'') s
      | Some (u, p) \<Rightarrow>
          let name = TrimSpace (ToLower u) in
          case getUserByUsername s name of
            None \<Rightarrow> client_send cid (errFrame now ''invalid username or password'') s
          | Some user \<Rightarrow>
              if \<not> checkPassword hs (ua_PasswordHash user) (ua_Salt user) p
              then client_send cid (errFrame now ''invalid username or password'') s
              else client_send cid (mk_frame CmdAuthOK (Some (jsonMsg
                     [(''ok'', ''true''), (''message'', ''logged in''),
                      (''token'', generateToken hs (srv_cfg s) user), (''username'', ua_Username user),
                      (''nickname'', ua_Nickname user), (''bio'', ua_Bio user),
                      (''avatar_path'', ua_AvatarPath user)])) (UnixNano now))
                     (update_user name (\<lambda>x. x\<lparr>ua_LastLogin := UnixNano now\<rparr>) s))"

subsection \<open>Authentication and offline delivery\<close>

record AuthPayloadWithUser = AuthPayload +
  ap_Username :: string
  ap_Token :: string

definition dec_auth :: "json \<Rightarrow> AuthPayloadWithUser option" where
  "dec_auth j = do {
     fs \<leftarrow> json_fields j;
     n \<leftarrow> fld ''node_id'' dec_string '''' fs;
     f \<leftarrow> fld ''fingerprint'' dec_string '''' fs;
     sp \<leftarrow> fld ''sign_pub'' dec_bytes [] fs;
     sg \<leftarrow> fld ''sig'' dec_bytes [] fs;
     ts \<leftarrow> fld ''ts'' dec_int64 0 fs;
     u \<leftarrow> fld ''username'' dec_string '''' fs;
     t \<leftarrow> fld ''token'' dec_string '''' fs;
     Some \<lparr>ap_NodeID = n, ap_Fingerprint = f, ap_SignPub = sp, ap_Signature = sg, ap_Timestamp = ts,
           ap_Username = u, ap_Token = t\<rparr> }"

definition offline_rows :: "Server \<Rightarrow> string \<Rightarrow> srv_message list" where
  "offline_rows s peer =
     take 200 (order_by_asc sm_sent_at
       (filter (\<lambda>r. sm_recipient_peer_id r = peer \<and> sm_delivered r = 0) (srv_messages s)))"

definition mark_delivered :: "string \<Rightarrow> Server \<Rightarrow> Server" where
  "mark_delivered i s =
     s\<lparr>srv_messages := update_where (\<lambda>r. sm_id r = i) (\<lambda>r. r\<lparr>sm_delivered := 1\<rparr>) (srv_messages s)\<rparr>"

definition deliverOffline :: "gotime \<Rightarrow> client \<Rightarrow> Server \<Rightarrow> Server" where
  "deliverOffline now c s =
     (let rows = offline_rows s (PeerID_String (cl_peerID c));
          s1 = fold (\<lambda>r. client_send (cl_id c) (mk_frame CmdRelay (Some (sm_payload r)) (UnixNano now))) rows s
      in fold (\<lambda>r. mark_delivered (sm_id r)) rows s1)"

definition set_authed :: "string \<Rightarrow> PeerID \<Rightarrow> Server \<Rightarrow> Server" where
  "set_authed cid pid s =
     (case srv_conns s cid of
        None \<Rightarrow> s
      | Some c \<Rightarrow> s\<lparr>srv_conns := (srv_conns s)(cid \<mapsto> c\<lparr>cl_peerID := pid, cl_authed := True\<rparr>)\<rparr>)"

definition set_username :: "string \<Rightarrow> string \<Rightarrow> Server \<Rightarrow> Server" where
  "set_username cid name s =
     (case srv_conns s cid of
        None \<Rightarrow> s
      | Some c \<Rightarrow> s\<lparr>srv_conns := (srv_conns s)(cid \<mapsto> c\<lparr>cl_username := name\<rparr>)\<rparr>)"

text \<open>The part of \<open>handleAuth\<close> after the checks.\<close>

definition accept_auth :: "gotime \<Rightarrow> string \<Rightarrow> PeerID \<Rightarrow> Server \<Rightarrow> Server" where
  "accept_auth now cid pid s =
     (let s1 = set_authed cid pid s in
      case srv_conns s1 cid of
        None \<Rightarrow> s1
      | Some c \<Rightarrow>
          let s2 = register c s1;
              s3 = s2\<lparr>srv_presence := (srv_presence s2)(PeerID_String (cl_peerID c) \<mapsto> now)\<rparr>;
              s4 = client_send cid (mk_frame CmdAuthOK None (UnixNano now)) s3
          in deliverOffline now c s4)"

definition handleAuth :: "hashes \<Rightarrow> gotime \<Rightarrow> string \<Rightarrow> frame \<Rightarrow> Server \<Rightarrow> Server" where
  "handleAuth hs now cid f s =
     (case unmarshal dec_auth (rf_Payload f) of
        None \<Rightarrow> client_send cid (errFrame now ''invalid auth payload'') s
      | Some auth \<Rightarrow>
          let diff = now - ap_Timestamp auth;
              pid = \<lparr>pid_NodeID = ap_NodeID auth, pid_Fingerprint = ap_Fingerprint auth\<rparr>
          in if diff < - 5 * Minute \<or> diff > 5 * Minute
             then client_send cid (errFrame now ''auth timestamp out of range'') s
             else if ap_Username auth \<noteq> '''' \<and> ap_Token auth \<noteq> '''' then
               (case getUserByUsername s (ap_Username auth) of
                  None \<Rightarrow> client_send cid (errFrame now ''user not found'') s
                | Some user \<Rightarrow>
                    if \<not> validateToken hs (srv_cfg s) user (ap_Token auth)
                    then client_send cid (errFrame now ''invalid token'') s
                    else accept_auth now cid pid (set_username cid (ap_Username auth)
                           (update_user (ap_Username auth)
                             (\<lambda>u. u\<lparr>ua_NodeID := ap_NodeID auth, ua_Fingerprint := ap_Fingerprint auth\<rparr>) s)))
             else accept_auth now cid pid s)"

subsection \<open>Relay and sync\<close>

definition storeMessage :: "json \<Rightarrow> Server \<Rightarrow> Server option" where
  "storeMessage raw s =
     (case dec_Message raw of
        None \<Rightarrow> None
      | Some msg \<Rightarrow>
          let recipID = (case msg_RecipientID msg of None \<Rightarrow> '''' | Some p \<Rightarrow> PeerID_String p) in
          Some (s\<lparr>srv_messages := insert_or_ignore sm_id
              \<lparr>sm_id = msg_ID msg, sm_chat_id = msg_ChatID msg,
               sm_sender_peer_id = PeerID_String (msg_SenderID msg), sm_recipient_peer_id = recipID,
               sm_sent_at = UnixNano (msg_SentAt msg), sm_payload = raw, sm_delivered = 0\<rparr>
              (srv_messages s)\<rparr>))"

definition loadChat :: "Server \<Rightarrow> ChatID \<Rightarrow> Chat option" where
  "loadChat s chatID =
     (case find_row sch_id chatID (srv_chats s) of None \<Rightarrow> None | Some r \<Rightarrow> dec_Chat (sch_payload r))"

definition UpsertChat :: "gotime \<Rightarrow> Chat \<Rightarrow> Server \<Rightarrow> Server" where
  "UpsertChat now chat s =
     s\<lparr>srv_chats := insert_or_replace sch_id
         \<lparr>sch_id = chat_ID chat, sch_payload = enc_Chat chat, sch_updated_at = UnixNano now\<rparr> (srv_chats s)\<rparr>"

definition fan_out :: "string \<Rightarrow> frame \<Rightarrow> ChatMember list \<Rightarrow> Server \<Rightarrow> Server" where
  "fan_out cid f members s =
     fold (\<lambda>m st. if map_option (PeerID_String \<circ> cl_peerID) (srv_conns st cid) =
                   Some (PeerID_String (cm_PeerID m))
                then st else deliverTo (cm_PeerID m) f st) members s"

definition handleRelay :: "gotime \<Rightarrow> string \<Rightarrow> frame \<Rightarrow> Server \<Rightarrow> Server" where
  "handleRelay now cid f s =
     (case unmarshal dec_Message (rf_Payload f) of
        None \<Rightarrow> client_send cid (errFrame now ''bad relay payload'') s
      | Some msg \<Rightarrow>
          if msg_ID msg = '''' then client_send cid (errFrame now ''missing message ID'') s
          else
            let s1 = (case storeMessage (the (rf_Payload f)) s of None \<Rightarrow> s | Some s' \<Rightarrow> s') in
            case loadChat s1 (msg_ChatID msg) of
              None \<Rightarrow> (case msg_RecipientID msg of None \<Rightarrow> s1 | Some p \<Rightarrow> deliverTo p f s1)
            | Some chat \<Rightarrow> fan_out cid f (chat_Members chat) s1)"

definition dec_sync :: "json \<Rightarrow> (string \<times> int) option" where
  "dec_sync j = do {
     fs \<leftarrow> json_fields j;
     c \<leftarrow> fld ''chat_id'' dec_string '''' fs;
     t \<leftarrow> fld ''after_ts'' dec_int64 0 fs;
     Some (c, t) }"

definition sync_rows :: "Server \<Rightarrow> string \<Rightarrow> int \<Rightarrow> srv_message list" where
  "sync_rows s chatID afterTS =
     take 500 (order_by_asc sm_sent_at
       (filter (\<lambda>r. sm_chat_id r = chatID \<and> sm_sent_at r > afterTS) (srv_messages s)))"

definition handleSync :: "gotime \<Rightarrow> string \<Rightarrow> frame \<Rightarrow> Server \<Rightarrow> Server" where
  "handleSync now cid f s =
     (case unmarshal dec_sync (rf_Payload f) of
        None \<Rightarrow> client_send cid (errFrame now ''bad sync request'') s
      | Some (chatID, afterTS) \<Rightarrow>
          client_send cid \<lparr>rf_Cmd = CmdSyncResp, rf_ID = rf_ID f, rf_PeerID = '''',
            rf_Payload = Some (case sync_rows s chatID afterTS of [] \<Rightarrow> JNull
               | rows \<Rightarrow> JArr (map sm_payload rows)),
            rf_Timestamp = UnixNano now\<rparr> s)"

definition handlePresence :: "gotime \<Rightarrow> string \<Rightarrow> Server \<Rightarrow> Server" where
  "handlePresence now cid s =
     (case srv_conns s cid of
        None \<Rightarrow> s
      | Some c \<Rightarrow> s\<lparr>srv_presence := (srv_presence s)(PeerID_String (cl_peerID c) \<mapsto> now)\<rparr>)"

subsection \<open>Directory and profile\<close>

definition listed_users :: "Server \<Rightarrow> UserAccount list" where
  "listed_users s = order_by_desc ua_LastLogin (filter (\<lambda>u. ua_NodeID u \<noteq> '''') (srv_users s))"

definition user_online :: "Server \<Rightarrow> UserAccount \<Rightarrow> bool" where
  "user_online s u = (map_of (srv_clients s) (ua_NodeID u @ '':'' @ ua_Fingerprint u) \<noteq> None)"

definition peer_info :: "bool \<Rightarrow> Server \<Rightarrow> UserAccount \<Rightarrow> json" where
  "peer_info with_login s u = JObj (
     [(''username'', JStr (ua_Username u)), (''nickname'', JStr (ua_Nickname u))] @
     json_opt ''bio'' (ua_Bio u \<noteq> '''') (JStr (ua_Bio u)) @
     json_opt ''avatar_path'' (ua_AvatarPath u \<noteq> '''') (JStr (ua_AvatarPath u)) @
     [(''node_id'', JStr (ua_NodeID u)), (''fingerprint'', JStr (ua_Fingerprint u)),
      (''online'', JBool (user_online s u))] @
     json_opt ''last_login'' with_login (JInt (ua_LastLogin u)))"

definition peer_list :: "bool \<Rightarrow> Server \<Rightarrow> json" where
  "peer_list with_login s =
     (case listed_users s of [] \<Rightarrow> JNull | us \<Rightarrow> JArr (map (peer_info with_login s) us))"

definition handleListPeers :: "gotime \<Rightarrow> string \<Rightarrow> Server \<Rightarrow> Server" where
  "handleListPeers now cid s =
     client_send cid (mk_frame CmdListPeers (Some (peer_list True s)) (UnixNano now)) s"

definition handleHandshakeRelay :: "string \<Rightarrow> frame \<Rightarrow> Server \<Rightarrow> Server" where
  "handleHandshakeRelay cid f s =
     (let to = rf_PeerID f in
      if to = '''' then s
      else fold (\<lambda>(_, cids). fold (\<lambda>cid' st.
               if map_option (pid_NodeID \<circ> cl_peerID) (srv_conns st cid') = Some to \<and> cid' \<noteq> cid
               then client_send cid' f st else st) cids) (srv_clients s) s)"

definition dec_profile :: "json \<Rightarrow> (string \<times> string \<times> string) option" where
  "dec_profile j = do {
     fs \<leftarrow> json_fields j;
     n \<leftarrow> fld ''nickname'' dec_string '''' fs;
     b \<leftarrow> fld ''bio'' dec_string '''' fs;
     a \<leftarrow> fld ''avatar_path'' dec_string '''' fs;
     Some (n, b, a) }"

definition handleUpdateProfile :: "gotime \<Rightarrow> string \<Rightarrow> frame \<Rightarrow> Server \<Rightarrow> Server" where
  "handleUpdateProfile now cid f s =
     (case srv_conns s cid of
        None \<Rightarrow> s
      | Some c \<Rightarrow>
          if cl_username c = '''' then client_send cid (errFrame now ''no user account linked'') s
          else (case unmarshal dec_profile (rf_Payload f) of
             None \<Rightarrow> client_send cid (errFrame now ''invalid payload'') s
           | Some (n, b, a) \<Rightarrow>
               client_send cid (mk_frame CmdAuthOK (Some (jsonMsg [(''ok'', ''true''), (''message'', ''profile updated'')]))
                   (UnixNano now))
                 (update_user (cl_username c) (\<lambda>u. u\<lparr>ua_Nickname := n, ua_Bio := b, ua_AvatarPath := a\<rparr>) s)))"

subsection \<open>Frame routing\<close>

definition handleFrame :: "hashes \<Rightarrow> gotime \<Rightarrow> bytes \<Rightarrow> string \<Rightarrow> frame \<Rightarrow> Server \<Rightarrow> Server" where
  "handleFrame hs now rnd cid f s =
     (case srv_conns s cid of
        None \<Rightarrow> s
      | Some c \<Rightarrow>
          if \<not> cl_authed c \<and> rf_Cmd f \<noteq> CmdAuth \<and> rf_Cmd f \<noteq> CmdRegister \<and> rf_Cmd f \<noteq> CmdLogin
          then client_send cid (mk_frame CmdError (Some (JStr ''not authenticated'')) 0) s
          else if rf_Cmd f = CmdAuth then handleAuth hs now cid f s
          else if rf_Cmd f = CmdRegister then handleRegister hs now rnd cid f s
          else if rf_Cmd f = CmdLogin then handleLogin hs now cid f s
          else if rf_Cmd f = CmdRelay then handleRelay now cid f s
          else if rf_Cmd f = CmdSync then handleSync now cid f s
          else if rf_Cmd f = CmdPresence then handlePresence now cid s
          else if rf_Cmd f = CmdListPeers then handleListPeers now cid s
          else if rf_Cmd f = CmdUpdateProfile then handleUpdateProfile now cid f s
          else if rf_Cmd f = CmdHandshake \<or> rf_Cmd f = CmdHandshakeAck then handleHandshakeRelay cid f s
          else if rf_Cmd f = CmdPing then client_send cid (mk_frame CmdPong None (UnixNano now)) s
          else s)"

text \<open>\<open>readPump\<close> ends: the connection is unregistered and closed.\<close>

definition disconnect :: "gotime \<Rightarrow> string \<Rightarrow> Server \<Rightarrow> Server" where
  "disconnect now cid s = (case srv_conns s cid of None \<Rightarrow> s | Some c \<Rightarrow> unregister now c s)"

text \<open>\<open>writePump\<close> takes the next frame out of the queue.\<close>

definition write_next :: "string \<Rightarrow> Server \<Rightarrow> (frame \<times> Server) option" where
  "write_next cid s =
     (case srv_conns s cid of
        None \<Rightarrow> None
      | Some c \<Rightarrow> (case chan_recv (cl_sendCh c) of
            None \<Rightarrow> None
          | Some (f, ch) \<Rightarrow> Some (f, s\<lparr>srv_conns := (srv_conns s)(cid \<mapsto> c\<lparr>cl_sendCh := ch\<rparr>)\<rparr>)))"

subsection \<open>HTTP endpoints\<close>

datatype http_response = HttpError nat string | HttpJson json | HttpStatus nat | HttpFile "bytes option"

definition http_fail :: "string \<Rightarrow> http_response" where
  "http_fail e = HttpJson (JObj [(''ok'', JBool False), (''error'', JStr e)])"

definition handleHTTPRegister ::
  "hashes \<Rightarrow> gotime \<Rightarrow> bytes \<Rightarrow> string \<Rightarrow> json option \<Rightarrow> Server \<Rightarrow> http_response \<times> Server" where
  "handleHTTPRegister hs now rnd method body s =
     (if method \<noteq> ''POST'' then (HttpError 405 ''method not allowed'', s)
      else case unmarshal dec_register body of
        None \<Rightarrow> (http_fail ''bad request'', s)
      | Some req \<Rightarrow>
          let name = TrimSpace (ToLower (rq_Username req)) in
          if \<not> isValidUsername name then (http_fail ''invalid username'', s)
          else if length (rq_Password req) < 4 then (http_fail ''password too short'', s)
          else if getUserByUsername s name \<noteq> None then (http_fail ''username taken'', s)
          else let user = new_user hs now rnd name req in
            case insert_user user s of
              None \<Rightarrow> (http_fail ''registration failed'', s)
            | Some s' \<Rightarrow>
                (HttpJson (JObj [(''ok'', JBool True), (''token'', JStr (generateToken hs (srv_cfg s) user)),
                   (''username'', JStr name)]), s'))"

definition handleHTTPLogin ::
  "hashes \<Rightarrow> gotime \<Rightarrow> string \<Rightarrow> json option \<Rightarrow> Server \<Rightarrow> http_response \<times> Server" where
  "handleHTTPLogin hs now method body s =
     (if method \<noteq> ''POST'' then (HttpError 405 ''method not allowed'', s)
      else case unmarshal dec_login body of
        None \<Rightarrow> (http_fail ''bad request'', s)
      | Some (u, p) \<Rightarrow>
          let name = TrimSpace (ToLower u) in
          case getUserByUsername s name of
            None \<Rightarrow> (http_fail ''invalid credentials'', s)
          | Some user \<Rightarrow>
              if \<not> checkPassword hs (ua_PasswordHash user) (ua_Salt user) p
              then (http_fail ''invalid credentials'', s)
              else (HttpJson (JObj [(''ok'', JBool True), (''token'', JStr (generateToken hs (srv_cfg s) user)),
                      (''username'', JStr (ua_Username user)), (''nickname'', JStr (ua_Nickname user)),
                      (''bio'', JStr (ua_Bio user))]),
                    update_user name (\<lambda>x. x\<lparr>ua_LastLogin := UnixNano now\<rparr>) s))"

definition handleHTTPPeers :: "string \<Rightarrow> Server \<Rightarrow> http_response" where
  "handleHTTPPeers method s =
     (if method \<noteq> ''GET'' then HttpError 405 ''method not allowed''
      else HttpJson (JObj [(''ok'', JBool True), (''peers'', peer_list False s)]))"

definition srv_mediaPath :: "string \<Rightarrow> string" where
  "srv_mediaPath hash =
     (if length hash < 4 then ''/'' @ hash
      else ''/'' @ take 2 hash @ ''/'' @ take 2 (drop 2 hash) @ ''/'' @ hash)"

text \<open>\<open>MaxBytesReader\<close> yields at most the limit and then an error, which ends the reading loop.\<close>

definition handleMedia :: "string \<Rightarrow> string \<Rightarrow> bytes \<Rightarrow> bool \<Rightarrow> Server \<Rightarrow> http_response \<times> Server" where
  "handleMedia method hash body writeOK s =
     (if hash = '''' then (HttpError 400 ''missing hash'', s)
      else if method = ''GET'' then (HttpFile (srv_media s (srv_mediaPath hash)), s)
      else if method = ''PUT'' then
        let maxSize = nat (push_bit 20 (sc_MaxMediaSizeMB (srv_cfg s)));
            data = take maxSize body
        in if \<not> writeOK then (HttpError 500 ''write failed'', s)
           else (HttpStatus 201, s\<lparr>srv_media := (srv_media s)(srv_mediaPath hash \<mapsto> data)\<rparr>)
      else (HttpError 405 ''method not allowed'', s))"

subsection \<open>Background tasks\<close>

definition prune_tick :: "gotime \<Rightarrow> Server \<Rightarrow> Server" where
  "prune_tick now s =
     (let cutoff = UnixNano (now - sc_MaxMsgAgeDays (srv_cfg s) * 24 * Hour) in
      s\<lparr>srv_messages := filter (\<lambda>r. \<not> sm_sent_at r < cutoff) (srv_messages s)\<rparr>)"

definition ping_tick :: "gotime \<Rightarrow> Server \<Rightarrow> Server" where
  "ping_tick now s =
     fold (\<lambda>(_, cids). fold (\<lambda>cid. client_send cid (mk_frame CmdPing None (UnixNano now))) cids) (srv_clients s) s"

text \<open>Everything that can happen to a running server.\<close>

inductive server_step :: "Server \<Rightarrow> Server \<Rightarrow> bool" where
  srv_connect: "srv_conns s uuid = None \<Longrightarrow> server_step s (handleWSUpgrade uuid s)"
| srv_frame: "server_step s (handleFrame hs now rnd cid f s)"
| srv_disconnect: "server_step s (disconnect now cid s)"
| srv_write: "write_next cid s = Some (f, s') \<Longrightarrow> server_step s s'"
| srv_http_register: "server_step s (snd (handleHTTPRegister hs now rnd m b s))"
| srv_http_login: "server_step s (snd (handleHTTPLogin hs now m b s))"
| srv_put_media: "server_step s (snd (handleMedia m h body ok s))"
| srv_upsert: "server_step s (UpsertChat now chat s)"
| srv_prune: "server_step s (prune_tick now s)"
| srv_ping: "server_step s (ping_tick now s)"

inductive server_reachable :: "ServerConfig \<Rightarrow> Server \<Rightarrow> bool" for cfg where
  srv_start: "server_reachable cfg (NewServer cfg)"
| srv_more: "server_reachable cfg s \<Longrightarrow> server_step s s' \<Longrightarrow> server_reachable cfg s'"

definition users_ok :: "UserAccount list \<Rightarrow> bool" where
  "users_ok us = (unique_key ua_Username us \<and> (\<forall>u\<in>set us. isValidUsername (ua_Username u)))"

definition conns_ok :: "(string \<Rightarrow> client option) \<Rightarrow> bool" where
  "conns_ok cs = (\<forall>cid c. cs cid = Some c \<longrightarrow>
     cl_id c = cid \<and> ch_cap (cl_sendCh c) = 256 \<and> length (ch_buf (cl_sendCh c)) \<le> 256)"

definition registry_ok :: "(string \<times> string list) list \<Rightarrow> (string \<Rightarrow> client option) \<Rightarrow> bool" where
  "registry_ok reg cs = (distinct (map fst reg) \<and>
     (\<forall>(k, cids) \<in> set reg. cids \<noteq> [] \<and> distinct cids \<and>
        (\<forall>cid \<in> set cids. \<exists>c. cs cid = Some c \<and> cl_authed c)))"

definition server_inv :: "Server \<Rightarrow> bool" where
  "server_inv s = (users_ok (srv_users s) \<and> unique_key sm_id (srv_messages s) \<and>
     conns_ok (srv_conns s) \<and> registry_ok (srv_clients s) (srv_conns s))"

section \<open>Lemmas\<close>

subsection \<open>Sending\<close>

lemma client_send_frame [simp]:
  "srv_cfg (client_send cid f s) = srv_cfg s" "srv_users (client_send cid f s) = srv_users s"
  "srv_messages (client_send cid f s) = srv_messages s" "srv_chats (client_send cid f s) = srv_chats s"
  "srv_clients (client_send cid f s) = srv_clients s" "srv_presence (client_send cid f s) = srv_presence s"
  "srv_media (client_send cid f s) = srv_media s"
  by (simp_all add: client_send_def split: option.splits)

lemma client_send_conns:
  "srv_conns (client_send cid f s) cid' =
     (if cid' = cid then map_option (\<lambda>c. c\<lparr>cl_sendCh := chan_offer f (cl_sendCh c)\<rparr>) (srv_conns s cid)
      else srv_conns s cid')"
  by (auto simp: client_send_def split: option.splits)

lemma conns_ok_send: "conns_ok (srv_conns s) \<Longrightarrow> conns_ok (srv_conns (client_send cid f s))"
  by (auto simp: conns_ok_def client_send_conns chan_simps split: if_splits)

lemma registry_ok_mono:
  assumes "registry_ok reg cs" and "\<And>cid c. cs cid = Some c \<Longrightarrow> cl_authed c \<Longrightarrow> \<exists>c'. cs' cid = Some c' \<and> cl_authed c'"
  shows "registry_ok reg cs'"
  using assms unfolding registry_ok_def by blast

lemma server_inv_send: "server_inv s \<Longrightarrow> server_inv (client_send cid f s)"
  by (auto simp: server_inv_def conns_ok_send client_send_conns elim!: registry_ok_mono)

lemma server_inv_sends: "server_inv s \<Longrightarrow> server_inv (fold (\<lambda>x. client_send (g x) (h x)) xs s)"
  by (rule fold_invariant_rule [where P = server_inv]) (auto intro: server_inv_send)

lemma server_inv_deliverTo: "server_inv s \<Longrightarrow> server_inv (deliverTo p f s)"
  unfolding deliverTo_def by (auto split: option.splits intro: server_inv_sends)

subsection \<open>Registry\<close>

lemma registry_update:
  assumes "registry_ok reg cs" and "cids \<noteq> []" and "distinct cids"
    and "\<And>cid. cid \<in> set cids \<Longrightarrow> \<exists>c. cs cid = Some c \<and> cl_authed c"
  shows "registry_ok (AList.update k cids reg) cs"
proof -
  have "set (AList.update k cids reg) \<subseteq> insert (k, cids) (set reg)" by (induction reg) auto
  moreover have "distinct (map fst (AList.update k cids reg))"
    using assms(1) by (simp add: registry_ok_def distinct_update)
  ultimately show ?thesis using assms unfolding registry_ok_def by blast
qed

lemma registry_delete: "registry_ok reg cs \<Longrightarrow> registry_ok (AList.delete k reg) cs"
  by (auto simp: registry_ok_def AList.delete_eq distinct_map_filter)

lemma registry_lookup:
  assumes "registry_ok reg cs" and "map_of reg k = Some cids"
  shows "cids \<noteq> []" and "distinct cids" and "\<And>cid. cid \<in> set cids \<Longrightarrow> \<exists>c. cs cid = Some c \<and> cl_authed c"
  using assms map_of_SomeD [OF assms(2)] unfolding registry_ok_def by blast+

lemma register_inv:
  assumes "server_inv s" and "srv_conns s (cl_id c) = Some c" and "cl_authed c"
  shows "server_inv (register c s)"
proof (cases "map_of (srv_clients s) (PeerID_String (cl_peerID c))")
  case None
  have "registry_ok (AList.update (PeerID_String (cl_peerID c)) [cl_id c] (srv_clients s)) (srv_conns s)"
    by (rule registry_update) (use assms in \<open>auto simp: server_inv_def\<close>)
  with assms None show ?thesis by (simp add: register_def server_inv_def)
next
  case (Some cids)
  have reg: "registry_ok (srv_clients s) (srv_conns s)" using assms(1) by (simp add: server_inv_def)
  note l = registry_lookup [OF reg Some]
  have "registry_ok (AList.update (PeerID_String (cl_peerID c)) (cids @ [cl_id c]) (srv_clients s)) (srv_conns s)"
    if "cl_id c \<notin> set cids"
    by (rule registry_update [OF reg]) (use that l assms in auto)
  with assms Some show ?thesis by (simp add: register_def server_inv_def)
qed

lemma unregister_inv: "server_inv s \<Longrightarrow> server_inv (unregister now c s)"
proof (cases "map_of (srv_clients s) (PeerID_String (cl_peerID c))")
  case (Some cids)
  assume inv: "server_inv s"
  then have reg: "registry_ok (srv_clients s) (srv_conns s)" by (simp add: server_inv_def)
  note l = registry_lookup [OF reg Some]
  have "registry_ok (AList.update (PeerID_String (cl_peerID c)) (filter (\<lambda>x. x \<noteq> cl_id c) cids) (srv_clients s)) (srv_conns s)"
    if "filter (\<lambda>x. x \<noteq> cl_id c) cids \<noteq> []"
    by (rule registry_update [OF reg that]) (use l in auto)
  with inv Some reg show ?thesis by (simp add: unregister_def Let_def server_inv_def registry_delete)
qed (simp add: unregister_def Let_def)

subsection \<open>Handlers keep the invariant\<close>

lemma mark_delivered_frame [simp]:
  "srv_conns (mark_delivered i s) = srv_conns s" "srv_clients (mark_delivered i s) = srv_clients s"
  "srv_users (mark_delivered i s) = srv_users s"
  by (simp_all add: mark_delivered_def)

lemma mark_delivered_inv: "server_inv s \<Longrightarrow> server_inv (mark_delivered i s)"
  by (simp add: server_inv_def mark_delivered_def)

lemma deliverOffline_inv: "server_inv s \<Longrightarrow> server_inv (deliverOffline now c s)"
  unfolding deliverOffline_def Let_def
  by (rule fold_invariant_rule [where P = server_inv]) (auto intro: server_inv_sends mark_delivered_inv)

lemma update_user_inv:
  assumes "server_inv s" and "\<And>u. ua_Username (f u) = ua_Username u"
  shows "server_inv (update_user name f s)"
proof -
  have "users_ok (update_where (\<lambda>u. ua_Username u = name) f (srv_users s))"
    using assms by (auto simp: server_inv_def users_ok_def update_where_def unique_key_update [unfolded update_where_def])
  with assms(1) show ?thesis by (simp add: server_inv_def update_user_def)
qed

lemma conn_update_inv:
  assumes "server_inv s" and "srv_conns s cid = Some c" and "cl_id c' = cid" and "cl_sendCh c' = cl_sendCh c"
    and "cl_authed c \<Longrightarrow> cl_authed c'"
  shows "server_inv (s\<lparr>srv_conns := (srv_conns s)(cid \<mapsto> c')\<rparr>)"
proof -
  have "conns_ok ((srv_conns s)(cid \<mapsto> c'))"
    using assms by (auto simp: server_inv_def conns_ok_def)
  moreover have "registry_ok (srv_clients s) ((srv_conns s)(cid \<mapsto> c'))"
    by (rule registry_ok_mono [of _ "srv_conns s"]) (use assms in \<open>auto simp: server_inv_def\<close>)
  ultimately show ?thesis using assms(1) by (simp add: server_inv_def)
qed

lemma conn_id: "server_inv s \<Longrightarrow> srv_conns s cid = Some c \<Longrightarrow> cl_id c = cid"
  by (simp add: server_inv_def conns_ok_def)

lemma set_authed_inv: "server_inv s \<Longrightarrow> server_inv (set_authed cid pid s)"
  by (auto simp: set_authed_def conn_id split: option.splits intro!: conn_update_inv)

lemma set_username_inv: "server_inv s \<Longrightarrow> server_inv (set_username cid n s)"
  by (auto simp: set_username_def conn_id split: option.splits intro!: conn_update_inv)

lemma presence_inv [simp]: "server_inv (s\<lparr>srv_presence := p\<rparr>) = server_inv s"
  by (simp add: server_inv_def)

lemma accept_auth_inv:
  assumes "server_inv s"
  shows "server_inv (accept_auth now cid pid s)"
proof (cases "srv_conns (set_authed cid pid s) cid")
  case (Some c)
  have inv: "server_inv (set_authed cid pid s)" using assms by (rule set_authed_inv)
  have "cl_authed c" using Some by (auto simp: set_authed_def split: option.splits)
  then have "server_inv (register c (set_authed cid pid s))"
    using inv Some conn_id [OF inv Some] by (intro register_inv) auto
  with Some show ?thesis
    by (simp add: accept_auth_def Let_def deliverOffline_inv server_inv_send)
qed (use set_authed_inv [OF assms] in \<open>simp add: accept_auth_def Let_def\<close>)

lemma insert_user_inv:
  assumes "server_inv s" and "insert_user u s = Some s'" and "isValidUsername (ua_Username u)"
  shows "server_inv s'"
proof -
  have s': "s' = s\<lparr>srv_users := srv_users s @ [u]\<rparr>" and "ua_Username u \<notin> ua_Username ` set (srv_users s)"
    using assms(2) by (auto simp: insert_user_def getUserByUsername_def find_row_None split: if_splits)
  then have "users_ok (srv_users s')"
    using assms(1,3) by (simp add: server_inv_def users_ok_def unique_key_def)
  with assms(1) show ?thesis by (simp add: server_inv_def s')
qed

lemma ua_Username_new_user [simp]: "ua_Username (new_user hs now rnd name req) = name"
  by (simp add: new_user_def Let_def split: prod.splits)

lemma handleRegister_inv: "server_inv s \<Longrightarrow> server_inv (handleRegister hs now rnd cid f s)"
  by (auto simp: handleRegister_def Let_def intro!: server_inv_send split: option.splits dest: insert_user_inv)

lemma handleHTTPRegister_inv: "server_inv s \<Longrightarrow> server_inv (snd (handleHTTPRegister hs now rnd m b s))"
  by (auto simp: handleHTTPRegister_def Let_def split: option.splits dest: insert_user_inv)

lemma handleLogin_inv: "server_inv s \<Longrightarrow> server_inv (handleLogin hs now cid f s)"
  by (auto simp: handleLogin_def Let_def intro!: server_inv_send update_user_inv split: option.splits)

lemma handleHTTPLogin_inv: "server_inv s \<Longrightarrow> server_inv (snd (handleHTTPLogin hs now m b s))"
  by (auto simp: handleHTTPLogin_def Let_def intro!: update_user_inv split: option.splits)

lemma handleAuth_inv: "server_inv s \<Longrightarrow> server_inv (handleAuth hs now cid f s)"
  by (auto simp: handleAuth_def Let_def split: option.splits
      intro!: server_inv_send accept_auth_inv set_username_inv update_user_inv)

lemma storeMessage_inv: "server_inv s \<Longrightarrow> storeMessage raw s = Some s' \<Longrightarrow> server_inv s'"
  by (auto simp: storeMessage_def Let_def server_inv_def split: option.splits)

lemma fan_out_inv: "server_inv s \<Longrightarrow> server_inv (fan_out cid f ms s)"
  unfolding fan_out_def by (rule fold_invariant_rule [where P = server_inv]) (auto intro: server_inv_deliverTo)

lemma handleRelay_inv:
  assumes "server_inv s"
  shows "server_inv (handleRelay now cid f s)"
  unfolding handleRelay_def Let_def
  using assms storeMessage_inv [OF assms]
  by (auto split: option.splits intro!: server_inv_send server_inv_deliverTo fan_out_inv)

lemma handleHandshakeRelay_inv: "server_inv s \<Longrightarrow> server_inv (handleHandshakeRelay cid f s)"
  unfolding handleHandshakeRelay_def Let_def
  by (auto intro!: fold_invariant_rule [where P = server_inv] server_inv_send)

lemma handleUpdateProfile_inv: "server_inv s \<Longrightarrow> server_inv (handleUpdateProfile now cid f s)"
  by (auto simp: handleUpdateProfile_def split: option.splits intro!: server_inv_send update_user_inv)

lemma handleFrame_inv:
  assumes "server_inv s"
  shows "server_inv (handleFrame hs now rnd cid f s)"
  using assms
  by (auto simp: handleFrame_def handleSync_def handlePresence_def handleListPeers_def split: option.splits
      intro!: server_inv_send handleAuth_inv handleRegister_inv handleLogin_inv handleRelay_inv
        handleHandshakeRelay_inv handleUpdateProfile_inv)

lemma write_next_inv: "server_inv s \<Longrightarrow> write_next cid s = Some (f, s') \<Longrightarrow> server_inv s'"
proof -
  assume inv: "server_inv s" and "write_next cid s = Some (f, s')"
  then obtain c ch where c: "srv_conns s cid = Some c" "chan_recv (cl_sendCh c) = Some (f, ch)"
    "s' = s\<lparr>srv_conns := (srv_conns s)(cid \<mapsto> c\<lparr>cl_sendCh := ch\<rparr>)\<rparr>"
    by (auto simp: write_next_def split: option.splits)
  have "ch_cap ch = ch_cap (cl_sendCh c) \<and> length (ch_buf ch) \<le> length (ch_buf (cl_sendCh c))"
    using c(2) by (auto simp: chan_recv_def split: list.splits)
  then have "conns_ok ((srv_conns s)(cid \<mapsto> c\<lparr>cl_sendCh := ch\<rparr>))"
    using inv c(1) by (fastforce simp: server_inv_def conns_ok_def)
  moreover have "registry_ok (srv_clients s) ((srv_conns s)(cid \<mapsto> c\<lparr>cl_sendCh := ch\<rparr>))"
    by (rule registry_ok_mono [of _ "srv_conns s"]) (use inv c(1) in \<open>auto simp: server_inv_def\<close>)
  ultimately show ?thesis using inv by (simp add: server_inv_def c(3))
qed

lemma connect_inv:
  assumes "server_inv s" and "srv_conns s uuid = None"
  shows "server_inv (handleWSUpgrade uuid s)"
proof -
  let ?c = "\<lparr>cl_id = uuid, cl_peerID = zero_PeerID, cl_sendCh = make_chan 256, cl_authed = False, cl_username = ''''\<rparr>"
  have "registry_ok (srv_clients s) ((srv_conns s)(uuid \<mapsto> ?c))"
    by (rule registry_ok_mono [of _ "srv_conns s"]) (use assms in \<open>auto simp: server_inv_def\<close>)
  with assms(1) show ?thesis by (simp add: server_inv_def handleWSUpgrade_def conns_ok_def)
qed

lemma server_step_inv: "server_step s s' \<Longrightarrow> server_inv s \<Longrightarrow> server_inv s'"
proof (induction rule: server_step.induct)
  case (srv_put_media s m h body ok)
  then show ?case by (auto simp: handleMedia_def Let_def server_inv_def)
next
  case (srv_prune s now)
  then show ?case by (simp add: prune_tick_def Let_def server_inv_def)
next
  case (srv_ping s now)
  then show ?case
    unfolding ping_tick_def by (auto intro!: fold_invariant_rule [where P = server_inv] server_inv_send)
next
  case (srv_disconnect s now cid)
  then show ?case by (auto simp: disconnect_def split: option.splits intro: unregister_inv)
next
  case (srv_upsert s now chat)
  then show ?case by (simp add: UpsertChat_def server_inv_def)
qed (auto intro: connect_inv handleFrame_inv write_next_inv handleHTTPRegister_inv handleHTTPLogin_inv)

interpretation server: safe_system server_step server_inv
  by unfold_locales (rule server_step_inv)

lemma server_reachable_inv: "server_reachable cfg s \<Longrightarrow> server_inv s"
proof (induction rule: server_reachable.induct)
  case srv_start
  show ?case by (simp add: server_inv_def NewServer_def users_ok_def unique_key_def conns_ok_def registry_ok_def)
qed (rule server.step_inv)

subsection \<open>Queues\<close>

lemma sends_conns:
  assumes "srv_conns s cid = Some c"
  shows "srv_conns (fold (\<lambda>x. client_send cid (g x)) xs s) =
    (srv_conns s)(cid \<mapsto> c\<lparr>cl_sendCh := fold chan_offer (map g xs) (cl_sendCh c)\<rparr>)"
  using assms
proof (induction xs arbitrary: s c)
  case Nil
  then show ?case by (simp add: fun_upd_idem)
next
  case (Cons x xs)
  have 1: "srv_conns (client_send cid (g x) s) = (srv_conns s)(cid \<mapsto> c\<lparr>cl_sendCh := chan_offer (g x) (cl_sendCh c)\<rparr>)"
    using Cons.prems by (simp add: client_send_def)
  then have "srv_conns (client_send cid (g x) s) cid = Some (c\<lparr>cl_sendCh := chan_offer (g x) (cl_sendCh c)\<rparr>)" by simp
  from Cons.IH [OF this] show ?case by (simp add: 1 fun_eq_iff)
qed

lemma sends_messages [simp]:
  "srv_messages (fold (\<lambda>x. client_send (h x) (g x)) xs s) = srv_messages s"
  by (rule fold_unchanged) simp

lemma sends_clients [simp]:
  "srv_clients (fold (\<lambda>x. client_send (h x) (g x)) xs s) = srv_clients s"
  by (rule fold_unchanged) simp

lemma marks_conns [simp]: "srv_conns (fold (\<lambda>r. mark_delivered (i r)) rows s) = srv_conns s"
  by (rule fold_unchanged) simp

lemma marks_clients [simp]: "srv_clients (fold (\<lambda>r. mark_delivered (i r)) rows s) = srv_clients s"
  by (rule fold_unchanged) simp

lemma marks_messages:
  "srv_messages (fold (\<lambda>r. mark_delivered (sm_id r)) rows s) =
     map (\<lambda>r. if sm_id r \<in> sm_id ` set rows then r\<lparr>sm_delivered := 1\<rparr> else r) (srv_messages s)"
proof (induction rows arbitrary: s)
  case (Cons r rows)
  have "srv_messages (mark_delivered (sm_id r) s) =
      map (\<lambda>x. if sm_id x = sm_id r then x\<lparr>sm_delivered := 1\<rparr> else x) (srv_messages s)"
    by (simp add: mark_delivered_def update_where_def)
  then show ?case by (simp add: Cons.IH)
qed simp

lemma register_frame [simp]:
  "srv_messages (register c s) = srv_messages s" "srv_conns (register c s) = srv_conns s"
  "srv_users (register c s) = srv_users s" "srv_cfg (register c s) = srv_cfg s"
  by (simp_all add: register_def Let_def split: option.splits)

lemma set_authed_frame [simp]:
  "srv_messages (set_authed cid pid s) = srv_messages s" "srv_clients (set_authed cid pid s) = srv_clients s"
  by (simp_all add: set_authed_def split: option.splits)

lemma offline_rows_length: "length (offline_rows s peer) \<le> 200"
  by (simp add: offline_rows_def)

lemma accept_auth_conn:
  assumes "server_inv s" and "srv_conns s cid = Some c"
  shows "srv_conns (accept_auth now cid pid s) cid = Some (c\<lparr>cl_peerID := pid, cl_authed := True,
     cl_sendCh := fold chan_offer
       (map (\<lambda>r. mk_frame CmdRelay (Some (sm_payload r)) (UnixNano now)) (offline_rows s (PeerID_String pid)))
       (chan_offer (mk_frame CmdAuthOK None (UnixNano now)) (cl_sendCh c))\<rparr>)"
proof -
  let ?rows = "offline_rows s (PeerID_String pid)" and ?g = "\<lambda>r. mk_frame CmdRelay (Some (sm_payload r)) (UnixNano now)"
  let ?c1 = "c\<lparr>cl_peerID := pid, cl_authed := True\<rparr>" and ?ok = "mk_frame CmdAuthOK None (UnixNano now)"
  let ?s1 = "set_authed cid pid s"
  let ?s3 = "(register ?c1 ?s1)\<lparr>srv_presence := (srv_presence (register ?c1 ?s1))(PeerID_String pid \<mapsto> now)\<rparr>"
  have cid: "cl_id c = cid" using assms by (rule conn_id)
  have s1: "srv_conns ?s1 = (srv_conns s)(cid \<mapsto> ?c1)" using assms(2) by (simp add: set_authed_def)
  have s4: "srv_conns (client_send cid ?ok ?s3) cid = Some (?c1\<lparr>cl_sendCh := chan_offer ?ok (cl_sendCh c)\<rparr>)"
    by (simp add: client_send_conns s1)
  have rows: "offline_rows (client_send cid ?ok ?s3) (PeerID_String pid) = ?rows"
    by (simp add: offline_rows_def)
  have "accept_auth now cid pid s = deliverOffline now ?c1 (client_send cid ?ok ?s3)"
    by (simp add: accept_auth_def s1 Let_def)
  then show ?thesis
    using sends_conns [OF s4, of ?g ?rows] by (simp add: deliverOffline_def Let_def cid rows)
qed

lemma accept_auth_queue:
  assumes "server_inv s" and "srv_conns s cid = Some c" and "ch_buf (cl_sendCh c) = []"
  shows "\<exists>c'. srv_conns (accept_auth now cid pid s) cid = Some c' \<and>
    ch_buf (cl_sendCh c') = mk_frame CmdAuthOK None (UnixNano now) #
      map (\<lambda>r. mk_frame CmdRelay (Some (sm_payload r)) (UnixNano now)) (offline_rows s (PeerID_String pid))"
proof -
  let ?ok = "mk_frame CmdAuthOK None (UnixNano now)"
  let ?fs = "map (\<lambda>r. mk_frame CmdRelay (Some (sm_payload r)) (UnixNano now)) (offline_rows s (PeerID_String pid))"
  have "ch_cap (cl_sendCh c) = 256" using assms(1,2) by (simp add: server_inv_def conns_ok_def)
  then have "ch_buf (fold chan_offer ?fs (chan_offer ?ok (cl_sendCh c))) = ?ok # ?fs"
    using go_chan.contents_burst [of "chan_offer ?ok (cl_sendCh c)" ?fs]
      offline_rows_length [of s "PeerID_String pid"] assms(3) by (simp add: chan_simps)
  then show ?thesis by (simp add: accept_auth_conn [OF assms(1,2)])
qed

lemma accept_auth_messages:
  assumes "srv_conns s cid = Some c"
  shows "srv_messages (accept_auth now cid pid s) =
    map (\<lambda>r. if sm_id r \<in> sm_id ` set (offline_rows s (PeerID_String pid)) then r\<lparr>sm_delivered := 1\<rparr> else r) (srv_messages s)"
  using assms
  by (simp add: accept_auth_def set_authed_def Let_def deliverOffline_def marks_messages offline_rows_def)

lemma accept_auth_clients:
  assumes "srv_conns s cid = Some c"
  shows "srv_clients (accept_auth now cid pid s) = srv_clients (register (c\<lparr>cl_peerID := pid, cl_authed := True\<rparr>) s)"
  using assms
  by (simp add: accept_auth_def set_authed_def Let_def deliverOffline_def register_def split: option.splits)

lemma handleRelay_messages:
  assumes "unmarshal dec_Message (rf_Payload f) = Some m" and "msg_ID m \<noteq> ''''"
  shows "srv_messages (handleRelay now cid f s) = insert_or_ignore sm_id
     \<lparr>sm_id = msg_ID m, sm_chat_id = msg_ChatID m, sm_sender_peer_id = PeerID_String (msg_SenderID m),
      sm_recipient_peer_id = (case msg_RecipientID m of None \<Rightarrow> '''' | Some p \<Rightarrow> PeerID_String p),
      sm_sent_at = UnixNano (msg_SentAt m), sm_payload = the (rf_Payload f), sm_delivered = 0\<rparr> (srv_messages s)"
proof -
  obtain j where j: "rf_Payload f = Some j" "dec_Message j = Some m"
    using assms(1) by (auto simp: unmarshal_def split: option.splits)
  have d: "srv_messages (deliverTo p f s') = srv_messages s'" for p s'
    by (simp add: deliverTo_def split: option.splits)
  have "srv_messages (fan_out cid f ms s') = srv_messages s'" for ms s'
    unfolding fan_out_def by (rule fold_unchanged) (simp add: d)
  then show ?thesis
    using assms(2) j by (simp add: handleRelay_def unmarshal_def storeMessage_def Let_def d split: option.splits)
qed

lemma dec_login_register:
  "dec_register j = Some req \<Longrightarrow> dec_login j = Some (rq_Username req, rq_Password req)"
  by (auto simp: dec_register_def dec_login_def split: Option.bind_splits)

lemma checkPassword_hashPassword: "hashPassword hs rnd p = (h, salt) \<Longrightarrow> checkPassword hs h salt p"
  by (auto simp: hashPassword_def checkPassword_def Let_def)

subsection \<open>Properties\<close>



text \<open>
  An account can be used. When \<open>/auth/register\<close> creates an account, \<open>/auth/login\<close> with the same
  body succeeds in the resulting state and returns the token that registration returned, and
  that token is accepted by the check that authentication performs.
\<close>

theorem register_then_login:
  assumes "handleHTTPRegister hs now rnd ''POST'' body s = (r, s')" and "srv_users s' \<noteq> srv_users s"
  shows "\<exists>name tok rest rest' u. r = HttpJson (JObj ([(''ok'', JBool True), (''token'', JStr tok)] @ rest)) \<and>
    fst (handleHTTPLogin hs now' ''POST'' body s') = HttpJson (JObj ([(''ok'', JBool True), (''token'', JStr tok)] @ rest')) \<and>
    getUserByUsername s' name = Some u \<and> isValidUsername name \<and> validateToken hs (srv_cfg s') u tok"
proof -
  obtain req where req: "unmarshal dec_register body = Some req"
    using assms by (auto simp: handleHTTPRegister_def Let_def split: if_splits option.splits)
  let ?name = "TrimSpace (ToLower (rq_Username req))" and ?u = "new_user hs now rnd (TrimSpace (ToLower (rq_Username req))) req"
  have ok: "isValidUsername ?name" "getUserByUsername s ?name = None" "s' = s\<lparr>srv_users := srv_users s @ [?u]\<rparr>"
    "r = HttpJson (JObj [(''ok'', JBool True), (''token'', JStr (generateToken hs (srv_cfg s) ?u)), (''username'', JStr ?name)])"
    using assms req by (auto simp: handleHTTPRegister_def Let_def insert_user_def split: if_splits option.splits)
  then have get: "getUserByUsername s' ?name = Some ?u"
    by (simp add: getUserByUsername_def table_simps)
  have "checkPassword hs (ua_PasswordHash ?u) (ua_Salt ?u) (rq_Password req)"
    by (auto simp: new_user_def checkPassword_hashPassword split: prod.splits)
  moreover have "unmarshal dec_login body = Some (rq_Username req, rq_Password req)"
    using req dec_login_register by (auto simp: unmarshal_def split: option.splits)
  ultimately have "\<exists>rest'. fst (handleHTTPLogin hs now' ''POST'' body s') =
      HttpJson (JObj ([(''ok'', JBool True), (''token'', JStr (generateToken hs (srv_cfg s) ?u))] @ rest'))"
    using get ok(3) by (simp add: handleHTTPLogin_def Let_def)
  with ok get show ?thesis by (auto simp: validateToken_def)
qed


text \<open>
  Relayed messages are stored once and stay undelivered. A frame with a decodable message that
  has an ID leaves exactly one stored row for that ID, a second frame with the same ID does not
  replace it, and a new row is marked undelivered even when the recipient is online and was sent
  the frame directly, so that the recipient is sent it again at the next authentication.
\<close>

theorem relay_stored_undelivered:
  assumes "rf_Payload f = Some (enc_Message m)" and "meta_ints_ok (msg_Metadata m)"
    and "msg_ID m \<noteq> ''''" and "find_row sm_id (msg_ID m) (srv_messages s) = None" and "msg_RecipientID m = Some p"
  shows "\<exists>r. find_row sm_id (msg_ID m) (srv_messages (handleRelay now cid f s)) = Some r \<and>
      sm_delivered r = 0 \<and> sm_recipient_peer_id r = PeerID_String p \<and> sm_payload r = enc_Message m \<and>
      srv_messages (handleRelay now' cid' f (handleRelay now cid f s)) = srv_messages (handleRelay now cid f s)"
proof -
  have dec: "unmarshal dec_Message (rf_Payload f) = Some m"
    using assms(1,2) by (simp add: unmarshal_def dec_enc_Message)
  note rel = handleRelay_messages [OF dec assms(3)]
  show ?thesis
    using assms(1,4,5) by (simp add: rel table_simps) (simp add: insert_or_ignore_def)
qed

text \<open>
  A second identity leaves the first one behind. When a registered connection authenticates
  again under another peer ID and then disconnects, the registry still lists it under its
  first peer ID: the peer looks online for ever and frames for it go to a dead queue.
\<close>

theorem reauth_leaves_stale_entry:
  assumes "server_reachable cfg s" and "srv_conns s cid = Some c"
    and "map_of (srv_clients s) (PeerID_String p) = Some cids" and "cid \<in> set cids"
    and "PeerID_String q \<noteq> PeerID_String p"
  shows "\<exists>cids'. map_of (srv_clients (disconnect now' cid (accept_auth now cid q s))) (PeerID_String p) = Some cids' \<and>
    cid \<in> set cids'"
proof -
  have inv: "server_inv s" using assms(1) by (rule server_reachable_inv)
  let ?s = "accept_auth now cid q s"
  have keep: "map_of (srv_clients ?s) (PeerID_String p) = Some cids"
    using assms(3,5) unfolding accept_auth_clients [OF assms(2)]
    by (auto simp: register_def Let_def AList.update_conv' split: option.splits)
  obtain c' where c': "srv_conns ?s cid = Some c'" "cl_peerID c' = q"
    using accept_auth_conn [OF inv assms(2)] by simp
  have "map_of (srv_clients (unregister now' c' ?s)) (PeerID_String p) = Some cids"
    using keep assms(5) c'(2)
    by (auto simp: unregister_def Let_def AList.update_conv' AList.delete_conv' split: option.splits)
  with c'(1) assms(4) show ?thesis by (simp add: disconnect_def)
qed

subsection \<open>Witnesses\<close>

definition demo_cfg :: ServerConfig where
  "demo_cfg = \<lparr>sc_MaxMsgAgeDays = 30, sc_MaxMediaSizeMB = 1, sc_TokenSecret = ''secret''\<rparr>"

definition demo_hashes :: hashes where
  "demo_hashes = \<lparr>sum256 = copy_array 32, hmac256 = (\<lambda>k d. copy_array 32 (k @ d))\<rparr>"

definition demo_server :: Server where
  "demo_server = handleWSUpgrade ''c1'' (NewServer demo_cfg)"

definition demo_conn :: client where
  "demo_conn = \<lparr>cl_id = ''c1'', cl_peerID = zero_PeerID, cl_sendCh = make_chan 256, cl_authed = False, cl_username = ''''\<rparr>"

lemma demo_server_reachable: "server_reachable demo_cfg demo_server"
  unfolding demo_server_def
  by (rule srv_more [OF srv_start srv_connect]) (simp add: NewServer_def)

lemma demo_server_conn: "srv_conns demo_server ''c1'' = Some demo_conn"
  by (simp add: demo_server_def demo_conn_def handleWSUpgrade_def)

definition demo_auth :: frame where
  "demo_auth = mk_frame CmdAuth (Some (JObj [(''node_id'', JStr ''aa''), (''fingerprint'', JStr ''f''), (''ts'', JInt 0)])) 0"

definition demo_authed :: Server where
  "demo_authed = handleFrame demo_hashes 0 [] ''c1'' demo_auth demo_server"

abbreviation demo_pid :: PeerID where
  "demo_pid \<equiv> \<lparr>pid_NodeID = ''aa'', pid_Fingerprint = ''f''\<rparr>"

lemma demo_authed_eq: "demo_authed = accept_auth 0 ''c1'' demo_pid demo_server"
  by (simp add: demo_authed_def handleFrame_def demo_server_conn demo_auth_def mk_frame_def handleAuth_def
      unmarshal_def dec_auth_def fld_def demo_conn_def int64_range_def)



definition demo_credentials :: json where
  "demo_credentials = JObj [(''username'', JStr ''Alice''), (''password'', JStr ''hunter2'')]"

lemma demo_register:
  "srv_users (snd (handleHTTPRegister demo_hashes 5 [1] ''POST'' (Some demo_credentials) demo_server)) \<noteq> srv_users demo_server"
  by (simp add: handleHTTPRegister_def unmarshal_def demo_credentials_def dec_register_def fld_def Let_def
      ToLower_def ascii_lower_def TrimSpace_def is_space_def isValidUsername_def username_char_def
      getUserByUsername_def find_row_def insert_user_def demo_server_def handleWSUpgrade_def NewServer_def)

theorem register_then_login_witness:
  "\<exists>tok rest. fst (handleHTTPLogin demo_hashes 9 ''POST'' (Some demo_credentials)
       (snd (handleHTTPRegister demo_hashes 5 [1] ''POST'' (Some demo_credentials) demo_server))) =
     HttpJson (JObj ([(''ok'', JBool True), (''token'', JStr tok)] @ rest))"
  using register_then_login [OF prod.collapse [symmetric] demo_register, of 9] by blast


theorem relay_stored_undelivered_witness:
  "\<exists>r. find_row sm_id ''m1'' (srv_messages (handleRelay 0 ''c1'' (mk_frame CmdRelay (Some (enc_Message demo_json_message)) 0) demo_server)) = Some r \<and>
     sm_delivered r = 0"
  using relay_stored_undelivered [
      of "mk_frame CmdRelay (Some (enc_Message demo_json_message)) 0" demo_json_message
         demo_server "\<lparr>pid_NodeID = ''n'', pid_Fingerprint = ''f''\<rparr>" 0 "''c1''"]
  by (simp add: mk_frame_def demo_json_message_def meta_ints_ok_def empty_meta_def int64_range_def
      demo_server_def handleWSUpgrade_def NewServer_def find_row_def) blast

theorem reauth_leaves_stale_entry_witness:
  "\<exists>cids. map_of (srv_clients (disconnect 2 ''c1'' (accept_auth 1 ''c1'' zero_PeerID demo_authed))) ''aa:f'' = Some cids \<and>
     ''c1'' \<in> set cids"
proof -
  have reach: "server_reachable demo_cfg demo_authed"
    unfolding demo_authed_def by (rule srv_more [OF demo_server_reachable srv_frame])
  obtain c where c: "srv_conns demo_authed ''c1'' = Some c"
    using accept_auth_conn [OF server_reachable_inv [OF demo_server_reachable] demo_server_conn]
    by (auto simp: demo_authed_eq)
  have clients: "map_of (srv_clients demo_authed) (PeerID_String demo_pid) = Some [''c1'']"
    unfolding demo_authed_eq accept_auth_clients [OF demo_server_conn]
    by (simp add: register_def demo_conn_def demo_server_def handleWSUpgrade_def NewServer_def)
  from reauth_leaves_stale_entry [OF reach c clients, of zero_PeerID] show ?thesis
    by (simp add: PeerID_String_def)
qed

end
