(* ===== verification/Json_Codec.thy ===== *)
theory Json_Codec
  imports Json
begin

text \<open>
  A concrete invertible encoding of JSON trees as bytes, tag by tag with unary lengths. It is not
  the text format of \<open>encoding/json\<close>; it is the instance with which the hypotheses on
  \<open>json.Marshal\<close> and \<open>json.Unmarshal\<close> are shown to be satisfiable. \<open>decode_encode\<close> is the round
  trip.
\<close>

section \<open>Definitions\<close>

definition put_nat :: "nat \<Rightarrow> bytes" where
  "put_nat n = replicate n 1 @ [0]"

fun get_nat :: "bytes \<Rightarrow> (nat \<times> bytes) option" where
  "get_nat [] = None"
| "get_nat (b # bs) =
     (if b = 0 then Some (0, bs)
      else (case get_nat bs of None \<Rightarrow> None | Some (n, rest) \<Rightarrow> Some (Suc n, rest)))"

definition put_int :: "int \<Rightarrow> bytes" where
  "put_int i = (if i < 0 then 1 else 0) # put_nat (nat \<bar>i\<bar>)"

fun get_int :: "bytes \<Rightarrow> (int \<times> bytes) option" where
  "get_int [] = None"
| "get_int (b # bs) =
     (case get_nat bs of None \<Rightarrow> None
      | Some (n, rest) \<Rightarrow> Some (if b = 1 then - int n else int n, rest))"

definition put_bytes :: "bytes \<Rightarrow> bytes" where
  "put_bytes b = put_nat (length b) @ b"

definition get_bytes :: "bytes \<Rightarrow> (bytes \<times> bytes) option" where
  "get_bytes bs =
     (case get_nat bs of None \<Rightarrow> None
      | Some (n, rest) \<Rightarrow> if length rest < n then None else Some (take n rest, drop n rest))"

fun get_many :: "(bytes \<Rightarrow> ('a \<times> bytes) option) \<Rightarrow> nat \<Rightarrow> bytes \<Rightarrow> ('a list \<times> bytes) option" where
  "get_many g 0 bs = Some ([], bs)"
| "get_many g (Suc n) bs =
     (case g bs of None \<Rightarrow> None
      | Some (x, rest) \<Rightarrow> (case get_many g n rest of None \<Rightarrow> None | Some (xs, rest') \<Rightarrow> Some (x # xs, rest')))"

fun put_json :: "json \<Rightarrow> bytes" where
  "put_json JNull = [0]"
| "put_json (JBool b) = [1, if b then 1 else 0]"
| "put_json (JInt i) = 2 # put_int i"
| "put_json (JStr s) = 3 # put_bytes (string_bytes s)"
| "put_json (JBytes b) = 4 # put_bytes b"
| "put_json (JTime t) = 5 # put_int t"
| "put_json (JArr js) = 6 # put_nat (length js) @ concat (map put_json js)"
| "put_json (JObj kvs) = 7 # put_nat (length kvs) @
     concat (map (\<lambda>(k, x). put_bytes (string_bytes k) @ put_json x) kvs)"

definition get_pair :: "(bytes \<Rightarrow> (json \<times> bytes) option) \<Rightarrow> bytes \<Rightarrow> ((string \<times> json) \<times> bytes) option" where
  "get_pair g bs =
     (case get_bytes bs of None \<Rightarrow> None
      | Some (k, rest) \<Rightarrow> (case g rest of None \<Rightarrow> None | Some (x, rest') \<Rightarrow> Some ((bytes_string k, x), rest')))"

fun get_json :: "nat \<Rightarrow> bytes \<Rightarrow> (json \<times> bytes) option" where
  "get_json 0 bs = None"
| "get_json (Suc n) [] = None"
| "get_json (Suc n) (tag # bs) =
     (if tag = 0 then Some (JNull, bs)
      else if tag = 1 then (case bs of [] \<Rightarrow> None | b # rest \<Rightarrow> Some (JBool (b = 1), rest))
      else if tag = 2 then map_option (map_prod JInt id) (get_int bs)
      else if tag = 3 then map_option (map_prod (JStr \<circ> bytes_string) id) (get_bytes bs)
      else if tag = 4 then map_option (map_prod JBytes id) (get_bytes bs)
      else if tag = 5 then map_option (map_prod JTime id) (get_int bs)
      else (case get_nat bs of None \<Rightarrow> None
            | Some (k, rest) \<Rightarrow>
                if tag = 6 then map_option (map_prod JArr id) (get_many (get_json n) k rest)
                else map_option (map_prod JObj id) (get_many (get_pair (get_json n)) k rest)))"

definition encode :: "json \<Rightarrow> bytes option" where
  "encode j = Some (put_json j)"

definition decode :: "bytes \<Rightarrow> json option" where
  "decode bs = (case get_json (length bs) bs of Some (j, []) \<Rightarrow> Some j | _ \<Rightarrow> None)"

section \<open>Round trip\<close>

lemma get_put_nat [simp]: "get_nat (put_nat n @ rest) = Some (n, rest)"
  by (induction n) (simp_all add: put_nat_def)

lemma get_put_int [simp]: "get_int (put_int i @ rest) = Some (i, rest)"
  by (simp add: put_int_def)

lemma get_put_bytes [simp]: "get_bytes (put_bytes b @ rest) = Some (b, rest)"
  by (simp add: get_bytes_def put_bytes_def)

lemma get_many_put:
  assumes "\<And>x rest. x \<in> set xs \<Longrightarrow> g (p x @ rest) = Some (x, rest)"
  shows "get_many g (length xs) (concat (map p xs) @ rest) = Some (xs, rest)"
  using assms by (induction xs) simp_all

lemma length_concat_mem: "x \<in> set xs \<Longrightarrow> length (p x) \<le> length (concat (map p xs))"
  by (induction xs) auto

lemma get_put_json: "length (put_json j) \<le> n \<Longrightarrow> get_json n (put_json j @ rest) = Some (j, rest)"
proof (induction n arbitrary: j rest)
  case 0
  then show ?case by (cases j) simp_all
next
  case (Suc n)
  show ?case
  proof (cases j)
    case (JArr js)
    have "get_json n (put_json x @ r) = Some (x, r)" if "x \<in> set js" for x r
      using Suc.prems length_concat_mem [OF that, of put_json] JArr by (intro Suc.IH) simp
    then show ?thesis using JArr by (simp add: get_many_put)
  next
    case (JObj kvs)
    let ?p = "\<lambda>(k, x). put_bytes (string_bytes k) @ put_json x"
    have "get_pair (get_json n) (?p kx @ r) = Some (kx, r)" if "kx \<in> set kvs" for kx r
    proof -
      obtain k x where kx: "kx = (k, x)" by (cases kx)
      have "length (put_json x) \<le> n"
        using Suc.prems length_concat_mem [OF that, of ?p] JObj kx by simp
      then show ?thesis using kx Suc.IH by (simp add: get_pair_def)
    qed
    then show ?thesis using JObj get_many_put [of kvs "get_pair (get_json n)" ?p] by simp
  qed simp_all
qed

lemma decode_encode: "encode j = Some b \<Longrightarrow> decode b = Some j"
  using get_put_json [of j "length (put_json j)" "[]"] by (auto simp: encode_def decode_def)

end
