(* ===== verification/Engine.thy ===== *)
theory Engine
  imports Storage Crypto_Provider Compress Event_Bus Json_Codec
begin

text \<open>
  The messenger engine of \<^verbatim>\<open>messenger/engine.go\<close>, outgoing half: the engine state, the packet
  builder, encryption for a chat, \<open>send\<close> and \<open>transmit\<close>, handshakes, sender keys, and the calls of
  the public API that create, change and send. The state is a record holding the storage, the
  crypto provider, the configuration and the local identity; what leaves the engine is logged in
  it: packets accepted by the transport, requests to the relay connection, signals handed to the
  call manager and events published on the bus. An \<open>env\<close> holds what a call takes from outside: the primitives, the compression codecs,
  \<open>json.Marshal\<close> and \<open>json.Unmarshal\<close> between trees and bytes, the clock, the UUID generator and
  the random reader (both indexed by the number of draws so far), which nodes the transport can
  reach and the networks joined. Errors are values, and the nil dereference in \<open>send\<close> is \<open>Panic\<close>.
  One call reads the clock once. The results are in \<open>Engine_Recv\<close> and \<open>Spec2Isabelle\<close>, except
  those about the mention parser and about permissions, which are here.
\<close>

section \<open>Definitions\<close>

subsection \<open>State and environment\<close>

record json_codec =
  json_Marshal :: "json \<Rightarrow> bytes option"
  json_Unmarshal :: "bytes \<Rightarrow> json option"

text \<open>What the engine relies on: unmarshalling inverts marshalling.\<close>

definition json_codec_law :: "json_codec \<Rightarrow> bool" where
  "json_codec_law J = (\<forall>j b. json_Marshal J j = Some b \<longrightarrow> json_Unmarshal J b = Some j)"

record env =
  env_prim :: primitives
  env_codecs :: codecs
  env_json :: json_codec
  env_now :: gotime
  env_uuid :: "nat \<Rightarrow> string"
  env_uuid_Parse :: "string \<Rightarrow> bytes option"
  env_rand :: "nat \<Rightarrow> bytes option"
  env_reach :: "NodeID \<Rightarrow> bool"
  env_nets :: "NetworkID list"

datatype event_data = NoData | DMessage Message | DMessageID MessageID | DPeerID PeerID | DPeer Peer
  | DRequest ContactRequest | DTyping PeerID ChatID | DReaction MessageID string PeerID string
  | DMember ChatID PeerID "MemberRole option" | DCount int

record HandshakePayload =
  hp_PeerID :: PeerID
  hp_DisplayName :: string
  hp_DHPublic :: bytes
  hp_SignPublic :: bytes
  hp_Signature :: bytes
  hp_Timestamp :: int

datatype relay_request = RelayMessage Message | RelayHandshake HandshakePayload string | SyncHistory ChatID int

record Engine =
  e_cfg :: Config
  e_store :: SQLiteStorage
  e_cryptoPro :: Provider
  e_identity :: Identity
  e_localPeer :: Peer
  e_serverUp :: bool
  e_sent :: "(NodeID \<times> Packet) list"
  e_relayed :: "relay_request list"
  e_events :: "event_data Event list"
  e_signals :: "(PeerID \<times> bytes) list"
  e_draws :: nat
  e_statMsgSent :: "64 word"
  e_statMsgRecv :: "64 word"
  e_statBytesSent :: "64 word"
  e_statBytesRecv :: "64 word"
  e_statEncryptErr :: "64 word"
  e_statDecryptErr :: "64 word"
  e_statRetransmit :: "64 word"

datatype engine_error = ChatNotFound | PeerNotFound | RequestNotFound | MessageNotFound | MemberNotFound
  | NoMediaPermission | NoMessagePermission | NotOwnMessage | InvalidMode | PackNotFound | StickerNotFound
  | NoServer | ConnectError | MediaError | MarshalError | TransportError
  | StoreError storage_error | EncryptError crypto_error | CompressError compress_error

datatype 'a outcome = Ok 'a | Err engine_error | Panic

abbreviation local_id :: "Engine \<Rightarrow> PeerID" where
  "local_id e \<equiv> peer_ID (e_localPeer e)"

definition publish :: "string \<Rightarrow> gotime \<Rightarrow> event_data \<Rightarrow> Engine \<Rightarrow> Engine" where
  "publish ty ts d e = e\<lparr>e_events := e_events e @ [\<lparr>evt_Type = ty, evt_Timestamp = ts, evt_Data = d\<rparr>]\<rparr>"

definition new_uuid :: "env \<Rightarrow> Engine \<Rightarrow> string \<times> Engine" where
  "new_uuid v e = (env_uuid v (e_draws e), e\<lparr>e_draws := Suc (e_draws e)\<rparr>)"

definition read_rand :: "env \<Rightarrow> Engine \<Rightarrow> bytes option \<times> Engine" where
  "read_rand v e = (env_rand v (e_draws e), e\<lparr>e_draws := Suc (e_draws e)\<rparr>)"

definition with_store :: "(SQLiteStorage \<Rightarrow> SQLiteStorage) \<Rightarrow> Engine \<Rightarrow> Engine" where
  "with_store f e = e\<lparr>e_store := f (e_store e)\<rparr>"

text \<open>\<open>x, _ := json.Marshal(...)\<close>: the bytes are nil when marshalling fails.\<close>

definition marshal_nil :: "env \<Rightarrow> json \<Rightarrow> bytes" where
  "marshal_nil v j = (case json_Marshal (env_json v) j of None \<Rightarrow> [] | Some b \<Rightarrow> b)"

definition enc_strings :: "(string \<times> string) list \<Rightarrow> json" where
  "enc_strings kvs = JObj (map (\<lambda>(k, x). (k, JStr x)) kvs)"

subsection \<open>Packets\<close>

definition packetHeaderBytes :: "Packet \<Rightarrow> bytes" where
  "packetHeaderBytes pkt =
     [ucast (drop_bit 24 (pkt_Magic pkt)), ucast (drop_bit 16 (pkt_Magic pkt)),
      ucast (drop_bit 8 (pkt_Magic pkt)), ucast (pkt_Magic pkt)] @
     [pkt_Version pkt, pkt_Type pkt, pkt_Flags pkt, pkt_TTL pkt] @ pkt_PacketID pkt"

text \<open>A packet literal with the fields the code sets; the others are zero.\<close>

definition packet :: "MessageType \<Rightarrow> PacketFlags \<Rightarrow> gotime \<Rightarrow> bytes \<Rightarrow> Packet" where
  "packet ty flags ts body = zero_packet\<lparr>pkt_Magic := PacketMagic, pkt_Version := PacketVersion,
     pkt_Type := ty, pkt_Flags := flags, pkt_TTL := 64, pkt_Timestamp := word_of_int (UnixNano ts),
     pkt_Body := body\<rparr>"

definition buildPacket :: "env \<Rightarrow> Engine \<Rightarrow> Message \<Rightarrow> engine_error + Packet" where
  "buildPacket v e msg =
     (let node = string_bytes (pid_NodeID (local_id e));
          pkt0 = packet (msg_Type msg) (FlagEncrypted OR FlagCompressed OR FlagReliable) (msg_SentAt msg) [];
          pkt1 = (if length node \<ge> 5 then pkt0\<lparr>pkt_SenderNode := take 5 node\<rparr> else pkt0);
          pkt2 = (case env_uuid_Parse v (msg_ID msg) of None \<Rightarrow> pkt1
                  | Some uid \<Rightarrow> pkt1\<lparr>pkt_PacketID := copy_array 16 uid\<rparr>)
      in case json_Marshal (env_json v) (enc_Message msg) of
           None \<Rightarrow> Inl MarshalError
         | Some body \<Rightarrow>
             let pkt3 = pkt2\<lparr>pkt_Body := body\<rparr>;
                 mac = Provider_HMAC (env_prim v) (take 32 (id_SignPrivate (e_identity e)))
                         (packetHeaderBytes pkt3 @ body)
             in Inr (pkt3\<lparr>pkt_HMAC := copy_array 32 mac\<rparr>))"

text \<open>\<open>trans.Send\<close>: the packet is accepted when the node can be reached.\<close>

definition trans_Send :: "env \<Rightarrow> NodeID \<Rightarrow> Packet \<Rightarrow> Engine \<Rightarrow> bool \<times> Engine" where
  "trans_Send v to pkt e =
     (if env_reach v to then (True, e\<lparr>e_sent := e_sent e @ [(to, pkt)]\<rparr>) else (False, e))"

definition sendPkt :: "env \<Rightarrow> NodeID \<Rightarrow> Packet \<Rightarrow> Engine \<Rightarrow> nat \<times> Engine" where
  "sendPkt v to pkt e =
     (case trans_Send v to pkt e of
        (False, e') \<Rightarrow> (0, e')
      | (True, e') \<Rightarrow> (length (pkt_Body pkt), e'))"

definition send_to_member :: "env \<Rightarrow> Packet \<Rightarrow> ChatMember \<Rightarrow> Engine \<Rightarrow> Engine" where
  "send_to_member v pkt m e =
     (if PeerID_String (cm_PeerID m) = PeerID_String (local_id e) then e
      else case sendPkt v (pid_NodeID (cm_PeerID m)) pkt e of
        (n, e') \<Rightarrow> e'\<lparr>e_statBytesSent := e_statBytesSent e' + of_nat n\<rparr>)"

definition effective_mode :: "Config \<Rightarrow> TransportMode" where
  "effective_mode c = (if cfg_TransportMode c = '''' then TransportBoth else cfg_TransportMode c)"

definition transmit :: "env \<Rightarrow> Chat \<Rightarrow> Message \<Rightarrow> Engine \<Rightarrow> engine_error option \<times> Engine" where
  "transmit v chat msg e =
     (case buildPacket v e msg of
        Inl err \<Rightarrow> (Some err, e)
      | Inr pkt \<Rightarrow>
          let mode = effective_mode (e_cfg e);
              e1 = (if mode = TransportP2P \<or> mode = TransportBoth
                    then fold (send_to_member v pkt) (chat_Members chat) e else e);
              e2 = (if (mode = TransportServer \<or> mode = TransportBoth) \<and> e_serverUp e1
                    then e1\<lparr>e_relayed := e_relayed e1 @ [RelayMessage msg]\<rparr> else e1)
          in (None, e2))"

subsection \<open>Sender keys\<close>

definition enc_SenderKeyDistribution :: "SenderKeyDistribution \<Rightarrow> json" where
  "enc_SenderKeyDistribution d = JObj
     [(''chain_id'', JArr (map (JInt \<circ> uint) (skd_ChainID d))), (''iteration'', JInt (uint (skd_Iteration d))),
      (''chain_key'', JBytes (skd_ChainKey d)), (''sign_pub'', JBytes (skd_SignPub d)),
      (''chat_id'', JStr (skd_ChatID d)), (''owner_id'', enc_PeerID (skd_OwnerID d)),
      (''sig'', JBytes (skd_Signature d)), (''issued_at'', JTime (skd_IssuedAt d))]"

definition dec_SenderKeyDistribution :: "json \<Rightarrow> SenderKeyDistribution option" where
  "dec_SenderKeyDistribution j = do {
     fs \<leftarrow> json_fields j;
     ci \<leftarrow> fld ''chain_id'' (dec_list dec_word) [] fs;
     it \<leftarrow> fld ''iteration'' dec_word 0 fs;
     ck \<leftarrow> fld ''chain_key'' dec_bytes [] fs;
     sp \<leftarrow> fld ''sign_pub'' dec_bytes [] fs;
     c \<leftarrow> fld ''chat_id'' dec_string '''' fs;
     ow \<leftarrow> fld ''owner_id'' dec_PeerID zero_PeerID fs;
     sg \<leftarrow> fld ''sig'' dec_bytes [] fs;
     ia \<leftarrow> fld ''issued_at'' dec_time zero_time fs;
     Some \<lparr>skd_ChainID = copy_array 16 ci, skd_Iteration = it, skd_ChainKey = ck, skd_SignPub = sp,
           skd_ChatID = c, skd_OwnerID = ow, skd_Signature = sg, skd_IssuedAt = ia\<rparr> }"

definition distributeSenderKeyTo :: "env \<Rightarrow> Chat \<Rightarrow> PeerID \<Rightarrow> Engine \<Rightarrow> Engine" where
  "distributeSenderKeyTo v chat peer e =
     (case GetSenderKey (e_cryptoPro e) (chat_ID chat) (local_id e) of
        None \<Rightarrow> e
      | Some sk \<Rightarrow>
     (case GetPeer (e_store e) peer of
        None \<Rightarrow> e
      | Some remotePeer \<Rightarrow>
     (case DeriveSessionKey (env_prim v) (e_identity e) (peer_PublicKey remotePeer) of
        Inl _ \<Rightarrow> e
      | Inr sessionKey \<Rightarrow>
     (case read_rand v e of (rnd, e1) \<Rightarrow>
     (case Provider_Encrypt (env_prim v) rnd sessionKey (snd_ChainKey sk) (string_bytes (chat_ID chat)) of
        Inl _ \<Rightarrow> e1
      | Inr encChainKey \<Rightarrow>
          let dist = \<lparr>skd_ChainID = snd_ChainID sk, skd_Iteration = snd_Iteration sk,
                      skd_ChainKey = encChainKey, skd_SignPub = id_SignPublic (e_identity e),
                      skd_ChatID = chat_ID chat, skd_OwnerID = local_id e, skd_Signature = [],
                      skd_IssuedAt = env_now v\<rparr>
          in snd (trans_Send v (pid_NodeID peer)
               (packet MsgSenderKeyDist 0 (env_now v) (marshal_nil v (enc_SenderKeyDistribution dist))) e1))))))"

definition initGroupSenderKey :: "env \<Rightarrow> Chat \<Rightarrow> Engine \<Rightarrow> Engine" where
  "initGroupSenderKey v chat e =
     (case read_rand v e of (rndID, e1) \<Rightarrow>
      case read_rand v e1 of (rndKey, e2) \<Rightarrow>
      case NewSenderKey (env_now v) rndID rndKey (local_id e) (chat_ID chat) (id_SignPrivate (e_identity e)) of
        Inl _ \<Rightarrow> e2
      | Inr sk \<Rightarrow>
          fold (\<lambda>m st. if PeerID_String (cm_PeerID m) = PeerID_String (local_id e) then st
                       else distributeSenderKeyTo v chat (cm_PeerID m) st)
            (chat_Members chat) (e2\<lparr>e_cryptoPro := StoreSenderKey sk (e_cryptoPro e2)\<rparr>))"

subsection \<open>Encryption for a chat\<close>

text \<open>Sessions and sender keys are shared by pointer: an advanced one replaces the stored one.\<close>

definition put_session :: "PeerID \<Rightarrow> SessionKey \<Rightarrow> Engine \<Rightarrow> Engine" where
  "put_session peer s e = e\<lparr>e_cryptoPro := (e_cryptoPro e)
     \<lparr>prov_sessions := (prov_sessions (e_cryptoPro e))(PeerID_String peer \<mapsto> s)\<rparr>\<rparr>"

definition put_sender_key :: "ChatID \<Rightarrow> PeerID \<Rightarrow> SenderKey \<Rightarrow> Engine \<Rightarrow> Engine" where
  "put_sender_key chatID peer sk e = e\<lparr>e_cryptoPro := (e_cryptoPro e)
     \<lparr>prov_senderKeys := (prov_senderKeys (e_cryptoPro e))(senderKeyID chatID peer \<mapsto> sk)\<rparr>\<rparr>"

definition encrypt_with :: "env \<Rightarrow> bytes \<Rightarrow> bytes \<Rightarrow> ChatID \<Rightarrow> Engine \<Rightarrow> (crypto_error + bytes) \<times> Engine" where
  "encrypt_with v key payload chatID e =
     (case read_rand v e of (rnd, e1) \<Rightarrow>
       (Provider_Encrypt (env_prim v) rnd key payload (string_bytes chatID), e1))"

definition encrypt_direct ::
  "env \<Rightarrow> PeerID \<Rightarrow> bytes \<Rightarrow> ChatID \<Rightarrow> Engine \<Rightarrow> (crypto_error + bytes) \<times> Engine" where
  "encrypt_direct v rid payload chatID e =
     (case GetSession (e_cryptoPro e) rid of
        Some sess \<Rightarrow>
          (case read_rand v e of (rnd, e1) \<Rightarrow>
           case EncryptPacketBody (env_prim v) (env_now v) rnd sess (string_bytes chatID) payload of
             (r, sess') \<Rightarrow> (r, put_session rid sess' e1))
      | None \<Rightarrow>
          (case GetPeer (e_store e) rid of
             None \<Rightarrow> (Inr payload, e)
           | Some peer \<Rightarrow>
               (case DeriveSessionKey (env_prim v) (e_identity e) (peer_PublicKey peer) of
                  Inl err \<Rightarrow> (Inl err, e)
                | Inr key \<Rightarrow> encrypt_with v key payload chatID e)))"

definition encrypt_group :: "env \<Rightarrow> Chat \<Rightarrow> bytes \<Rightarrow> ChatID \<Rightarrow> Engine \<Rightarrow> (crypto_error + bytes) \<times> Engine" where
  "encrypt_group v chat payload chatID e =
     (let e1 = (if GetSenderKey (e_cryptoPro e) (chat_ID chat) (local_id e) = None
                then initGroupSenderKey v chat e else e)
      in case GetSenderKey (e_cryptoPro e1) (chat_ID chat) (local_id e1) of
           None \<Rightarrow> (Inr payload, e1)
         | Some sk \<Rightarrow>
             (case SenderKey_Advance (env_prim v) (env_now v) sk of
                (Inl err, sk') \<Rightarrow> (Inl err, put_sender_key (chat_ID chat) (local_id e1) sk' e1)
              | (Inr msgKey, sk') \<Rightarrow>
                  encrypt_with v msgKey payload chatID (put_sender_key (chat_ID chat) (local_id e1) sk' e1)))"

definition encryptForChat :: "env \<Rightarrow> Chat \<Rightarrow> bytes \<Rightarrow> Message \<Rightarrow> Engine \<Rightarrow> (crypto_error + bytes) \<times> Engine" where
  "encryptForChat v chat payload msg e =
     (case (chat_Type chat, msg_RecipientID msg) of
        (ChatDirect, Some rid) \<Rightarrow> encrypt_direct v rid payload (msg_ChatID msg) e
      | _ \<Rightarrow> encrypt_group v chat payload (msg_ChatID msg) e)"

subsection \<open>Sending a message\<close>

definition isUserMessage :: "MessageType \<Rightarrow> bool" where
  "isUserMessage t = (t = MsgText \<or> t = MsgImage \<or> t = MsgAudio \<or> t = MsgVideo \<or> t = MsgFile \<or>
     t = MsgSticker \<or> t = MsgLocation \<or> t = MsgForward)"

text \<open>
  The permission check. In the source \<open>m != nil && t == MsgImage || t == MsgAudio || ...\<close> groups
  as written below, so that the member may be nil when its permissions are read.
\<close>

definition check_permission :: "Chat \<Rightarrow> PeerID \<Rightarrow> MessageType \<Rightarrow> unit outcome" where
  "check_permission chat self t =
     (if \<not> isUserMessage t then Ok ()
      else let m = map_option ((!) (chat_Members chat)) (FindMember chat self) in
        if (m \<noteq> None \<and> t = MsgImage) \<or> t = MsgAudio \<or> t = MsgVideo \<or> t = MsgFile then
          (case m of None \<Rightarrow> Panic
           | Some x \<Rightarrow> if cm_Permissions x AND PermSendMedia = 0 then Err NoMediaPermission else Ok ())
        else if t = MsgText then
          (case m of None \<Rightarrow> Ok ()
           | Some x \<Rightarrow> if cm_Permissions x AND PermSendMessages = 0 then Err NoMessagePermission else Ok ())
        else Ok ())"

definition direct_recipient :: "Chat \<Rightarrow> PeerID \<Rightarrow> PeerID option" where
  "direct_recipient chat self =
     (if chat_Type chat = ChatDirect
      then map_option cm_PeerID (find (\<lambda>m. PeerID_String (cm_PeerID m) \<noteq> PeerID_String self) (chat_Members chat))
      else None)"

definition new_message ::
  "env \<Rightarrow> Engine \<Rightarrow> Chat \<Rightarrow> ChatID \<Rightarrow> string \<Rightarrow> MessageType \<Rightarrow> MessageMeta \<Rightarrow> MessageID option \<Rightarrow> Message" where
  "new_message v e chat chatID uuid t meta replyTo =
     \<lparr>msg_ID = uuid, msg_ChatID = chatID, msg_SenderID = local_id e,
      msg_RecipientID = direct_recipient chat (local_id e), msg_Type = t, msg_Payload = [],
      msg_Metadata = meta, msg_Status = StatusPending, msg_SentAt = env_now v, msg_EditedAt = None,
      msg_ReplyTo = replyTo,
      msg_ExpiresAt = (if chat_DisappearAfter chat > 0 \<and> isUserMessage t
                       then Some (env_now v + chat_DisappearAfter chat) else None)\<rparr>"

text \<open>The part of \<open>send\<close> after encryption: save, transmit, queue or mark as sent, publish.\<close>

definition send_encrypted ::
  "env \<Rightarrow> Chat \<Rightarrow> Message \<Rightarrow> bytes \<Rightarrow> bytes \<Rightarrow> Engine \<Rightarrow> Message outcome \<times> Engine" where
  "send_encrypted v chat msg0 payload finalPayload e =
     (let msg = msg0\<lparr>msg_Payload := payload\<rparr> in
      case SaveMessage msg (e_store e) of
        Inl err \<Rightarrow> (Err (StoreError err), e)
      | Inr st \<Rightarrow>
          (case transmit v chat (msg\<lparr>msg_Payload := finalPayload\<rparr>) (e\<lparr>e_store := st\<rparr>) of
             (Some _, e1) \<Rightarrow>
               (Ok msg, publish ''message.sent'' (env_now v) (DMessage msg)
                  (with_store (EnqueuePending (env_now v) (env_now v) msg) e1))
           | (None, e1) \<Rightarrow>
               let msg' = msg\<lparr>msg_Status := StatusSent\<rparr>;
                   e2 = with_store (UpdateMessageStatus (msg_ID msg) StatusSent) e1
               in (Ok msg', publish ''message.sent'' (env_now v) (DMessage msg')
                     (e2\<lparr>e_statMsgSent := e_statMsgSent e2 + 1\<rparr>))))"

definition send ::
  "env \<Rightarrow> ChatID \<Rightarrow> MessageType \<Rightarrow> bytes \<Rightarrow> MessageMeta \<Rightarrow> MessageID option \<Rightarrow> Engine \<Rightarrow> Message outcome \<times> Engine" where
  "send v chatID t payload meta replyTo e =
     (case GetChat (e_store e) chatID of
        None \<Rightarrow> (Err ChatNotFound, e)
      | Some chat \<Rightarrow>
     (case check_permission chat (local_id e) t of
        Panic \<Rightarrow> (Panic, e)
      | Err err \<Rightarrow> (Err err, e)
      | Ok _ \<Rightarrow>
     (case new_uuid v e of (uuid, e1) \<Rightarrow>
      let msg = new_message v e chat chatID uuid t meta replyTo in
      case Compress.Compress (env_codecs v) payload of
        Inl err \<Rightarrow> (Err (CompressError err), e1)
      | Inr compressed \<Rightarrow>
          if cfg_E2EEnabled (e_cfg e1)
          then (case encryptForChat v chat compressed msg e1 of
                  (Inl err, e2) \<Rightarrow> (Err (EncryptError err), e2\<lparr>e_statEncryptErr := e_statEncryptErr e2 + 1\<rparr>)
                | (Inr final, e2) \<Rightarrow> send_encrypted v chat msg payload final e2)
          else send_encrypted v chat msg payload compressed e1)))"

definition sendSystemMessage :: "env \<Rightarrow> Chat \<Rightarrow> MessageType \<Rightarrow> (string \<times> string) list \<Rightarrow> Engine \<Rightarrow> Engine" where
  "sendSystemMessage v chat t data e =
     snd (send v (chat_ID chat) t (marshal_nil v (enc_strings data)) empty_meta None e)"

definition sendDeliveryReceipt :: "env \<Rightarrow> Message \<Rightarrow> Engine \<Rightarrow> Engine" where
  "sendDeliveryReceipt v original e =
     snd (send v (msg_ChatID original) MsgDelivered
       (marshal_nil v (enc_strings [(''msg_id'', msg_ID original)])) empty_meta None e)"

subsection \<open>Handshake and presence\<close>

definition enc_HandshakePayload :: "HandshakePayload \<Rightarrow> json" where
  "enc_HandshakePayload h = JObj [(''peer_id'', enc_PeerID (hp_PeerID h)),
     (''display_name'', JStr (hp_DisplayName h)), (''dh_pub'', JBytes (hp_DHPublic h)),
     (''sign_pub'', JBytes (hp_SignPublic h)), (''sig'', JBytes (hp_Signature h)), (''ts'', JInt (hp_Timestamp h))]"

definition dec_HandshakePayload :: "json \<Rightarrow> HandshakePayload option" where
  "dec_HandshakePayload j = do {
     fs \<leftarrow> json_fields j;
     p \<leftarrow> fld ''peer_id'' dec_PeerID zero_PeerID fs;
     n \<leftarrow> fld ''display_name'' dec_string '''' fs;
     d \<leftarrow> fld ''dh_pub'' dec_bytes [] fs;
     sp \<leftarrow> fld ''sign_pub'' dec_bytes [] fs;
     sg \<leftarrow> fld ''sig'' dec_bytes [] fs;
     ts \<leftarrow> fld ''ts'' dec_int64 0 fs;
     Some \<lparr>hp_PeerID = p, hp_DisplayName = n, hp_DHPublic = d, hp_SignPublic = sp, hp_Signature = sg,
           hp_Timestamp = ts\<rparr> }"

definition local_handshake :: "env \<Rightarrow> Engine \<Rightarrow> HandshakePayload" where
  "local_handshake v e =
     \<lparr>hp_PeerID = local_id e, hp_DisplayName = peer_DisplayName (e_localPeer e),
      hp_DHPublic = id_DHPublic (e_identity e), hp_SignPublic = id_SignPublic (e_identity e),
      hp_Signature = Provider_Sign (env_prim v) (e_identity e) (id_DHPublic (e_identity e)),
      hp_Timestamp = UnixNano (env_now v)\<rparr>"

definition SendHandshake :: "env \<Rightarrow> NodeID \<Rightarrow> Engine \<Rightarrow> bool \<times> Engine" where
  "SendHandshake v to e =
     (let hp = local_handshake v e in
      case trans_Send v to (packet MsgHandshake 0 (env_now v) (marshal_nil v (enc_HandshakePayload hp))) e of
        (ok, e1) \<Rightarrow>
          (ok, if e_serverUp e1 then e1\<lparr>e_relayed := e_relayed e1 @ [RelayHandshake hp to]\<rparr> else e1))"

definition sendPong :: "env \<Rightarrow> NodeID \<Rightarrow> Engine \<Rightarrow> Engine" where
  "sendPong v to e = snd (trans_Send v to (packet MsgPong 0 (env_now v) []) e)"

definition broadcastPresence :: "env \<Rightarrow> Engine \<Rightarrow> Engine" where
  "broadcastPresence v e =
     fold (\<lambda>p st. if peer_IsBlocked p then st
                  else snd (trans_Send v (pid_NodeID (peer_ID p)) (packet MsgPing 0 (env_now v) []) st))
       (ListPeers (e_store e)) e"

definition RotateKeys :: "env \<Rightarrow> Engine \<Rightarrow> Engine" where
  "RotateKeys v e =
     publish ''key.rotated'' (env_now v) NoData
       (fold (\<lambda>p st. if peer_Status p = PeerOnline \<and> \<not> peer_IsBlocked p
                     then snd (SendHandshake v (pid_NodeID (peer_ID p)) st) else st)
          (ListPeers (e_store e)) e)"


subsection \<open>Profile, server connection and contacts\<close>

definition SetDisplayName :: "string \<Rightarrow> Engine \<Rightarrow> Engine" where
  "SetDisplayName name e =
     (let e1 = e\<lparr>e_localPeer := (e_localPeer e)\<lparr>peer_DisplayName := name\<rparr>\<rparr>
      in with_store (SavePeer (e_localPeer e1)) e1)"

definition SetStatus :: "env \<Rightarrow> PeerStatus \<Rightarrow> string \<Rightarrow> Engine \<Rightarrow> Engine" where
  "SetStatus v status txt e =
     (let e1 = e\<lparr>e_localPeer := (e_localPeer e)\<lparr>peer_Status := status, peer_StatusText := txt\<rparr>\<rparr>;
          e2 = broadcastPresence v e1
      in with_store (SavePeer (e_localPeer e2)) e2)"

definition SetTransportMode :: "TransportMode \<Rightarrow> Engine \<Rightarrow> unit outcome \<times> Engine" where
  "SetTransportMode mode e =
     (if mode = TransportP2P \<or> mode = TransportServer \<or> mode = TransportBoth
      then (Ok (), e\<lparr>e_cfg := (e_cfg e)\<lparr>cfg_TransportMode := mode\<rparr>\<rparr>)
      else (Err InvalidMode, e))"

definition SyncSince :: "env \<Rightarrow> gotime \<Rightarrow> Engine \<Rightarrow> unit outcome \<times> Engine" where
  "SyncSince v since e =
     (if \<not> e_serverUp e then (Err NoServer, e)
      else let e1 = publish ''sync.started'' (env_now v) NoData e in
        (Ok (), e1\<lparr>e_relayed := e_relayed e1 @
            map (\<lambda>chat. SyncHistory (chat_ID chat) (UnixNano since)) (ListChats (e_store e1))\<rparr>))"

text \<open>
  \<open>ConnectToServer\<close>; the argument says whether the dial succeeds. The background synchronisation
  is the call of \<open>SyncSince\<close> with the zero time that follows.
\<close>

definition ConnectToServer :: "env \<Rightarrow> bool \<Rightarrow> string \<Rightarrow> Engine \<Rightarrow> unit outcome \<times> Engine" where
  "ConnectToServer v dialOK addr e =
     (if \<not> dialOK then (Err ConnectError, e\<lparr>e_serverUp := False\<rparr>)
      else (Ok (), publish ''server.connected'' (env_now v) NoData
        (e\<lparr>e_serverUp := True,
           e_cfg := (e_cfg e)\<lparr>cfg_ServerAddresses := [addr], cfg_UseServer := True\<rparr>\<rparr>)))"

definition DisconnectServer :: "env \<Rightarrow> Engine \<Rightarrow> Engine" where
  "DisconnectServer v e =
     publish ''server.disconnected'' (env_now v) NoData
       (e\<lparr>e_serverUp := False, e_cfg := (e_cfg e)\<lparr>cfg_UseServer := False\<rparr>\<rparr>)"

definition Engine_SafetyNumber :: "env \<Rightarrow> PeerID \<Rightarrow> Engine \<Rightarrow> string outcome" where
  "Engine_SafetyNumber v peerID e =
     (case GetPeer (e_store e) peerID of
        None \<Rightarrow> Err PeerNotFound
      | Some peer \<Rightarrow>
          Ok (sn_Combined (ComputeSafetyNumber (env_prim v) (id_SignPublic (e_identity e))
            (pid_NodeID (local_id e)) (peer_SignKey peer) (pid_NodeID (peer_ID peer)))))"

definition BlockPeer :: "PeerID \<Rightarrow> Engine \<Rightarrow> unit outcome \<times> Engine" where
  "BlockPeer i e =
     (case GetPeer (e_store e) i of
        None \<Rightarrow> (Err PeerNotFound, e)
      | Some peer \<Rightarrow> (Ok (), with_store (SavePeer (peer\<lparr>peer_IsBlocked := True\<rparr>)) e))"

definition UnblockPeer :: "PeerID \<Rightarrow> Engine \<Rightarrow> unit outcome \<times> Engine" where
  "UnblockPeer i e =
     (case GetPeer (e_store e) i of
        None \<Rightarrow> (Err PeerNotFound, e)
      | Some peer \<Rightarrow> (Ok (), with_store (SavePeer (peer\<lparr>peer_IsBlocked := False\<rparr>)) e))"

definition enc_ContactRequest :: "ContactRequest \<Rightarrow> bytes \<Rightarrow> json" where
  "enc_ContactRequest r sig = JObj ([(''id'', JStr (cr_ID r)), (''from_peer'', enc_PeerID (cr_FromPeer r)),
     (''display_name'', JStr (cr_DisplayName r)), (''sign_key'', JBytes (cr_SignKey r)),
     (''dh_key'', JBytes (cr_DHKey r))] @ json_opt ''message'' (cr_Message r \<noteq> '''') (JStr (cr_Message r)) @
     [(''status'', JInt (case cr_Status r of ContactRequestPending \<Rightarrow> 0 | ContactRequestAccepted \<Rightarrow> 1
         | ContactRequestDeclined \<Rightarrow> 2)),
      (''received_at'', JTime (cr_ReceivedAt r)), (''sig'', JBytes sig)])"

definition dec_ContactRequest :: "json \<Rightarrow> ContactRequest option" where
  "dec_ContactRequest j = do {
     fs \<leftarrow> json_fields j;
     i \<leftarrow> fld ''id'' dec_string '''' fs;
     p \<leftarrow> fld ''from_peer'' dec_PeerID zero_PeerID fs;
     n \<leftarrow> fld ''display_name'' dec_string '''' fs;
     sk \<leftarrow> fld ''sign_key'' dec_bytes [] fs;
     dk \<leftarrow> fld ''dh_key'' dec_bytes [] fs;
     m \<leftarrow> fld ''message'' dec_string '''' fs;
     st \<leftarrow> fld ''status'' (dec_enum [ContactRequestPending, ContactRequestAccepted, ContactRequestDeclined])
       ContactRequestPending fs;
     ra \<leftarrow> fld ''received_at'' dec_time zero_time fs;
     Some \<lparr>cr_ID = i, cr_FromPeer = p, cr_DisplayName = n, cr_SignKey = sk, cr_DHKey = dk, cr_Message = m,
           cr_Status = st, cr_ReceivedAt = ra\<rparr> }"

text \<open>The first of the two UUIDs \<open>SendContactRequest\<close> draws is for a payload it discards.\<close>

definition SendContactRequest :: "env \<Rightarrow> NodeID \<Rightarrow> string \<Rightarrow> Engine \<Rightarrow> bool \<times> Engine" where
  "SendContactRequest v nodeID greeting e =
     (let sig = Provider_Sign (env_prim v) (e_identity e) (id_DHPublic (e_identity e)) in
      case new_uuid v e of (_, e1) \<Rightarrow>
      case new_uuid v e1 of (uuid, e2) \<Rightarrow>
        let req = \<lparr>cr_ID = uuid, cr_FromPeer = local_id e, cr_DisplayName = peer_DisplayName (e_localPeer e),
                   cr_SignKey = id_SignPublic (e_identity e), cr_DHKey = id_DHPublic (e_identity e),
                   cr_Message = greeting, cr_Status = ContactRequestPending, cr_ReceivedAt = env_now v\<rparr>
        in trans_Send v nodeID (packet MsgContactRequest 0 (env_now v)
             (marshal_nil v (enc_ContactRequest req sig))) e2)"

definition init_session :: "env \<Rightarrow> bytes \<Rightarrow> PeerID \<Rightarrow> Engine \<Rightarrow> Engine" where
  "init_session v dh peer e =
     (case read_rand v e of (rnd, e1) \<Rightarrow>
       e1\<lparr>e_cryptoPro := snd (InitSession (env_prim v) (env_now v) rnd (e_identity e1) (copy_array 32 dh) peer
            (e_cryptoPro e1))\<rparr>)"

definition AcceptContactRequest :: "env \<Rightarrow> string \<Rightarrow> Engine \<Rightarrow> unit outcome \<times> Engine" where
  "AcceptContactRequest v requestID e =
     (case GetContactRequest (e_store e) requestID of
        None \<Rightarrow> (Err RequestNotFound, e)
      | Some req0 \<Rightarrow>
          let req = req0\<lparr>cr_Status := ContactRequestAccepted\<rparr>;
              e1 = with_store (SaveContactRequest req) e;
              peer = \<lparr>peer_ID = cr_FromPeer req, peer_DisplayName = cr_DisplayName req, peer_AvatarHash = '''',
                      peer_Status = PeerOffline, peer_StatusText = '''', peer_PublicKey = cr_DHKey req,
                      peer_SignKey = cr_SignKey req, peer_LastSeen = env_now v, peer_Networks = [],
                      peer_IsBlocked = False, peer_IsContact = True\<rparr>;
              e2 = with_store (SavePeer peer) e1;
              e3 = init_session v (cr_DHKey req) (cr_FromPeer req) e2;
              e4 = snd (SendHandshake v (pid_NodeID (cr_FromPeer req)) e3)
          in (Ok (), publish ''contact.accepted'' (env_now v) (DRequest req) e4))"

definition DeclineContactRequest :: "env \<Rightarrow> string \<Rightarrow> Engine \<Rightarrow> unit outcome \<times> Engine" where
  "DeclineContactRequest v requestID e =
     (case GetContactRequest (e_store e) requestID of
        None \<Rightarrow> (Err RequestNotFound, e)
      | Some req0 \<Rightarrow>
          let req = req0\<lparr>cr_Status := ContactRequestDeclined\<rparr> in
          (Ok (), with_store (SaveContactRequest req)
             (publish ''contact.declined'' (env_now v) (DRequest req) e)))"


subsection \<open>Chats\<close>

definition firstNetwork :: "env \<Rightarrow> Engine \<Rightarrow> NetworkID" where
  "firstNetwork v e =
     (case env_nets v of
        n # _ \<Rightarrow> n
      | [] \<Rightarrow> (case cfg_Networks (e_cfg e) of n # _ \<Rightarrow> n | [] \<Rightarrow> ''''))"

definition CreateChat :: "env \<Rightarrow> string \<Rightarrow> PeerID list \<Rightarrow> Engine \<Rightarrow> Chat \<times> Engine" where
  "CreateChat v name members e =
     (let ctype = (if length members > 1 \<or> name \<noteq> '''' then ChatGroup else ChatDirect);
          self = \<lparr>cm_PeerID = local_id e, cm_Role = RoleOwner, cm_Permissions = PermAll,
                  cm_JoinedAt = env_now v, cm_InvitedBy = None\<rparr>;
          others = map (\<lambda>m. \<lparr>cm_PeerID = m, cm_Role = RoleMember, cm_Permissions = PermDefault,
                  cm_JoinedAt = env_now v, cm_InvitedBy = Some (local_id e)\<rparr>) members
      in case new_uuid v e of (uuid, e1) \<Rightarrow>
         let chat = \<lparr>chat_ID = uuid, chat_Type = ctype, chat_Name = name, chat_Description = '''',
                     chat_AvatarHash = '''', chat_Members = self # others, chat_NetworkID = firstNetwork v e,
                     chat_Encrypted = cfg_E2EEnabled (e_cfg e), chat_CreatedAt = env_now v,
                     chat_UpdatedAt = env_now v, chat_DisappearAfter = cfg_DisappearAfter (e_cfg e),
                     chat_DefaultPermissions = PermDefault\<rparr>;
             e2 = with_store (SaveChat chat) e1
         in (chat, if cfg_E2EEnabled (e_cfg e) \<and> ctype = ChatGroup then initGroupSenderKey v chat e2 else e2))"

definition without_member :: "PeerID \<Rightarrow> Chat \<Rightarrow> Chat" where
  "without_member peer chat =
     chat\<lparr>chat_Members := filter (\<lambda>m. PeerID_String (cm_PeerID m) \<noteq> PeerID_String peer) (chat_Members chat)\<rparr>"

definition delete_sender_key :: "ChatID \<Rightarrow> PeerID \<Rightarrow> Engine \<Rightarrow> Engine" where
  "delete_sender_key chatID peer e = e\<lparr>e_cryptoPro := DeleteSenderKey chatID peer (e_cryptoPro e)\<rparr>"

definition LeaveChat :: "env \<Rightarrow> ChatID \<Rightarrow> Engine \<Rightarrow> unit outcome \<times> Engine" where
  "LeaveChat v chatID e =
     (case GetChat (e_store e) chatID of
        None \<Rightarrow> (Err ChatNotFound, e)
      | Some chat \<Rightarrow>
          let e1 = sendSystemMessage v chat MsgMemberLeft
                [(''display_name'', peer_DisplayName (e_localPeer e)), (''peer_id'', PeerID_String (local_id e))] e;
              chat' = (without_member (local_id e) chat)\<lparr>chat_UpdatedAt := env_now v\<rparr>;
              e2 = (if cfg_E2EEnabled (e_cfg e1) then delete_sender_key chatID (local_id e) e1 else e1)
          in (Ok (), with_store (SaveChat chat') e2))"

definition AddChatMember :: "env \<Rightarrow> ChatID \<Rightarrow> PeerID \<Rightarrow> Engine \<Rightarrow> unit outcome \<times> Engine" where
  "AddChatMember v chatID peer e =
     (case GetChat (e_store e) chatID of
        None \<Rightarrow> (Err ChatNotFound, e)
      | Some chat \<Rightarrow>
          if FindMember chat peer \<noteq> None then (Ok (), e)
          else
            let m = \<lparr>cm_PeerID = peer, cm_Role = RoleMember, cm_Permissions = chat_DefaultPermissions chat,
                     cm_JoinedAt = env_now v, cm_InvitedBy = Some (local_id e)\<rparr>;
                chat' = chat\<lparr>chat_Members := chat_Members chat @ [m], chat_UpdatedAt := env_now v\<rparr>;
                e1 = with_store (SaveChat chat') e;
                e2 = sendSystemMessage v chat' MsgMemberAdded [(''peer_id'', PeerID_String peer)] e1;
                e3 = (if cfg_E2EEnabled (e_cfg e2) then distributeSenderKeyTo v chat' peer e2 else e2)
            in (Ok (), publish ''group.member_added'' (env_now v) (DMember chatID peer None) e3))"

definition RemoveChatMember :: "env \<Rightarrow> ChatID \<Rightarrow> PeerID \<Rightarrow> Engine \<Rightarrow> unit outcome \<times> Engine" where
  "RemoveChatMember v chatID peer e =
     (case GetChat (e_store e) chatID of
        None \<Rightarrow> (Err ChatNotFound, e)
      | Some chat \<Rightarrow>
          let chat' = (without_member peer chat)\<lparr>chat_UpdatedAt := env_now v\<rparr>;
              e1 = with_store (SaveChat chat') e;
              e2 = sendSystemMessage v chat' MsgMemberRemoved [(''peer_id'', PeerID_String peer)] e1;
              e3 = (if cfg_E2EEnabled (e_cfg e2)
                    then initGroupSenderKey v chat' (delete_sender_key chatID peer e2) else e2)
          in (Ok (), publish ''group.member_removed'' (env_now v) (DMember chatID peer None) e3))"

text \<open>\<open>FindMember\<close> returns a pointer into the slice, so the assignments change the chat.\<close>

definition SetMemberRole :: "env \<Rightarrow> ChatID \<Rightarrow> PeerID \<Rightarrow> MemberRole \<Rightarrow> Engine \<Rightarrow> unit outcome \<times> Engine" where
  "SetMemberRole v chatID peer role e =
     (case GetChat (e_store e) chatID of
        None \<Rightarrow> (Err ChatNotFound, e)
      | Some chat \<Rightarrow>
          (case FindMember chat peer of
             None \<Rightarrow> (Err MemberNotFound, e)
           | Some i \<Rightarrow>
               let m = (chat_Members chat ! i)\<lparr>cm_Role := role,
                         cm_Permissions := (if role = RoleAdmin \<or> role = RoleOwner then PermAll
                                            else chat_DefaultPermissions chat)\<rparr>;
                   chat' = chat\<lparr>chat_Members := (chat_Members chat)[i := m], chat_UpdatedAt := env_now v\<rparr>;
                   e1 = sendSystemMessage v chat' MsgAdminChanged
                          [(''peer_id'', PeerID_String peer),
                           (''role'', Sprintf_d (int (MemberRole_iota role)))] e;
                   e2 = publish ''group.member_added'' (env_now v) (DMember chatID peer (Some role)) e1
               in (Ok (), with_store (SaveChat chat') e2)))"

definition SetChatPermissions :: "env \<Rightarrow> ChatID \<Rightarrow> Permission \<Rightarrow> Engine \<Rightarrow> unit outcome \<times> Engine" where
  "SetChatPermissions v chatID perms e =
     (case GetChat (e_store e) chatID of
        None \<Rightarrow> (Err ChatNotFound, e)
      | Some chat \<Rightarrow> (Ok (), with_store (SaveChat (chat\<lparr>chat_DefaultPermissions := perms,
                                chat_UpdatedAt := env_now v\<rparr>)) e))"

definition SetDisappearAfter :: "env \<Rightarrow> ChatID \<Rightarrow> duration \<Rightarrow> Engine \<Rightarrow> unit outcome \<times> Engine" where
  "SetDisappearAfter v chatID d e =
     (case GetChat (e_store e) chatID of
        None \<Rightarrow> (Err ChatNotFound, e)
      | Some chat \<Rightarrow> (Ok (), with_store (SaveChat (chat\<lparr>chat_DisappearAfter := d,
                                chat_UpdatedAt := env_now v\<rparr>)) e))"

subsection \<open>Messages\<close>

text \<open>\<open>parseMentions\<close> and its loops over the byte index.\<close>

definition mention_end :: "string \<Rightarrow> nat \<Rightarrow> nat" where
  "mention_end txt j = j + length (takeWhile (\<lambda>c. c \<noteq> CHR '' '' \<and> c \<noteq> CHR 0x0A) (drop j txt))"

definition mention_start :: "string \<Rightarrow> nat \<Rightarrow> bool" where
  "mention_start txt i = (txt ! i = CHR ''@'' \<and> (i = 0 \<or> txt ! (i - 1) = CHR '' '' \<or> txt ! (i - 1) = CHR 0x0A))"

function mentions_from :: "string \<Rightarrow> nat \<Rightarrow> Mention list" where
  "mentions_from txt i =
     (if i \<ge> length txt then []
      else if mention_start txt i then
        (let j = mention_end txt (i + 1);
             rest = mentions_from txt (j + 1)
         in if j > i + 1
            then \<lparr>mention_PeerID = zero_PeerID, mention_DisplayName = take (j - i) (drop i txt),
                  mention_Offset = int i, mention_Length = int (j - i)\<rparr> # rest
            else rest)
      else mentions_from txt (i + 1))"
  by pat_completeness auto
termination
  by (relation "measure (\<lambda>(txt, i). length txt - i)") (auto simp: mention_end_def)

declare mentions_from.simps [simp del]

definition parseMentions :: "string \<Rightarrow> Mention list" where
  "parseMentions txt = mentions_from txt 0"

definition SendText :: "env \<Rightarrow> ChatID \<Rightarrow> string \<Rightarrow> MessageID option \<Rightarrow> Engine \<Rightarrow> Message outcome \<times> Engine" where
  "SendText v chatID txt replyTo e =
     send v chatID MsgText (string_bytes txt)
       (empty_meta\<lparr>meta_MimeType := ''text/plain'', meta_Mentions := parseMentions txt\<rparr>) replyTo e"

definition enc_Sticker :: "Sticker \<Rightarrow> json" where
  "enc_Sticker s = JObj ([(''id'', JStr (st_ID s)), (''pack_id'', JStr (st_PackID s)),
     (''media_hash'', JStr (st_MediaHash s))] @ json_opt ''emoji'' (st_Emoji s \<noteq> '''') (JStr (st_Emoji s)))"

definition SendSticker :: "env \<Rightarrow> ChatID \<Rightarrow> string \<Rightarrow> string \<Rightarrow> Engine \<Rightarrow> Message outcome \<times> Engine" where
  "SendSticker v chatID packID stickerID e =
     (case GetStickerPack (e_store e) packID of
        None \<Rightarrow> (Err PackNotFound, e)
      | Some pack \<Rightarrow>
          (case find (\<lambda>s. st_ID s = stickerID) (sp_Stickers pack) of
             None \<Rightarrow> (Err StickerNotFound, e)
           | Some sticker \<Rightarrow>
               send v chatID MsgSticker (marshal_nil v (enc_Sticker sticker))
                 (empty_meta\<lparr>meta_StickerPackID := packID, meta_StickerID := stickerID,
                             meta_MediaHash := st_MediaHash sticker\<rparr>) None e))"

definition ForwardMessage :: "env \<Rightarrow> MessageID \<Rightarrow> ChatID \<Rightarrow> Engine \<Rightarrow> Message outcome \<times> Engine" where
  "ForwardMessage v msgID toChatID e =
     (case GetMessage (e_store e) msgID of
        None \<Rightarrow> (Err MessageNotFound, e)
      | Some orig \<Rightarrow>
          let senderName = (case GetPeer (e_store e) (msg_SenderID orig) of
                              None \<Rightarrow> '''' | Some p \<Rightarrow> peer_DisplayName p);
              meta = (msg_Metadata orig)\<lparr>meta_ForwardInfo := Some
                \<lparr>fi_OriginalSenderID = msg_SenderID orig, fi_OriginalSenderName = senderName,
                 fi_OriginalChatID = msg_ChatID orig, fi_OriginalMsgID = msg_ID orig,
                 fi_OriginalSentAt = msg_SentAt orig\<rparr>\<rparr>
          in send v toChatID (msg_Type orig) (msg_Payload orig) meta None e)"

definition enc_TypingEvent :: "PeerID \<Rightarrow> ChatID \<Rightarrow> json" where
  "enc_TypingEvent p c = JObj [(''peer_id'', enc_PeerID p), (''chat_id'', JStr c)]"

definition SendTyping :: "env \<Rightarrow> ChatID \<Rightarrow> Engine \<Rightarrow> Message outcome \<times> Engine" where
  "SendTyping v chatID e =
     send v chatID MsgTyping (marshal_nil v (enc_TypingEvent (local_id e) chatID)) empty_meta None e"

definition EditMessage :: "env \<Rightarrow> MessageID \<Rightarrow> string \<Rightarrow> Engine \<Rightarrow> Message outcome \<times> Engine" where
  "EditMessage v msgID newText e =
     (case GetMessage (e_store e) msgID of
        None \<Rightarrow> (Err MessageNotFound, e)
      | Some msg \<Rightarrow>
          if PeerID_String (msg_SenderID msg) \<noteq> PeerID_String (local_id e) then (Err NotOwnMessage, e)
          else send v (msg_ChatID msg) MsgEdit
                 (marshal_nil v (enc_strings [(''msg_id'', msgID), (''text'', newText)])) empty_meta None e)"

definition Engine_DeleteMessage :: "env \<Rightarrow> MessageID \<Rightarrow> bool \<Rightarrow> Engine \<Rightarrow> unit outcome \<times> Engine" where
  "Engine_DeleteMessage v msgID forEveryone e =
     (if forEveryone then
        (case GetMessage (e_store e) msgID of
           None \<Rightarrow> (Err MessageNotFound, e)
         | Some msg \<Rightarrow>
             (case send v (msg_ChatID msg) MsgDelete (marshal_nil v (enc_strings [(''msg_id'', msgID)]))
                     empty_meta None e of
                (Ok _, e1) \<Rightarrow> (Ok (), with_store (DeleteMessage msgID) e1)
              | (Err err, e1) \<Rightarrow> (Err err, e1)
              | (Panic, e1) \<Rightarrow> (Panic, e1)))
      else (Ok (), with_store (DeleteMessage msgID) e))"

text \<open>\<open>chatForMessage\<close> may return a nil chat without an error, which its callers dereference.\<close>

definition chatForMessage :: "MessageID \<Rightarrow> Engine \<Rightarrow> Chat option outcome" where
  "chatForMessage msgID e =
     (case GetMessage (e_store e) msgID of
        None \<Rightarrow> Err MessageNotFound
      | Some msg \<Rightarrow> Ok (GetChat (e_store e) (msg_ChatID msg)))"

definition send_reaction ::
  "env \<Rightarrow> MessageID \<Rightarrow> string \<Rightarrow> string \<Rightarrow> (SQLiteStorage \<Rightarrow> SQLiteStorage) \<Rightarrow> Engine \<Rightarrow> Message outcome \<times> Engine" where
  "send_reaction v msgID emoji action upd e =
     (case chatForMessage msgID e of
        Err err \<Rightarrow> (Err err, e)
      | Panic \<Rightarrow> (Panic, e)
      | Ok chat \<Rightarrow>
          let e1 = with_store upd e in
          case chat of
            None \<Rightarrow> (Panic, e1)
          | Some c \<Rightarrow>
              (case send v (chat_ID c) MsgReaction
                      (marshal_nil v (enc_strings [(''action'', action), (''emoji'', emoji), (''msg_id'', msgID)]))
                      empty_meta None e1 of
                 (r, e2) \<Rightarrow> (r, publish ''message.reaction_changed'' (env_now v)
                                  (DReaction msgID emoji (local_id e) action) e2)))"

definition AddReaction :: "env \<Rightarrow> MessageID \<Rightarrow> string \<Rightarrow> Engine \<Rightarrow> Message outcome \<times> Engine" where
  "AddReaction v msgID emoji e =
     send_reaction v msgID emoji ''add''
       (SaveReaction msgID \<lparr>re_PeerID = local_id e, re_Emoji = emoji, re_CreatedAt = env_now v\<rparr>) e"

definition RemoveReaction :: "env \<Rightarrow> MessageID \<Rightarrow> string \<Rightarrow> Engine \<Rightarrow> Message outcome \<times> Engine" where
  "RemoveReaction v msgID emoji e =
     send_reaction v msgID emoji ''remove'' (DeleteReaction msgID (local_id e) emoji) e"

fun mark_read_loop :: "env \<Rightarrow> MessageID \<Rightarrow> Message list \<Rightarrow> Engine \<Rightarrow> Engine" where
  "mark_read_loop v upTo [] e = e"
| "mark_read_loop v upTo (msg # msgs) e =
     (let e1 = (if PeerID_String (msg_SenderID msg) \<noteq> PeerID_String (local_id e)
                then with_store (SaveReadReceipt (env_now v) (msg_ID msg) (local_id e) \<circ>
                       UpdateMessageStatus (msg_ID msg) StatusRead) e
                else e)
      in if msg_ID msg = upTo then e1 else mark_read_loop v upTo msgs e1)"

definition MarkRead :: "env \<Rightarrow> ChatID \<Rightarrow> MessageID \<Rightarrow> Engine \<Rightarrow> Engine" where
  "MarkRead v chatID upTo e =
     (let e1 = mark_read_loop v upTo (GetMessages (env_now v) (e_store e) chatID 200 0) e in
      if upTo \<noteq> '''' \<and> GetMessage (e_store e1) upTo \<noteq> None
      then snd (send v chatID MsgRead (marshal_nil v (enc_strings [(''msg_id'', upTo)])) empty_meta None e1)
      else e1)"

definition InstallStickerPack :: "env \<Rightarrow> StickerPack \<Rightarrow> Engine \<Rightarrow> Engine" where
  "InstallStickerPack v pack e = with_store (SaveStickerPack (pack\<lparr>sp_InstalledAt := env_now v\<rparr>)) e"

definition UninstallStickerPack :: "string \<Rightarrow> Engine \<Rightarrow> Engine" where
  [simp]: "UninstallStickerPack packID e = with_store (DeleteStickerPack packID) e"

definition Engine_DeleteChat :: "ChatID \<Rightarrow> Engine \<Rightarrow> Engine" where
  [simp]: "Engine_DeleteChat i e = with_store (DeleteChat i) e"


text \<open>
  Media messages. The result of the media processor is an argument (\<open>Inl\<close> when it fails), and so
  is whether the media directory accepts the file.
\<close>

record ProcessedMedia =
  pm_Hash :: string
  pm_Data :: bytes
  pm_Thumbnail :: bytes
  pm_MimeType :: string
  pm_FileName :: string
  pm_Size :: int
  pm_Width :: int
  pm_Height :: int
  pm_Duration :: duration

definition save_media :: "env \<Rightarrow> bool \<times> bool \<Rightarrow> ProcessedMedia \<Rightarrow> Engine \<Rightarrow> storage_error option \<times> Engine" where
  "save_media v fs pm e =
     (case SaveMedia (env_now v) (fst fs) (snd fs) (pm_Hash pm) (pm_Data pm) (e_store e) of
        (r, st) \<Rightarrow> (r, e\<lparr>e_store := st\<rparr>))"

definition SendImage ::
  "env \<Rightarrow> engine_error + ProcessedMedia \<Rightarrow> bool \<times> bool \<Rightarrow> ChatID \<Rightarrow> string \<Rightarrow> Engine \<Rightarrow> Message outcome \<times> Engine" where
  "SendImage v res fs chatID caption e =
     (case res of
        Inl err \<Rightarrow> (Err err, e)
      | Inr pm \<Rightarrow>
          (case save_media v fs pm e of
             (Some err, e1) \<Rightarrow> (Err (StoreError err), e1)
           | (None, e1) \<Rightarrow>
               send v chatID MsgImage (pm_Data pm)
                 (empty_meta\<lparr>meta_MimeType := pm_MimeType pm, meta_FileSize := pm_Size pm,
                    meta_Width := pm_Width pm, meta_Height := pm_Height pm, meta_Thumbnail := pm_Thumbnail pm,
                    meta_MediaHash := pm_Hash pm, meta_Extra := [(''caption'', caption)]\<rparr>) None e1))"

definition SendAudio ::
  "env \<Rightarrow> engine_error + ProcessedMedia \<Rightarrow> bool \<times> bool \<Rightarrow> ChatID \<Rightarrow> Engine \<Rightarrow> Message outcome \<times> Engine" where
  "SendAudio v res fs chatID e =
     (case res of
        Inl err \<Rightarrow> (Err err, e)
      | Inr pm \<Rightarrow>
          send v chatID MsgAudio (pm_Data pm)
            (empty_meta\<lparr>meta_MimeType := pm_MimeType pm, meta_FileSize := pm_Size pm,
               meta_Duration := pm_Duration pm, meta_MediaHash := pm_Hash pm\<rparr>) None (snd (save_media v fs pm e)))"

definition SendVideo ::
  "env \<Rightarrow> engine_error + ProcessedMedia \<Rightarrow> bool \<times> bool \<Rightarrow> ChatID \<Rightarrow> string \<Rightarrow> Engine \<Rightarrow> Message outcome \<times> Engine" where
  "SendVideo v res fs chatID caption e =
     (case res of
        Inl err \<Rightarrow> (Err err, e)
      | Inr pm \<Rightarrow>
          send v chatID MsgVideo (pm_Data pm)
            (empty_meta\<lparr>meta_MimeType := pm_MimeType pm, meta_FileSize := pm_Size pm,
               meta_Width := pm_Width pm, meta_Height := pm_Height pm, meta_Duration := pm_Duration pm,
               meta_Thumbnail := pm_Thumbnail pm, meta_MediaHash := pm_Hash pm,
               meta_Extra := [(''caption'', caption)]\<rparr>) None (snd (save_media v fs pm e)))"

definition SendFile ::
  "env \<Rightarrow> engine_error + ProcessedMedia \<Rightarrow> bool \<times> bool \<Rightarrow> ChatID \<Rightarrow> Engine \<Rightarrow> Message outcome \<times> Engine" where
  "SendFile v res fs chatID e =
     (case res of
        Inl err \<Rightarrow> (Err err, e)
      | Inr pm \<Rightarrow>
          send v chatID MsgFile (pm_Data pm)
            (empty_meta\<lparr>meta_MimeType := pm_MimeType pm, meta_FileName := pm_FileName pm,
               meta_FileSize := pm_Size pm, meta_MediaHash := pm_Hash pm\<rparr>) None (snd (save_media v fs pm e)))"

definition SetAvatar ::
  "env \<Rightarrow> engine_error + ProcessedMedia \<Rightarrow> bool \<times> bool \<Rightarrow> Engine \<Rightarrow> unit outcome \<times> Engine" where
  "SetAvatar v res fs e =
     (case res of
        Inl err \<Rightarrow> (Err err, e)
      | Inr pm \<Rightarrow>
          (case save_media v fs pm e of
             (Some err, e1) \<Rightarrow> (Err (StoreError err), e1)
           | (None, e1) \<Rightarrow>
               let e2 = e1\<lparr>e_localPeer := (e_localPeer e1)\<lparr>peer_AvatarHash := pm_Hash pm\<rparr>\<rparr>
               in (Ok (), with_store (SavePeer (e_localPeer e2)) e2)))"

subsection \<open>What a mention is\<close>

text \<open>
  A reference for the parser: a mention starts at an at-sign at the beginning of a word, and is
  that whole word if it is longer than the sign.
\<close>

definition blank :: "char \<Rightarrow> bool" where
  "blank c = (c = CHR '' '' \<or> c = CHR 0x0A)"

definition mention_at :: "string \<Rightarrow> nat \<Rightarrow> Mention" where
  "mention_at str i = \<lparr>mention_PeerID = zero_PeerID,
     mention_DisplayName = takeWhile (\<lambda>c. \<not> blank c) (drop i str), mention_Offset = int i,
     mention_Length = int (length (takeWhile (\<lambda>c. \<not> blank c) (drop i str)))\<rparr>"

definition starts_mention :: "string \<Rightarrow> nat \<Rightarrow> bool" where
  "starts_mention str i = (str ! i = CHR ''@'' \<and> (i = 0 \<or> blank (str ! (i - 1))) \<and>
     Suc i < length str \<and> \<not> blank (str ! Suc i))"

section \<open>Lemmas\<close>

subsection \<open>Mentions\<close>

lemma mention_end_word:
  assumes "mention_end str j = k" and "j \<le> l" and "l < k"
  shows "l < length str \<and> \<not> blank (str ! l)"
proof -
  let ?w = "takeWhile (\<lambda>c. c \<noteq> CHR '' '' \<and> c \<noteq> CHR 0x0A) (drop j str)"
  have l: "l - j < length ?w" using assms by (simp add: mention_end_def)
  then have "?w ! (l - j) \<in> set ?w" by simp
  moreover have "?w ! (l - j) = str ! l" using l assms(2) length_takeWhile_le [of _ "drop j str"]
    by (cases "j \<le> length str") (simp_all add: takeWhile_nth)
  moreover have "l < length str" using l assms(2) length_takeWhile_le [of "\<lambda>c. c \<noteq> CHR '' '' \<and> c \<noteq> CHR 0x0A" "drop j str"] by simp
  ultimately show ?thesis by (auto simp: blank_def dest: set_takeWhileD)
qed

lemma mention_end_blank:
  assumes "mention_end str j = k" and "k < length str" and "j \<le> length str"
  shows "blank (str ! k)"
proof -
  let ?P = "\<lambda>c. c \<noteq> CHR '' '' \<and> c \<noteq> CHR 0x0A"
  let ?n = "length (takeWhile ?P (drop j str))"
  have "?n < length (drop j str)" using assms by (simp add: mention_end_def)
  from nth_length_takeWhile [OF this] show ?thesis
    using assms by (auto simp: mention_end_def blank_def)
qed

lemma upt_append_split: "(a::nat) \<le> b \<Longrightarrow> b \<le> c \<Longrightarrow> [a..<c] = [a..<b] @ [b..<c]"
  using upt_add_eq_append [of a b "c - b"] by simp

lemma mention_skip:
  assumes "mention_start str i" and "i < k" and "k \<le> mention_end str (Suc i)" and "k < length str"
  shows "\<not> starts_mention str k"
proof (cases "k = mention_end str (Suc i)")
  case True
  then have "blank (str ! k)" using mention_end_blank [of str "Suc i" k] assms by simp
  then show ?thesis by (auto simp: starts_mention_def blank_def)
next
  case False
  have "\<not> blank (str ! (k - 1))"
  proof (cases "k = Suc i")
    case True
    then show ?thesis using assms by (simp add: mention_start_def blank_def)
  next
    case neq: False
    then show ?thesis using mention_end_word [OF refl, of "Suc i" "k - 1" str] assms False by simp
  qed
  then show ?thesis using assms by (simp add: starts_mention_def)
qed

lemma mention_first:
  assumes "mention_start str i" and "i < length str"
  shows "starts_mention str i \<longleftrightarrow> Suc i < mention_end str (Suc i)"
proof (cases "mention_end str (Suc i) = Suc i")
  case True
  then show ?thesis
    using mention_end_blank [OF True] by (auto simp: starts_mention_def)
next
  case False
  then have "Suc i < mention_end str (Suc i)" by (simp add: mention_end_def)
  with mention_end_word [OF refl, of "Suc i" "Suc i" str] assms show ?thesis
    by (auto simp: starts_mention_def mention_start_def blank_def)
qed

lemma mention_text:
  assumes "mention_start str i" and "i < length str" and "mention_end str (Suc i) = j"
  shows "mention_at str i = \<lparr>mention_PeerID = zero_PeerID, mention_DisplayName = take (j - i) (drop i str),
    mention_Offset = int i, mention_Length = int (j - i)\<rparr>"
proof -
  have d: "drop i str = CHR ''@'' # drop (Suc i) str"
    using assms by (simp add: mention_start_def Cons_nth_drop_Suc [symmetric])
  then have "takeWhile (\<lambda>c. \<not> blank c) (drop i str) =
      CHR ''@'' # takeWhile (\<lambda>c. c \<noteq> CHR '' '' \<and> c \<noteq> CHR 0x0A) (drop (Suc i) str)"
    by (simp add: blank_def)
  moreover have "j - i = Suc (length (takeWhile (\<lambda>c. c \<noteq> CHR '' '' \<and> c \<noteq> CHR 0x0A) (drop (Suc i) str)))"
    using assms(3) by (auto simp: mention_end_def)
  ultimately show ?thesis using d by (simp add: mention_at_def flip: takeWhile_eq_take)
qed

lemma mentions_from_spec:
  "mentions_from str i = map (mention_at str) (filter (starts_mention str) [i..<length str])"
proof (induction str i rule: mentions_from.induct)
  case (1 str i)
  consider "length str \<le> i" | "i < length str" "\<not> mention_start str i" | "i < length str" "mention_start str i"
    by linarith
  then show ?case
  proof cases
    case 1
    then show ?thesis by (simp add: mentions_from.simps)
  next
    case 2
    then have "\<not> starts_mention str i" by (auto simp: mention_start_def starts_mention_def blank_def)
    then show ?thesis using "1.IH"(2) 2 by (simp add: mentions_from.simps [of str i] upt_conv_Cons)
  next
    case 3
    define j where "j = mention_end str (Suc i)"
    have j: "Suc i \<le> j" "j \<le> length str"
      using 3 length_takeWhile_le [of "\<lambda>c. c \<noteq> CHR '' '' \<and> c \<noteq> CHR 0x0A" "drop (Suc i) str"]
      by (auto simp: j_def mention_end_def)
    have split: "[i..<length str] = i # [Suc i..<min (Suc j) (length str)] @ [Suc j..<length str]"
      using 3 j upt_append_split [of "Suc i" "min (Suc j) (length str)" "length str"]
      by (auto simp: upt_conv_Cons min_def not_le)
    have "filter (starts_mention str) [Suc i..<min (Suc j) (length str)] = []"
      using mention_skip [OF 3(2)] by (auto simp: filter_empty_conv j_def)
    then show ?thesis
      using "1.IH"(1) [OF _ 3(2)] 3 mention_text [OF 3(2,1) j_def [symmetric]] mention_first [OF 3(2,1)]
      by (simp add: mentions_from.simps [of str i] Let_def split flip: j_def)
  qed
qed
lemma starts_mention_bounds:
  assumes "starts_mention str i" and "i < length str"
  shows "2 \<le> mention_Length (mention_at str i) \<and> mention_Offset (mention_at str i) + mention_Length (mention_at str i) \<le> int (length str)"
proof -
  have "drop i str = str ! i # str ! Suc i # drop (Suc (Suc i)) str"
    using assms by (metis Cons_nth_drop_Suc starts_mention_def)
  then have "2 \<le> length (takeWhile (\<lambda>c. \<not> blank c) (drop i str))"
    using assms(1) by (simp add: starts_mention_def blank_def)
  moreover have "length (takeWhile (\<lambda>c. \<not> blank c) (drop i str)) \<le> length str - i"
    using length_takeWhile_le [of _ "drop i str"] by simp
  ultimately show ?thesis using assms(2) by (simp add: mention_at_def)
qed

subsection \<open>Permissions\<close>

lemma check_permission_Panic:
  "check_permission chat self t = Panic \<longleftrightarrow> t \<in> {MsgAudio, MsgVideo, MsgFile} \<and> FindMember chat self = None"
  by (auto simp: check_permission_def isUserMessage_def Let_def split: option.splits)

lemma check_permission_Err:
  "check_permission chat self t = Err x \<longleftrightarrow> (\<exists>i. FindMember chat self = Some i \<and>
     (t \<in> {MsgImage, MsgAudio, MsgVideo, MsgFile} \<and> x = NoMediaPermission \<and>
        cm_Permissions (chat_Members chat ! i) AND PermSendMedia = 0 \<or>
      t = MsgText \<and> x = NoMessagePermission \<and> cm_Permissions (chat_Members chat ! i) AND PermSendMessages = 0))"
  by (auto simp: check_permission_def isUserMessage_def Let_def split: option.splits if_splits)

lemma send_encrypted_result:
  "fst (send_encrypted v chat m p fp e) \<notin> {Panic, Err ChatNotFound, Err NoMediaPermission, Err NoMessagePermission}"
  by (simp add: send_encrypted_def Let_def split: sum.splits prod.splits option.splits)

lemma send_checked:
  assumes "GetChat (e_store e) c = Some chat" and "check_permission chat (local_id e) t = Ok u"
  shows "fst (send v c t p meta rt e) \<notin> {Panic, Err ChatNotFound, Err NoMediaPermission, Err NoMessagePermission}"
proof -
  have "fst (case encryptForChat v chat comp m e1 of
      (Inl err, e2) \<Rightarrow> (Err (EncryptError err), e2\<lparr>e_statEncryptErr := e_statEncryptErr e2 + 1\<rparr>)
    | (Inr final, e2) \<Rightarrow> send_encrypted v chat m p final e2)
     \<notin> {Panic, Err ChatNotFound, Err NoMediaPermission, Err NoMessagePermission}" for comp m e1
    using send_encrypted_result by (cases "encryptForChat v chat comp m e1") (auto split: sum.splits)
  then show ?thesis
    using assms send_encrypted_result by (simp add: send_def new_uuid_def Let_def split: sum.splits)
qed

lemma send_not_Panic:
  assumes "t \<notin> {MsgAudio, MsgVideo, MsgFile}"
  shows "fst (send v c t p meta rt e) \<noteq> Panic"
proof (cases "GetChat (e_store e) c")
  case (Some chat)
  then show ?thesis
    using assms check_permission_Panic [of chat "local_id e" t] send_checked [OF Some, of t _ v p meta rt]
    by (cases "check_permission chat (local_id e) t") (auto simp: send_def)
qed (simp add: send_def)

section \<open>Properties\<close>

text \<open>
  C26: The mention parser. \<open>parseMentions\<close> returns exactly the mentions of the reference, in the order
  of their positions, and each lies inside the text and has at least one character after the sign.
\<close>

theorem parseMentions_spec:
  "parseMentions str = map (mention_at str) (filter (starts_mention str) [0..<length str]) \<and>
   list_all (\<lambda>m. 0 \<le> mention_Offset m \<and> 2 \<le> mention_Length m \<and>
     mention_Offset m + mention_Length m \<le> int (length str)) (parseMentions str)"
  using starts_mention_bounds [of str]
  by (simp add: parseMentions_def mentions_from_spec list_all_iff) (simp add: mention_at_def)


subsection \<open>Witnesses\<close>

definition demo_env :: "string \<Rightarrow> env" where
  "demo_env tag = \<lparr>env_prim = clear_primitives, env_codecs = run_codecs,
     env_json = \<lparr>json_Marshal = encode, json_Unmarshal = decode\<rparr>, env_now = 100,
     env_uuid = (\<lambda>n. tag @ replicate n CHR ''u''), env_uuid_Parse = (\<lambda>_. None), env_rand = (\<lambda>_. Some [1]),
     env_reach = (\<lambda>_. True), env_nets = []\<rparr>"

definition demo_peer :: "string \<Rightarrow> nat \<Rightarrow> Peer" where
  "demo_peer node n = \<lparr>peer_ID = \<lparr>pid_NodeID = node, pid_Fingerprint = ''f''\<rparr>, peer_DisplayName = node,
     peer_AvatarHash = '''', peer_Status = PeerOnline, peer_StatusText = '''',
     peer_PublicKey = id_DHPublic (clear_identity n), peer_SignKey = id_SignPublic (clear_identity n),
     peer_LastSeen = 0, peer_Networks = [], peer_IsBlocked = False, peer_IsContact = True\<rparr>"

definition demo_member :: "string \<Rightarrow> ChatMember" where
  "demo_member node = \<lparr>cm_PeerID = \<lparr>pid_NodeID = node, pid_Fingerprint = ''f''\<rparr>, cm_Role = RoleMember,
     cm_Permissions = 1, cm_JoinedAt = 0, cm_InvitedBy = None\<rparr>"

definition demo_engine :: "string \<Rightarrow> nat \<Rightarrow> Engine" where
  "demo_engine node n =
     \<lparr>e_cfg = DefaultConfig None,
      e_store = SavePeer (demo_peer ''alice'' 1) (SavePeer (demo_peer ''bobby'' 2)
        (SaveChat (demo_chat\<lparr>chat_Members := [demo_member ''alice'', demo_member ''bobby'']\<rparr>) migrate)),
      e_cryptoPro = NewProvider, e_identity = clear_identity n, e_localPeer = demo_peer node n,
      e_serverUp = False, e_sent = [], e_relayed = [], e_events = [], e_signals = [], e_draws = 0,
      e_statMsgSent = 0, e_statMsgRecv = 0, e_statBytesSent = 0, e_statBytesRecv = 0, e_statEncryptErr = 0,
      e_statDecryptErr = 0, e_statRetransmit = 0\<rparr>"

lemma demo_env_json: "json_codec_law (env_json (demo_env tag))"
  by (auto simp: json_codec_law_def demo_env_def decode_encode)

lemma demo_engine_chat:
  "GetChat (e_store (demo_engine node n)) ''c1'' =
     Some (demo_chat\<lparr>chat_Members := [demo_member ''alice'', demo_member ''bobby'']\<rparr>)"
  by (simp add: demo_engine_def GetChat_def SavePeer_def SaveChat_def delete_chat_row_def find_row_def
      migrate_def Let_def demo_chat_def chat_values_def scanChat_def boolToInt_def int64_range_def)


end
