(* ===== verification/Engine_Recv.thy ===== *)
theory Engine_Recv
  imports Engine
begin

text \<open>
  The incoming half of the engine of \<^verbatim>\<open>messenger/engine.go\<close>: the packet dispatch of
  \<open>handleIncoming\<close> with its handlers (handshake, contact request, sender key, edit, delete, read
  receipt, reaction, system message), decryption, the frames of the relay connection, the retry
  queue and the background ticks, and the step relation of the whole engine. A map
  \<open>map[string]string\<close> that is unmarshalled with the error ignored keeps the keys of the object
  with the empty string for values that are not strings.

  Results: every engine step is a sequence of storage operations, so that the storage invariant
  holds in every reachable engine state; messages of blocked senders and of strangers leave no
  trace but a chat; a handshake lifts a block; an incoming text is not indexed.
\<close>

section \<open>Definitions\<close>

subsection \<open>Decryption\<close>

definition decryptFromPeer :: "env \<Rightarrow> PeerID \<Rightarrow> ChatID \<Rightarrow> bytes \<Rightarrow> Engine \<Rightarrow> (crypto_error + bytes) \<times> Engine" where
  "decryptFromPeer v from chatID payload e =
     (let isGroup = (case GetChat (e_store e) chatID of None \<Rightarrow> False | Some c \<Rightarrow> chat_Type c = ChatGroup);
          groupKey = (if isGroup then GetSenderKey (e_cryptoPro e) chatID from else None)
      in case groupKey of
           Some sk \<Rightarrow>
             (case SenderKey_Advance (env_prim v) (env_now v) sk of
                (Inl err, sk') \<Rightarrow> (Inl err, put_sender_key chatID from sk' e)
              | (Inr msgKey, sk') \<Rightarrow>
                  (Provider_Decrypt (env_prim v) msgKey payload (string_bytes chatID),
                   put_sender_key chatID from sk' e))
         | None \<Rightarrow>
             (case GetSession (e_cryptoPro e) from of
                Some sess \<Rightarrow>
                  (case DecryptPacketBody (env_prim v) sess (string_bytes chatID) payload of
                     (r, sess') \<Rightarrow> (r, put_session from sess' e))
              | None \<Rightarrow>
                  (case GetPeer (e_store e) from of
                     None \<Rightarrow> (Inr payload, e)
                   | Some peer \<Rightarrow>
                       (case DeriveSessionKey (env_prim v) (e_identity e) (peer_PublicKey peer) of
                          Inl err \<Rightarrow> (Inl err, e)
                        | Inr key \<Rightarrow> (Provider_Decrypt (env_prim v) key payload (string_bytes chatID), e)))))"

subsection \<open>Message handlers\<close>

fun string_value :: "json \<Rightarrow> string" where
  "string_value (JStr x) = x"
| "string_value _ = ''''"

definition unmarshal_strings :: "env \<Rightarrow> bytes \<Rightarrow> (string \<times> string) list" where
  "unmarshal_strings v b =
     (case json_Unmarshal (env_json v) b of
        Some (JObj kvs) \<Rightarrow> map (\<lambda>(k, x). (k, string_value x)) kvs
      | _ \<Rightarrow> [])"

definition body_get :: "(string \<times> string) list \<Rightarrow> string \<Rightarrow> string option" where
  "body_get body k = map_of (rev body) k"

definition body_str :: "(string \<times> string) list \<Rightarrow> string \<Rightarrow> string" where
  "body_str body k = (case body_get body k of None \<Rightarrow> '''' | Some x \<Rightarrow> x)"

definition handleReactionMsg :: "env \<Rightarrow> Message \<Rightarrow> Engine \<Rightarrow> Engine" where
  "handleReactionMsg v msg e =
     (let body = unmarshal_strings v (msg_Payload msg);
          msgID = body_str body ''msg_id'';
          emoji = body_str body ''emoji'';
          action = body_str body ''action'';
          e1 = with_store (if action = ''remove'' then DeleteReaction msgID (msg_SenderID msg) emoji
                 else SaveReaction msgID \<lparr>re_PeerID = msg_SenderID msg, re_Emoji = emoji, re_CreatedAt = env_now v\<rparr>) e
      in publish ''message.reaction_changed'' (env_now v) (DReaction msgID emoji (msg_SenderID msg) action) e1)"

definition save_ignoring :: "Message \<Rightarrow> Engine \<Rightarrow> Engine" where
  "save_ignoring msg e =
     (case SaveMessage msg (e_store e) of Inl _ \<Rightarrow> e | Inr st \<Rightarrow> e\<lparr>e_store := st\<rparr>)"

definition handleSystemMessage :: "env \<Rightarrow> Message \<Rightarrow> Engine \<Rightarrow> Engine" where
  "handleSystemMessage v msg e =
     (let m = msg\<lparr>msg_Status := StatusDelivered\<rparr>
      in publish ''message.received'' (env_now v) (DMessage m) (save_ignoring m e))"

definition handleReadReceipt :: "env \<Rightarrow> Message \<Rightarrow> Engine \<Rightarrow> Engine" where
  "handleReadReceipt v msg e =
     (case body_get (unmarshal_strings v (msg_Payload msg)) ''msg_id'' of
        None \<Rightarrow> e
      | Some i \<Rightarrow>
          publish ''message.read'' zero_time (DMessageID i)
            (with_store (SaveReadReceipt (env_now v) i (msg_SenderID msg) \<circ> UpdateMessageStatus i StatusRead) e))"

definition handleEdit :: "env \<Rightarrow> Message \<Rightarrow> Engine \<Rightarrow> Engine" where
  "handleEdit v msg e =
     (let body = unmarshal_strings v (msg_Payload msg) in
      case body_get body ''msg_id'' of
        None \<Rightarrow> e
      | Some i \<Rightarrow>
          (case GetMessage (e_store e) i of
             None \<Rightarrow> e
           | Some orig \<Rightarrow>
               let m = orig\<lparr>msg_Payload := string_bytes (body_str body ''text''), msg_EditedAt := Some (env_now v)\<rparr>
               in publish ''message.edited'' zero_time (DMessage m)
                    (with_store (IndexMessageText (msg_ID m) (body_str body ''text'')) (save_ignoring m e))))"

definition handleDelete :: "env \<Rightarrow> Message \<Rightarrow> Engine \<Rightarrow> Engine" where
  "handleDelete v msg e =
     (case body_get (unmarshal_strings v (msg_Payload msg)) ''msg_id'' of
        None \<Rightarrow> e
      | Some i \<Rightarrow> publish ''message.deleted'' zero_time (DMessageID i) (with_store (DeleteMessage i) e))"

definition dec_TypingEvent :: "json \<Rightarrow> (PeerID \<times> ChatID) option" where
  "dec_TypingEvent j = do {
     fs \<leftarrow> json_fields j;
     p \<leftarrow> fld ''peer_id'' dec_PeerID zero_PeerID fs;
     c \<leftarrow> fld ''chat_id'' dec_string '''' fs;
     Some (p, c) }"

definition handle_typing :: "env \<Rightarrow> Message \<Rightarrow> Engine \<Rightarrow> Engine" where
  "handle_typing v msg e =
     (let te = (case json_Unmarshal (env_json v) (msg_Payload msg) of None \<Rightarrow> (zero_PeerID, '''')
                | Some j \<Rightarrow> (case dec_TypingEvent j of None \<Rightarrow> (zero_PeerID, '''') | Some t \<Rightarrow> t));
          chatID = (if snd te = '''' then msg_ChatID msg else snd te)
      in publish ''peer.typing'' (env_now v) (DTyping (fst te) chatID) e)"

subsection \<open>Handshake, contact request and sender key packets\<close>

definition unmarshal_body :: "env \<Rightarrow> (json \<Rightarrow> 'a option) \<Rightarrow> bytes \<Rightarrow> 'a option" where
  "unmarshal_body v d b = (case json_Unmarshal (env_json v) b of None \<Rightarrow> None | Some j \<Rightarrow> d j)"

definition handleHandshake :: "env \<Rightarrow> IncomingPacket \<Rightarrow> Engine \<Rightarrow> Engine" where
  "handleHandshake v ipkt e =
     (case unmarshal_body v dec_HandshakePayload (pkt_Body (ip_Pkt ipkt)) of
        None \<Rightarrow> e
      | Some hp \<Rightarrow>
          if \<not> Provider_Verify (env_prim v) (hp_SignPublic hp) (hp_DHPublic hp) (hp_Signature hp) then e
          else
            let e1 = (case GetPeer (e_store e) (hp_PeerID hp) of
                  None \<Rightarrow> e
                | Some existing \<Rightarrow>
                    if peer_SignKey existing \<noteq> hp_SignPublic hp
                    then (let e' = publish ''peer.key_changed'' (env_now v) (DPeerID (hp_PeerID hp)) e
                          in e'\<lparr>e_cryptoPro := DeleteSession (hp_PeerID hp) (e_cryptoPro e')\<rparr>)
                    else e);
                peer = \<lparr>peer_ID = hp_PeerID hp, peer_DisplayName = hp_DisplayName hp, peer_AvatarHash = '''',
                        peer_Status = PeerOnline, peer_StatusText = '''', peer_PublicKey = hp_DHPublic hp,
                        peer_SignKey = hp_SignPublic hp, peer_LastSeen = env_now v, peer_Networks = [],
                        peer_IsBlocked = False, peer_IsContact = (\<not> cfg_RequireContactAccept (e_cfg e1))\<rparr>;
                e2 = with_store (SavePeer peer) e1;
                e3 = init_session v (hp_DHPublic hp) (hp_PeerID hp) e2;
                e4 = (if pkt_Type (ip_Pkt ipkt) = MsgHandshake then snd (SendHandshake v (ip_From ipkt) e3) else e3)
            in publish ''peer.online'' (env_now v) (DPeer peer) e4)"

definition handleContactRequest :: "env \<Rightarrow> IncomingPacket \<Rightarrow> Engine \<Rightarrow> Engine" where
  "handleContactRequest v ipkt e =
     (case unmarshal_body v dec_ContactRequest (pkt_Body (ip_Pkt ipkt)) of
        None \<Rightarrow> e
      | Some req0 \<Rightarrow>
          let req = req0\<lparr>cr_Status := ContactRequestPending, cr_ReceivedAt := env_now v\<rparr>
          in publish ''contact.request'' (env_now v) (DRequest req) (with_store (SaveContactRequest req) e))"

definition handleSenderKeyDist :: "env \<Rightarrow> IncomingPacket \<Rightarrow> Engine \<Rightarrow> Engine" where
  "handleSenderKeyDist v ipkt e =
     (case unmarshal_body v dec_SenderKeyDistribution (pkt_Body (ip_Pkt ipkt)) of
        None \<Rightarrow> e
      | Some dist \<Rightarrow>
          (case DeriveSessionKey (env_prim v) (e_identity e) (id_DHPublic (e_identity e)) of
             Inl _ \<Rightarrow> e
           | Inr sessionKey \<Rightarrow>
               (case Provider_Decrypt (env_prim v) sessionKey (skd_ChainKey dist) (string_bytes (skd_ChatID dist)) of
                  Inl _ \<Rightarrow> e
                | Inr chainKeyBytes \<Rightarrow>
                    e\<lparr>e_cryptoPro := StoreSenderKey
                        \<lparr>snd_ChainID = skd_ChainID dist, snd_Iteration = skd_Iteration dist,
                         snd_ChainKey = copy_array 32 chainKeyBytes, snd_SignKey = [],
                         snd_OwnerPeerID = skd_OwnerID dist, snd_ChatID = skd_ChatID dist,
                         snd_CreatedAt = skd_IssuedAt dist, snd_UpdatedAt = skd_IssuedAt dist\<rparr> (e_cryptoPro e)\<rparr>)))"

definition updatePeerLastSeen :: "env \<Rightarrow> NodeID \<Rightarrow> Engine \<Rightarrow> Engine" where
  "updatePeerLastSeen v node e =
     (case find (\<lambda>p. pid_NodeID (peer_ID p) = node) (ListPeers (e_store e)) of
        None \<Rightarrow> e
      | Some p \<Rightarrow> with_store (SavePeer (p\<lparr>peer_LastSeen := env_now v, peer_Status := PeerOnline\<rparr>)) e)"


subsection \<open>Dispatch\<close>

definition auto_chat :: "env \<Rightarrow> Engine \<Rightarrow> Message \<Rightarrow> Chat" where
  "auto_chat v e msg =
     (let member = (\<lambda>p. \<lparr>cm_PeerID = p, cm_Role = RoleMember, cm_Permissions = PermDefault,
                          cm_JoinedAt = env_now v, cm_InvitedBy = None\<rparr>)
      in \<lparr>chat_ID = msg_ChatID msg, chat_Type = ChatDirect, chat_Name = '''', chat_Description = '''',
          chat_AvatarHash = '''', chat_Members = [member (msg_SenderID msg), member (local_id e)],
          chat_NetworkID = '''', chat_Encrypted = cfg_E2EEnabled (e_cfg e), chat_CreatedAt = env_now v,
          chat_UpdatedAt = env_now v, chat_DisappearAfter = 0, chat_DefaultPermissions = 0\<rparr>)"

definition ensure_chat :: "env \<Rightarrow> Message \<Rightarrow> Engine \<Rightarrow> Engine" where
  "ensure_chat v msg e =
     (if GetChat (e_store e) (msg_ChatID msg) = None then with_store (SaveChat (auto_chat v e msg)) e else e)"

definition sender_accepted :: "PeerID \<Rightarrow> Engine \<Rightarrow> bool" where
  "sender_accepted p e =
     (if (case GetPeer (e_store e) p of None \<Rightarrow> False | Some peer \<Rightarrow> peer_IsBlocked peer) then False
      else if cfg_RequireContactAccept (e_cfg e)
      then (case GetPeer (e_store e) p of None \<Rightarrow> False | Some peer \<Rightarrow> peer_IsContact peer)
      else True)"

text \<open>The part of \<open>handleIncoming\<close> after decryption and decompression.\<close>

definition accept_message :: "env \<Rightarrow> Message \<Rightarrow> Engine \<Rightarrow> Engine" where
  "accept_message v msg e =
     (let m = msg\<lparr>msg_Status := StatusDelivered\<rparr> in
      case SaveMessage m (e_store e) of
        Inl _ \<Rightarrow> e
      | Inr st \<Rightarrow> publish ''message.received'' (env_now v) (DMessage m)
                   (sendDeliveryReceipt v m (e\<lparr>e_store := st\<rparr>)))"

definition dispatch_message :: "env \<Rightarrow> Message \<Rightarrow> Engine \<Rightarrow> Engine" where
  "dispatch_message v msg e =
     (let t = msg_Type msg;
          e1 = (if t = MsgText then with_store (IndexMessageText (msg_ID msg) (bytes_string (msg_Payload msg))) e else e)
      in if t = MsgEdit then handleEdit v msg e1
         else if t = MsgDelete then handleDelete v msg e1
         else if t = MsgRead then handleReadReceipt v msg e1
         else if t = MsgDelivered then
           publish ''message.delivered'' zero_time (DMessageID (msg_ID msg))
             (with_store (UpdateMessageStatus (msg_ID msg) StatusDelivered) e1)
         else if t = MsgTyping then handle_typing v msg e1
         else if t = MsgReaction then handleReactionMsg v msg e1
         else if t \<in> {MsgMemberAdded, MsgMemberRemoved, MsgMemberLeft, MsgGroupRenamed, MsgAdminChanged}
         then accept_message v msg (handleSystemMessage v msg e1)
         else accept_message v msg e1)"

definition open_payload :: "env \<Rightarrow> PacketFlags \<Rightarrow> Message \<Rightarrow> Engine \<Rightarrow> Message option \<times> Engine" where
  "open_payload v flags msg e =
     (let (r, e1) = (if cfg_E2EEnabled (e_cfg e) \<and> flags AND FlagEncrypted \<noteq> 0
                     then decryptFromPeer v (msg_SenderID msg) (msg_ChatID msg) (msg_Payload msg) e
                     else (Inr (msg_Payload msg), e))
      in case r of
           Inl _ \<Rightarrow> (None, e1\<lparr>e_statDecryptErr := e_statDecryptErr e1 + 1\<rparr>)
         | Inr decrypted \<Rightarrow>
             if flags AND FlagCompressed \<noteq> 0
             then (case Decompress (env_codecs v) decrypted of
                     Inl _ \<Rightarrow> (None, e1)
                   | Inr d \<Rightarrow> (Some (msg\<lparr>msg_Payload := d\<rparr>), e1))
             else (Some (msg\<lparr>msg_Payload := decrypted\<rparr>), e1))"

definition handle_message_packet :: "env \<Rightarrow> Packet \<Rightarrow> Engine \<Rightarrow> Engine" where
  "handle_message_packet v pkt e =
     (case unmarshal_body v dec_Message (pkt_Body pkt) of
        None \<Rightarrow> e
      | Some msg \<Rightarrow>
          let e1 = ensure_chat v msg e in
          if \<not> sender_accepted (msg_SenderID msg) e1 then e1
          else (case open_payload v (pkt_Flags pkt) msg e1 of
                  (None, e2) \<Rightarrow> e2
                | (Some m, e2) \<Rightarrow> dispatch_message v m e2))"

definition handleIncoming :: "env \<Rightarrow> IncomingPacket \<Rightarrow> Engine \<Rightarrow> Engine" where
  "handleIncoming v ipkt e =
     (let pkt = ip_Pkt ipkt; t = pkt_Type pkt in
      if t = MsgPing then sendPong v (ip_From ipkt) e
      else if t = MsgPong then updatePeerLastSeen v (ip_From ipkt) e
      else if t = MsgHandshake \<or> t = MsgHandshakeAck then handleHandshake v ipkt e
      else if t = MsgCallSignal then
        e\<lparr>e_signals := e_signals e @ [(\<lparr>pid_NodeID = ip_From ipkt, pid_Fingerprint = ''''\<rparr>, pkt_Body pkt)]\<rparr>
      else if t = MsgContactRequest then handleContactRequest v ipkt e
      else if t = MsgSenderKeyDist then handleSenderKeyDist v ipkt e
      else handle_message_packet v pkt e)"

definition receive_packet :: "env \<Rightarrow> IncomingPacket \<Rightarrow> Engine \<Rightarrow> Engine" where
  "receive_packet v ipkt e =
     handleIncoming v ipkt (e\<lparr>e_statMsgRecv := e_statMsgRecv e + 1,
       e_statBytesRecv := e_statBytesRecv e + of_nat (length (pkt_Body (ip_Pkt ipkt)))\<rparr>)"

text \<open>
  Frames from the relay connection. The payload of a frame is the raw JSON, which is unmarshalled
  here and again in \<open>handleIncoming\<close>; the packet the frame becomes has the TTL zero.
\<close>

definition handleRelayFrame :: "env \<Rightarrow> bytes RelayFrame \<Rightarrow> Engine \<Rightarrow> Engine" where
  "handleRelayFrame v frame e =
     (if rf_Cmd frame = CmdHandshake \<or> rf_Cmd frame = CmdHandshakeAck then
        (case unmarshal_body v dec_HandshakePayload (rf_Payload frame) of
           None \<Rightarrow> e
         | Some hp \<Rightarrow> handleIncoming v
             \<lparr>ip_From = pid_NodeID (hp_PeerID hp),
              ip_Pkt = (packet MsgHandshake 0 (rf_Timestamp frame) (rf_Payload frame))\<lparr>pkt_TTL := 0\<rparr>,
              ip_ReceivedAt = env_now v\<rparr> e)
      else if rf_Cmd frame \<noteq> CmdRelay \<and> rf_Cmd frame \<noteq> CmdSyncResp then e
      else
        (case unmarshal_body v dec_Message (rf_Payload frame) of
           None \<Rightarrow> e
         | Some msg \<Rightarrow> handleIncoming v
             \<lparr>ip_From = pid_NodeID (msg_SenderID msg),
              ip_Pkt = (packet (msg_Type msg) (FlagEncrypted OR FlagCompressed) 0 (rf_Payload frame))\<lparr>pkt_TTL := 0\<rparr>,
              ip_ReceivedAt = env_now v\<rparr> e))"

subsection \<open>Background work\<close>

definition flush_one :: "env \<Rightarrow> Message \<Rightarrow> Engine \<Rightarrow> Engine" where
  "flush_one v msg e =
     (case GetChat (e_store e) (msg_ChatID msg) of
        None \<Rightarrow> e
      | Some chat \<Rightarrow>
          (case transmit v chat msg e of
             (None, e1) \<Rightarrow> with_store (UpdateMessageStatus (msg_ID msg) StatusSent \<circ> RemovePending (msg_ID msg)) e1
           | (Some _, e1) \<Rightarrow> e1\<lparr>e_statRetransmit := e_statRetransmit e1 + 1\<rparr>))"

definition flushPending :: "env \<Rightarrow> Engine \<Rightarrow> Engine" where
  "flushPending v e = fold (flush_one v) (DequeuePending (env_now v) 20 (e_store e)) e"

text \<open>One tick of \<open>disappearingLoop\<close>; \<open>None\<close> when the cache pruning never returns.\<close>

definition disappearing_tick :: "env \<Rightarrow> nat \<Rightarrow> Engine \<Rightarrow> Engine option" where
  "disappearing_tick v conns e =
     (let (n, st) = DeleteExpiredMessages (env_now v) (e_store e);
          e1 = e\<lparr>e_store := st\<rparr>;
          e2 = (if n > 0 then publish ''message.expired'' (env_now v) (DCount n) e1 else e1)
      in map_option (\<lambda>(_, st'). e2\<lparr>e_store := st'\<rparr>)
           (PruneMediaCache conns (cfg_MaxMediaCacheMB (e_cfg e) * 2 ^ 20) (e_store e2)))"


subsection \<open>The engine as a transition system\<close>

definition New :: "Config \<Rightarrow> Identity \<Rightarrow> Peer \<Rightarrow> Engine" where
  "New cfg identity localPeer =
     \<lparr>e_cfg = cfg, e_store = migrate, e_cryptoPro = NewProvider, e_identity = identity, e_localPeer = localPeer,
      e_serverUp = False, e_sent = [], e_relayed = [], e_events = [], e_signals = [], e_draws = 0,
      e_statMsgSent = 0, e_statMsgRecv = 0, e_statBytesSent = 0, e_statBytesRecv = 0, e_statEncryptErr = 0,
      e_statDecryptErr = 0, e_statRetransmit = 0\<rparr>"

inductive engine_step :: "Engine \<Rightarrow> Engine \<Rightarrow> bool" where
  "engine_step e (receive_packet v ipkt e)"
| "engine_step e (handleRelayFrame v frame e)"
| "engine_step e (flushPending v e)"
| "disappearing_tick v conns e = Some e' \<Longrightarrow> engine_step e e'"
| "engine_step e (broadcastPresence v e)"
| "engine_step e (RotateKeys v e)"
| "engine_step e (SetDisplayName name e)"
| "engine_step e (SetStatus v status txt e)"
| "engine_step e (snd (SetAvatar v res fs e))"
| "engine_step e (snd (SetTransportMode mode e))"
| "engine_step e (snd (ConnectToServer v ok addr e))"
| "engine_step e (DisconnectServer v e)"
| "engine_step e (snd (SyncSince v since e))"
| "engine_step e (snd (BlockPeer p e))"
| "engine_step e (snd (UnblockPeer p e))"
| "engine_step e (snd (SendContactRequest v node greeting e))"
| "engine_step e (snd (AcceptContactRequest v i e))"
| "engine_step e (snd (DeclineContactRequest v i e))"
| "engine_step e (snd (CreateChat v name ps e))"
| "engine_step e (Engine_DeleteChat c e)"
| "engine_step e (snd (LeaveChat v c e))"
| "engine_step e (snd (AddChatMember v c p e))"
| "engine_step e (snd (RemoveChatMember v c p e))"
| "engine_step e (snd (SetMemberRole v c p role e))"
| "engine_step e (snd (SetChatPermissions v c perms e))"
| "engine_step e (snd (SetDisappearAfter v c d e))"
| "engine_step e (snd (SendText v c txt replyTo e))"
| "engine_step e (snd (SendImage v res fs c caption e))"
| "engine_step e (snd (SendAudio v res fs c e))"
| "engine_step e (snd (SendVideo v res fs c caption e))"
| "engine_step e (snd (SendFile v res fs c e))"
| "engine_step e (snd (SendSticker v c pack sticker e))"
| "engine_step e (snd (ForwardMessage v m c e))"
| "engine_step e (snd (SendTyping v c e))"
| "engine_step e (snd (EditMessage v m txt e))"
| "engine_step e (snd (Engine_DeleteMessage v m every e))"
| "engine_step e (snd (AddReaction v m emoji e))"
| "engine_step e (snd (RemoveReaction v m emoji e))"
| "engine_step e (MarkRead v c m e)"
| "engine_step e (InstallStickerPack v pack e)"
| "engine_step e (UninstallStickerPack i e)"
| "engine_step e (snd (SendHandshake v node e))"

inductive engine_reachable :: "Config \<Rightarrow> Identity \<Rightarrow> Peer \<Rightarrow> Engine \<Rightarrow> bool" for cfg identity localPeer where
  engine_start: "engine_reachable cfg identity localPeer (New cfg identity localPeer)"
| engine_more: "engine_reachable cfg identity localPeer e \<Longrightarrow> engine_step e e' \<Longrightarrow>
    engine_reachable cfg identity localPeer e'"

definition good_packet :: "Packet \<Rightarrow> bool" where
  "good_packet p = (wf_packet p \<and> pkt_Magic p = PacketMagic \<and> pkt_Version p = PacketVersion \<and> pkt_TTL p = 64)"

definition engine_inv :: "Engine \<Rightarrow> bool" where
  "engine_inv e = (storage_reachable (e_store e) \<and> (\<forall>(to, p) \<in> set (e_sent e). good_packet p))"

section \<open>Lemmas\<close>

subsection \<open>Invariant\<close>

lemmas reachable_steps = storage_more [OF _ storage_step.intros(1)]

lemma store_steps [intro]:
  assumes "storage_reachable s"
  shows "storage_reachable (UpdateMessageStatus i st s)" "storage_reachable (DeleteMessage i s)"
    "storage_reachable (snd (DeleteExpiredMessages now s))" "storage_reachable (IndexMessageText i txt s)"
    "storage_reachable (SaveReaction i r s)" "storage_reachable (DeleteReaction i pid em s)"
    "storage_reachable (SaveReadReceipt now i pid s)" "storage_reachable (SaveChat c s)"
    "storage_reachable (DeleteChat i s)" "storage_reachable (SavePeer p s)"
    "storage_reachable (SaveContactRequest req s)" "storage_reachable (SaveStickerPack pack s)"
    "storage_reachable (DeleteStickerPack i s)" "storage_reachable (snd (SaveMedia now mk wr h d s))"
    "storage_reachable (EnqueuePending now now' m s)" "storage_reachable (RemovePending i s)"
  by (rule storage_more [OF assms], rule storage_step.intros)+

lemma store_saved: "storage_reachable s \<Longrightarrow> SaveMessage m s = Inr s' \<Longrightarrow> storage_reachable s'"
  by (rule storage_more) (auto intro: storage_step.intros)

lemma good_packet_literal: "good_packet (packet ty fl ts body)"
  by (simp add: good_packet_def packet_def zero_packet_def wf_packet_def)

lemma length_copy_16: "length (copy_array 16 b) = 16" "length (copy_array 32 b) = 32"
  by simp_all

lemma buildPacket_good: "buildPacket v e msg = Inr p \<Longrightarrow> good_packet p"
  by (auto simp: buildPacket_def Let_def good_packet_def packet_def zero_packet_def wf_packet_def
      split: option.splits if_splits)

named_theorems engine_intros

lemma engine_inv_frame [simp]:
  "engine_inv (e\<lparr>e_cfg := a\<rparr>) = engine_inv e" "engine_inv (e\<lparr>e_cryptoPro := b\<rparr>) = engine_inv e"
  "engine_inv (e\<lparr>e_localPeer := c\<rparr>) = engine_inv e" "engine_inv (e\<lparr>e_serverUp := d\<rparr>) = engine_inv e"
  "engine_inv (e\<lparr>e_relayed := f\<rparr>) = engine_inv e" "engine_inv (e\<lparr>e_events := g\<rparr>) = engine_inv e"
  "engine_inv (e\<lparr>e_signals := h\<rparr>) = engine_inv e" "engine_inv (e\<lparr>e_draws := n\<rparr>) = engine_inv e"
  "engine_inv (e\<lparr>e_statMsgSent := w\<rparr>) = engine_inv e" "engine_inv (e\<lparr>e_statMsgRecv := w\<rparr>) = engine_inv e"
  "engine_inv (e\<lparr>e_statBytesSent := w\<rparr>) = engine_inv e" "engine_inv (e\<lparr>e_statBytesRecv := w\<rparr>) = engine_inv e"
  "engine_inv (e\<lparr>e_statEncryptErr := w\<rparr>) = engine_inv e" "engine_inv (e\<lparr>e_statDecryptErr := w\<rparr>) = engine_inv e"
  "engine_inv (e\<lparr>e_statRetransmit := w\<rparr>) = engine_inv e"
  by (simp_all add: engine_inv_def)

lemma engine_inv_simps [simp]:
  "engine_inv (publish ty ts d e) = engine_inv e"
  "engine_inv (snd (new_uuid v e)) = engine_inv e" "engine_inv (snd (read_rand v e)) = engine_inv e"
  "engine_inv (put_session p s e) = engine_inv e" "engine_inv (put_sender_key c p sk e) = engine_inv e"
  "engine_inv (delete_sender_key c p e) = engine_inv e" "engine_inv (init_session v dh p e) = engine_inv e"
  by (simp_all add: publish_def new_uuid_def read_rand_def put_session_def put_sender_key_def
      delete_sender_key_def init_session_def)

lemma engine_inv_store [engine_intros]:
  "engine_inv e \<Longrightarrow> (storage_reachable (e_store e) \<Longrightarrow> storage_reachable (f (e_store e))) \<Longrightarrow> engine_inv (with_store f e)"
  by (simp add: engine_inv_def with_store_def)

lemma trans_Send_inv [engine_intros]: "engine_inv e \<Longrightarrow> good_packet p \<Longrightarrow> engine_inv (snd (trans_Send v to p e))"
  by (auto simp: engine_inv_def trans_Send_def)

lemma SendHandshake_inv [engine_intros]: "engine_inv e \<Longrightarrow> engine_inv (snd (SendHandshake v to e))"
  using trans_Send_inv [OF _ good_packet_literal]
  by (auto simp: SendHandshake_def Let_def split: prod.splits dest!: sym [of "trans_Send _ _ _ _"]) (metis snd_conv)

lemma engine_inv_fold:
  assumes "engine_inv e" and "\<And>x e. x \<in> set xs \<Longrightarrow> engine_inv e \<Longrightarrow> engine_inv (f x e)"
  shows "engine_inv (fold f xs e)"
  using assms by (induction xs arbitrary: e) auto

lemma transmit_inv: "engine_inv e \<Longrightarrow> engine_inv (snd (transmit v chat msg e))"
proof -
  assume inv: "engine_inv e"
  have member: "engine_inv (send_to_member v p m e')" if "good_packet p" "engine_inv e'" for p m e'
    using trans_Send_inv [OF that(2,1), of v] that(2)
    by (auto simp: send_to_member_def sendPkt_def split: prod.splits bool.splits) (metis snd_conv)+
  show ?thesis
    using inv by (auto simp: transmit_def Let_def split: sum.splits intro!: engine_inv_fold member
        dest: buildPacket_good)
qed

lemma distributeSenderKeyTo_inv: "engine_inv e \<Longrightarrow> engine_inv (distributeSenderKeyTo v chat p e)"
  using good_packet_literal
  by (auto simp: distributeSenderKeyTo_def read_rand_def Let_def split: option.splits sum.splits
      intro!: trans_Send_inv)

lemma initGroupSenderKey_inv: "engine_inv e \<Longrightarrow> engine_inv (initGroupSenderKey v chat e)"
  by (auto simp: initGroupSenderKey_def read_rand_def split: sum.splits
      intro!: engine_inv_fold distributeSenderKeyTo_inv)

lemma encryptForChat_inv: "engine_inv e \<Longrightarrow> engine_inv (snd (encryptForChat v chat pl msg e))"
proof -
  assume inv: "engine_inv e"
  have "engine_inv (snd (encrypt_direct v rid pl c e))" for rid c
    using inv by (simp add: encrypt_direct_def encrypt_with_def read_rand_def split: option.splits prod.splits sum.splits)
  moreover have "engine_inv (snd (encrypt_group v chat pl c e))" for c
    using inv initGroupSenderKey_inv [OF inv, of v chat]
    by (auto simp: encrypt_group_def encrypt_with_def read_rand_def Let_def split: option.splits prod.splits sum.splits)
  ultimately show ?thesis
    by (auto simp: encryptForChat_def split: ChatType.splits option.splits)
qed

lemma send_encrypted_inv: "engine_inv e \<Longrightarrow> engine_inv (snd (send_encrypted v chat m p fp e))"
proof -
  assume inv: "engine_inv e"
  have tr: "engine_inv e'" if "SaveMessage x (e_store e) = Inr st" "transmit v chat y (e\<lparr>e_store := st\<rparr>) = (r, e')" for x st y r e'
    using transmit_inv [of "e\<lparr>e_store := st\<rparr>" v chat y] store_saved [OF _ that(1)] inv that(2)
    by (simp add: engine_inv_def)
  then show ?thesis
    using inv by (auto simp: send_encrypted_def Let_def split: sum.splits prod.splits option.splits
        intro!: engine_inv_store)
qed

lemma send_inv [engine_intros]: "engine_inv e \<Longrightarrow> engine_inv (snd (send v c t p m r e))"
proof -
  assume inv: "engine_inv e"
  have enc: "engine_inv e'" if "encryptForChat v chat pl msg (e\<lparr>e_draws := n\<rparr>) = (x, e')" for chat pl msg n x e'
    using encryptForChat_inv [of "e\<lparr>e_draws := n\<rparr>" v chat pl msg] inv that by simp
  show ?thesis
    using inv by (auto simp: send_def new_uuid_def Let_def split: option.splits outcome.splits sum.splits prod.splits
        intro!: send_encrypted_inv dest: enc)
qed


lemma sends_inv [engine_intros]:
  assumes "engine_inv e"
  shows "engine_inv (sendSystemMessage v chat t d e)" "engine_inv (sendDeliveryReceipt v m e)"
    "engine_inv (sendPong v to e)" "engine_inv (snd (SendTyping v c e))" "engine_inv (snd (SendText v c txt rt e))"
    "engine_inv (snd (SendSticker v c pk st e))" "engine_inv (snd (ForwardMessage v i c e))"
    "engine_inv (snd (EditMessage v i txt e))"
  using assms
  by (auto simp: sendSystemMessage_def sendDeliveryReceipt_def sendPong_def SendTyping_def SendText_def
      SendSticker_def ForwardMessage_def EditMessage_def Let_def good_packet_literal
      intro!: send_inv trans_Send_inv split: option.splits)

lemma save_media_inv: "engine_inv e \<Longrightarrow> engine_inv (snd (save_media v fs pm e))"
proof -
  assume "engine_inv e"
  then have "storage_reachable (snd (SaveMedia (env_now v) (fst fs) (snd fs) (pm_Hash pm) (pm_Data pm) (e_store e)))"
    by (auto simp: engine_inv_def)
  with \<open>engine_inv e\<close> show ?thesis by (auto simp: save_media_def engine_inv_def split: prod.splits)
qed

lemma media_sends_inv [engine_intros]:
  assumes "engine_inv e"
  shows "engine_inv (snd (SendImage v res fs c cap e))" "engine_inv (snd (SendAudio v res fs c e))"
    "engine_inv (snd (SendVideo v res fs c cap e))" "engine_inv (snd (SendFile v res fs c e))"
    "engine_inv (snd (SetAvatar v res fs e))"
proof -
  have media: "engine_inv e'" if "save_media v fs pm e = (r, e')" for pm r e'
    using save_media_inv [OF assms, of v fs pm] that by simp
  show "engine_inv (snd (SendImage v res fs c cap e))" "engine_inv (snd (SendAudio v res fs c e))"
    "engine_inv (snd (SendVideo v res fs c cap e))" "engine_inv (snd (SendFile v res fs c e))"
    "engine_inv (snd (SetAvatar v res fs e))"
    using assms media save_media_inv [OF assms, of v fs]
    by (auto simp: SendImage_def SendAudio_def SendVideo_def SendFile_def SetAvatar_def Let_def
        intro!: send_inv engine_inv_store split: sum.splits prod.splits option.splits)
qed

lemma broadcast_inv [engine_intros]:
  "engine_inv e \<Longrightarrow> engine_inv (broadcastPresence v e)" "engine_inv e \<Longrightarrow> engine_inv (RotateKeys v e)"
  by (auto simp: broadcastPresence_def RotateKeys_def good_packet_literal
      intro!: engine_inv_fold trans_Send_inv SendHandshake_inv)

lemma profile_inv [engine_intros]:
  assumes "engine_inv e"
  shows "engine_inv (SetDisplayName n e)" "engine_inv (SetStatus v st txt e)" "engine_inv (snd (BlockPeer p e))"
    "engine_inv (snd (UnblockPeer p e))" "engine_inv (snd (SetTransportMode mo e))"
    "engine_inv (snd (ConnectToServer v ok addr e))" "engine_inv (DisconnectServer v e)"
    "engine_inv (snd (SyncSince v t e))" "engine_inv (InstallStickerPack v pack e)"
    "engine_inv (snd (SendContactRequest v node g e))"
  using assms
  by (auto simp: SetDisplayName_def SetStatus_def BlockPeer_def UnblockPeer_def SetTransportMode_def ConnectToServer_def
      DisconnectServer_def SyncSince_def InstallStickerPack_def SendContactRequest_def new_uuid_def Let_def good_packet_literal
      intro!: engine_inv_store broadcast_inv trans_Send_inv split: option.splits)

lemma contact_inv [engine_intros]:
  assumes "engine_inv e"
  shows "engine_inv (snd (AcceptContactRequest v i e))" "engine_inv (snd (DeclineContactRequest v i e))"
  using assms by (auto simp: AcceptContactRequest_def DeclineContactRequest_def Let_def
      intro!: SendHandshake_inv engine_inv_store split: option.splits)

lemma chats_inv [engine_intros]:
  assumes "engine_inv e"
  shows "engine_inv (snd (CreateChat v n ps e))" "engine_inv (snd (LeaveChat v c e))"
    "engine_inv (snd (AddChatMember v c p e))" "engine_inv (snd (RemoveChatMember v c p e))"
    "engine_inv (snd (SetMemberRole v c p r e))" "engine_inv (snd (SetChatPermissions v c pm e))"
    "engine_inv (snd (SetDisappearAfter v c d e))"
  using assms
  by (auto simp: CreateChat_def new_uuid_def LeaveChat_def AddChatMember_def RemoveChatMember_def SetMemberRole_def
      SetChatPermissions_def SetDisappearAfter_def Let_def
      intro!: engine_inv_store sends_inv initGroupSenderKey_inv distributeSenderKeyTo_inv split: option.splits)

lemma read_mark_inv:
  "engine_inv e \<Longrightarrow> engine_inv (with_store (SaveReadReceipt now i p \<circ> UpdateMessageStatus j st) e)"
  by (rule engine_inv_store) (auto intro: store_steps)

lemma mark_read_loop_inv: "engine_inv e \<Longrightarrow> engine_inv (mark_read_loop v u ms e)"
  by (induction v u ms e rule: mark_read_loop.induct) (simp add: Let_def read_mark_inv split: if_splits)+

lemma message_ops_inv [engine_intros]:
  assumes "engine_inv e"
  shows "engine_inv (snd (Engine_DeleteMessage v i ev e))" "engine_inv (snd (AddReaction v i em e))"
    "engine_inv (snd (RemoveReaction v i em e))" "engine_inv (MarkRead v c i e)"
proof -
  have sent: "engine_inv e''" if "engine_inv e'" "send v c t pl m r e' = (x, e'')" for c t pl m r e' x e''
    using send_inv [OF that(1), of v c t pl m r] that(2) by simp
  have react: "engine_inv (snd (send_reaction v i em a f e))" if "\<And>s. storage_reachable s \<Longrightarrow> storage_reachable (f s)" for a f
    using assms that
    by (auto simp: send_reaction_def Let_def intro!: engine_inv_store
        dest!: sent [rotated] split: outcome.splits option.splits prod.splits)
  show "engine_inv (snd (AddReaction v i em e))" "engine_inv (snd (RemoveReaction v i em e))"
    unfolding AddReaction_def RemoveReaction_def by (auto intro!: react)
  show "engine_inv (MarkRead v c i e)"
    using assms by (auto simp: MarkRead_def Let_def intro!: send_inv mark_read_loop_inv)
  show "engine_inv (snd (Engine_DeleteMessage v i ev e))"
    using assms by (auto simp: Engine_DeleteMessage_def intro!: engine_inv_store
        dest: sent split: option.splits outcome.splits prod.splits)
qed


lemma save_ignoring_inv [engine_intros]: "engine_inv e \<Longrightarrow> engine_inv (save_ignoring m e)"
  by (auto simp: save_ignoring_def engine_inv_def dest: store_saved split: sum.splits)

lemma engine_inv_saved: "engine_inv e \<Longrightarrow> SaveMessage m (e_store e) = Inr st \<Longrightarrow> engine_inv (e\<lparr>e_store := st\<rparr>)"
  by (auto simp: engine_inv_def dest: store_saved)

lemma accept_message_inv: "engine_inv e \<Longrightarrow> engine_inv (accept_message v m e)"
  by (auto simp: accept_message_def Let_def intro!: sends_inv dest: engine_inv_saved split: sum.splits)

lemma handlers_inv [engine_intros]:
  assumes "engine_inv e"
  shows "engine_inv (handleReactionMsg v m e)" "engine_inv (handleSystemMessage v m e)"
    "engine_inv (handleReadReceipt v m e)" "engine_inv (handleEdit v m e)" "engine_inv (handleDelete v m e)"
    "engine_inv (handle_typing v m e)"
  using assms
  by (auto simp: handleReactionMsg_def handleSystemMessage_def handleReadReceipt_def handleEdit_def handleDelete_def
      handle_typing_def Let_def intro!: engine_inv_store save_ignoring_inv read_mark_inv split: option.splits)

lemma packet_handlers_inv [engine_intros]:
  assumes "engine_inv e"
  shows "engine_inv (handleHandshake v ip e)" "engine_inv (handleContactRequest v ip e)"
    "engine_inv (handleSenderKeyDist v ip e)" "engine_inv (updatePeerLastSeen v n e)" "engine_inv (ensure_chat v m e)"
  using assms
  by (auto simp: handleHandshake_def handleContactRequest_def handleSenderKeyDist_def updatePeerLastSeen_def
      ensure_chat_def Let_def intro!: engine_inv_store SendHandshake_inv split: option.splits sum.splits)

lemma dispatch_message_inv: "engine_inv e \<Longrightarrow> engine_inv (dispatch_message v m e)"
  unfolding dispatch_message_def Let_def
  by (auto intro!: engine_inv_store handlers_inv accept_message_inv)

lemma open_payload_inv: "engine_inv e \<Longrightarrow> engine_inv (snd (open_payload v fl m e))"
  by (auto simp: open_payload_def decryptFromPeer_def Let_def split: prod.splits option.splits sum.splits if_splits)

lemma handle_message_packet_inv: "engine_inv e \<Longrightarrow> engine_inv (handle_message_packet v p e)"
proof -
  assume inv: "engine_inv e"
  have opened: "engine_inv e'" if "open_payload v (pkt_Flags p) m (ensure_chat v m e) = (r, e')" for m r e'
    using open_payload_inv [OF packet_handlers_inv(5) [OF inv, of v m], of v "pkt_Flags p" m] that by simp
  show ?thesis
    using inv by (auto simp: handle_message_packet_def Let_def intro!: packet_handlers_inv dispatch_message_inv
        dest: opened split: option.splits prod.splits)
qed

lemma handleIncoming_inv: "engine_inv e \<Longrightarrow> engine_inv (handleIncoming v ip e)"
  unfolding handleIncoming_def Let_def
  by (auto intro!: sends_inv packet_handlers_inv handle_message_packet_inv)

lemma incoming_inv [engine_intros]:
  "engine_inv e \<Longrightarrow> engine_inv (receive_packet v ip e)" "engine_inv e \<Longrightarrow> engine_inv (handleRelayFrame v f e)"
  by (auto simp: receive_packet_def handleRelayFrame_def intro!: handleIncoming_inv split: option.splits)

lemma flushPending_inv [engine_intros]: "engine_inv e \<Longrightarrow> engine_inv (flushPending v e)"
proof -
  have one: "engine_inv (flush_one v m e)" if "engine_inv e" for m e
    using that transmit_inv [OF that, of v _ m]
    by (auto simp: flush_one_def intro!: engine_inv_store store_steps split: option.splits prod.splits) (metis snd_conv)+
  show "engine_inv e \<Longrightarrow> engine_inv (flushPending v e)"
    unfolding flushPending_def by (rule engine_inv_fold) (auto intro: one)
qed

lemma disappearing_tick_inv: "engine_inv e \<Longrightarrow> disappearing_tick v n e = Some e' \<Longrightarrow> engine_inv e'"
proof -
  assume inv: "engine_inv e" and tick: "disappearing_tick v n e = Some e'"
  have "storage_reachable (snd (DeleteExpiredMessages (env_now v) (e_store e)))"
    using inv by (auto simp: engine_inv_def)
  then have "storage_reachable s'" if "PruneMediaCache n mx (snd (DeleteExpiredMessages (env_now v) (e_store e))) = Some (k, s')" for mx k s'
    using storage_more storage_step.intros(19) that by blast
  with inv tick show ?thesis
    by (auto simp: disappearing_tick_def Let_def engine_inv_def publish_def split: prod.splits if_splits)
qed

lemma engine_step_inv: "engine_step e e' \<Longrightarrow> engine_inv e \<Longrightarrow> engine_inv e'"
  by (erule engine_step.cases)
    (auto intro: engine_intros disappearing_tick_inv intro!: engine_inv_store)

interpretation engine: safe_system engine_step engine_inv
  by unfold_locales (rule engine_step_inv)

lemma engine_inv_New: "engine_inv (New cfg i p)"
  by (simp add: engine_inv_def New_def storage_open)

lemma engine_reachable_inv: "engine_reachable cfg i p e \<Longrightarrow> engine_inv e"
  by (induction rule: engine_reachable.induct) (auto intro: engine_inv_New engine.step_inv)


subsection \<open>What sending leaves alone\<close>

lemma frame_basics [simp]:
  "e_store (publish ty ts d e) = e_store e" "e_sent (publish ty ts d e) = e_sent e"
  "e_cryptoPro (publish ty ts d e) = e_cryptoPro e" "e_cfg (publish ty ts d e) = e_cfg e"
  "e_localPeer (publish ty ts d e) = e_localPeer e" "e_identity (publish ty ts d e) = e_identity e"
  "e_store (with_store f e) = f (e_store e)" "e_sent (with_store f e) = e_sent e"
  "e_cryptoPro (with_store f e) = e_cryptoPro e" "e_cfg (with_store f e) = e_cfg e"
  "e_events (with_store f e) = e_events e" "e_localPeer (with_store f e) = e_localPeer e"
  "e_store (put_session p s e) = e_store e" "e_store (put_sender_key c p sk e) = e_store e"
  "e_sent (put_session p s e) = e_sent e" "e_events (put_session p s e) = e_events e"
  "e_store (snd (trans_Send v to pkt e)) = e_store e" "e_cryptoPro (snd (trans_Send v to pkt e)) = e_cryptoPro e"
  "e_events (snd (trans_Send v to pkt e)) = e_events e"
  by (simp_all add: publish_def with_store_def put_session_def put_sender_key_def trans_Send_def)

lemma fold_frame:
  assumes "\<And>x e. f (g x e) = f e"
  shows "f (fold g xs e) = f e"
  using assms by (induction xs arbitrary: e) auto

lemma send_to_member_frame [simp]:
  "e_store (send_to_member v pkt m e) = e_store e" "e_cryptoPro (send_to_member v pkt m e) = e_cryptoPro e"
  "e_localPeer (send_to_member v pkt m e) = e_localPeer e" "e_events (send_to_member v pkt m e) = e_events e"
  "e_serverUp (send_to_member v pkt m e) = e_serverUp e" "e_draws (send_to_member v pkt m e) = e_draws e"
  by (auto simp: send_to_member_def sendPkt_def trans_Send_def)

lemma transmit_frame [simp]:
  "e_store (snd (transmit v chat msg e)) = e_store e" "e_cryptoPro (snd (transmit v chat msg e)) = e_cryptoPro e"
  "e_localPeer (snd (transmit v chat msg e)) = e_localPeer e" "e_events (snd (transmit v chat msg e)) = e_events e"
  by (auto simp: transmit_def Let_def fold_frame [where f = e_store] fold_frame [where f = e_cryptoPro]
      fold_frame [where f = e_localPeer] fold_frame [where f = e_events] split: sum.splits)

lemma distribute_frame [simp]:
  "e_store (distributeSenderKeyTo v chat p e) = e_store e"
  "prov_sessions (e_cryptoPro (distributeSenderKeyTo v chat p e)) = prov_sessions (e_cryptoPro e)"
  "e_events (distributeSenderKeyTo v chat p e) = e_events e"
  by (auto simp: distributeSenderKeyTo_def read_rand_def Let_def split: option.splits sum.splits)

lemma initGroup_frame [simp]:
  "e_store (initGroupSenderKey v chat e) = e_store e"
  "prov_sessions (e_cryptoPro (initGroupSenderKey v chat e)) = prov_sessions (e_cryptoPro e)"
  "e_events (initGroupSenderKey v chat e) = e_events e"
  by (auto simp: initGroupSenderKey_def read_rand_def StoreSenderKey_def
      fold_frame [where f = e_store] fold_frame [where f = "\<lambda>e. prov_sessions (e_cryptoPro e)"]
      fold_frame [where f = e_events] split: sum.splits)

lemma encryptForChat_frame [simp]:
  "e_store (snd (encryptForChat v chat pl msg e)) = e_store e"
  "e_events (snd (encryptForChat v chat pl msg e)) = e_events e"
  by (auto simp: encryptForChat_def encrypt_direct_def encrypt_group_def encrypt_with_def read_rand_def Let_def
      put_session_def put_sender_key_def split: ChatType.splits option.splits prod.splits sum.splits)

text \<open>The receiving half of a session: sending never moves it.\<close>

definition recv_half :: "SessionKey \<Rightarrow> bytes \<times> 64 word" where
  "recv_half s = (sk_RecvChain s, sk_RecvCounter s)"

definition recv_halves :: "Engine \<Rightarrow> string \<Rightarrow> (bytes \<times> 64 word) option" where
  "recv_halves e k = map_option recv_half (prov_sessions (e_cryptoPro e) k)"

lemma EncryptPacketBody_recv: "EncryptPacketBody pr now rnd s h b = (r, s') \<Longrightarrow> recv_half s' = recv_half s"
  by (auto simp: EncryptPacketBody_def SessionKey_Advance_def recv_half_def split: sum.splits prod.splits)

lemma encryptForChat_recv: "recv_halves (snd (encryptForChat v chat pl msg e)) k = recv_halves e k"
proof -
  have "recv_halves (snd (encrypt_direct v rid pl c e)) k = recv_halves e k" for rid c
    by (auto simp: encrypt_direct_def encrypt_with_def read_rand_def recv_halves_def put_session_def GetSession_def
        dest: EncryptPacketBody_recv split: option.splits prod.splits sum.splits)
  moreover have "recv_halves (snd (encrypt_group v chat pl c e)) k = recv_halves e k" for c
    by (auto simp: encrypt_group_def encrypt_with_def read_rand_def Let_def recv_halves_def put_sender_key_def
        split: option.splits prod.splits sum.splits)
  ultimately show ?thesis by (auto simp: encryptForChat_def split: ChatType.splits option.splits)
qed

lemma transmit_result:
  "transmit v chat msg e = (r, e') \<Longrightarrow>
     e_store e' = e_store e \<and> e_cryptoPro e' = e_cryptoPro e \<and> e_localPeer e' = e_localPeer e \<and> e_events e' = e_events e"
  using transmit_frame [of v chat msg e] by simp

lemma send_encrypted_crypto: "e_cryptoPro (snd (send_encrypted v chat m p fp e)) = e_cryptoPro e"
  by (auto simp: send_encrypted_def Let_def dest!: transmit_result split: sum.splits prod.splits option.splits)

text \<open>What \<open>send\<close> does to the store: a message under a new ID, its status, perhaps a queue entry.\<close>

lemma GetMessage_store [simp]:
  "GetMessage (EnqueuePending now now' m s) i = GetMessage s i" "GetMessage (IndexMessageText j str s) i = GetMessage s i"
  "GetMessage (SavePeer p s) i = GetMessage s i"
  by (simp_all add: GetMessage_def EnqueuePending_def IndexMessageText_def SavePeer_def)

lemma GetMessage_UpdateMessageStatus:
  "GetMessage (UpdateMessageStatus j st s) i =
     map_option (\<lambda>m. if i = j then m\<lparr>msg_Status := st\<rparr> else m) (GetMessage s i)"
  by (cases "find_row m_id i (tb_messages s)")
    (auto simp: GetMessage_def UpdateMessageStatus_def table_simps scanMessage_def dest: find_row_Some
      split: option.splits)

lemma GetMessage_SaveMessage:
  "SaveMessage m s = Inr s' \<Longrightarrow>
     GetMessage s' i = (if i = msg_ID m then Some (scanMessage (message_values m)) else GetMessage s i)"
  by (auto simp: SaveMessage_def GetMessage_def table_simps message_values_def split: if_splits)

lemma SaveMessage_tables:
  "SaveMessage m s = Inr s' \<Longrightarrow> tb_messages_fts s' = tb_messages_fts s \<and> tb_chats s' = tb_chats s \<and> tb_peers s' = tb_peers s"
  by (auto simp: SaveMessage_def split: if_splits)

lemma other_tables [simp]:
  "tb_messages_fts (UpdateMessageStatus j st s) = tb_messages_fts s" "tb_messages_fts (EnqueuePending now now' m s) = tb_messages_fts s"
  "tb_chats (UpdateMessageStatus j st s) = tb_chats s" "tb_chats (EnqueuePending now now' m s) = tb_chats s"
  by (simp_all add: UpdateMessageStatus_def EnqueuePending_def)

lemma send_encrypted_store:
  assumes "i \<noteq> msg_ID m"
  shows "GetMessage (e_store (snd (send_encrypted v chat m p fp e))) i = GetMessage (e_store e) i"
    "tb_messages_fts (e_store (snd (send_encrypted v chat m p fp e))) = tb_messages_fts (e_store e)"
  using assms
  by (auto simp: send_encrypted_def Let_def GetMessage_UpdateMessageStatus GetMessage_SaveMessage option.map_ident
      dest!: transmit_result dest: SaveMessage_tables split: sum.splits prod.splits option.splits)

lemma encryptForChat_result:
  assumes "encryptForChat v chat pl m e = (x, e')"
  shows "e_store e' = e_store e \<and> e_events e' = e_events e \<and> recv_halves e' k = recv_halves e k"
  using encryptForChat_frame [of v chat pl m e] encryptForChat_recv [of v chat pl m e k] assms by simp

lemma recv_halves_cong: "e_cryptoPro e' = e_cryptoPro e \<Longrightarrow> recv_halves e' k = recv_halves e k"
  by (simp add: recv_halves_def)

lemma send_frame:
  assumes "i \<noteq> env_uuid v (e_draws e)"
  shows "GetMessage (e_store (snd (send v c t p meta rt e))) i = GetMessage (e_store e) i"
    "tb_messages_fts (e_store (snd (send v c t p meta rt e))) = tb_messages_fts (e_store e)"
  using assms
  by (auto simp: send_def new_uuid_def new_message_def Let_def send_encrypted_store
      dest!: encryptForChat_result split: option.splits outcome.splits sum.splits prod.splits)

lemma send_fts: "tb_messages_fts (e_store (snd (send v c t p meta rt e))) = tb_messages_fts (e_store e)"
  by (rule send_frame(2) [of "env_uuid v (e_draws e) @ ''x''"]) simp

lemma send_recv: "recv_halves (snd (send v c t p meta rt e)) k = recv_halves e k"
proof -
  have "recv_halves (snd (send_encrypted v chat m p fp e')) k = recv_halves e' k" for chat m fp e'
    by (rule recv_halves_cong) (rule send_encrypted_crypto)
  moreover have "recv_halves (e\<lparr>e_draws := n\<rparr>) k = recv_halves e k" "recv_halves (e'\<lparr>e_statEncryptErr := w\<rparr>) k = recv_halves e' k" for n e' w
    by (simp_all add: recv_halves_def)
  ultimately show ?thesis
    by (auto simp: send_def new_uuid_def Let_def dest!: encryptForChat_result [where k = k]
        split: option.splits outcome.splits sum.splits prod.splits)
qed


subsection \<open>Receiving\<close>

definition is_message_type :: "MessageType \<Rightarrow> bool" where
  "is_message_type t = (t \<notin> {MsgPing, MsgPong, MsgHandshake, MsgHandshakeAck, MsgCallSignal, MsgContactRequest, MsgSenderKeyDist})"

lemma handleIncoming_message:
  "is_message_type (pkt_Type (ip_Pkt ip)) \<Longrightarrow> handleIncoming v ip e = handle_message_packet v (ip_Pkt ip) e"
  by (simp add: handleIncoming_def is_message_type_def Let_def)

lemma ensure_chat_frame [simp]:
  "e_sent (ensure_chat v m e) = e_sent e" "e_events (ensure_chat v m e) = e_events e"
  "e_cryptoPro (ensure_chat v m e) = e_cryptoPro e" "e_cfg (ensure_chat v m e) = e_cfg e"
  "tb_messages (e_store (ensure_chat v m e)) = tb_messages (e_store e)"
  "tb_peers (e_store (ensure_chat v m e)) = tb_peers (e_store e)"
  "tb_messages_fts (e_store (ensure_chat v m e)) = tb_messages_fts (e_store e)"
  by (auto simp: ensure_chat_def GetChat_def SaveChat_def delete_chat_row_def auto_chat_def Let_def)

lemma sender_accepted_cong:
  "tb_peers (e_store e') = tb_peers (e_store e) \<Longrightarrow> e_cfg e' = e_cfg e \<Longrightarrow> sender_accepted p e' = sender_accepted p e"
  by (simp add: sender_accepted_def GetPeer_def)

lemma ensure_chat_exists: "GetChat (e_store (ensure_chat v m e)) (msg_ChatID m) \<noteq> None"
  by (auto simp: ensure_chat_def GetChat_def SaveChat_def delete_chat_row_def Let_def auto_chat_def chat_values_def
      table_simps)

section \<open>Properties\<close>

text \<open>
  C22: Unwanted senders. A message from a blocked peer, or from somebody who is not a contact when
  contacts are required, is not stored, not decrypted, not answered and not reported. All it can
  do is to create the chat it names: the chat is created before the sender is checked.
\<close>

theorem rejected_sender_leaves_chat:
  assumes "is_message_type (pkt_Type (ip_Pkt ip))"
    and "unmarshal_body v dec_Message (pkt_Body (ip_Pkt ip)) = Some msg"
    and "\<not> sender_accepted (msg_SenderID msg) e"
  shows "let e' = handleIncoming v ip e in
    e_sent e' = e_sent e \<and> e_events e' = e_events e \<and> e_cryptoPro e' = e_cryptoPro e \<and>
    tb_messages (e_store e') = tb_messages (e_store e) \<and> tb_peers (e_store e') = tb_peers (e_store e) \<and>
    (GetChat (e_store e) (msg_ChatID msg) \<noteq> None \<longrightarrow> e' = e) \<and> GetChat (e_store e') (msg_ChatID msg) \<noteq> None"
proof -
  have "\<not> sender_accepted (msg_SenderID msg) (ensure_chat v msg e)"
    using assms(3) by (simp add: sender_accepted_cong [of "ensure_chat v msg e" e])
  then have "handleIncoming v ip e = ensure_chat v msg e"
    using assms(1,2) by (simp add: handleIncoming_message handle_message_packet_def)
  then show ?thesis
    using ensure_chat_exists [of v msg e] by (simp add: Let_def) (simp add: ensure_chat_def)
qed

text \<open>
  Handshakes rewrite peers. A handshake whose signature fits the key it carries replaces whatever
  is stored for the peer it names: the keys become those of the handshake, a block is lifted and
  a contact that had to be accepted is a contact no more; if acceptance is not required, messages
  of the peer are accepted from then on.
\<close>

theorem handshake_overwrites_peer:
  assumes "pkt_Type (ip_Pkt ip) \<in> {MsgHandshake, MsgHandshakeAck}"
    and "unmarshal_body v dec_HandshakePayload (pkt_Body (ip_Pkt ip)) = Some hp"
    and "Provider_Verify (env_prim v) (hp_SignPublic hp) (hp_DHPublic hp) (hp_Signature hp)"
  shows "(\<exists>p. GetPeer (e_store (handleIncoming v ip e)) (hp_PeerID hp) = Some p \<and> \<not> peer_IsBlocked p \<and>
      peer_SignKey p = hp_SignPublic hp \<and> peer_PublicKey p = hp_DHPublic hp \<and>
      peer_IsContact p = (\<not> cfg_RequireContactAccept (e_cfg e))) \<and>
    sender_accepted (hp_PeerID hp) (handleIncoming v ip e) = (\<not> cfg_RequireContactAccept (e_cfg e))"
proof -
  have hs: "handleIncoming v ip e = handleHandshake v ip e"
    using assms(1) by (auto simp: handleIncoming_def Let_def)
  have frames: "e_store (init_session v d p x) = e_store x" "e_cfg (init_session v d p x) = e_cfg x"
    "e_store (snd (SendHandshake v to x)) = e_store x" "e_cfg (snd (SendHandshake v to x)) = e_cfg x" for d p x to
    by (auto simp: init_session_def read_rand_def SendHandshake_def trans_Send_def Let_def)
  show ?thesis
    unfolding hs handleHandshake_def
    using assms(2,3)
    by (auto simp: Let_def frames sender_accepted_def GetPeer_def SavePeer_def table_simps peer_key_def peer_values_def
        scanPeer_def boolToInt_def split: option.splits)
qed

text \<open>
  Incoming texts are not searchable. When a text message with a new ID is accepted, it is stored,
  but the full-text index gets no row for it: the index is written before the message and takes
  the chat from the row that is not there yet.
\<close>

theorem incoming_text_not_indexed:
  assumes "msg_Type msg = MsgText" and "GetMessage (e_store e) (msg_ID msg) = None"
    and "GetChat (e_store e) (msg_ChatID msg) \<noteq> None" and "env_uuid v (e_draws e) \<noteq> msg_ID msg"
  shows "tb_messages_fts (e_store (dispatch_message v msg e)) = tb_messages_fts (e_store e) \<and>
    (\<exists>m. GetMessage (e_store (dispatch_message v msg e)) (msg_ID msg) = Some m \<and> msg_Payload m = msg_Payload msg)"
proof -
  let ?m = "msg\<lparr>msg_Status := StatusDelivered\<rparr>"
  have idx: "IndexMessageText (msg_ID msg) str (e_store e) = e_store e" for str
    using assms(2) by (simp add: IndexMessageText_def GetMessage_def find_row_None filter_empty_conv)
  obtain st where st: "SaveMessage ?m (e_store e) = Inr st"
    using assms(3) by (auto simp: SaveMessage_def GetChat_def)
  have d: "dispatch_message v msg e = publish ''message.received'' (env_now v) (DMessage ?m) (sendDeliveryReceipt v ?m (e\<lparr>e_store := st\<rparr>))"
    using st assms(1) by (simp add: dispatch_message_def accept_message_def with_store_def idx Let_def)
  have "msg_Payload (scanMessage (message_values ?m)) = msg_Payload msg"
    by (simp add: scanMessage_def message_values_def)
  then show ?thesis
    using st assms(4) SaveMessage_tables [OF st]
    by (simp add: d sendDeliveryReceipt_def send_frame(1) send_fts GetMessage_SaveMessage)
qed

subsection \<open>Witnesses\<close>

definition demo_incoming :: "MessageType \<Rightarrow> json \<Rightarrow> IncomingPacket" where
  "demo_incoming ty j = \<lparr>ip_From = ''n'', ip_Pkt = packet ty 0 0 (put_json j), ip_ReceivedAt = 0\<rparr>"

lemma demo_body: "unmarshal_body (demo_env tag) d (pkt_Body (ip_Pkt (demo_incoming ty j))) = d j"
  using decode_encode [of j "put_json j"] by (simp add: unmarshal_body_def demo_env_def demo_incoming_def packet_def encode_def)

lemma demo_incoming_type: "pkt_Type (ip_Pkt (demo_incoming ty j)) = ty"
  by (simp add: demo_incoming_def packet_def)

theorem rejected_sender_leaves_chat_witness:
  "let e' = handleIncoming (demo_env ''m'') (demo_incoming MsgText (enc_Message (demo_message ''m1'' 10))) (demo_engine ''alice'' 1) in
     tb_messages (e_store e') = [] \<and> e_sent e' = []"
proof -
  have dec: "dec_Message (enc_Message (demo_message ''m1'' 10)) = Some (demo_message ''m1'' 10)"
    by (rule dec_enc_Message) (simp add: demo_message_def meta_ints_ok_def empty_meta_def int64_range_def)
  have "\<not> sender_accepted (msg_SenderID (demo_message ''m1'' 10)) (demo_engine ''alice'' 1)"
    by (simp add: sender_accepted_def demo_message_def demo_engine_def GetPeer_def SavePeer_def SaveChat_def
        delete_chat_row_def Let_def migrate_def table_simps find_row_def demo_peer_def peer_key_def peer_values_def
        DefaultConfig_def insert_or_replace_def delete_row_def)
  from rejected_sender_leaves_chat [of "demo_incoming MsgText (enc_Message (demo_message ''m1'' 10))" "demo_env ''m''" "demo_message ''m1'' 10", OF _ _ this]
  show ?thesis
    unfolding demo_body demo_incoming_type dec
    by (simp add: is_message_type_def Let_def)
      (simp add: demo_engine_def SavePeer_def SaveChat_def delete_chat_row_def Let_def migrate_def find_row_def)
qed

definition demo_handshake :: HandshakePayload where
  "demo_handshake = \<lparr>hp_PeerID = \<lparr>pid_NodeID = ''bobby'', pid_Fingerprint = ''f''\<rparr>, hp_DisplayName = ''mallory'',
     hp_DHPublic = [7], hp_SignPublic = replicate 32 9, hp_Signature = replicate 32 9 @ [7], hp_Timestamp = 0\<rparr>"

lemma dec_enc_demo_handshake: "dec_HandshakePayload (enc_HandshakePayload demo_handshake) = Some demo_handshake"
  by (simp add: demo_handshake_def dec_HandshakePayload_def enc_HandshakePayload_def fld_def dec_PeerID_def
      enc_PeerID_def int64_range_def)

theorem handshake_overwrites_peer_witness:
  "\<exists>p. GetPeer (e_store (handleIncoming (demo_env ''m'') (demo_incoming MsgHandshakeAck (enc_HandshakePayload demo_handshake))
        (snd (BlockPeer (hp_PeerID demo_handshake) (demo_engine ''alice'' 1))))) (hp_PeerID demo_handshake) = Some p \<and>
     \<not> peer_IsBlocked p \<and> peer_SignKey p = replicate 32 9"
  using handshake_overwrites_peer [of "demo_incoming MsgHandshakeAck (enc_HandshakePayload demo_handshake)" "demo_env ''m''"
      demo_handshake "snd (BlockPeer (hp_PeerID demo_handshake) (demo_engine ''alice'' 1))"]
  unfolding demo_body demo_incoming_type dec_enc_demo_handshake
  by (simp add: Provider_Verify_def demo_env_def clear_primitives_def) (auto simp: demo_handshake_def)

theorem incoming_text_not_indexed_witness:
  "tb_messages_fts (e_store (dispatch_message (demo_env ''m'') (demo_message ''m1'' 10) (demo_engine ''alice'' 1))) = []"
proof -
  let ?e = "demo_engine ''alice'' 1"
  have "GetMessage (e_store ?e) ''m1'' = None" "tb_messages_fts (e_store ?e) = []"
    by (simp_all add: demo_engine_def GetMessage_def SavePeer_def SaveChat_def delete_chat_row_def Let_def migrate_def find_row_def)
  moreover have "GetChat (e_store ?e) ''c1'' \<noteq> None" by (simp add: demo_engine_chat)
  ultimately show ?thesis
    using incoming_text_not_indexed [of "demo_message ''m1'' 10" ?e "demo_env ''m''"]
    by (simp add: demo_message_def demo_env_def demo_engine_def)
qed

end
