(* ===== verification/Delivery.thy ===== *)
theory Delivery
  imports Engine_Recv Wire Relay_Server
begin

text \<open>
  Lemmas for the properties that span components: what one engine puts into a packet and what
  another engine makes of it. A message sent in a direct chat over an established session is
  followed from \<open>send\<close> through compression, encryption, the JSON body and the packet, and back
  through \<open>handleIncoming\<close>, decryption and decompression into the store of the receiver.
\<close>

section \<open>Sending in a direct chat\<close>

definition other_members :: "env \<Rightarrow> Engine \<Rightarrow> Chat \<Rightarrow> ChatMember list" where
  "other_members v e chat = filter (\<lambda>m. PeerID_String (cm_PeerID m) \<noteq> PeerID_String (local_id e) \<and>
     env_reach v (pid_NodeID (cm_PeerID m))) (chat_Members chat)"

lemma send_to_member_sent:
  "e_sent (send_to_member v pkt m e) = e_sent e @
     (if PeerID_String (cm_PeerID m) \<noteq> PeerID_String (local_id e) \<and> env_reach v (pid_NodeID (cm_PeerID m))
      then [(pid_NodeID (cm_PeerID m), pkt)] else [])"
  by (simp add: send_to_member_def sendPkt_def trans_Send_def)

lemma send_to_members_sent:
  "e_sent (fold (send_to_member v pkt) ms e) = e_sent e @
     map (\<lambda>m. (pid_NodeID (cm_PeerID m), pkt))
       (filter (\<lambda>m. PeerID_String (cm_PeerID m) \<noteq> PeerID_String (local_id e) \<and> env_reach v (pid_NodeID (cm_PeerID m))) ms)"
  by (induction ms arbitrary: e) (simp_all add: send_to_member_sent)

lemma transmit_ok:
  assumes "buildPacket v e msg = Inr pkt"
  shows "\<exists>e'. transmit v chat msg e = (None, e') \<and> e_store e' = e_store e \<and> e_cryptoPro e' = e_cryptoPro e \<and>
    (effective_mode (e_cfg e) \<in> {TransportP2P, TransportBoth} \<longrightarrow>
       e_sent e' = e_sent e @ map (\<lambda>m. (pid_NodeID (cm_PeerID m), pkt)) (other_members v e chat))"
proof -
  obtain e' where e': "transmit v chat msg e = (None, e')"
    using assms by (auto simp: transmit_def Let_def)
  moreover have "effective_mode (e_cfg e) \<in> {TransportP2P, TransportBoth} \<longrightarrow>
      e_sent e' = e_sent e @ map (\<lambda>m. (pid_NodeID (cm_PeerID m), pkt)) (other_members v e chat)"
    using assms e' by (auto simp: transmit_def Let_def send_to_members_sent other_members_def)
  ultimately show ?thesis using transmit_result [OF e'] by blast
qed

lemma buildPacket_ok:
  assumes "json_Marshal (env_json v) (enc_Message msg) = Some body"
  shows "\<exists>pkt. buildPacket v e msg = Inr pkt \<and> pkt_Body pkt = body \<and> pkt_Type pkt = msg_Type msg \<and> pkt_Flags pkt = 7"
  using assms by (auto simp: buildPacket_def packet_def Let_def split: option.splits)

lemma Compress_inverted:
  "zstd_law cc \<Longrightarrow> \<exists>out. Compress.Compress cc d = Inr out \<and> Decompress cc out = Inr d"
  using Compress_cases [of cc d] by (auto simp: zstd_law_def codec_result_def)

lemma isUserMessage_types:
  "isUserMessage t \<Longrightarrow> is_message_type t"
  "isUserMessage t \<Longrightarrow> t \<notin> {MsgEdit, MsgDelete, MsgRead, MsgDelivered, MsgTyping, MsgReaction, MsgMemberAdded,
     MsgMemberRemoved, MsgMemberLeft, MsgGroupRenamed, MsgAdminChanged}"
  by (auto simp: isUserMessage_def is_message_type_def)

lemma new_message_simps [simp]:
  "msg_ID (new_message v e chat c u t meta rt) = u" "msg_ChatID (new_message v e chat c u t meta rt) = c"
  "msg_SenderID (new_message v e chat c u t meta rt) = local_id e" "msg_Type (new_message v e chat c u t meta rt) = t"
  "msg_Metadata (new_message v e chat c u t meta rt) = meta"
  "msg_RecipientID (new_message v e chat c u t meta rt) = direct_recipient chat (local_id e)"
  by (simp_all add: new_message_def)

lemma send_encrypted_ok:
  assumes "GetChat (e_store e) (msg_ChatID m) \<noteq> None"
    and "json_Marshal (env_json v) (enc_Message (m\<lparr>msg_Payload := fp\<rparr>)) = Some body"
  shows "\<exists>pkt e'. send_encrypted v chat m p fp e = (Ok (m\<lparr>msg_Payload := p, msg_Status := StatusSent\<rparr>), e') \<and>
    e_cryptoPro e' = e_cryptoPro e \<and> pkt_Body pkt = body \<and> pkt_Type pkt = msg_Type m \<and> pkt_Flags pkt = 7 \<and> good_packet pkt \<and>
    (effective_mode (e_cfg e) \<in> {TransportP2P, TransportBoth} \<longrightarrow>
       e_sent e' = e_sent e @ map (\<lambda>x. (pid_NodeID (cm_PeerID x), pkt)) (other_members v e chat))"
proof -
  obtain st where st: "SaveMessage (m\<lparr>msg_Payload := p\<rparr>) (e_store e) = Inr st"
    using assms(1) by (auto simp: SaveMessage_def GetChat_def)
  obtain pkt where pkt: "buildPacket v (e\<lparr>e_store := st\<rparr>) (m\<lparr>msg_Payload := fp\<rparr>) = Inr pkt" "pkt_Body pkt = body"
      "pkt_Type pkt = msg_Type m" "pkt_Flags pkt = 7"
    using buildPacket_ok [OF assms(2)] by (metis (no_types, lifting) Message.select_convs(5) Message.surjective Message.update_convs(6))
  obtain e' where e': "transmit v chat (m\<lparr>msg_Payload := fp\<rparr>) (e\<lparr>e_store := st\<rparr>) = (None, e')"
      "e_cryptoPro e' = e_cryptoPro e"
      "effective_mode (e_cfg e) \<in> {TransportP2P, TransportBoth} \<longrightarrow>
         e_sent e' = e_sent e @ map (\<lambda>x. (pid_NodeID (cm_PeerID x), pkt)) (other_members v e chat)"
    using transmit_ok [OF pkt(1), of chat] by (auto simp: other_members_def)
  show ?thesis
    using st e' pkt(2-4) buildPacket_good [OF pkt(1)] by (auto simp: send_encrypted_def Let_def)
qed

lemma direct_send:
  assumes "GetChat (e_store a) c = Some chat" and "chat_Type chat = ChatDirect"
    and "check_permission chat (local_id a) t = Ok ()" and "direct_recipient chat (local_id a) = Some bp"
    and "cfg_E2EEnabled (e_cfg a)" and "GetSession (e_cryptoPro a) bp = Some sa"
    and "Compress.Compress (env_codecs v) payload = Inr cmp"
    and "EncryptPacketBody (env_prim v) (env_now v) (env_rand v (Suc (e_draws a))) sa (string_bytes c) cmp = (Inr fp, sa')"
    and "m = new_message v a chat c (env_uuid v (e_draws a)) t meta rt"
    and "json_Marshal (env_json v) (enc_Message (m\<lparr>msg_Payload := fp\<rparr>)) = Some body"
  shows "\<exists>pkt a'. send v c t payload meta rt a = (Ok (m\<lparr>msg_Payload := payload, msg_Status := StatusSent\<rparr>), a') \<and>
    GetSession (e_cryptoPro a') bp = Some sa' \<and> pkt_Body pkt = body \<and> pkt_Type pkt = t \<and> pkt_Flags pkt = 7 \<and>
    good_packet pkt \<and>
    (effective_mode (e_cfg a) \<in> {TransportP2P, TransportBoth} \<longrightarrow>
       e_sent a' = e_sent a @ map (\<lambda>x. (pid_NodeID (cm_PeerID x), pkt)) (other_members v a chat))"
proof -
  let ?a = "put_session bp sa' (a\<lparr>e_draws := Suc (Suc (e_draws a))\<rparr>)"
  have chatID: "msg_ChatID m = c" "msg_RecipientID m = Some bp" "msg_Type m = t"
    using assms(4,9) by simp_all
  have enc: "encryptForChat v chat cmp m (a\<lparr>e_draws := Suc (e_draws a)\<rparr>) = (Inr fp, ?a)"
    using assms(2,6,8) chatID by (simp add: encryptForChat_def encrypt_direct_def read_rand_def)
  have store: "e_store ?a = e_store a" "e_cfg ?a = e_cfg a" "e_sent ?a = e_sent a" "e_localPeer ?a = e_localPeer a"
    by (simp_all add: put_session_def)
  have send: "send v c t payload meta rt a = send_encrypted v chat m payload fp ?a"
    using assms(1,3,5,7) enc by (simp add: send_def new_uuid_def assms(9) Let_def)
  have "GetSession (e_cryptoPro ?a) bp = Some sa'" by (simp add: put_session_def GetSession_def)
  moreover have "other_members v ?a chat = other_members v a chat" by (simp add: other_members_def store)
  ultimately show ?thesis
    using send_encrypted_ok [of ?a m v fp body chat payload] assms(1,10) chatID
    unfolding send store by auto
qed

section \<open>Receiving in a direct chat\<close>

lemma ensure_chat_direct:
  assumes "\<forall>chat. GetChat (e_store e) (msg_ChatID m) = Some chat \<longrightarrow> chat_Type chat \<noteq> ChatGroup"
  shows "\<exists>chat. GetChat (e_store (ensure_chat v m e)) (msg_ChatID m) = Some chat \<and> chat_Type chat \<noteq> ChatGroup"
  using assms
  by (auto simp: ensure_chat_def GetChat_def SaveChat_def delete_chat_row_def Let_def auto_chat_def chat_values_def
      scanChat_def table_simps)

lemma decrypt_session:
  assumes "GetChat (e_store e) c = Some chat" and "chat_Type chat \<noteq> ChatGroup" and "GetSession (e_cryptoPro e) from = Some s"
    and "DecryptPacketBody (env_prim v) s (string_bytes c) payload = (r, s')"
  shows "decryptFromPeer v from c payload e = (r, put_session from s' e)"
  using assms by (simp add: decryptFromPeer_def)

lemma accept_message_stored:
  assumes "GetChat (e_store e) (msg_ChatID m) \<noteq> None" and "env_uuid v (e_draws e) \<noteq> msg_ID m"
  shows "GetMessage (e_store (accept_message v m e)) (msg_ID m) =
      Some (scanMessage (message_values (m\<lparr>msg_Status := StatusDelivered\<rparr>)))"
    "recv_halves (accept_message v m e) k = recv_halves e k"
proof -
  let ?m = "m\<lparr>msg_Status := StatusDelivered\<rparr>"
  obtain st where st: "SaveMessage ?m (e_store e) = Inr st"
    using assms(1) by (auto simp: SaveMessage_def GetChat_def)
  have acc: "accept_message v m e = publish ''message.received'' (env_now v) (DMessage ?m) (sendDeliveryReceipt v ?m (e\<lparr>e_store := st\<rparr>))"
    using st by (simp add: accept_message_def Let_def)
  show "GetMessage (e_store (accept_message v m e)) (msg_ID m) = Some (scanMessage (message_values ?m))"
    using assms(2) GetMessage_SaveMessage [OF st, of "msg_ID m"]
    by (simp add: acc sendDeliveryReceipt_def send_frame(1))
  have "recv_halves (accept_message v m e) k = recv_halves (sendDeliveryReceipt v ?m (e\<lparr>e_store := st\<rparr>)) k"
    unfolding acc by (rule recv_halves_cong) simp
  also have "\<dots> = recv_halves e k"
    by (simp add: sendDeliveryReceipt_def send_recv) (simp add: recv_halves_def)
  finally show "recv_halves (accept_message v m e) k = recv_halves e k" .
qed

lemma dispatch_user_message:
  assumes "isUserMessage (msg_Type m)" and "GetChat (e_store e) (msg_ChatID m) \<noteq> None"
    and "env_uuid v (e_draws e) \<noteq> msg_ID m"
  shows "GetMessage (e_store (dispatch_message v m e)) (msg_ID m) =
      Some (scanMessage (message_values (m\<lparr>msg_Status := StatusDelivered\<rparr>)))"
    "recv_halves (dispatch_message v m e) k = recv_halves e k"
proof -
  let ?e = "if msg_Type m = MsgText then with_store (IndexMessageText (msg_ID m) (bytes_string (msg_Payload m))) e else e"
  have d: "dispatch_message v m e = accept_message v m ?e"
    using isUserMessage_types(2) [OF assms(1)] by (simp add: dispatch_message_def Let_def)
  have "GetChat (e_store ?e) (msg_ChatID m) \<noteq> None" "env_uuid v (e_draws ?e) \<noteq> msg_ID m"
    using assms(2,3) by (auto simp: GetChat_def IndexMessageText_def with_store_def)
  from accept_message_stored(1) [OF this] accept_message_stored(2) [OF this, of k]
  show "GetMessage (e_store (dispatch_message v m e)) (msg_ID m) =
      Some (scanMessage (message_values (m\<lparr>msg_Status := StatusDelivered\<rparr>)))"
    "recv_halves (dispatch_message v m e) k = recv_halves e k"
    unfolding d by (auto simp: recv_halves_def)
qed

lemma direct_receive:
  assumes "json_Unmarshal (env_json v) (pkt_Body pkt) = Some (enc_Message m)" and "meta_ints_ok (msg_Metadata m)"
    and "pkt_Flags pkt AND FlagEncrypted \<noteq> 0" and "pkt_Flags pkt AND FlagCompressed \<noteq> 0" and "isUserMessage (msg_Type m)"
    and "sender_accepted (msg_SenderID m) b" and "cfg_E2EEnabled (e_cfg b)"
    and "\<forall>chat. GetChat (e_store b) (msg_ChatID m) = Some chat \<longrightarrow> chat_Type chat \<noteq> ChatGroup"
    and "GetSession (e_cryptoPro b) (msg_SenderID m) = Some sb"
    and "DecryptPacketBody (env_prim v) sb (string_bytes (msg_ChatID m)) (msg_Payload m) = (Inr cp, sb')"
    and "Decompress (env_codecs v) cp = Inr payload" and "env_uuid v (e_draws b) \<noteq> msg_ID m"
  shows "\<exists>s''. GetSession (e_cryptoPro (handle_message_packet v pkt b)) (msg_SenderID m) = Some s'' \<and> recv_half s'' = recv_half sb'"
    "GetMessage (e_store (handle_message_packet v pkt b)) (msg_ID m) =
      Some (scanMessage (message_values (m\<lparr>msg_Payload := payload, msg_Status := StatusDelivered\<rparr>)))"
proof -
  let ?b1 = "ensure_chat v m b" and ?m = "m\<lparr>msg_Payload := payload\<rparr>"
  let ?b2 = "put_session (msg_SenderID m) sb' ?b1"
  have dec: "unmarshal_body v dec_Message (pkt_Body pkt) = Some m"
    using assms(1,2) by (simp add: unmarshal_body_def dec_enc_Message)
  have acc: "sender_accepted (msg_SenderID m) ?b1"
    using assms(6) sender_accepted_cong [of ?b1 b "msg_SenderID m"] by simp
  obtain chat where chat: "GetChat (e_store ?b1) (msg_ChatID m) = Some chat" "chat_Type chat \<noteq> ChatGroup"
    using ensure_chat_direct [of b m v] assms(8) by auto
  have decr: "decryptFromPeer v (msg_SenderID m) (msg_ChatID m) (msg_Payload m) ?b1 = (Inr cp, ?b2)"
    by (rule decrypt_session [OF chat _ assms(10)]) (use assms(9) in simp)
  then have opened: "open_payload v (pkt_Flags pkt) m ?b1 = (Some ?m, ?b2)"
    using assms(3,4,7,11) by (simp add: open_payload_def)
  have recv: "handle_message_packet v pkt b = dispatch_message v ?m ?b2"
    using dec acc opened by (simp add: handle_message_packet_def)
  have draws: "e_draws ?b2 = e_draws b" by (simp add: put_session_def ensure_chat_def with_store_def)
  have c2: "GetChat (e_store ?b2) (msg_ChatID ?m) \<noteq> None" "env_uuid v (e_draws ?b2) \<noteq> msg_ID ?m" "isUserMessage (msg_Type ?m)"
    using chat draws assms(5,12) by simp_all
  show "GetMessage (e_store (handle_message_packet v pkt b)) (msg_ID m) =
      Some (scanMessage (message_values (m\<lparr>msg_Payload := payload, msg_Status := StatusDelivered\<rparr>)))"
    using dispatch_user_message(1) [OF c2(3,1,2)] unfolding recv by simp
  have "recv_halves (dispatch_message v ?m ?b2) (PeerID_String (msg_SenderID m)) = Some (recv_half sb')"
    unfolding dispatch_user_message(2) [OF c2(3,1,2)] by (simp add: recv_halves_def put_session_def)
  then show "\<exists>s''. GetSession (e_cryptoPro (handle_message_packet v pkt b)) (msg_SenderID m) = Some s'' \<and> recv_half s'' = recv_half sb'"
    unfolding recv by (auto simp: recv_halves_def GetSession_def)
qed

lemma receive_user_packet:
  assumes "isUserMessage (pkt_Type pkt)"
  shows "receive_packet v \<lparr>ip_From = from, ip_Pkt = pkt, ip_ReceivedAt = ts\<rparr> b =
    handle_message_packet v pkt (b\<lparr>e_statMsgRecv := e_statMsgRecv b + 1,
      e_statBytesRecv := e_statBytesRecv b + of_nat (length (pkt_Body pkt))\<rparr>)"
  using isUserMessage_types(1) [OF assms] by (simp add: receive_packet_def handleIncoming_message)

lemma in_step_recv_half: "in_step s r \<Longrightarrow> recv_half r' = recv_half r \<Longrightarrow> in_step s r'"
  by (simp add: in_step_def recv_half_def)

section \<open>Synchronisation replies\<close>

lemma decrypt_nothing:
  assumes "decryptFromPeer v p c [] e = (r, e')"
  shows "(\<forall>x. r = Inr x \<longrightarrow> x = []) \<and> e_store e' = e_store e \<and> e_events e' = e_events e"
  using assms
  by (auto simp: decryptFromPeer_def Let_def DecryptPacketBody_def Provider_Decrypt_def DecryptAES_def put_sender_key_def
      put_session_def split: option.splits prod.splits sum.splits if_splits)

lemma open_nothing:
  assumes "flags AND FlagCompressed \<noteq> 0" and "msg_Payload m = []"
  shows "\<exists>e'. open_payload v flags m e = (None, e') \<and> e_store e' = e_store e \<and> e_events e' = e_events e"
proof -
  have "\<exists>r e'. (if cfg_E2EEnabled (e_cfg e) \<and> flags AND FlagEncrypted \<noteq> 0
      then decryptFromPeer v (msg_SenderID m) (msg_ChatID m) (msg_Payload m) e else (Inr (msg_Payload m), e)) = (r, e') \<and>
      (\<forall>x. r = Inr x \<longrightarrow> x = []) \<and> e_store e' = e_store e \<and> e_events e' = e_events e"
    using assms(2) decrypt_nothing by (metis prod.collapse sum.inject(2))
  then obtain r e' where "(if cfg_E2EEnabled (e_cfg e) \<and> flags AND FlagEncrypted \<noteq> 0
      then decryptFromPeer v (msg_SenderID m) (msg_ChatID m) (msg_Payload m) e else (Inr (msg_Payload m), e)) = (r, e')"
      "\<forall>x. r = Inr x \<longrightarrow> x = []" "e_store e' = e_store e" "e_events e' = e_events e" by blast
  then show ?thesis
    using assms(1) by (cases r) (auto simp: open_payload_def Decompress_def)
qed

lemma dec_Message_JArr: "dec_Message (JArr js) = None"
  by (simp add: dec_Message_def)

lemma dec_Message_JNull: "\<exists>m. dec_Message JNull = Some m \<and> msg_Payload m = [] \<and> msg_Type m = 0"
  by (simp add: dec_Message_def fld_def)

lemma sync_null_ignored:
  assumes "json_Unmarshal (env_json v) body = Some JNull" and "rf_Cmd f = CmdSyncResp" and "rf_Payload f = body"
  shows "tb_messages (e_store (handleRelayFrame v f e)) = tb_messages (e_store e) \<and>
    e_events (handleRelayFrame v f e) = e_events e"
proof -
  obtain m where m: "dec_Message JNull = Some m" "msg_Payload m = []" "msg_Type m = 0"
    using dec_Message_JNull by blast
  let ?pkt = "(packet (msg_Type m) (FlagEncrypted OR FlagCompressed) 0 body)\<lparr>pkt_TTL := 0\<rparr>"
  have body: "unmarshal_body v dec_Message body = Some m" using assms(1) m(1) by (simp add: unmarshal_body_def)
  have pkt: "pkt_Body ?pkt = body" "pkt_Type ?pkt = 0" "pkt_Flags ?pkt AND FlagCompressed \<noteq> 0"
    by (simp_all add: packet_def m(3))
  have "handleRelayFrame v f e = handle_message_packet v ?pkt e"
    using assms(2,3) body pkt(2) by (simp add: handleRelayFrame_def handleIncoming_message is_message_type_def)
  moreover obtain e' where "open_payload v (pkt_Flags ?pkt) m (ensure_chat v m e) = (None, e')"
      "e_store e' = e_store (ensure_chat v m e)" "e_events e' = e_events e"
    using open_nothing [OF pkt(3) m(2), of v "ensure_chat v m e"] by auto
  ultimately show ?thesis
    using body pkt(1) by (simp add: handle_message_packet_def Let_def)
qed

section \<open>Reactions\<close>

lemma reaction_never_panics:
  assumes "storage_inv (e_store e)"
  shows "fst (send_reaction v i emoji act upd e) \<noteq> Panic"
proof (cases "GetMessage (e_store e) i")
  case None
  then show ?thesis by (simp add: send_reaction_def chatForMessage_def)
next
  case (Some m)
  then have "GetChat (e_store e) (msg_ChatID m) \<noteq> None"
    using assms by (auto simp: storage_inv_def messages_attached_def GetMessage_def GetChat_def scanMessage_def
        find_row_None dest!: find_row_Some) (metis imageE)
  then show ?thesis
    using Some send_not_Panic [of MsgReaction]
    by (auto simp: send_reaction_def chatForMessage_def Let_def split: prod.splits) (metis fst_conv)
qed

end
