(* ===== verification/Call_Manager.thy ===== *)
theory Call_Manager
  imports Event_Bus Json
begin

text \<open>
  The call manager of \<^verbatim>\<open>media/call.go\<close>. A session object is shared by the session table, by the
  callbacks registered on its peer connection and by the caller that got it, so objects live in a
  heap and the table holds references; an object stays reachable for its callbacks after it has
  left the table. The WebRTC library is a parameter: an \<open>rtc\<close> record tells for one call which
  library operations succeed, and what the library does with a connection is recorded in the
  object (remote description, candidates added, closed). Signals handed to \<open>SendSignalFn\<close> and
  published events are logged in the state. Media tracks, logging and the floating-point quality
  statistics are not modelled.

  Results: the table refines an abstract call register; a session in the table is never ended or
  closed; remote candidates reach the connection in the order of their arrival and none is lost;
  a call that was initiated here never sends a signal to another peer.
\<close>

section \<open>Definitions\<close>

subsection \<open>Signals\<close>

type_synonym SignalType = string

abbreviation SignalOffer :: SignalType where "SignalOffer \<equiv> ''offer''"
abbreviation SignalAnswer :: SignalType where "SignalAnswer \<equiv> ''answer''"
abbreviation SignalCandidate :: SignalType where "SignalCandidate \<equiv> ''candidate''"
abbreviation SignalBye :: SignalType where "SignalBye \<equiv> ''bye''"

record SignalMessage =
  sg_Type :: SignalType
  sg_SessionID :: string
  sg_From :: PeerID
  sg_CallType :: CallType
  sg_SDP :: string
  sg_Candidate :: string

fun CallType_iota :: "CallType \<Rightarrow> nat" where
  "CallType_iota CallVoice = 0"
| "CallType_iota CallVideo = 1"
| "CallType_iota CallScreenShare = 2"

definition enc_SignalMessage :: "SignalMessage \<Rightarrow> json" where
  "enc_SignalMessage s = JObj ([(''type'', JStr (sg_Type s)), (''session_id'', JStr (sg_SessionID s)),
     (''from'', enc_PeerID (sg_From s))] @
     json_opt ''call_type'' (sg_CallType s \<noteq> CallVoice) (JInt (int (CallType_iota (sg_CallType s)))) @
     json_opt ''sdp'' (sg_SDP s \<noteq> '''') (JStr (sg_SDP s)) @
     json_opt ''candidate'' (sg_Candidate s \<noteq> '''') (JStr (sg_Candidate s)))"

definition dec_SignalMessage :: "json \<Rightarrow> SignalMessage option" where
  "dec_SignalMessage j = do {
     fs \<leftarrow> json_fields j;
     t \<leftarrow> fld ''type'' dec_string '''' fs;
     i \<leftarrow> fld ''session_id'' dec_string '''' fs;
     p \<leftarrow> fld ''from'' dec_PeerID zero_PeerID fs;
     ct \<leftarrow> fld ''call_type'' (dec_enum [CallVoice, CallVideo, CallScreenShare]) CallVoice fs;
     sdp \<leftarrow> fld ''sdp'' dec_string '''' fs;
     c \<leftarrow> fld ''candidate'' dec_string '''' fs;
     Some \<lparr>sg_Type = t, sg_SessionID = i, sg_From = p, sg_CallType = ct, sg_SDP = sdp, sg_Candidate = c\<rparr> }"

definition signal :: "SignalType \<Rightarrow> string \<Rightarrow> PeerID \<Rightarrow> string \<Rightarrow> string \<Rightarrow> SignalMessage" where
  "signal t sid from sdp cand = \<lparr>sg_Type = t, sg_SessionID = sid, sg_From = from, sg_CallType = CallVoice,
     sg_SDP = sdp, sg_Candidate = cand\<rparr>"

subsection \<open>State\<close>

datatype track_kind = AudioTrack | VideoTrack

text \<open>
  \<open>callSessionInternal\<close> with its peer connection: the remote description, the candidates added to
  the connection in order, and whether it has been closed. \<open>ci_outgoing\<close> says that the session was
  made by \<open>InitiateCall\<close>, which is the only place that listens for connection state changes.
\<close>

record callSessionInternal =
  ci_sess :: CallSession
  ci_localTracks :: "track_kind list"
  ci_remoteTracks :: "string list"
  ci_pending :: "string list"
  ci_offerAnswerDone :: bool
  ci_remoteSDP :: "string option"
  ci_added :: "string list"
  ci_closed :: bool
  ci_outgoing :: bool

record CallManager =
  cm_heap :: "callSessionInternal list"
  cm_sessions :: "(string \<times> nat) list"
  cm_localPeer :: PeerID
  cm_hasSendFn :: bool
  cm_sent :: "(PeerID \<times> SignalMessage) list"
  cm_events :: "CallSession Event list"

text \<open>What the WebRTC library and \<open>SendSignalFn\<close> answer during one call.\<close>

record rtc =
  rtc_newPC :: bool
  rtc_addTrack :: "track_kind \<Rightarrow> bool"
  rtc_CreateOffer :: "string option"
  rtc_CreateAnswer :: "string option"
  rtc_SetLocal :: bool
  rtc_SetRemote :: "string \<Rightarrow> bool"
  rtc_ParseCandidate :: "string \<Rightarrow> bool"
  rtc_AddCandidate :: "string \<Rightarrow> bool"
  rtc_sendOK :: "PeerID \<Rightarrow> bool"

datatype call_error = SessionNotFound | LibraryError | SendFnNotSet | BadSignal | UnknownSignal | NoTrack
  | SendFailed | BadCandidate | NilFuncPanic

definition NewCallManager :: "PeerID \<Rightarrow> CallManager" where
  "NewCallManager self = \<lparr>cm_heap = [], cm_sessions = [], cm_localPeer = self, cm_hasSendFn = False,
     cm_sent = [], cm_events = []\<rparr>"

definition publish_call :: "string \<Rightarrow> gotime \<Rightarrow> CallSession \<Rightarrow> CallManager \<Rightarrow> CallManager" where
  "publish_call ty now sess cm =
     cm\<lparr>cm_events := cm_events cm @ [\<lparr>evt_Type = ty, evt_Timestamp = now, evt_Data = sess\<rparr>]\<rparr>"

definition send_signal :: "rtc \<Rightarrow> PeerID \<Rightarrow> SignalMessage \<Rightarrow> CallManager \<Rightarrow> bool \<times> CallManager" where
  "send_signal w to sig cm = (rtc_sendOK w to, cm\<lparr>cm_sent := cm_sent cm @ [(to, sig)]\<rparr>)"

definition object :: "CallManager \<Rightarrow> string \<Rightarrow> (nat \<times> callSessionInternal) option" where
  "object cm sid = map_option (\<lambda>r. (r, cm_heap cm ! r)) (map_of (cm_sessions cm) sid)"

definition put_object :: "nat \<Rightarrow> callSessionInternal \<Rightarrow> CallManager \<Rightarrow> CallManager" where
  "put_object r x cm = cm\<lparr>cm_heap := (cm_heap cm)[r := x]\<rparr>"

definition alloc :: "string \<Rightarrow> callSessionInternal \<Rightarrow> CallManager \<Rightarrow> CallManager" where
  "alloc sid x cm = cm\<lparr>cm_heap := cm_heap cm @ [x],
     cm_sessions := AList.update sid (length (cm_heap cm)) (cm_sessions cm)\<rparr>"

definition set_state :: "CallState \<Rightarrow> callSessionInternal \<Rightarrow> callSessionInternal" where
  "set_state st x = x\<lparr>ci_sess := (ci_sess x)\<lparr>cs_State := st\<rparr>\<rparr>"

subsection \<open>Initiating, accepting, ending\<close>

definition local_tracks :: "CallType \<Rightarrow> track_kind list" where
  "local_tracks ctype = AudioTrack # (if ctype = CallVideo \<or> ctype = CallScreenShare then [VideoTrack] else [])"

definition outgoing_session :: "gotime \<Rightarrow> PeerID \<Rightarrow> string \<Rightarrow> ChatID \<Rightarrow> CallType \<Rightarrow> CallSession" where
  "outgoing_session now self sid chatID ctype =
     \<lparr>cs_ID = sid, cs_ChatID = chatID, cs_Type = ctype, cs_State = CallRinging, cs_Initiator = self,
      cs_Participants = [self], cs_StartedAt = now, cs_EndedAt = None, cs_Duration = 0\<rparr>"

text \<open>
  \<open>InitiateCall\<close>. The session enters the table before the test of \<open>SendSignalFn\<close>, so the error
  of that test leaves it there.
\<close>

definition InitiateCall ::
  "rtc \<Rightarrow> gotime \<Rightarrow> string \<Rightarrow> ChatID \<Rightarrow> CallType \<Rightarrow> CallManager \<Rightarrow> (call_error + CallSession) \<times> CallManager" where
  "InitiateCall w now uuid chatID ctype cm =
     (let sess = outgoing_session now (cm_localPeer cm) uuid chatID ctype;
          x = \<lparr>ci_sess = sess, ci_localTracks = local_tracks ctype, ci_remoteTracks = [], ci_pending = [],
               ci_offerAnswerDone = False, ci_remoteSDP = None, ci_added = [], ci_closed = False, ci_outgoing = True\<rparr>
      in if \<not> rtc_newPC w then (Inl LibraryError, cm)
         else if \<not> list_all (rtc_addTrack w) (local_tracks ctype) then (Inl LibraryError, cm)
         else if rtc_CreateOffer w = None \<or> \<not> rtc_SetLocal w then (Inl LibraryError, cm)
         else let cm1 = alloc uuid x cm in
           if \<not> cm_hasSendFn cm1 then (Inl SendFnNotSet, cm1)
           else (Inr sess, publish_call ''call.incoming'' now sess cm1))"

text \<open>\<open>AcceptCall\<close> calls \<open>SendSignalFn\<close> without testing it: a panic when it is not set.\<close>

definition AcceptCall :: "rtc \<Rightarrow> string \<Rightarrow> CallManager \<Rightarrow> call_error option \<times> CallManager" where
  "AcceptCall w sid cm =
     (case object cm sid of
        None \<Rightarrow> (Some SessionNotFound, cm)
      | Some (r, x) \<Rightarrow>
          let cm1 = put_object r (set_state CallConnecting x) cm in
          case rtc_CreateAnswer w of
            None \<Rightarrow> (Some LibraryError, cm1)
          | Some sdp \<Rightarrow>
              if \<not> rtc_SetLocal w then (Some LibraryError, cm1)
              else if \<not> cm_hasSendFn cm1 then (Some NilFuncPanic, cm1)
              else (case send_signal w (cs_Initiator (ci_sess x)) (signal SignalAnswer sid (cm_localPeer cm) sdp '''') cm1 of
                      (ok, cm2) \<Rightarrow> (if ok then None else Some SendFailed, cm2)))"

definition cleanup :: "gotime \<Rightarrow> string \<Rightarrow> CallState \<Rightarrow> CallManager \<Rightarrow> CallManager" where
  "cleanup now sid endState cm =
     (case object cm sid of
        None \<Rightarrow> cm
      | Some (r, x) \<Rightarrow>
          let s = ci_sess x;
              s' = s\<lparr>cs_State := endState, cs_EndedAt := Some now,
                     cs_Duration := (if cs_StartedAt s \<noteq> zero_time then now - cs_StartedAt s else cs_Duration s)\<rparr>;
              cm1 = cm\<lparr>cm_sessions := AList.delete sid (cm_sessions cm)\<rparr>;
              cm2 = put_object r (x\<lparr>ci_sess := s', ci_closed := True\<rparr>) cm1
          in publish_call ''call.ended'' now s' cm2)"

definition DeclineCall :: "rtc \<Rightarrow> gotime \<Rightarrow> string \<Rightarrow> CallManager \<Rightarrow> CallManager" where
  "DeclineCall w now sid cm =
     (case object cm sid of
        None \<Rightarrow> cm
      | Some (r, x) \<Rightarrow>
          let cm1 = (if cm_hasSendFn cm
                     then snd (send_signal w (cs_Initiator (ci_sess x)) (signal SignalBye sid (cm_localPeer cm) '''' '''') cm)
                     else cm)
          in cleanup now sid CallDeclined cm1)"

definition bye_to :: "rtc \<Rightarrow> string \<Rightarrow> PeerID \<Rightarrow> CallManager \<Rightarrow> CallManager" where
  "bye_to w sid p cm =
     (if PeerID_String p = PeerID_String (cm_localPeer cm) then cm
      else if cm_hasSendFn cm then snd (send_signal w p (signal SignalBye sid (cm_localPeer cm) '''' '''') cm) else cm)"

definition HangUp :: "rtc \<Rightarrow> gotime \<Rightarrow> string \<Rightarrow> CallManager \<Rightarrow> CallManager" where
  "HangUp w now sid cm =
     (case object cm sid of
        None \<Rightarrow> cm
      | Some (r, x) \<Rightarrow> cleanup now sid CallEnded (fold (bye_to w sid) (cs_Participants (ci_sess x)) cm))"

subsection \<open>Signals from the network\<close>

text \<open>Flushing the queue ignores the errors of the library; a rejected candidate is not added.\<close>

definition flush_candidates :: "rtc \<Rightarrow> callSessionInternal \<Rightarrow> callSessionInternal" where
  "flush_candidates w x =
     x\<lparr>ci_added := ci_added x @ filter (rtc_AddCandidate w) (ci_pending x), ci_pending := [], ci_offerAnswerDone := True\<rparr>"

definition handleOffer :: "rtc \<Rightarrow> gotime \<Rightarrow> PeerID \<Rightarrow> SignalMessage \<Rightarrow> CallManager \<Rightarrow> call_error option \<times> CallManager" where
  "handleOffer w now from sig cm =
     (if \<not> rtc_newPC w then (Some LibraryError, cm)
      else if \<not> rtc_SetRemote w (sg_SDP sig) then (Some LibraryError, cm)
      else
        let sess = \<lparr>cs_ID = sg_SessionID sig, cs_ChatID = '''', cs_Type = sg_CallType sig, cs_State = CallRinging,
                    cs_Initiator = from, cs_Participants = [from, cm_localPeer cm], cs_StartedAt = now,
                    cs_EndedAt = None, cs_Duration = 0\<rparr>;
            x = \<lparr>ci_sess = sess, ci_localTracks = [], ci_remoteTracks = [], ci_pending = [],
                 ci_offerAnswerDone = False, ci_remoteSDP = Some (sg_SDP sig), ci_added = [], ci_closed = False,
                 ci_outgoing = False\<rparr>
        in (None, publish_call ''call.incoming'' now sess (alloc (sg_SessionID sig) (flush_candidates w x) cm)))"

definition handleAnswer :: "rtc \<Rightarrow> SignalMessage \<Rightarrow> CallManager \<Rightarrow> call_error option \<times> CallManager" where
  "handleAnswer w sig cm =
     (case object cm (sg_SessionID sig) of
        None \<Rightarrow> (Some SessionNotFound, cm)
      | Some (r, x) \<Rightarrow>
          if \<not> rtc_SetRemote w (sg_SDP sig) then (Some LibraryError, cm)
          else (None, put_object r (flush_candidates w (x\<lparr>ci_remoteSDP := Some (sg_SDP sig)\<rparr>)) cm))"

definition handleCandidate :: "rtc \<Rightarrow> SignalMessage \<Rightarrow> CallManager \<Rightarrow> call_error option \<times> CallManager" where
  "handleCandidate w sig cm =
     (case object cm (sg_SessionID sig) of
        None \<Rightarrow> (None, cm)
      | Some (r, x) \<Rightarrow>
          let c = sg_Candidate sig in
          if \<not> rtc_ParseCandidate w c then (Some BadCandidate, cm)
          else if \<not> ci_offerAnswerDone x then (None, put_object r (x\<lparr>ci_pending := ci_pending x @ [c]\<rparr>) cm)
          else if rtc_AddCandidate w c then (None, put_object r (x\<lparr>ci_added := ci_added x @ [c]\<rparr>) cm)
          else (Some LibraryError, cm))"

definition HandleSignal :: "rtc \<Rightarrow> gotime \<Rightarrow> PeerID \<Rightarrow> json option \<Rightarrow> CallManager \<Rightarrow> call_error option \<times> CallManager" where
  "HandleSignal w now from raw cm =
     (case (case raw of None \<Rightarrow> None | Some j \<Rightarrow> dec_SignalMessage j) of
        None \<Rightarrow> (Some BadSignal, cm)
      | Some sig \<Rightarrow>
          if sg_Type sig = SignalOffer then handleOffer w now from sig cm
          else if sg_Type sig = SignalAnswer then handleAnswer w sig cm
          else if sg_Type sig = SignalCandidate then handleCandidate w sig cm
          else if sg_Type sig = SignalBye then (None, cleanup now (sg_SessionID sig) CallEnded cm)
          else (Some UnknownSignal, cm))"

subsection \<open>Callbacks of the peer connection\<close>

text \<open>They are closures over the object, so they act on a reference even after the session has ended.\<close>

datatype pc_state = PCConnected | PCFailed | PCDisconnected | PCOther

definition on_connection_state :: "gotime \<Rightarrow> nat \<Rightarrow> pc_state \<Rightarrow> CallManager \<Rightarrow> CallManager" where
  "on_connection_state now r st cm =
     (if length (cm_heap cm) \<le> r \<or> \<not> ci_outgoing (cm_heap cm ! r) then cm
      else case st of
          PCConnected \<Rightarrow>
            (let x = set_state CallActive (cm_heap cm ! r)
             in publish_call ''call.connected'' now (ci_sess x) (put_object r x cm))
        | PCOther \<Rightarrow> cm
        | _ \<Rightarrow>
            (let x = set_state CallFailed (cm_heap cm ! r)
             in publish_call ''call.failed'' now (ci_sess x) (put_object r x cm)))"

definition on_ice_candidate :: "rtc \<Rightarrow> nat \<Rightarrow> string \<Rightarrow> CallManager \<Rightarrow> CallManager" where
  "on_ice_candidate w r cand cm =
     (if length (cm_heap cm) \<le> r then cm
      else let x = cm_heap cm ! r; s = ci_sess x; sig = signal SignalCandidate (cs_ID s) (cm_localPeer cm) '''' cand in
        if ci_outgoing x
        then (if cm_hasSendFn cm \<and> length (cs_Participants s) > 1
              then snd (send_signal w (cs_Participants s ! 1) sig cm) else cm)
        else if cm_hasSendFn cm then snd (send_signal w (cs_Initiator s) sig cm) else cm)"

definition on_track :: "nat \<Rightarrow> string \<Rightarrow> CallManager \<Rightarrow> CallManager" where
  "on_track r trackID cm =
     (if length (cm_heap cm) \<le> r then cm
      else let x = cm_heap cm ! r in put_object r (x\<lparr>ci_remoteTracks := List.insert trackID (ci_remoteTracks x)\<rparr>) cm)"

subsection \<open>Queries\<close>

definition SetAudioEnabled :: "string \<Rightarrow> CallManager \<Rightarrow> call_error option" where
  "SetAudioEnabled sid cm = (if object cm sid = None then Some SessionNotFound else None)"

definition SetVideoEnabled :: "string \<Rightarrow> CallManager \<Rightarrow> call_error option" where
  "SetVideoEnabled sid cm = (if object cm sid = None then Some SessionNotFound else None)"

definition SetScreenShare :: "string \<Rightarrow> CallManager \<Rightarrow> call_error option" where
  "SetScreenShare sid cm = (if object cm sid = None then Some SessionNotFound else None)"

definition GetVideoTrack :: "string \<Rightarrow> CallManager \<Rightarrow> call_error + track_kind" where
  "GetVideoTrack sid cm =
     (case object cm sid of
        None \<Rightarrow> Inl SessionNotFound
      | Some (_, x) \<Rightarrow> (case find ((=) VideoTrack) (ci_localTracks x) of None \<Rightarrow> Inl NoTrack | Some t \<Rightarrow> Inr t))"

definition GetAudioTrack :: "string \<Rightarrow> CallManager \<Rightarrow> call_error + track_kind" where
  "GetAudioTrack sid cm =
     (case object cm sid of
        None \<Rightarrow> Inl SessionNotFound
      | Some (_, x) \<Rightarrow> (case find ((=) AudioTrack) (ci_localTracks x) of None \<Rightarrow> Inl NoTrack | Some t \<Rightarrow> Inr t))"

definition ActiveCalls :: "CallManager \<Rightarrow> CallSession list" where
  "ActiveCalls cm = map (\<lambda>(_, r). ci_sess (cm_heap cm ! r)) (cm_sessions cm)"


subsection \<open>The manager as a transition system, and the register it implements\<close>

inductive call_step :: "CallManager \<Rightarrow> CallManager \<Rightarrow> bool" where
  "call_step cm (cm\<lparr>cm_hasSendFn := True\<rparr>)"
| "call_step cm (snd (InitiateCall w now uuid chatID ctype cm))"
| "call_step cm (snd (AcceptCall w sid cm))"
| "call_step cm (DeclineCall w now sid cm)"
| "call_step cm (HangUp w now sid cm)"
| "call_step cm (snd (HandleSignal w now from raw cm))"
| "call_step cm (on_connection_state now r st cm)"
| "call_step cm (on_ice_candidate w r cand cm)"
| "call_step cm (on_track r trackID cm)"

inductive call_reachable :: "PeerID \<Rightarrow> CallManager \<Rightarrow> bool" for self where
  call_start: "call_reachable self (NewCallManager self)"
| call_more: "call_reachable self cm \<Longrightarrow> call_step cm cm' \<Longrightarrow> call_reachable self cm'"

type_synonym call_register = "string \<Rightarrow> CallState option"

text \<open>What a client may expect of the sessions by ID: they ring, get connected, and end.\<close>

inductive register_step :: "call_register \<Rightarrow> call_register \<Rightarrow> bool" where
  reg_stutter: "register_step R R"
| reg_ring: "register_step R (R(i \<mapsto> CallRinging))"
| reg_progress: "register_step R (R(i \<mapsto> st))" if "R i \<noteq> None" and "st \<in> {CallConnecting, CallActive, CallFailed}"
| reg_end: "register_step R (R(i := None))"

definition register_of :: "CallManager \<Rightarrow> call_register" where
  "register_of cm sid = map_option (\<lambda>(r, x). cs_State (ci_sess x)) (object cm sid)"

definition live_ok :: "callSessionInternal list \<Rightarrow> string \<times> nat \<Rightarrow> bool" where
  "live_ok h kr = (case kr of (k, r) \<Rightarrow> r < length h \<and> cs_ID (ci_sess (h ! r)) = k \<and> \<not> ci_closed (h ! r) \<and>
     cs_EndedAt (ci_sess (h ! r)) = None)"

definition object_ok :: "PeerID \<Rightarrow> callSessionInternal \<Rightarrow> bool" where
  "object_ok self x = ((ci_offerAnswerDone x \<longrightarrow> ci_pending x = []) \<and>
     (ci_outgoing x \<longrightarrow> cs_Participants (ci_sess x) = [self] \<and> cs_Initiator (ci_sess x) = self))"

definition signal_ok :: "PeerID \<Rightarrow> callSessionInternal list \<Rightarrow> PeerID \<times> SignalMessage \<Rightarrow> bool" where
  "signal_ok self h ts = (case ts of (to, sig) \<Rightarrow> sg_Type sig \<noteq> SignalOffer \<and>
     (to = self \<or> (\<exists>x\<in>set h. \<not> ci_outgoing x \<and> cs_ID (ci_sess x) = sg_SessionID sig)))"

definition call_inv :: "PeerID \<Rightarrow> CallManager \<Rightarrow> bool" where
  "call_inv self cm = (cm_localPeer cm = self \<and> distinct (map fst (cm_sessions cm)) \<and>
     distinct (map snd (cm_sessions cm)) \<and> list_all (live_ok (cm_heap cm)) (cm_sessions cm) \<and>
     list_all (object_ok self) (cm_heap cm) \<and> list_all (signal_ok self (cm_heap cm)) (cm_sent cm))"

section \<open>Lemmas\<close>

subsection \<open>Objects\<close>

lemma object_Some: "object cm sid = Some (r, x) \<longleftrightarrow> map_of (cm_sessions cm) sid = Some r \<and> x = cm_heap cm ! r"
  by (auto simp: object_def)

lemma object_mem: "object cm sid = Some (r, x) \<Longrightarrow> (sid, r) \<in> set (cm_sessions cm) \<and> x = cm_heap cm ! r"
  by (auto simp: object_Some dest: map_of_SomeD)

lemma live_object:
  assumes "call_inv self cm" and "object cm sid = Some (r, x)"
  shows "r < length (cm_heap cm)" "x \<in> set (cm_heap cm)" "cs_ID (ci_sess x) = sid" "\<not> ci_closed x"
    "cs_EndedAt (ci_sess x) = None" "object_ok self x"
  using assms object_mem [OF assms(2)]
  by (auto simp: call_inv_def list_all_iff live_ok_def)

lemma call_inv_log [simp]:
  "call_inv self (publish_call ty now s cm) = call_inv self cm" "call_inv self (cm\<lparr>cm_hasSendFn := b\<rparr>) = call_inv self cm"
  by (simp_all add: call_inv_def publish_call_def)

text \<open>Overwriting an object with one of the same identity keeps what others rely on.\<close>

definition same_identity :: "callSessionInternal \<Rightarrow> callSessionInternal \<Rightarrow> bool" where
  "same_identity x y = (cs_ID (ci_sess y) = cs_ID (ci_sess x) \<and> ci_outgoing y = ci_outgoing x)"

lemma signal_ok_update:
  assumes "r < length h" and "same_identity (h ! r) y" and "signal_ok self h ts"
  shows "signal_ok self (h[r := y]) ts"
proof -
  have "\<exists>z\<in>set (h[r := y]). \<not> ci_outgoing z \<and> cs_ID (ci_sess z) = i" if ex: "\<exists>x\<in>set h. \<not> ci_outgoing x \<and> cs_ID (ci_sess x) = i" for i
  proof -
    obtain x where x: "x \<in> set h" "\<not> ci_outgoing x" "cs_ID (ci_sess x) = i" using ex by blast
    then obtain j where "j < length h" "x = h ! j" by (auto simp: in_set_conv_nth)
    with x have j: "j < length h" "\<not> ci_outgoing (h ! j)" "cs_ID (ci_sess (h ! j)) = i" by simp_all
    then have "h[r := y] ! j \<in> set (h[r := y])" by simp
    moreover have "\<not> ci_outgoing (h[r := y] ! j) \<and> cs_ID (ci_sess (h[r := y] ! j)) = i"
      using j assms(1,2) by (cases "j = r") (auto simp: same_identity_def)
    ultimately show ?thesis by blast
  qed
  then show ?thesis using assms(3) by (auto simp: signal_ok_def split: prod.splits)
qed

lemma put_object_inv:
  assumes "call_inv self cm" and "r < length (cm_heap cm)" and "same_identity (cm_heap cm ! r) y" and "object_ok self y"
    and "r \<in> snd ` set (cm_sessions cm) \<Longrightarrow> \<not> ci_closed y \<and> cs_EndedAt (ci_sess y) = None"
  shows "call_inv self (put_object r y cm)"
proof -
  have "live_ok ((cm_heap cm)[r := y]) kr" if "kr \<in> set (cm_sessions cm)" for kr
    using assms(1,2,3,5) that
    by (cases "snd kr = r") (force simp: call_inv_def live_ok_def list_all_iff same_identity_def)+
  moreover have "object_ok self z" if "z \<in> set ((cm_heap cm)[r := y])" for z
    using assms(1,4) that set_update_subset_insert [of "cm_heap cm" r y] by (auto simp: call_inv_def list_all_iff)
  ultimately show ?thesis
    using assms(1) signal_ok_update [OF assms(2,3)] by (auto simp: call_inv_def put_object_def list_all_iff)
qed

lemma live_entry:
  assumes "call_inv self cm" and "(k, q) \<in> set (cm_sessions cm)"
  shows "cs_ID (ci_sess (cm_heap cm ! q)) = k" "map_of (cm_sessions cm) k = Some q"
  using assms by (auto simp: call_inv_def list_all_iff live_ok_def)

lemma register_put_live:
  assumes "call_inv self cm" and "r < length (cm_heap cm)" and "map_of (cm_sessions cm) sid = Some r"
  shows "register_of (put_object r y cm) = (register_of cm)(sid \<mapsto> cs_State (ci_sess y))"
proof
  fix k
  have "q \<noteq> r" if "k \<noteq> sid" "map_of (cm_sessions cm) k = Some q" for q
    using that assms(3) live_entry(1) [OF assms(1)] map_of_SomeD by metis
  then show "register_of (put_object r y cm) k = ((register_of cm)(sid \<mapsto> cs_State (ci_sess y))) k"
    using assms(2,3) by (cases "map_of (cm_sessions cm) k") (auto simp: register_of_def object_def put_object_def)
qed

lemma register_put_dead:
  assumes "r \<notin> snd ` set (cm_sessions cm)"
  shows "register_of (put_object r y cm) = register_of cm"
proof
  fix k
  have "q \<noteq> r" if "map_of (cm_sessions cm) k = Some q" for q
    using that assms by (force dest: map_of_SomeD)
  then show "register_of (put_object r y cm) k = register_of cm k"
    by (cases "map_of (cm_sessions cm) k") (auto simp: register_of_def object_def put_object_def)
qed


subsection \<open>What each change of the state keeps\<close>

lemma register_of_log [simp]:
  "register_of (publish_call ty now s cm) = register_of cm" "register_of (cm\<lparr>cm_hasSendFn := b\<rparr>) = register_of cm"
  "register_of (snd (send_signal w to sig cm)) = register_of cm"
  by (simp_all add: fun_eq_iff register_of_def object_def publish_call_def send_signal_def)

lemma send_signal_inv:
  assumes "call_inv self cm" and "signal_ok self (cm_heap cm) (to, sig)"
  shows "call_inv self (snd (send_signal w to sig cm))"
  using assms by (simp add: call_inv_def send_signal_def)

lemma put_live:
  assumes "call_inv self cm" and "object cm sid = Some (r, x)" and "same_identity x y" and "object_ok self y"
    and "\<not> ci_closed y" and "cs_EndedAt (ci_sess y) = None"
  shows "call_inv self (put_object r y cm)"
    and "register_of (put_object r y cm) = (register_of cm)(sid \<mapsto> cs_State (ci_sess y))"
  using live_object(1) [OF assms(1,2)] assms put_object_inv [of self cm r y] register_put_live [of self cm r sid y]
  by (auto simp: object_Some)

lemma put_live_same_state:
  assumes "call_inv self cm" and "object cm sid = Some (r, x)" and "same_identity x y" and "object_ok self y"
    and "\<not> ci_closed y" and "cs_EndedAt (ci_sess y) = None" and "cs_State (ci_sess y) = cs_State (ci_sess x)"
  shows "register_of (put_object r y cm) = register_of cm"
proof -
  have "register_of cm sid = Some (cs_State (ci_sess x))" using assms(2) by (simp add: register_of_def)
  then show ?thesis using put_live(2) [OF assms(1-6)] assms(7) by (simp add: fun_upd_idem)
qed

lemma live_signal_ok:
  assumes "call_inv self cm" and "object cm sid = Some (r, x)" and "sg_Type sig \<noteq> SignalOffer"
    and "sg_SessionID sig = sid" and "to = cs_Initiator (ci_sess x) \<or> \<not> ci_outgoing x"
  shows "signal_ok self (cm_heap cm) (to, sig)"
  using assms live_object [OF assms(1,2)] by (auto simp: signal_ok_def object_ok_def)

lemma set_update_entry:
  "distinct (map fst xs) \<Longrightarrow> set (AList.update k v xs) = insert (k, v) {kv \<in> set xs. fst kv \<noteq> k}"
  by (induction xs) (auto simp: image_iff)

lemma distinct_snd_update:
  "distinct (map snd xs) \<Longrightarrow> v \<notin> snd ` set xs \<Longrightarrow> distinct (map snd (AList.update k v xs)) \<and>
     snd ` set (AList.update k v xs) \<subseteq> insert v (snd ` set xs)"
  by (induction xs) auto

lemma distinct_snd_delete: "distinct (map snd xs) \<Longrightarrow> distinct (map snd (AList.delete k xs))"
  by (induction xs) (auto simp: AList.delete_eq)

lemma signal_ok_append: "signal_ok self h ts \<Longrightarrow> signal_ok self (h @ g) ts"
  by (cases ts) (auto simp: signal_ok_def)

lemma alloc_inv:
  assumes "call_inv self cm" and "cs_ID (ci_sess x) = sid" and "\<not> ci_closed x" and "cs_EndedAt (ci_sess x) = None"
    and "object_ok self x"
  shows "call_inv self (alloc sid x cm)"
proof -
  let ?h = "cm_heap cm @ [x]" and ?s = "AList.update sid (length (cm_heap cm)) (cm_sessions cm)"
  have old: "live_ok (cm_heap cm) kr" if "kr \<in> set (cm_sessions cm)" for kr
    using assms(1) that by (simp add: call_inv_def list_all_iff)
  have "length (cm_heap cm) \<notin> snd ` set (cm_sessions cm)" using old by (force simp: live_ok_def)
  then have "distinct (map snd ?s)" using assms(1) distinct_snd_update by (metis call_inv_def)
  moreover have "live_ok ?h kr" if "kr \<in> set ?s" for kr
  proof -
    have "kr = (sid, length (cm_heap cm)) \<or> kr \<in> set (cm_sessions cm)"
      using that assms(1) by (auto simp: set_update_entry call_inv_def)
    then show ?thesis using old [of kr] assms(2-4) by (auto simp: live_ok_def nth_append split: prod.splits)
  qed
  moreover have "signal_ok self ?h ts" if "ts \<in> set (cm_sent cm)" for ts
    using that assms(1) signal_ok_append by (auto simp: call_inv_def list_all_iff)
  ultimately show ?thesis
    using assms(1,5) by (simp add: call_inv_def alloc_def list_all_iff distinct_update)
qed

lemma register_of_alloc:
  assumes "call_inv self cm"
  shows "register_of (alloc sid x cm) = (register_of cm)(sid \<mapsto> cs_State (ci_sess x))"
proof
  fix k
  have "q < length (cm_heap cm)" if "map_of (cm_sessions cm) k = Some q" for q
    using assms map_of_SomeD [OF that] by (auto simp: call_inv_def list_all_iff live_ok_def)
  then show "register_of (alloc sid x cm) k = ((register_of cm)(sid \<mapsto> cs_State (ci_sess x))) k"
    by (cases "map_of (cm_sessions cm) k")
      (auto simp: register_of_def object_def alloc_def update_conv' nth_append)
qed

lemma cleanup_inv:
  assumes "call_inv self cm"
  shows "call_inv self (cleanup now sid st cm)" and "register_of (cleanup now sid st cm) = (register_of cm)(sid := None)"
proof -
  let ?cm1 = "cm\<lparr>cm_sessions := AList.delete sid (cm_sessions cm)\<rparr>"
  have inv1: "call_inv self ?cm1"
    using assms by (auto simp: call_inv_def list_all_iff distinct_snd_delete AList.delete_eq distinct_map_filter)
  have reg1: "register_of ?cm1 = (register_of cm)(sid := None)"
    by (auto simp: register_of_def object_def AList.delete_conv' fun_eq_iff)
  have gone: "r \<notin> snd ` set (cm_sessions ?cm1)" if "object cm sid = Some (r, x)" for r x
  proof
    assume "r \<in> snd ` set (cm_sessions ?cm1)"
    then obtain k where "k \<noteq> sid" "(k, r) \<in> set (cm_sessions cm)" by (force simp: AList.delete_eq)
    then show False using live_entry(1) [OF assms] object_mem [OF that] by metis
  qed
  show "call_inv self (cleanup now sid st cm)"
  proof (cases "object cm sid")
    case (Some rx)
    then obtain r x where rx: "object cm sid = Some (r, x)" by (cases rx) simp
    show ?thesis
      using rx gone [OF rx] live_object [OF assms rx] object_mem [OF rx] put_object_inv [OF inv1, of r]
      by (simp add: cleanup_def Let_def same_identity_def object_ok_def)
  qed (simp add: cleanup_def assms)
  show "register_of (cleanup now sid st cm) = (register_of cm)(sid := None)"
  proof (cases "object cm sid")
    case None
    then have "register_of cm sid = None" by (simp add: register_of_def)
    then show ?thesis using None by (simp add: cleanup_def fun_upd_idem)
  next
    case (Some rx)
    then obtain r x where rx: "object cm sid = Some (r, x)" by (cases rx) simp
    then show ?thesis using gone [OF rx] by (simp add: cleanup_def Let_def register_put_dead reg1)
  qed
qed


subsection \<open>Every step keeps the invariant and follows the register\<close>

text \<open>A step is sound when it keeps the invariant and is a step of the register.\<close>

definition call_sound :: "PeerID \<Rightarrow> CallManager \<Rightarrow> CallManager \<Rightarrow> bool" where
  "call_sound self cm cm' = (call_inv self cm' \<and> register_step (register_of cm) (register_of cm'))"

lemma call_sound_stutter [intro]: "call_inv self cm' \<Longrightarrow> register_of cm' = register_of cm \<Longrightarrow> call_sound self cm cm'"
  by (simp add: call_sound_def reg_stutter)

lemma register_live: "object cm sid = Some (r, x) \<Longrightarrow> register_of cm sid = Some (cs_State (ci_sess x))"
  by (simp add: register_of_def)

lemma set_state_simps [simp]:
  "same_identity x (set_state st x)" "object_ok self (set_state st x) = object_ok self x"
  "ci_closed (set_state st x) = ci_closed x" "cs_EndedAt (ci_sess (set_state st x)) = cs_EndedAt (ci_sess x)"
  "cs_State (ci_sess (set_state st x)) = st"
  by (simp_all add: same_identity_def object_ok_def set_state_def)

lemma cleanup_sound: "call_inv self cm \<Longrightarrow> register_of cm0 = register_of cm \<Longrightarrow> call_sound self cm0 (cleanup now sid st cm)"
  by (simp add: call_sound_def cleanup_inv reg_end)

lemma alloc_sound:
  assumes "call_inv self cm" and "cs_ID (ci_sess x) = sid" and "\<not> ci_closed x" and "cs_EndedAt (ci_sess x) = None"
    and "object_ok self x" and "cs_State (ci_sess x) = CallRinging"
  shows "call_sound self cm (alloc sid x cm)"
  using alloc_inv [OF assms(1-5)] register_of_alloc [OF assms(1)] assms(6) by (simp add: call_sound_def reg_ring)

lemma call_sound_log [simp]:
  "call_sound self cm (publish_call ty now s cm') = call_sound self cm cm'"
  by (simp add: call_sound_def)

lemma InitiateCall_sound:
  assumes "call_inv self cm"
  shows "call_sound self cm (snd (InitiateCall w now uuid chatID ctype cm))"
proof -
  have [simp]: "cm_localPeer cm = self" using assms by (simp add: call_inv_def)
  have "call_sound self cm (alloc uuid \<lparr>ci_sess = outgoing_session now self uuid chatID ctype, ci_localTracks = local_tracks ctype,
    ci_remoteTracks = [], ci_pending = [], ci_offerAnswerDone = False, ci_remoteSDP = None, ci_added = [],
    ci_closed = False, ci_outgoing = True\<rparr> cm)"
    by (rule alloc_sound [OF assms]) (simp_all add: outgoing_session_def object_ok_def)
  then show ?thesis using assms by (auto simp: InitiateCall_def Let_def)
qed

lemma AcceptCall_sound:
  assumes "call_inv self cm"
  shows "call_sound self cm (snd (AcceptCall w sid cm))"
proof (cases "object cm sid")
  case (Some rx)
  then obtain r x where rx: "object cm sid = Some (r, x)" by (cases rx) simp
  note l = live_object [OF assms rx]
  let ?cm1 = "put_object r (set_state CallConnecting x) cm"
  have inv: "call_inv self ?cm1" and reg: "register_of ?cm1 = (register_of cm)(sid \<mapsto> CallConnecting)"
    using put_live [OF assms rx, of "set_state CallConnecting x"] l by simp_all
  have "object ?cm1 sid = Some (r, set_state CallConnecting x)"
    using rx l(1) by (auto simp: object_Some put_object_def)
  then have "signal_ok self (cm_heap ?cm1) (cs_Initiator (ci_sess x), signal SignalAnswer sid p sdp '''')" for p sdp
    by (rule live_signal_ok [OF inv]) (simp_all add: signal_def set_state_def)
  then have send: "call_inv self (snd (send_signal w (cs_Initiator (ci_sess x)) (signal SignalAnswer sid p sdp '''') ?cm1))" for p sdp
    by (rule send_signal_inv [OF inv])
  have "register_step (register_of cm) (register_of ?cm1)"
    unfolding reg by (rule reg_progress) (simp_all add: register_live [OF rx])
  then show ?thesis using rx inv send
    by (simp add: AcceptCall_def call_sound_def Let_def case_prod_unfold split: option.split)
qed (use assms in \<open>auto simp: AcceptCall_def\<close>)

lemma DeclineCall_sound:
  assumes "call_inv self cm"
  shows "call_sound self cm (DeclineCall w now sid cm)"
proof (cases "object cm sid")
  case (Some rx)
  then obtain r x where rx: "object cm sid = Some (r, x)" by (cases rx) simp
  have "signal_ok self (cm_heap cm) (cs_Initiator (ci_sess x), signal SignalBye sid p '''' '''')" for p
    by (rule live_signal_ok [OF assms rx]) (simp_all add: signal_def)
  then show ?thesis
    using rx assms by (auto simp: DeclineCall_def Let_def intro!: cleanup_sound send_signal_inv)
qed (use assms in \<open>auto simp: DeclineCall_def\<close>)

lemma bye_to_inv:
  assumes "call_inv self cm" and "p = self \<or> signal_ok self (cm_heap cm) (p, signal SignalBye sid self '''' '''')"
  shows "call_inv self (bye_to w sid p cm)" "register_of (bye_to w sid p cm) = register_of cm"
    "cm_heap (bye_to w sid p cm) = cm_heap cm"
proof -
  have [simp]: "cm_localPeer cm = self" using assms(1) by (simp add: call_inv_def)
  have [simp]: "cm_heap (snd (send_signal w p sig cm)) = cm_heap cm" for sig by (simp add: send_signal_def)
  show "call_inv self (bye_to w sid p cm)" "register_of (bye_to w sid p cm) = register_of cm"
    "cm_heap (bye_to w sid p cm) = cm_heap cm"
    using assms send_signal_inv [of self cm p] by (auto simp: bye_to_def)
qed

lemma byes_inv:
  assumes "call_inv self cm" and "\<forall>p\<in>set ps. p = self \<or> signal_ok self (cm_heap cm) (p, signal SignalBye sid self '''' '''')"
  shows "call_inv self (fold (bye_to w sid) ps cm) \<and> register_of (fold (bye_to w sid) ps cm) = register_of cm"
  using assms
proof (induction ps arbitrary: cm)
  case (Cons p ps)
  then show ?case using bye_to_inv [of self cm p sid w] by simp
qed simp

lemma HangUp_sound:
  assumes "call_inv self cm"
  shows "call_sound self cm (HangUp w now sid cm)"
proof (cases "object cm sid")
  case (Some rx)
  then obtain r x where rx: "object cm sid = Some (r, x)" by (cases rx) simp
  have "p = self \<or> signal_ok self (cm_heap cm) (p, signal SignalBye sid self '''' '''')"
    if "p \<in> set (cs_Participants (ci_sess x))" for p
    using that live_object(6) [OF assms rx] live_signal_ok [OF assms rx, of "signal SignalBye sid self '''' ''''" p]
    by (cases "ci_outgoing x") (simp_all add: object_ok_def signal_def)
  then show ?thesis
    using rx byes_inv [OF assms, of "cs_Participants (ci_sess x)" sid w] by (auto simp: HangUp_def intro!: cleanup_sound)
qed (use assms in \<open>auto simp: HangUp_def\<close>)

lemma flush_candidates_simps [simp]:
  "same_identity x (flush_candidates w y) = same_identity x y" "ci_closed (flush_candidates w y) = ci_closed y"
  "ci_sess (flush_candidates w y) = ci_sess y"
  "object_ok self (flush_candidates w y) = object_ok self (y\<lparr>ci_offerAnswerDone := False\<rparr>)"
  by (simp_all add: flush_candidates_def same_identity_def object_ok_def)

lemma handleOffer_sound:
  assumes "call_inv self cm"
  shows "call_sound self cm (snd (handleOffer w now from sig cm))"
  using assms by (auto simp: handleOffer_def Let_def object_ok_def flush_candidates_def intro!: alloc_sound)

text \<open>Changes of an object that leave its session alone are stuttering steps.\<close>

lemma quiet_put_sound:
  assumes "call_inv self cm" and "object cm sid = Some (r, x)" and "ci_sess y = ci_sess x"
    and "ci_outgoing y = ci_outgoing x" and "ci_closed y = ci_closed x" and "object_ok self y"
  shows "call_sound self cm (put_object r y cm)"
  using live_object [OF assms(1,2)] assms put_live(1) [OF assms(1,2), of y] put_live_same_state [OF assms(1,2), of y]
  by (auto simp: same_identity_def)

lemma handleAnswer_sound:
  assumes "call_inv self cm"
  shows "call_sound self cm (snd (handleAnswer w sig cm))"
  using assms live_object(6) [OF assms]
  by (auto simp: handleAnswer_def object_ok_def flush_candidates_def split: option.split intro!: quiet_put_sound [of self cm "sg_SessionID sig"])

lemma handleCandidate_sound:
  assumes "call_inv self cm"
  shows "call_sound self cm (snd (handleCandidate w sig cm))"
  using assms live_object(6) [OF assms]
  by (auto simp: handleCandidate_def object_ok_def Let_def split: option.split intro!: quiet_put_sound [of self cm "sg_SessionID sig"])

lemma HandleSignal_sound:
  assumes "call_inv self cm"
  shows "call_sound self cm (snd (HandleSignal w now from raw cm))"
  using handleOffer_sound [OF assms] handleAnswer_sound [OF assms] handleCandidate_sound [OF assms]
    cleanup_sound [OF assms refl] assms
  by (auto simp: HandleSignal_def split: option.split)

text \<open>A callback acts on an object that may have left the table.\<close>

lemma callback_put_sound:
  assumes "call_inv self cm" and "r < length (cm_heap cm)" and "same_identity (cm_heap cm ! r) y"
    and "object_ok self (cm_heap cm ! r) \<Longrightarrow> object_ok self y" and "ci_closed y = ci_closed (cm_heap cm ! r)"
    and "cs_EndedAt (ci_sess y) = cs_EndedAt (ci_sess (cm_heap cm ! r))"
    and "cs_State (ci_sess y) \<in> {CallConnecting, CallActive, CallFailed} \<or>
      cs_State (ci_sess y) = cs_State (ci_sess (cm_heap cm ! r))"
  shows "call_sound self cm (put_object r y cm)"
proof (cases "r \<in> snd ` set (cm_sessions cm)")
  case True
  then obtain sid where "(sid, r) \<in> set (cm_sessions cm)" by force
  then have rx: "object cm sid = Some (r, cm_heap cm ! r)"
    using live_entry(2) [OF assms(1)] by (simp add: object_Some)
  note l = live_object [OF assms(1) rx]
  have put: "call_inv self (put_object r y cm)"
    "register_of (put_object r y cm) = (register_of cm)(sid \<mapsto> cs_State (ci_sess y))"
    using put_live [OF assms(1) rx assms(3)] assms(4-6) l by simp_all
  have "register_step (register_of cm) ((register_of cm)(sid \<mapsto> cs_State (ci_sess y)))"
    using assms(7) register_live [OF rx] by (auto simp: fun_upd_idem intro: reg_progress reg_stutter)
  with put show ?thesis by (simp add: call_sound_def)
next
  case False
  have "object_ok self y" using assms(1,2,4) by (simp add: call_inv_def list_all_iff)
  then show ?thesis
    using False assms(1-3) register_put_dead [OF False] by (auto intro!: put_object_inv)
qed

lemma on_connection_state_sound:
  assumes "call_inv self cm"
  shows "call_sound self cm (on_connection_state now r st cm)"
  using assms by (auto simp: on_connection_state_def Let_def split: pc_state.split intro!: callback_put_sound)

lemma on_track_sound:
  assumes "call_inv self cm"
  shows "call_sound self cm (on_track r t cm)"
  using assms by (auto simp: on_track_def Let_def same_identity_def object_ok_def intro!: callback_put_sound)

lemma on_ice_candidate_sound:
  assumes "call_inv self cm"
  shows "call_sound self cm (on_ice_candidate w r cand cm)"
proof (cases "r < length (cm_heap cm)")
  case True
  let ?x = "cm_heap cm ! r"
  have mem: "?x \<in> set (cm_heap cm)" using True by simp
  then have "object_ok self ?x" using assms by (simp add: call_inv_def list_all_iff)
  then have none: "length (cs_Participants (ci_sess ?x)) = 1" if "ci_outgoing ?x" using that by (simp add: object_ok_def)
  have "signal_ok self (cm_heap cm) (to, signal SignalCandidate (cs_ID (ci_sess ?x)) p '''' cand)" if "\<not> ci_outgoing ?x" for to p
    using mem that by (auto simp: signal_ok_def signal_def)
  then show ?thesis
    using True none assms by (auto simp: on_ice_candidate_def Let_def intro!: send_signal_inv)
qed (use assms in \<open>auto simp: on_ice_candidate_def\<close>)

lemma call_step_sound: "call_step cm cm' \<Longrightarrow> call_inv self cm \<Longrightarrow> call_sound self cm cm'"
  by (induction rule: call_step.induct)
    (auto simp: InitiateCall_sound AcceptCall_sound DeclineCall_sound HangUp_sound HandleSignal_sound
      on_connection_state_sound on_ice_candidate_sound on_track_sound)

interpretation calls: simulation call_step "call_inv self" register_step register_of
  for self
proof unfold_locales
  fix cm cm'
  assume "call_inv self cm" "call_step cm cm'"
  then have "call_sound self cm cm'" using call_step_sound by blast
  then show "call_inv self cm'" "register_step (register_of cm) (register_of cm')" by (simp_all add: call_sound_def)
qed

lemma call_inv_New: "call_inv self (NewCallManager self)"
  by (simp add: call_inv_def NewCallManager_def)

lemma call_reachable_run: "call_reachable self cm \<Longrightarrow> call_step\<^sup>*\<^sup>* (NewCallManager self) cm"
  by (induction rule: call_reachable.induct) (auto intro: rtranclp.rtrancl_into_rtrancl)

lemma call_reachable_inv: "call_reachable self cm \<Longrightarrow> call_inv self cm"
  using calls.run_inv [OF call_reachable_run call_inv_New] .

lemma register_of_New: "register_of (NewCallManager self) = (\<lambda>_. None)"
  by (simp add: fun_eq_iff register_of_def object_def NewCallManager_def)


subsection \<open>Candidates\<close>

lemma dec_enum_call_type [simp]:
  "dec_enum [CallVoice, CallVideo, CallScreenShare] (JInt (int (CallType_iota t))) = Some t"
  by (cases t) simp_all

lemma dec_enc_SignalMessage [codec_simps]: "dec_SignalMessage (enc_SignalMessage s) = Some s"
  by (cases "sg_CallType s"; cases "sg_SDP s = ''''"; cases "sg_Candidate s = ''''")
    (simp_all add: dec_SignalMessage_def enc_SignalMessage_def fld_def lookup_last_append)

text \<open>A sequence of signals from one peer, handled in order.\<close>

definition deliver_signals :: "rtc \<Rightarrow> gotime \<Rightarrow> PeerID \<Rightarrow> SignalMessage list \<Rightarrow> CallManager \<Rightarrow> CallManager" where
  "deliver_signals w now from sigs cm = fold (\<lambda>s cm. snd (HandleSignal w now from (Some (enc_SignalMessage s)) cm)) sigs cm"

lemma deliver_signals_simps [simp]:
  "deliver_signals w now from [] cm = cm"
  "deliver_signals w now from (s # sigs) cm =
     deliver_signals w now from sigs (snd (HandleSignal w now from (Some (enc_SignalMessage s)) cm))"
  "deliver_signals w now from (sigs @ sigs') cm = deliver_signals w now from sigs' (deliver_signals w now from sigs cm)"
  by (simp_all add: deliver_signals_def)

lemma object_put_same:
  assumes "object cm sid = Some (r, x)" and "r < length (cm_heap cm)"
  shows "object (put_object r y cm) sid = Some (r, y)"
  using assms by (auto simp: object_Some put_object_def)

lemma put_object_simps [simp]:
  "length (cm_heap (put_object r y cm)) = length (cm_heap cm)"
  "put_object r y (put_object r z cm) = put_object r y cm"
  by (simp_all add: put_object_def)

lemma early_candidates:
  assumes "object cm sid = Some (r, x)" and "r < length (cm_heap cm)" and "\<not> ci_offerAnswerDone x"
    and "\<forall>c\<in>set cs. rtc_ParseCandidate w c"
  shows "object (deliver_signals w now from (map (signal SignalCandidate sid p '''') cs) cm) sid =
      Some (r, x\<lparr>ci_pending := ci_pending x @ cs\<rparr>) \<and>
    length (cm_heap (deliver_signals w now from (map (signal SignalCandidate sid p '''') cs) cm)) = length (cm_heap cm)"
  using assms
proof (induction cs arbitrary: cm x)
  case (Cons c cs)
  let ?y = "x\<lparr>ci_pending := ci_pending x @ [c]\<rparr>"
  have "snd (HandleSignal w now from (Some (enc_SignalMessage (signal SignalCandidate sid p '''' c))) cm) = put_object r ?y cm"
    using Cons.prems by (simp add: HandleSignal_def codec_simps handleCandidate_def signal_def)
  then show ?case
    using Cons.IH [of "put_object r ?y cm" ?y] Cons.prems object_put_same [OF Cons.prems(1,2)] by simp
qed simp

lemma late_candidates:
  assumes "object cm sid = Some (r, x)" and "r < length (cm_heap cm)" and "ci_offerAnswerDone x"
    and "\<forall>c\<in>set cs. rtc_ParseCandidate w c"
  shows "object (deliver_signals w now from (map (signal SignalCandidate sid p '''') cs) cm) sid =
      Some (r, x\<lparr>ci_added := ci_added x @ filter (rtc_AddCandidate w) cs\<rparr>)"
  using assms
proof (induction cs arbitrary: cm x)
  case (Cons c cs)
  let ?y = "x\<lparr>ci_added := ci_added x @ [c]\<rparr>"
  have "snd (HandleSignal w now from (Some (enc_SignalMessage (signal SignalCandidate sid p '''' c))) cm) =
    (if rtc_AddCandidate w c then put_object r ?y cm else cm)"
    using Cons.prems by (simp add: HandleSignal_def codec_simps handleCandidate_def signal_def)
  then show ?case
    using Cons.IH [of "put_object r ?y cm" ?y] Cons.IH [of cm x] Cons.prems object_put_same [OF Cons.prems(1,2)] by simp
qed simp

lemma answer_flushes:
  assumes "object cm sid = Some (r, x)" and "r < length (cm_heap cm)" and "rtc_SetRemote w sdp"
  shows "object (snd (HandleSignal w now from (Some (enc_SignalMessage (signal SignalAnswer sid p sdp ''''))) cm)) sid =
    Some (r, flush_candidates w (x\<lparr>ci_remoteSDP := Some sdp\<rparr>))"
  and "length (cm_heap (snd (HandleSignal w now from (Some (enc_SignalMessage (signal SignalAnswer sid p sdp ''''))) cm))) =
    length (cm_heap cm)"
  using assms object_put_same [OF assms(1,2)]
  by (simp_all add: HandleSignal_def codec_simps handleAnswer_def signal_def)

section \<open>Properties\<close>

text \<open>
  C8: Refinement of the call register. Whatever sequence of local operations, signals from the network and
  library callbacks has happened, every further step is a step of the abstract register of calls
  by session ID: nothing happens to the visible sessions but that one starts ringing, one that is
  present progresses to connecting, active or failed, or one leaves. A session in the table is
  filed under its own ID, its connection is open and it has no end time. A whole run is a run of
  the register from the one without calls.
\<close>

theorem call_register_refinement:
  assumes "call_reachable self cm" and "call_step cm cm'"
  shows "register_step (register_of cm) (register_of cm') \<and> register_step\<^sup>*\<^sup>* (\<lambda>_. None) (register_of cm') \<and>
    (\<forall>sid r x. object cm' sid = Some (r, x) \<longrightarrow>
       cs_ID (ci_sess x) = sid \<and> \<not> ci_closed x \<and> cs_EndedAt (ci_sess x) = None)"
proof -
  have inv: "call_inv self cm" using assms(1) by (rule call_reachable_inv)
  have "call_step\<^sup>*\<^sup>* (NewCallManager self) cm'" using call_reachable_run [OF assms(1)] assms(2) by simp
  then have "register_step\<^sup>*\<^sup>* (\<lambda>_. None) (register_of cm')"
    using calls.run_sim [OF _ call_inv_New] by (simp add: register_of_New)
  then show ?thesis
    using calls.step_sim [OF inv assms(2)] live_object(3-5) [OF calls.step_inv [OF inv assms(2)]] by blast
qed

text \<open>
  C25: Candidates and the answer. Candidates that arrive before the answer are queued and added to the
  connection when the answer comes, before those that arrive later; every candidate the
  library accepts is added once, in the order of arrival, and none stays queued.
\<close>

theorem candidates_in_order:
  assumes "call_reachable self cm" and "object cm sid = Some (r, x)" and "\<not> ci_offerAnswerDone x"
    and "rtc_SetRemote w sdp" and "\<forall>c\<in>set (cs @ ds). rtc_ParseCandidate w c"
  shows "object (deliver_signals w now from (map (signal SignalCandidate sid p '''') cs @
      [signal SignalAnswer sid p sdp ''''] @ map (signal SignalCandidate sid p '''') ds) cm) sid =
    Some (r, x\<lparr>ci_pending := [], ci_offerAnswerDone := True, ci_remoteSDP := Some sdp,
      ci_added := ci_added x @ filter (rtc_AddCandidate w) (ci_pending x @ cs @ ds)\<rparr>)"
proof -
  have len: "r < length (cm_heap cm)" using live_object(1) [OF call_reachable_inv [OF assms(1)] assms(2)] .
  let ?cm1 = "deliver_signals w now from (map (signal SignalCandidate sid p '''') cs) cm"
  let ?x1 = "x\<lparr>ci_pending := ci_pending x @ cs\<rparr>"
  have 1: "object ?cm1 sid = Some (r, ?x1)" "r < length (cm_heap ?cm1)"
    using early_candidates [OF assms(2) len assms(3), of cs w now "from" p] assms(5) len by simp_all
  let ?cm2 = "snd (HandleSignal w now from (Some (enc_SignalMessage (signal SignalAnswer sid p sdp ''''))) ?cm1)"
  let ?x2 = "flush_candidates w (?x1\<lparr>ci_remoteSDP := Some sdp\<rparr>)"
  have 2: "object ?cm2 sid = Some (r, ?x2)" "r < length (cm_heap ?cm2)"
    using answer_flushes [where sdp = sdp and w = w and cm = ?cm1, OF 1 assms(4)] 1(2) by simp_all
  have "object (deliver_signals w now from (map (signal SignalCandidate sid p '''') ds) ?cm2) sid =
      Some (r, ?x2\<lparr>ci_added := ci_added ?x2 @ filter (rtc_AddCandidate w) ds\<rparr>)"
    by (rule late_candidates [OF 2]) (use assms(5) in \<open>auto simp: flush_candidates_def\<close>)
  then show ?thesis by (simp add: flush_candidates_def)
qed

text \<open>
  Signals that are never sent. The manager never sends an offer, and whatever it sends to
  another peer belongs to a session that an offer of another peer opened: a call that
  \<open>InitiateCall\<close> starts is never announced to anyone.
\<close>

theorem no_offer_is_sent:
  assumes "call_reachable self cm" and "(to, sig) \<in> set (cm_sent cm)"
  shows "sg_Type sig \<noteq> SignalOffer \<and>
    (to = self \<or> (\<exists>x\<in>set (cm_heap cm). \<not> ci_outgoing x \<and> cs_ID (ci_sess x) = sg_SessionID sig))"
  using call_reachable_inv [OF assms(1)] assms(2) by (auto simp: call_inv_def list_all_iff signal_ok_def)


section \<open>Witnesses\<close>

definition demo_rtc :: rtc where
  "demo_rtc = \<lparr>rtc_newPC = True, rtc_addTrack = (\<lambda>_. True), rtc_CreateOffer = Some ''offer-sdp'', rtc_CreateAnswer = Some ''answer-sdp'',
     rtc_SetLocal = True, rtc_SetRemote = (\<lambda>_. True), rtc_ParseCandidate = (\<lambda>c. c \<noteq> ''''),
     rtc_AddCandidate = (\<lambda>c. c \<noteq> ''c2''), rtc_sendOK = (\<lambda>_. True)\<rparr>"

definition demo_self :: PeerID where
  "demo_self = \<lparr>pid_NodeID = ''a'', pid_Fingerprint = ''fa''\<rparr>"

definition demo_caller :: PeerID where
  "demo_caller = \<lparr>pid_NodeID = ''b'', pid_Fingerprint = ''fb''\<rparr>"

definition demo_cm0 :: CallManager where
  "demo_cm0 = (NewCallManager demo_self)\<lparr>cm_hasSendFn := True\<rparr>"

definition demo_calling :: CallManager where
  "demo_calling = snd (InitiateCall demo_rtc 5 ''s1'' ''chat'' CallVideo demo_cm0)"

definition demo_offer :: "json option" where
  "demo_offer = Some (enc_SignalMessage (signal SignalOffer ''s2'' demo_caller ''remote-sdp'' ''''))"

definition demo_called :: CallManager where
  "demo_called = snd (HandleSignal demo_rtc 7 demo_caller demo_offer demo_calling)"

definition demo_accepted :: CallManager where
  "demo_accepted = snd (AcceptCall demo_rtc ''s2'' demo_called)"

lemma demo_call_reachable:
  "call_reachable demo_self demo_calling" "call_reachable demo_self demo_called" "call_reachable demo_self demo_accepted"
proof -
  have "call_reachable demo_self demo_cm0"
    unfolding demo_cm0_def by (rule call_more [OF call_start call_step.intros(1)])
  then show 1: "call_reachable demo_self demo_calling"
    unfolding demo_calling_def by (rule call_more [OF _ call_step.intros(2)])
  then show 2: "call_reachable demo_self demo_called"
    unfolding demo_called_def by (rule call_more [OF _ call_step.intros(6)])
  then show "call_reachable demo_self demo_accepted"
    unfolding demo_accepted_def by (rule call_more [OF _ call_step.intros(3)])
qed

lemmas demo_call_defs = demo_accepted_def demo_called_def demo_calling_def demo_cm0_def demo_self_def demo_caller_def
  demo_offer_def demo_rtc_def NewCallManager_def InitiateCall_def AcceptCall_def HandleSignal_def handleOffer_def
  send_signal_def signal_def codec_simps object_def alloc_def put_object_def publish_call_def outgoing_session_def
  local_tracks_def set_state_def flush_candidates_def Let_def

text \<open>An incoming call is accepted while a call of our own rings: its state changes, the other's does not.\<close>

theorem call_register_refinement_witness:
  "register_step (register_of demo_called) (register_of demo_accepted) \<and>
   register_of demo_called ''s2'' = Some CallRinging \<and> register_of demo_accepted ''s2'' = Some CallConnecting \<and>
   register_of demo_accepted ''s1'' = Some CallRinging"
proof -
  have "call_step demo_called demo_accepted" unfolding demo_accepted_def by (rule call_step.intros)
  then have "register_step (register_of demo_called) (register_of demo_accepted)"
    using call_register_refinement [OF demo_call_reachable(2)] by blast
  moreover have "register_of demo_called ''s2'' = Some CallRinging" "register_of demo_accepted ''s2'' = Some CallConnecting"
    "register_of demo_accepted ''s1'' = Some CallRinging"
    by (simp_all add: register_of_def demo_call_defs)
  ultimately show ?thesis by blast
qed

text \<open>Two candidates before the answer and two after it, one of them refused by the library.\<close>

theorem candidates_in_order_witness:
  "\<exists>x. object (deliver_signals demo_rtc 9 demo_caller
      [signal SignalCandidate ''s1'' demo_caller '''' ''c1'', signal SignalCandidate ''s1'' demo_caller '''' ''c2'',
       signal SignalAnswer ''s1'' demo_caller ''sdp'' '''', signal SignalCandidate ''s1'' demo_caller '''' ''c3'']
      demo_calling) ''s1'' = Some (0, x) \<and> ci_added x = [''c1'', ''c3''] \<and> ci_pending x = []"
proof -
  have "object demo_calling ''s1'' = Some (0, cm_heap demo_calling ! 0)" "\<not> ci_offerAnswerDone (cm_heap demo_calling ! 0)"
    "ci_added (cm_heap demo_calling ! 0) = []" "ci_pending (cm_heap demo_calling ! 0) = []"
    by (simp_all add: demo_call_defs)
  then show ?thesis
    using candidates_in_order [OF demo_call_reachable(1), of "''s1''" 0 "cm_heap demo_calling ! 0" demo_rtc "''sdp''"
      "[''c1'', ''c2'']" "[''c3'']" 9 demo_caller demo_caller]
    by (simp add: demo_rtc_def)
qed

text \<open>The answer of the accepted call is a signal to another peer; its session came with an offer.\<close>

theorem no_offer_is_sent_witness:
  "(demo_caller, signal SignalAnswer ''s2'' demo_self ''answer-sdp'' '''') \<in> set (cm_sent demo_accepted) \<and>
   (\<exists>x\<in>set (cm_heap demo_accepted). \<not> ci_outgoing x \<and> cs_ID (ci_sess x) = ''s2'')"
proof -
  have sent: "(demo_caller, signal SignalAnswer ''s2'' demo_self ''answer-sdp'' '''') \<in> set (cm_sent demo_accepted)"
    by (simp add: demo_call_defs)
  moreover have "demo_caller \<noteq> demo_self" by (simp add: demo_caller_def demo_self_def)
  ultimately show ?thesis
    using no_offer_is_sent [OF demo_call_reachable(3) sent] by (simp add: signal_def)
qed

end
