(* ===== verification/Call_Quality.thy ===== *)
theory Call_Quality
  imports Call_Manager
begin

text \<open>
  The quality reports of \<^verbatim>\<open>media/call.go\<close>: \<open>StartQualityReporting\<close> with its ticks and \<open>collectQuality\<close>. The statistics of the
  WebRTC library are a Go map that is read again for every sender, in any order: each sender comes
  with the list of the statistics in the order its loop sees them. Numbers that the code computes with
  floating point (the round trip time, the loss and the jitter) are taken as the library's results.

  Results: reports are made exactly as long as the session is in the table; the bitrate of the audio
  track is that of the outgoing stream that happens to be seen last, of whatever kind it is.
\<close>

section \<open>Definitions\<close>

record 'f CallQuality =
  cq_SessionID :: string
  cq_RTT :: duration
  cq_PacketLoss :: 'f
  cq_Jitter :: duration
  cq_AudioBitrate :: int
  cq_VideoBitrate :: int
  cq_Timestamp :: gotime

text \<open>The statistics the code looks at; \<open>Outbound\<close> carries the number of bytes sent.\<close>

datatype 'f rtp_stat = RemoteInbound duration 'f duration | Outbound "64 word" | OtherStat

type_synonym 'f rtp_sender = "track_kind option \<times> 'f rtp_stat list"

text \<open>\<open>int(v.BytesSent * 8)\<close>: the product wraps at 64 bits and is read as a signed number.\<close>

definition bits_sent :: "64 word \<Rightarrow> int" where
  "bits_sent b = sint (b * 8)"

fun add_stat :: "track_kind option \<Rightarrow> 'f rtp_stat \<Rightarrow> 'f CallQuality \<Rightarrow> 'f CallQuality" where
  "add_stat track (RemoteInbound rtt loss jitter) q = q\<lparr>cq_RTT := rtt, cq_PacketLoss := loss, cq_Jitter := jitter\<rparr>"
| "add_stat (Some AudioTrack) (Outbound b) q = q\<lparr>cq_AudioBitrate := bits_sent b\<rparr>"
| "add_stat (Some VideoTrack) (Outbound b) q = q\<lparr>cq_VideoBitrate := bits_sent b\<rparr>"
| "add_stat None (Outbound b) q = q"
| "add_stat track OtherStat q = q"

definition collectQuality :: "gotime \<Rightarrow> 'f \<Rightarrow> 'f rtp_sender list \<Rightarrow> callSessionInternal \<Rightarrow> 'f CallQuality" where
  "collectQuality now zero senders s =
     fold (\<lambda>(track, stats). fold (add_stat track) stats) senders
       \<lparr>cq_SessionID = cs_ID (ci_sess s), cq_RTT = 0, cq_PacketLoss = zero, cq_Jitter = 0, cq_AudioBitrate = 0,
        cq_VideoBitrate = 0, cq_Timestamp = now\<rparr>"

text \<open>A running report holds the session it was started for, not its ID alone.\<close>

datatype reporting = Stopped | Reporting string nat | TickerPanic

definition StartQualityReporting :: "string \<Rightarrow> duration \<Rightarrow> CallManager \<Rightarrow> call_error + reporting" where
  "StartQualityReporting sid interval cm =
     (case object cm sid of
        None \<Rightarrow> Inl SessionNotFound
      | Some (r, _) \<Rightarrow> Inr (if interval \<le> 0 then TickerPanic else Reporting sid r))"

fun quality_tick :: "gotime \<Rightarrow> 'f \<Rightarrow> 'f rtp_sender list \<Rightarrow> CallManager \<Rightarrow> reporting \<Rightarrow> 'f CallQuality option \<times> reporting" where
  "quality_tick now zero senders cm (Reporting sid r) =
     (if object cm sid = None then (None, Stopped)
      else (Some (collectQuality now zero senders (cm_heap cm ! r)), Reporting sid r))"
| "quality_tick now zero senders cm p = (None, p)"

section \<open>Lemmas\<close>

fun outbound_bits :: "'f rtp_stat \<Rightarrow> int option" where
  "outbound_bits (Outbound b) = Some (bits_sent b)"
| "outbound_bits _ = None"

text \<open>The audio bitrate after one sender: that of the last outgoing stream its loop sees.\<close>

lemma audio_after_sender:
  "cq_AudioBitrate (fold (add_stat (Some AudioTrack)) stats q) =
     (case rev (List.map_filter outbound_bits stats) of [] \<Rightarrow> cq_AudioBitrate q | b # _ \<Rightarrow> b)"
proof (induction stats arbitrary: q)
  case (Cons st stats)
  then show ?case by (cases st) (auto simp: List.map_filter_simps split: list.splits)
qed (simp add: List.map_filter_simps)

lemma audio_other_sender:
  "track \<noteq> Some AudioTrack \<Longrightarrow> cq_AudioBitrate (fold (add_stat track) stats q) = cq_AudioBitrate q"
proof (induction stats arbitrary: q)
  case (Cons st stats)
  have "cq_AudioBitrate (add_stat track st q) = cq_AudioBitrate q"
    using Cons.prems by (cases "(track, st, q)" rule: add_stat.cases) auto
  then show ?case using Cons by simp
qed simp

lemma cleanup_removes: "object cm sid \<noteq> None \<Longrightarrow> object (cleanup now sid st cm) sid = None"
  by (auto simp: cleanup_def object_def put_object_def publish_call_def Let_def delete_conv split: option.splits)

section \<open>Properties\<close>

text \<open>
  Quality reports follow the session: reporting starts exactly for a session that is in the table, and
  the first tick after the session was cleaned up reports nothing and ends.
\<close>

theorem reports_end_with_session:
  assumes "StartQualityReporting sid interval cm = Inr p" and "0 < interval"
  shows "object cm sid \<noteq> None \<and> fst (quality_tick now zero senders cm p) \<noteq> None \<and>
    quality_tick now' zero senders' (cleanup at sid st cm) p = (None, Stopped)"
proof -
  obtain r x where "object cm sid = Some (r, x)" "p = Reporting sid r"
    using assms by (auto simp: StartQualityReporting_def split: option.splits)
  then show ?thesis using cleanup_removes [of cm sid] by simp
qed

text \<open>
  The bitrates of a quality report. With one audio sender, the audio bitrate is eight times the bytes
  of the last outgoing stream in the order the statistics are seen. With an audio and a video
  stream, the two orders of the statistics make it the bitrate of the audio stream or that of the
  video stream.
\<close>

theorem audio_bitrate_is_last_outbound:
  assumes "\<forall>(track, stats)\<in>set (before @ behind). track \<noteq> Some AudioTrack"
  shows "cq_AudioBitrate (collectQuality now zero (before @ (Some AudioTrack, stats) # behind) s) =
      (case rev (List.map_filter outbound_bits stats) of [] \<Rightarrow> 0 | b # _ \<Rightarrow> b) \<and>
    cq_AudioBitrate (collectQuality now zero (before @ (Some AudioTrack, [Outbound a, Outbound v]) # behind) s) = bits_sent v \<and>
    cq_AudioBitrate (collectQuality now zero (before @ (Some AudioTrack, [Outbound v, Outbound a]) # behind) s) = bits_sent a"
proof -
  have keep: "cq_AudioBitrate (fold (\<lambda>(track, stats). fold (add_stat track) stats) ss q) = cq_AudioBitrate q"
    if "\<forall>(track, stats)\<in>set ss. track \<noteq> Some AudioTrack" for ss and q :: "'a CallQuality"
    using that by (induction ss arbitrary: q) (auto simp: audio_other_sender)
  have "cq_AudioBitrate (collectQuality now zero (before @ (Some AudioTrack, stats) # behind) s) =
      (case rev (List.map_filter outbound_bits stats) of [] \<Rightarrow> 0 | b # _ \<Rightarrow> b)" for stats
    using assms keep [of before] keep [of behind] by (simp add: collectQuality_def audio_after_sender ball_Un split: list.splits)
  then show ?thesis by (simp add: List.map_filter_simps)
qed

section \<open>Witnesses\<close>

theorem reports_end_with_session_witness:
  "quality_tick 9 (0 :: int) [] (cleanup 8 ''s1'' CallEnded demo_calling) (Reporting ''s1'' 0) = (None, Stopped)"
proof -
  have "StartQualityReporting ''s1'' 5 demo_calling = Inr (Reporting ''s1'' 0)"
    by (simp add: StartQualityReporting_def demo_call_defs)
  from reports_end_with_session [OF this, of 0 "0 :: int" "[]" 9 "[]" 8 CallEnded] show ?thesis by (simp del: quality_tick.simps)
qed

theorem audio_bitrate_is_last_outbound_witness:
  "cq_AudioBitrate (collectQuality 9 (0 :: int) [(Some AudioTrack, [Outbound 100, Outbound 9000]), (Some VideoTrack, [Outbound 100, Outbound 9000])]
     (cm_heap demo_calling ! 0)) = 72000"
  using audio_bitrate_is_last_outbound [of "[]" "[(Some VideoTrack, [Outbound 100, Outbound 9000])]" 9 "0 :: int"] by (simp add: bits_sent_def)

end
