(* ===== verification/Relay_Client.thy ===== *)
theory Relay_Client
  imports Relay_Server Engine
begin

text \<open>
  The client side of the relay, \<^verbatim>\<open>messenger/server_relay.go\<close>. The state is the record
  \<open>serverRelay\<close>: the connection, the 512-slot send queue, the 64-slot response channel and the
  account data, with a log of the frames written to the connection and of the frames handed to
  \<open>OnMessage\<close>. One iteration of each pump is one function. The network is an argument:
  \<open>dial\<close> is given what the handshake with an address yields, the read pump is given the frame (or
  error) that it reads. An operation that waits takes what the pumps do meanwhile as a function of
  the state and the event that ends the wait; \<open>None\<close> means that it waits on. Deadlines, keep-alive
  pings and logging are not modelled.

  Results: the connection status and the queue bounds are invariant; a request is answered with
  the oldest frame in the response channel, whatever the server answers; logging in against the
  relay server of \<open>Relay_Server\<close> stores the token with which the next connection authenticates.
\<close>

section \<open>Definitions\<close>

subsection \<open>State\<close>

datatype relay_error = NotConnected | CtxDone | RequestTimeout | RequestFailed "json option" | SendBufferFull
  | AllAddressesFailed | DialFailed | AuthRefused "json option" | MediaNotFound | ServerReturned nat

record serverRelay =
  sr_addresses :: "string list"
  sr_localID :: PeerID
  sr_conn :: "string option"
  sr_connected :: bool
  sr_sendCh :: "frame chan"
  sr_stopped :: bool
  sr_OnMessage :: bool
  sr_username :: string
  sr_token :: string
  sr_registered :: bool
  sr_responseCh :: "frame chan"
  sr_written :: "frame list"
  sr_handled :: "frame list"

definition newServerRelay :: "string list \<Rightarrow> PeerID \<Rightarrow> serverRelay" where
  "newServerRelay addresses localID =
     \<lparr>sr_addresses = addresses, sr_localID = localID, sr_conn = None, sr_connected = False,
      sr_sendCh = make_chan 512, sr_stopped = False, sr_OnMessage = False, sr_username = '''', sr_token = '''',
      sr_registered = False, sr_responseCh = make_chan 64, sr_written = [], sr_handled = []\<rparr>"

subsection \<open>Connecting\<close>

definition auth_payload :: "gotime \<Rightarrow> serverRelay \<Rightarrow> json" where
  "auth_payload now r = JObj (
     [(''node_id'', JStr (pid_NodeID (sr_localID r))), (''fingerprint'', JStr (pid_Fingerprint (sr_localID r))),
      (''sign_pub'', JNull), (''sig'', JNull), (''ts'', JInt (UnixNano now))] @
     json_opt ''username'' (sr_token r \<noteq> '''' \<and> sr_username r \<noteq> '''') (JStr (sr_username r)) @
     json_opt ''token'' (sr_token r \<noteq> '''') (JStr (sr_token r)))"

definition auth_frame :: "gotime \<Rightarrow> serverRelay \<Rightarrow> frame" where
  "auth_frame now r = mk_frame CmdAuth (Some (auth_payload now r)) (UnixNano now)"

text \<open>
  The network: what comes back when an address is dialled and the auth frame is written, \<open>None\<close>
  when dialling, writing or reading the answer fails.
\<close>

type_synonym network = "string \<Rightarrow> frame \<Rightarrow> frame option"

definition dial :: "network \<Rightarrow> gotime \<Rightarrow> string \<Rightarrow> serverRelay \<Rightarrow> relay_error option \<times> serverRelay" where
  "dial net now addr r =
     (case net addr (auth_frame now r) of
        None \<Rightarrow> (Some DialFailed, r)
      | Some f \<Rightarrow>
          if rf_Cmd f = CmdError then (Some (AuthRefused (rf_Payload f)), r)
          else (None, r\<lparr>sr_conn := Some addr, sr_connected := True,
                        sr_registered := (sr_token r \<noteq> '''' \<or> sr_registered r)\<rparr>))"

fun dial_first :: "network \<Rightarrow> gotime \<Rightarrow> string list \<Rightarrow> serverRelay \<Rightarrow> bool \<times> serverRelay" where
  "dial_first net now [] r = (False, r)"
| "dial_first net now (addr # addrs) r =
     (case dial net now addr r of
        (None, r') \<Rightarrow> (True, r')
      | (Some _, r') \<Rightarrow> dial_first net now addrs r')"

definition Connect :: "network \<Rightarrow> gotime \<Rightarrow> serverRelay \<Rightarrow> relay_error option \<times> serverRelay" where
  "Connect net now r =
     (case dial_first net now (sr_addresses r) r of
        (True, r') \<Rightarrow> (None, r')
      | (False, r') \<Rightarrow> (Some AllAddressesFailed, r'))"

definition watchdog_tick :: "network \<Rightarrow> gotime \<Rightarrow> serverRelay \<Rightarrow> serverRelay" where
  "watchdog_tick net now r =
     (if sr_stopped r \<or> sr_connected r then r else snd (dial_first net now (sr_addresses r) r))"

definition Connected :: "serverRelay \<Rightarrow> bool" where
  "Connected r = sr_connected r"

definition markDisconnected :: "serverRelay \<Rightarrow> serverRelay" where
  "markDisconnected r = r\<lparr>sr_connected := False, sr_conn := None\<rparr>"

definition relay_Close :: "serverRelay \<Rightarrow> serverRelay" where
  "relay_Close r = markDisconnected (r\<lparr>sr_stopped := True\<rparr>)"

subsection \<open>Frames of the engine\<close>

definition offer_frame :: "frame \<Rightarrow> serverRelay \<Rightarrow> serverRelay" where
  "offer_frame f r = r\<lparr>sr_sendCh := chan_offer f (sr_sendCh r)\<rparr>"

definition relay_Relay :: "gotime \<Rightarrow> Message \<Rightarrow> serverRelay \<Rightarrow> serverRelay" where
  "relay_Relay now msg r =
     offer_frame ((mk_frame CmdRelay (Some (enc_Message msg)) (UnixNano now))\<lparr>rf_PeerID := PeerID_String (msg_SenderID msg)\<rparr>) r"

definition relay_RelayHandshake :: "gotime \<Rightarrow> HandshakePayload \<Rightarrow> string \<Rightarrow> serverRelay \<Rightarrow> serverRelay" where
  "relay_RelayHandshake now hp to r =
     offer_frame ((mk_frame CmdHandshake (Some (enc_HandshakePayload hp)) (UnixNano now))\<lparr>rf_PeerID := to\<rparr>) r"

definition relay_SyncHistory :: "gotime \<Rightarrow> ChatID \<Rightarrow> int \<Rightarrow> serverRelay \<Rightarrow> serverRelay" where
  "relay_SyncHistory now chatID afterTS r =
     offer_frame (mk_frame CmdSync (Some (JObj [(''after_ts'', JInt afterTS), (''chat_id'', JStr chatID)])) (UnixNano now)) r"

subsection \<open>The pumps\<close>

text \<open>\<open>ok\<close> tells whether writing succeeds. A frame taken while there is no connection is dropped.\<close>

definition writePump_next :: "bool \<Rightarrow> serverRelay \<Rightarrow> serverRelay" where
  "writePump_next ok r =
     (case chan_recv (sr_sendCh r) of
        None \<Rightarrow> r
      | Some (f, ch) \<Rightarrow>
          let r1 = r\<lparr>sr_sendCh := ch\<rparr> in
          if sr_conn r = None then r1
          else if ok then r1\<lparr>sr_written := sr_written r1 @ [f]\<rparr>
          else markDisconnected r1)"

definition readPump_next :: "frame option \<Rightarrow> serverRelay \<Rightarrow> serverRelay" where
  "readPump_next input r =
     (if sr_conn r = None then r
      else case input of
          None \<Rightarrow> markDisconnected r
        | Some f \<Rightarrow>
            let r1 = r\<lparr>sr_responseCh := chan_offer f (sr_responseCh r)\<rparr>
            in if sr_OnMessage r1 then r1\<lparr>sr_handled := sr_handled r1 @ [f]\<rparr> else r1)"

subsection \<open>Requests\<close>

text \<open>Which case of the final \<open>select\<close> ends the wait.\<close>

datatype wake = OnResponse | OnCtx | OnTimeout

definition map_payload :: "(string \<times> string) list \<Rightarrow> json" where
  "map_payload kvs = JObj (map (\<lambda>(k, v). (k, JStr v)) kvs)"

text \<open>
  Unmarshalling into a \<open>map[string]string\<close> with the error ignored: not an object leaves the map
  nil, a value that is not a string leaves the key with the empty string.
\<close>

definition string_map :: "json option \<Rightarrow> string \<Rightarrow> string option" where
  "string_map payload k =
     (case payload of
        Some (JObj fs) \<Rightarrow> map_option (\<lambda>j. case j of JStr v \<Rightarrow> v | _ \<Rightarrow> '''') (lookup_last k fs)
      | _ \<Rightarrow> None)"

definition await :: "wake \<Rightarrow> serverRelay \<Rightarrow> ((relay_error + frame) \<times> serverRelay) option" where
  "await wk r =
     (case wk of
        OnCtx \<Rightarrow> Some (Inl CtxDone, r)
      | OnTimeout \<Rightarrow> Some (Inl RequestTimeout, r)
      | OnResponse \<Rightarrow>
          (case chan_recv (sr_responseCh r) of
             None \<Rightarrow> None
           | Some (resp, ch) \<Rightarrow> Some (Inr resp, r\<lparr>sr_responseCh := ch\<rparr>)))"

text \<open>The first \<open>select\<close> of a request: it blocks on a full queue unless the context is done.\<close>

definition enqueue :: "bool \<Rightarrow> frame \<Rightarrow> serverRelay \<Rightarrow> ((relay_error + unit) \<times> serverRelay) option" where
  "enqueue ctxDone f r =
     (if ctxDone then Some (Inl CtxDone, r)
      else if length (ch_buf (sr_sendCh r)) < ch_cap (sr_sendCh r) then Some (Inr (), offer_frame f r)
      else None)"

definition request ::
  "bool \<Rightarrow> (serverRelay \<Rightarrow> serverRelay) \<Rightarrow> wake \<Rightarrow> frame \<Rightarrow> serverRelay \<Rightarrow> ((relay_error + frame) \<times> serverRelay) option" where
  "request ctxDone others wk f r =
     (if \<not> Connected r then Some (Inl NotConnected, r)
      else case enqueue ctxDone f r of
          None \<Rightarrow> None
        | Some (Inl e, r1) \<Rightarrow> Some (Inl e, r1)
        | Some (Inr _, r1) \<Rightarrow> await wk (others r1))"

definition take_token :: "frame \<Rightarrow> serverRelay \<Rightarrow> serverRelay" where
  "take_token resp r =
     (case string_map (rf_Payload resp) ''token'' of
        None \<Rightarrow> r
      | Some t \<Rightarrow> r\<lparr>sr_token := t,
                    sr_username := (case string_map (rf_Payload resp) ''username'' of None \<Rightarrow> '''' | Some u \<Rightarrow> u),
                    sr_registered := True\<rparr>)"

definition auth_result :: "(relay_error + frame) \<times> serverRelay \<Rightarrow> (relay_error + frame) \<times> serverRelay" where
  "auth_result er =
     (case er of
        (Inl e, r) \<Rightarrow> (Inl e, r)
      | (Inr resp, r) \<Rightarrow>
          if rf_Cmd resp = CmdAuthOK then (Inr resp, take_token resp r)
          else (Inl (RequestFailed (rf_Payload resp)), r))"

definition register_frame :: "gotime \<Rightarrow> string \<Rightarrow> string \<Rightarrow> string \<Rightarrow> string \<Rightarrow> string \<Rightarrow> frame" where
  "register_frame now username password nickname bio avatarPath =
     mk_frame CmdRegister (Some (map_payload [(''avatar_path'', avatarPath), (''bio'', bio), (''nickname'', nickname),
       (''password'', password), (''username'', username)])) (UnixNano now)"

definition login_frame :: "gotime \<Rightarrow> string \<Rightarrow> string \<Rightarrow> frame" where
  "login_frame now username password =
     mk_frame CmdLogin (Some (map_payload [(''password'', password), (''username'', username)])) (UnixNano now)"

definition Register ::
  "gotime \<Rightarrow> bool \<Rightarrow> (serverRelay \<Rightarrow> serverRelay) \<Rightarrow> wake \<Rightarrow> string \<Rightarrow> string \<Rightarrow> string \<Rightarrow> string \<Rightarrow> string \<Rightarrow>
   serverRelay \<Rightarrow> ((relay_error + frame) \<times> serverRelay) option" where
  "Register now ctxDone others wk username password nickname bio avatarPath r =
     map_option auth_result (request ctxDone others wk (register_frame now username password nickname bio avatarPath) r)"

definition Login ::
  "gotime \<Rightarrow> bool \<Rightarrow> (serverRelay \<Rightarrow> serverRelay) \<Rightarrow> wake \<Rightarrow> string \<Rightarrow> string \<Rightarrow>
   serverRelay \<Rightarrow> ((relay_error + frame) \<times> serverRelay) option" where
  "Login now ctxDone others wk username password r =
     map_option auth_result (request ctxDone others wk (login_frame now username password) r)"

definition ListServerPeers ::
  "gotime \<Rightarrow> bool \<Rightarrow> (serverRelay \<Rightarrow> serverRelay) \<Rightarrow> wake \<Rightarrow> serverRelay \<Rightarrow> ((relay_error + frame) \<times> serverRelay) option" where
  "ListServerPeers now ctxDone others wk r = request ctxDone others wk (mk_frame CmdListPeers None (UnixNano now)) r"

definition UpdateProfile :: "gotime \<Rightarrow> string \<Rightarrow> string \<Rightarrow> string \<Rightarrow> serverRelay \<Rightarrow> relay_error option \<times> serverRelay" where
  "UpdateProfile now nickname bio avatarPath r =
     (if \<not> Connected r then (Some NotConnected, r)
      else if length (ch_buf (sr_sendCh r)) < ch_cap (sr_sendCh r)
      then (None, offer_frame (mk_frame CmdUpdateProfile (Some (map_payload
             [(''avatar_path'', avatarPath), (''bio'', bio), (''nickname'', nickname)])) (UnixNano now)) r)
      else (Some SendBufferFull, r))"

subsection \<open>Accessors and media\<close>

definition SetAuth :: "string \<Rightarrow> string \<Rightarrow> serverRelay \<Rightarrow> serverRelay" where
  "SetAuth username token r = r\<lparr>sr_username := username, sr_token := token\<rparr>"

definition Address :: "serverRelay \<Rightarrow> string" where
  "Address r = (case sr_addresses r of [] \<Rightarrow> '''' | a # _ \<Rightarrow> a)"

text \<open>The HTTP client is an argument: status code and body for a URL, or a transport error.\<close>

definition FetchMedia :: "(string \<Rightarrow> (nat \<times> bytes) option) \<Rightarrow> string \<Rightarrow> serverRelay \<Rightarrow> relay_error + bytes" where
  "FetchMedia http hash r =
     (if \<not> sr_connected r then Inl NotConnected
      else case sr_addresses r of
          [] \<Rightarrow> Inl NotConnected
        | a # _ \<Rightarrow>
            (case http (''http://'' @ a @ ''/media/'' @ hash) of
               None \<Rightarrow> Inl DialFailed
             | Some (status, body) \<Rightarrow>
                 if status = 404 then Inl MediaNotFound
                 else if status \<noteq> 200 then Inl (ServerReturned status)
                 else Inr body))"

subsection \<open>The client as a transition system\<close>

datatype pump = PumpWrite bool | PumpRead "frame option"

fun pump_step :: "pump \<Rightarrow> serverRelay \<Rightarrow> serverRelay" where
  "pump_step (PumpWrite ok) r = writePump_next ok r"
| "pump_step (PumpRead input) r = readPump_next input r"

definition pump_run :: "pump list \<Rightarrow> serverRelay \<Rightarrow> serverRelay" where
  "pump_run = fold pump_step"

text \<open>A request takes part in two steps, so that the pumps and other requests run in between.\<close>

inductive relay_step :: "serverRelay \<Rightarrow> serverRelay \<Rightarrow> bool" where
  "relay_step r (r\<lparr>sr_OnMessage := True\<rparr>)"
| "relay_step r (snd (Connect net now r))"
| "relay_step r (watchdog_tick net now r)"
| "relay_step r (relay_Close r)"
| "relay_step r (SetAuth u t r)"
| "relay_step r (offer_frame f r)"
| "relay_step r (pump_step p r)"
| "relay_step r (snd (UpdateProfile now n b a r))"
| "relay_step r r'" if "enqueue c f r = Some (x, r')"
| "relay_step r r'" if "await wk r = Some (x, r')"
| "relay_step r (snd (auth_result (x, r')))" if "await wk r = Some (x, r')"

inductive relay_reachable :: "serverRelay \<Rightarrow> bool" where
  relay_start: "relay_reachable (newServerRelay addresses localID)"
| relay_more: "relay_reachable r \<Longrightarrow> relay_step r r' \<Longrightarrow> relay_reachable r'"

definition relay_inv :: "serverRelay \<Rightarrow> bool" where
  "relay_inv r = ((sr_connected r \<longleftrightarrow> sr_conn r \<noteq> None) \<and>
     ch_cap (sr_sendCh r) = 512 \<and> length (ch_buf (sr_sendCh r)) \<le> 512 \<and>
     ch_cap (sr_responseCh r) = 64 \<and> length (ch_buf (sr_responseCh r)) \<le> 64)"

section \<open>Lemmas\<close>

lemma dial_inv: "relay_inv r \<Longrightarrow> relay_inv (snd (dial net now addr r))"
  by (auto simp: dial_def relay_inv_def split: option.splits)

lemma dial_first_inv: "relay_inv r \<Longrightarrow> relay_inv (snd (dial_first net now addrs r))"
proof (induction addrs arbitrary: r)
  case (Cons a addrs)
  then show ?case using dial_inv [of r net now a] by (auto split: prod.splits option.splits)
qed simp

lemma offer_frame_inv: "relay_inv r \<Longrightarrow> relay_inv (offer_frame f r)"
  by (simp add: relay_inv_def offer_frame_def chan_simps)

lemma chan_recv_Some: "chan_recv c = Some (x, c') \<longleftrightarrow> (\<exists>xs. ch_buf c = x # xs \<and> c' = c\<lparr>ch_buf := xs\<rparr>)"
  by (auto simp: chan_recv_def split: list.splits)

lemma pump_step_inv: "relay_inv r \<Longrightarrow> relay_inv (pump_step p r)"
  by (cases p) (auto simp: relay_inv_def writePump_next_def readPump_next_def markDisconnected_def chan_recv_Some
      chan_simps Let_def split: option.splits)

lemma await_inv: "relay_inv r \<Longrightarrow> await wk r = Some (x, r') \<Longrightarrow> relay_inv r'"
  by (auto simp: relay_inv_def await_def chan_recv_Some split: option.splits wake.splits)

lemma auth_result_inv: "relay_inv r \<Longrightarrow> relay_inv (snd (auth_result (x, r)))"
  by (auto simp: auth_result_def take_token_def relay_inv_def split: sum.splits option.splits)

lemma relay_step_inv: "relay_step r r' \<Longrightarrow> relay_inv r \<Longrightarrow> relay_inv r'"
proof (induction rule: relay_step.induct)
  case (2 r net now)
  then show ?case using dial_first_inv [of r net now "sr_addresses r"]
    by (auto simp: Connect_def split: prod.splits bool.splits)
next
  case (8 r now n b a)
  then show ?case by (auto simp: UpdateProfile_def intro: offer_frame_inv)
next
  case (9 c f r x r')
  then show ?case by (auto simp: enqueue_def intro: offer_frame_inv split: if_splits)
qed (auto simp: watchdog_tick_def dial_first_inv relay_Close_def markDisconnected_def SetAuth_def offer_frame_inv
    pump_step_inv intro: await_inv auth_result_inv, auto simp: relay_inv_def)

interpretation relay: safe_system relay_step relay_inv
  by unfold_locales (rule relay_step_inv)

lemma relay_reachable_inv: "relay_reachable r \<Longrightarrow> relay_inv r"
  by (induction rule: relay_reachable.induct) (simp add: newServerRelay_def relay_inv_def, rule relay.step_inv)

lemma request_room:
  assumes "Connected r" and "length (ch_buf (sr_sendCh r)) < ch_cap (sr_sendCh r)"
  shows "request False others wk f r = await wk (others (offer_frame f r))"
  using assms by (simp add: request_def enqueue_def)

text \<open>The pumps only append to the response channel and leave the account data alone.\<close>

definition same_account :: "serverRelay \<Rightarrow> serverRelay \<Rightarrow> bool" where
  "same_account r r' = (sr_username r' = sr_username r \<and> sr_token r' = sr_token r \<and> sr_registered r' = sr_registered r)"

lemma pump_step_extends:
  "(\<exists>gs. ch_buf (sr_responseCh (pump_step p r)) = ch_buf (sr_responseCh r) @ gs) \<and> same_account r (pump_step p r)"
  by (cases p) (auto simp: same_account_def writePump_next_def readPump_next_def markDisconnected_def chan_simps Let_def
      split: option.splits)

lemma pump_run_extends:
  "(\<exists>gs. ch_buf (sr_responseCh (pump_run ps r)) = ch_buf (sr_responseCh r) @ gs) \<and> same_account r (pump_run ps r)"
proof (induction ps arbitrary: r)
  case (Cons p ps)
  have run: "pump_run (p # ps) r = pump_run ps (pump_step p r)" by (simp add: pump_run_def)
  obtain gs where "ch_buf (sr_responseCh (pump_step p r)) = ch_buf (sr_responseCh r) @ gs" "same_account r (pump_step p r)"
    using pump_step_extends by blast
  then show ?case using Cons.IH [of "pump_step p r"] unfolding run by (auto simp: same_account_def)
qed (simp add: pump_run_def same_account_def)

subsection \<open>Logging in at the relay server\<close>

lemma dec_login_frame [simp]: "unmarshal dec_login (rf_Payload (login_frame now u pw)) = Some (u, pw)"
  by (simp add: unmarshal_def login_frame_def mk_frame_def map_payload_def dec_login_def fld_def)

text \<open>The reply to correct credentials, and the account afterwards.\<close>

definition login_reply :: "hashes \<Rightarrow> ServerConfig \<Rightarrow> gotime \<Rightarrow> UserAccount \<Rightarrow> frame" where
  "login_reply hs cfg now user = mk_frame CmdAuthOK (Some (jsonMsg
     [(''ok'', ''true''), (''message'', ''logged in''), (''token'', generateToken hs cfg user),
      (''username'', ua_Username user), (''nickname'', ua_Nickname user), (''bio'', ua_Bio user),
      (''avatar_path'', ua_AvatarPath user)])) (UnixNano now)"

lemma handleFrame_login:
  assumes "srv_conns s cid = Some c" and "getUserByUsername s (TrimSpace (ToLower u)) = Some user"
    and "checkPassword hs (ua_PasswordHash user) (ua_Salt user) pw"
  shows "handleFrame hs now rnd cid (login_frame now' u pw) s = client_send cid (login_reply hs (srv_cfg s) now user)
    (update_user (TrimSpace (ToLower u)) (\<lambda>x. x\<lparr>ua_LastLogin := UnixNano now\<rparr>) s)"
proof -
  have "rf_Cmd (login_frame now' u pw) = CmdLogin" by (simp add: login_frame_def mk_frame_def)
  then show ?thesis using assms by (simp add: handleFrame_def handleLogin_def login_reply_def Let_def)
qed

lemma update_user_frame [simp]:
  "srv_conns (update_user n f s) = srv_conns s" "srv_cfg (update_user n f s) = srv_cfg s"
  by (simp_all add: update_user_def)

lemma write_next_single:
  assumes "srv_conns s cid = Some c" and "ch_buf (cl_sendCh c) = []" and "ch_cap (cl_sendCh c) = 256"
  shows "write_next cid (client_send cid f s) = Some (f, s)"
proof -
  have 1: "(chan_offer f (cl_sendCh c))\<lparr>ch_buf := []\<rparr> = cl_sendCh c" using assms(2) by (simp add: chan_offer_def)
  have 2: "(srv_conns s)(cid \<mapsto> c) = srv_conns s" using assms(1) by (simp add: fun_upd_idem)
  show ?thesis
    using assms by (simp add: write_next_def client_send_def chan_recv_def chan_offer_buf 1 2)
qed

lemma getUser_name: "getUserByUsername s n = Some user \<Longrightarrow> ua_Username user = n"
  by (auto simp: getUserByUsername_def find_row_def find_Some_iff)

lemma getUser_update:
  assumes "getUserByUsername s n = Some user" and "\<And>u. ua_Username (f u) = ua_Username u"
  shows "getUserByUsername (update_user n f s) n = Some (f user)"
proof -
  have "find (\<lambda>x. ua_Username x = n) (map (\<lambda>u. if ua_Username u = n then f u else u) us) = Some (f user)"
    if "find (\<lambda>x. ua_Username x = n) us = Some user" for us
    using that assms(2) by (induction us) (auto split: if_splits)
  then show ?thesis
    using assms(1) by (simp add: getUserByUsername_def find_row_def update_user_def update_where_def)
qed

lemma getUser_upgrade [simp]: "getUserByUsername (handleWSUpgrade cid s) n = getUserByUsername s n"
  by (simp add: getUserByUsername_def handleWSUpgrade_def)

lemma handleWSUpgrade_frame [simp]:
  "srv_cfg (handleWSUpgrade cid s) = srv_cfg s"
  "srv_conns (handleWSUpgrade cid s) cid = Some \<lparr>cl_id = cid, cl_peerID = zero_PeerID, cl_sendCh = make_chan 256,
     cl_authed = False, cl_username = ''''\<rparr>"
  by (simp_all add: handleWSUpgrade_def)

lemma dec_auth_frame:
  "unmarshal dec_auth (rf_Payload (auth_frame now r)) =
     Some \<lparr>ap_NodeID = pid_NodeID (sr_localID r), ap_Fingerprint = pid_Fingerprint (sr_localID r), ap_SignPub = [],
       ap_Signature = [], ap_Timestamp = UnixNano now,
       ap_Username = (if sr_token r = '''' then '''' else sr_username r), ap_Token = sr_token r\<rparr>"
  by (simp add: unmarshal_def auth_frame_def mk_frame_def auth_payload_def dec_auth_def fld_def lookup_last_append)

lemma PeerID_eta [simp]: "\<lparr>pid_NodeID = pid_NodeID p, pid_Fingerprint = pid_Fingerprint p\<rparr> = p"
  by simp

text \<open>A connection of a client that holds the token of an account authenticates as that account.\<close>

lemma token_authenticates:
  assumes "server_inv s" and "srv_conns s cid = Some c" and "ch_buf (cl_sendCh c) = []" and "int64_range now"
    and "getUserByUsername s (sr_username r) = Some user" and "sr_token r = generateToken hs (srv_cfg s) user"
    and "sr_token r \<noteq> ''''"
  shows "\<exists>c'. srv_conns (handleFrame hs now rnd cid (auth_frame now r) s) cid = Some c' \<and> cl_authed c' \<and>
    cl_peerID c' = sr_localID r \<and> cl_username c' = sr_username r \<and>
    (\<exists>rest. ch_buf (cl_sendCh c') = mk_frame CmdAuthOK None now # rest)"
proof -
  let ?u = "sr_username r" and ?p = "sr_localID r"
  have "isValidUsername (ua_Username user)"
    using assms(1,5) by (auto simp: server_inv_def users_ok_def getUserByUsername_def find_row_def find_Some_iff)
  then have "?u \<noteq> ''''" using getUser_name [OF assms(5)] by (auto simp: isValidUsername_def)
  let ?s1 = "set_username cid ?u (update_user ?u (\<lambda>u. u\<lparr>ua_NodeID := pid_NodeID ?p, ua_Fingerprint := pid_Fingerprint ?p\<rparr>) s)"
  have "rf_Cmd (auth_frame now r) = CmdAuth" by (simp add: auth_frame_def mk_frame_def)
  then have step: "handleFrame hs now rnd cid (auth_frame now r) s = accept_auth now cid ?p ?s1"
    using assms \<open>?u \<noteq> ''''\<close> by (simp add: handleFrame_def handleAuth_def dec_auth_frame validateToken_def Let_def)
  have inv: "server_inv ?s1" using assms(1) by (intro set_username_inv update_user_inv) simp_all
  have conn: "srv_conns ?s1 cid = Some (c\<lparr>cl_username := ?u\<rparr>)" using assms(2) by (simp add: set_username_def)
  show ?thesis
    using accept_auth_queue [OF inv conn, of now ?p] accept_auth_conn [OF inv conn, of now ?p] assms(3,4)
    by (auto simp: step)
qed

section \<open>Properties\<close>

text \<open>
  In every reachable state of the client the connection flag tells whether there is a connection,
  at most 512 frames wait to be sent and at most 64 responses are queued.
\<close>

theorem relay_client_invariant:
  assumes "relay_reachable r"
  shows "(Connected r \<longleftrightarrow> sr_conn r \<noteq> None) \<and> length (ch_buf (sr_sendCh r)) \<le> 512 \<and> length (ch_buf (sr_responseCh r)) \<le> 64"
  using relay_reachable_inv [OF assms] by (simp add: relay_inv_def Connected_def)

text \<open>
  Every frame that is read enters the response channel, also one that answers no request. If one
  other than an authentication result was read before \<open>Login\<close> is called, the login fails with the
  content of that frame, whatever the pumps do meanwhile and whatever the server answers, and
  the account data stay as they were.
\<close>

theorem pushed_frame_breaks_login:
  assumes "relay_reachable r" and "Connected r" and "length (ch_buf (sr_sendCh r)) < 512"
    and "ch_buf (sr_responseCh r) = []" and "rf_Cmd f \<noteq> CmdAuthOK"
  shows "\<exists>r'. Login now False (pump_run ps) OnResponse u pw (readPump_next (Some f) r) =
      Some (Inl (RequestFailed (rf_Payload f)), r') \<and>
    sr_token r' = sr_token r \<and> sr_username r' = sr_username r \<and> sr_registered r' = sr_registered r"
proof -
  have inv: "relay_inv r" using assms(1) by (rule relay_reachable_inv)
  let ?r1 = "readPump_next (Some f) r"
  let ?r2 = "offer_frame (login_frame now u pw) ?r1"
  have 1: "Connected ?r1" "length (ch_buf (sr_sendCh ?r1)) < ch_cap (sr_sendCh ?r1)" "ch_buf (sr_responseCh ?r2) = [f]"
    "same_account r ?r2"
    using inv assms(2-4) by (auto simp: relay_inv_def Connected_def readPump_next_def Let_def chan_simps offer_frame_def same_account_def)
  obtain gs where "ch_buf (sr_responseCh (pump_run ps ?r2)) = f # gs" and acc: "same_account ?r2 (pump_run ps ?r2)"
    using pump_run_extends [of ps ?r2] 1(3) by auto
  then have "await OnResponse (pump_run ps ?r2) =
    Some (Inr f, (pump_run ps ?r2)\<lparr>sr_responseCh := (sr_responseCh (pump_run ps ?r2))\<lparr>ch_buf := gs\<rparr>\<rparr>)"
    by (simp add: await_def chan_recv_def)
  then show ?thesis
    using assms(5) acc 1(4) by (simp add: Login_def request_room [OF 1(1,2)] auth_result_def same_account_def)
qed

text \<open>
  C12: Logging in at the relay server. The client calls \<open>Login\<close> with the credentials of an account while
  no frame is queued in either direction; the write pump sends the request, the server handles it
  and writes its reply, the read pump reads it. Then \<open>Login\<close> succeeds, the client holds the token
  of the account, and the authentication frame of its next connection, at any time, is accepted:
  the server knows the new connection under the client's peer ID and the account's name and
  its first reply is the success.
\<close>

theorem login_then_reconnect:
  assumes "server_reachable cfg s" and "srv_conns s cid = Some c" and "ch_buf (cl_sendCh c) = []"
    and "getUserByUsername s (TrimSpace (ToLower u)) = Some user"
    and "checkPassword hs (ua_PasswordHash user) (ua_Salt user) pw" and "generateToken hs (srv_cfg s) user \<noteq> ''''"
    and "relay_reachable r" and "Connected r" and "ch_buf (sr_sendCh r) = []" and "ch_buf (sr_responseCh r) = []"
    and "int64_range now'"
  shows "\<exists>reply s2 r'. write_next cid (handleFrame hs now rnd cid (login_frame now u pw) s) = Some (reply, s2) \<and>
    Login now False (pump_run [PumpWrite True, PumpRead (Some reply)]) OnResponse u pw r = Some (Inr reply, r') \<and>
    sr_written r' = sr_written r @ [login_frame now u pw] \<and>
    sr_token r' = generateToken hs (srv_cfg s) user \<and>
    (srv_conns s2 cid' = None \<longrightarrow>
      (\<exists>c'. srv_conns (handleFrame hs now' rnd cid' (auth_frame now' r') (handleWSUpgrade cid' s2)) cid' = Some c' \<and>
         cl_authed c' \<and> cl_peerID c' = sr_localID r \<and> cl_username c' = ua_Username user \<and>
         (\<exists>rest. ch_buf (cl_sendCh c') = mk_frame CmdAuthOK None now' # rest)))"
proof -
  let ?n = "TrimSpace (ToLower u)" and ?f = "\<lambda>x. x\<lparr>ua_LastLogin := UnixNano now\<rparr>"
  let ?reply = "login_reply hs (srv_cfg s) now user" and ?s2 = "update_user ?n ?f s"
  let ?r2 = "pump_run [PumpWrite True, PumpRead (Some ?reply)] (offer_frame (login_frame now u pw) r)"
  let ?r' = "take_token ?reply (?r2\<lparr>sr_responseCh := (sr_responseCh ?r2)\<lparr>ch_buf := []\<rparr>\<rparr>)"
  have sinv: "server_inv s" using assms(1) by (rule server_reachable_inv)
  have rinv: "relay_inv r" using assms(7) by (rule relay_reachable_inv)
  have cap: "ch_cap (cl_sendCh c) = 256" using sinv assms(2) by (auto simp: server_inv_def conns_ok_def)
  have wn: "write_next cid (handleFrame hs now rnd cid (login_frame now u pw) s) = Some (?reply, ?s2)"
    using write_next_single [OF _ assms(3) cap] assms(2) by (simp add: handleFrame_login [OF assms(2,4,5)])
  have buf: "ch_buf (sr_responseCh ?r2) = [?reply]" and rest: "sr_localID ?r2 = sr_localID r" "sr_written ?r2 = sr_written r @ [login_frame now u pw]"
    using rinv assms(8-10)
    by (auto simp: pump_run_def offer_frame_def writePump_next_def readPump_next_def chan_recv_def chan_simps Let_def
        relay_inv_def Connected_def)
  have ok: "rf_Cmd ?reply = CmdAuthOK" by (simp add: login_reply_def mk_frame_def)
  have "length (ch_buf (sr_sendCh r)) < ch_cap (sr_sendCh r)" using rinv assms(9) by (simp add: relay_inv_def)
  then have login: "Login now False (pump_run [PumpWrite True, PumpRead (Some ?reply)]) OnResponse u pw r = Some (Inr ?reply, ?r')"
    using buf ok assms(8) by (simp add: Login_def request_room await_def chan_recv_def auth_result_def)
  have r': "sr_token ?r' = generateToken hs (srv_cfg s) user" "sr_username ?r' = ua_Username user"
    "sr_localID ?r' = sr_localID r" "sr_written ?r' = sr_written r @ [login_frame now u pw]"
    using rest by (simp_all add: take_token_def string_map_def login_reply_def mk_frame_def jsonMsg_def)
  have name: "ua_Username user = ?n" using assms(4) by (rule getUser_name)
  have "\<exists>c'. srv_conns (handleFrame hs now' rnd cid' (auth_frame now' ?r') (handleWSUpgrade cid' ?s2)) cid' = Some c' \<and>
         cl_authed c' \<and> cl_peerID c' = sr_localID r \<and> cl_username c' = ua_Username user \<and>
         (\<exists>rest. ch_buf (cl_sendCh c') = mk_frame CmdAuthOK None now' # rest)" if "srv_conns ?s2 cid' = None"
  proof -
    have inv2: "server_inv (handleWSUpgrade cid' ?s2)"
      using connect_inv [of ?s2 cid'] that update_user_inv [OF sinv] by simp
    have user2: "getUserByUsername (handleWSUpgrade cid' ?s2) (sr_username ?r') = Some (?f user)"
      using getUser_update [OF assms(4), of ?f] by (simp add: r'(2) name)
    have tok: "sr_token ?r' = generateToken hs (srv_cfg (handleWSUpgrade cid' ?s2)) (?f user)"
      unfolding r'(1) by (simp add: generateToken_def)
    show ?thesis
      using token_authenticates [OF inv2 handleWSUpgrade_frame(2) _ assms(11) user2 tok, of rnd] assms(6) r' by simp
  qed
  then show ?thesis
    using wn login r'(1,4) by (intro exI [of _ ?reply] exI [of _ ?s2] exI [of _ ?r'] conjI impI)
qed

section \<open>Witnesses\<close>

definition demo_relay :: serverRelay where
  "demo_relay = snd (Connect (\<lambda>_ _. Some (mk_frame CmdAuthOK None 0)) 0 (newServerRelay [''host:1''] demo_pid))"

lemma demo_relay_reachable: "relay_reachable demo_relay"
  unfolding demo_relay_def by (rule relay_more [OF relay_start relay_step.intros(2)])

lemma demo_relay_simps [simp]:
  "Connected demo_relay" "ch_buf (sr_sendCh demo_relay) = []" "ch_buf (sr_responseCh demo_relay) = []"
  "sr_localID demo_relay = demo_pid" "sr_token demo_relay = ''''"
  by (simp_all add: demo_relay_def Connect_def newServerRelay_def dial_def mk_frame_def Connected_def)

text \<open>A message relayed to the client before it logs in.\<close>

definition demo_push :: frame where
  "demo_push = mk_frame CmdRelay (Some (enc_Message demo_json_message)) 0"

theorem relay_client_invariant_witness: "sr_conn demo_relay \<noteq> None"
  using relay_client_invariant [OF demo_relay_reachable] by simp

theorem pushed_frame_breaks_login_witness:
  "\<exists>r'. Login 0 False (pump_run [PumpWrite True, PumpRead (Some (mk_frame CmdAuthOK (Some (jsonMsg [(''token'', ''t'')])) 0))])
     OnResponse ''alice'' ''hunter2'' (readPump_next (Some demo_push) demo_relay) =
       Some (Inl (RequestFailed (Some (enc_Message demo_json_message))), r') \<and> sr_token r' = ''''"
  using pushed_frame_breaks_login [OF demo_relay_reachable, of demo_push] by (simp add: demo_push_def mk_frame_def) blast

definition demo_accounts :: Server where
  "demo_accounts = snd (handleHTTPRegister demo_hashes 5 [1] ''POST'' (Some demo_credentials) demo_server)"

definition demo_request :: register_req where
  "demo_request = \<lparr>rq_Username = ''Alice'', rq_Password = ''hunter2'', rq_Nickname = '''', rq_Bio = '''', rq_AvatarPath = ''''\<rparr>"

definition demo_account :: UserAccount where
  "demo_account = new_user demo_hashes 5 [1] ''alice'' demo_request"

lemma demo_accounts_facts:
  "server_reachable demo_cfg demo_accounts" "srv_conns demo_accounts ''c1'' = Some demo_conn"
  "getUserByUsername demo_accounts (TrimSpace (ToLower ''Alice'')) = Some demo_account"
  "srv_conns demo_accounts ''c2'' = None"
proof -
  show "server_reachable demo_cfg demo_accounts"
    unfolding demo_accounts_def by (rule srv_more [OF demo_server_reachable srv_http_register])
  have a: "char_of (97 :: nat) = CHR ''a''" by code_simp
  have eq: "demo_accounts = demo_server\<lparr>srv_users := [demo_account]\<rparr>"
    by (simp add: demo_accounts_def demo_account_def demo_request_def handleHTTPRegister_def unmarshal_def demo_credentials_def
        dec_register_def fld_def Let_def ToLower_def ascii_lower_def TrimSpace_def is_space_def isValidUsername_def
        username_char_def getUserByUsername_def find_row_def insert_user_def demo_server_def handleWSUpgrade_def NewServer_def a)
  show "srv_conns demo_accounts ''c1'' = Some demo_conn" by (simp add: eq demo_server_conn)
  show "srv_conns demo_accounts ''c2'' = None" by (simp add: eq demo_server_def handleWSUpgrade_def NewServer_def)
  show "getUserByUsername demo_accounts (TrimSpace (ToLower ''Alice'')) = Some demo_account"
    by (simp add: eq getUserByUsername_def find_row_def ToLower_def ascii_lower_def TrimSpace_def is_space_def demo_account_def a)
qed

lemma demo_account_facts:
  "checkPassword demo_hashes (ua_PasswordHash demo_account) (ua_Salt demo_account) ''hunter2''"
  "generateToken demo_hashes cfg demo_account \<noteq> ''''"
proof -
  show "checkPassword demo_hashes (ua_PasswordHash demo_account) (ua_Salt demo_account) ''hunter2''"
    by (simp add: demo_account_def new_user_def demo_request_def hashPassword_def checkPassword_def Let_def)
  have "length (generateToken demo_hashes cfg demo_account) = 64"
    by (simp add: generateToken_def demo_hashes_def Let_def)
  then show "generateToken demo_hashes cfg demo_account \<noteq> ''''" by auto
qed

theorem login_then_reconnect_witness:
  "\<exists>reply s2 r'. write_next ''c1'' (handleFrame demo_hashes 9 [] ''c1'' (login_frame 9 ''Alice'' ''hunter2'') demo_accounts) = Some (reply, s2) \<and>
    Login 9 False (pump_run [PumpWrite True, PumpRead (Some reply)]) OnResponse ''Alice'' ''hunter2'' demo_relay = Some (Inr reply, r') \<and>
    sr_token r' \<noteq> ''''"
  using login_then_reconnect [OF demo_accounts_facts(1,2) _ demo_accounts_facts(3) demo_account_facts(1) demo_account_facts(2)
      demo_relay_reachable, of 0 9 "[]" "''c2''"] demo_account_facts(2)
  by (simp add: demo_conn_def int64_range_def) metis

end
