(* ===== verification/Transport.thy ===== *)
theory Transport
  imports Wire Event_Bus
begin

text \<open>
  The ZeroTier transport: \<^verbatim>\<open>transport/zerotier.go\<close>, \<^verbatim>\<open>transport/zt_events.go\<close> and the stub without
  cgo, \<^verbatim>\<open>transport/stub.go\<close>. The state is the record \<open>ZTTransport\<close>: identity, joined networks, the peer
  table, the 1024-slot receive channel and the UDP socket, with a log of the datagrams written
  and of the events published. libzt and the operating system are the argument \<open>zts\<close>. The
  locking of \<open>Stop\<close> and \<open>recvLoop\<close> is a separate two-thread transition system, because the calls
  of the first model are atomic. Waiting for the node to come online, deadlines and logging are
  not modelled; Go's unspecified map order when a network is picked is the order of the list.

  Results: a datagram that one transport sends to another arrives as the same packet under the
  sender's node ID; over the IPv4 fallback only sixteen bits of the ID survive; stopping can block
  for ever on the receive loop; a transport that is started again cannot be stopped again.
\<close>

section \<open>Definitions\<close>

unbundle bit_operations_syntax

subsection \<open>State\<close>

record zts =
  zts_init_from_storage :: bool
  zts_identity_public :: "string option"
  zts_node_is_online :: bool
  zts_net_join :: "64 word \<Rightarrow> bool"
  zts_net_leave :: "64 word \<Rightarrow> bool"
  zts_addr_rfc4193 :: "64 word \<Rightarrow> 64 word \<Rightarrow> bytes option"
  zts_addr_get :: "64 word \<Rightarrow> bytes option"
  zts_query_path_count :: "64 word \<Rightarrow> nat"
  zts_ListenUDP :: "nat \<Rightarrow> bool"
  zts_WriteToUDP :: "bytes \<Rightarrow> bytes \<Rightarrow> bool"

record peerEntry =
  pe_NodeID :: NodeID
  pe_VirtualIP :: bytes
  pe_LastSeen :: gotime
  pe_Latency :: int

datatype udp_conn = NoConn | OpenConn | ClosedConn

record ZTTransport =
  zt_cfg :: Config
  zt_nodeID :: NodeID
  zt_networks :: "NetworkID list"
  zt_peers :: "NodeID \<Rightarrow> peerEntry option"
  zt_recvCh :: "IncomingPacket chan"
  zt_conn :: udp_conn
  zt_started :: bool
  zt_stopped :: bool
  zt_eventBus :: bool
  zt_written :: "(bytes \<times> nat \<times> bytes) list"
  zt_events :: "NodeID option Event list"

datatype transport_error = AlreadyStarted | InitFailed | InvalidNetworkID | JoinFailed | LeaveFailed
  | UnknownPeer | WriteFailed | TimedOut | NotAvailable

definition NewZTTransport :: "Config \<Rightarrow> ZTTransport" where
  "NewZTTransport cfg = \<lparr>zt_cfg = cfg, zt_nodeID = '''', zt_networks = [], zt_peers = (\<lambda>_. None),
     zt_recvCh = make_chan 1024, zt_conn = NoConn, zt_started = False, zt_stopped = False,
     zt_eventBus = False, zt_written = [], zt_events = []\<rparr>"

subsection \<open>Starting and stopping\<close>

definition readNodeIDFromFile :: "string option \<Rightarrow> string" where
  "readNodeIDFromFile data =
     (case data of None \<Rightarrow> '''' | Some s \<Rightarrow> takeWhile (\<lambda>c. c \<noteq> CHR '':'') (TrimSpace s))"

definition ZT_Start :: "zts \<Rightarrow> ZTTransport \<Rightarrow> transport_error option \<times> ZTTransport" where
  "ZT_Start z t =
     (if zt_started t then (Some AlreadyStarted, t)
      else if \<not> zts_init_from_storage z then (Some InitFailed, t)
      else let nodeID = readNodeIDFromFile (zts_identity_public z);
               t1 = (if nodeID \<noteq> '''' then t\<lparr>zt_nodeID := nodeID\<rparr> else t)
           in (None, t1\<lparr>zt_started := True\<rparr>))"

definition joinNetworkLocked :: "zts \<Rightarrow> NetworkID \<Rightarrow> ZTTransport \<Rightarrow> transport_error option \<times> ZTTransport" where
  "joinNetworkLocked z nid t =
     (case parseNetworkID nid of
        None \<Rightarrow> (Some InvalidNetworkID, t)
      | Some nwid \<Rightarrow>
          if \<not> zts_net_join z nwid then (Some JoinFailed, t)
          else (None, t\<lparr>zt_networks := List.insert nid (zt_networks t)\<rparr>))"

definition startNetworking :: "zts \<Rightarrow> ZTTransport \<Rightarrow> ZTTransport" where
  "startNetworking z t =
     (if \<not> zts_node_is_online z then t
      else let t1 = fold (\<lambda>nid t. snd (joinNetworkLocked z nid t)) (cfg_Networks (zt_cfg t)) t
           in if zts_ListenUDP z (unat (cfg_ListenPort (zt_cfg t1))) \<or> zts_ListenUDP z 0
              then t1\<lparr>zt_conn := OpenConn\<rparr> else t1)"

text \<open>\<open>Stop\<close> closes \<open>stopCh\<close>, which a restart does not replace: a panic the second time.\<close>

definition ZT_Stop :: "ZTTransport \<Rightarrow> panic + ZTTransport" where
  "ZT_Stop t =
     (if \<not> zt_started t then Inr t
      else if zt_stopped t then Inl CloseOfClosedChannel
      else Inr (t\<lparr>zt_stopped := True, zt_conn := (if zt_conn t = NoConn then NoConn else ClosedConn),
                  zt_started := False\<rparr>))"

subsection \<open>Networks\<close>

definition ZT_JoinNetwork :: "zts \<Rightarrow> NetworkID \<Rightarrow> ZTTransport \<Rightarrow> transport_error option \<times> ZTTransport" where
  "ZT_JoinNetwork z nid t = joinNetworkLocked z nid t"

definition ZT_LeaveNetwork :: "zts \<Rightarrow> NetworkID \<Rightarrow> ZTTransport \<Rightarrow> transport_error option \<times> ZTTransport" where
  "ZT_LeaveNetwork z nid t =
     (case parseNetworkID nid of
        None \<Rightarrow> (Some InvalidNetworkID, t)
      | Some nwid \<Rightarrow>
          if \<not> zts_net_leave z nwid then (Some LeaveFailed, t)
          else (None, t\<lparr>zt_networks := removeAll nid (zt_networks t)\<rparr>))"

text \<open>\<open>strconv.ParseUint\<close> in base 16 with 64 bits.\<close>

fun hex_digits :: "nat \<Rightarrow> string \<Rightarrow> nat option" where
  "hex_digits v [] = Some v"
| "hex_digits v (c # s) = (case hex_value c of None \<Rightarrow> None | Some d \<Rightarrow> hex_digits (v * 16 + d) s)"

definition ParseUint_16 :: "string \<Rightarrow> 64 word option" where
  "ParseUint_16 s =
     (if s = '''' then None
      else case hex_digits 0 s of None \<Rightarrow> None | Some v \<Rightarrow> if v < 2 ^ 64 then Some (of_nat v) else None)"

text \<open>The answers of libzt to the polls made before the deadline are the argument.\<close>

definition GetManagedIP :: "bytes option list \<Rightarrow> NetworkID \<Rightarrow> transport_error + bytes" where
  "GetManagedIP polls networkID =
     (case ParseUint_16 networkID of
        None \<Rightarrow> Inl InvalidNetworkID
      | Some _ \<Rightarrow> (case find (\<lambda>a. a \<noteq> None) polls of Some (Some ip) \<Rightarrow> Inr ip | _ \<Rightarrow> Inl TimedOut))"

subsection \<open>Sending\<close>

definition resolveNodeIP :: "zts \<Rightarrow> NodeID \<Rightarrow> ZTTransport \<Rightarrow> bytes option" where
  "resolveNodeIP z to t =
     (case parseNodeID to of
        None \<Rightarrow> None
      | Some nid \<Rightarrow>
          (case zt_networks t of
             [] \<Rightarrow> None
           | netID # _ \<Rightarrow>
               if netID = '''' then None
               else (case parseNetworkID netID of
                  None \<Rightarrow> None
                | Some nwid \<Rightarrow>
                    (case zts_addr_rfc4193 z nwid nid of
                       Some ip \<Rightarrow> Some ip
                     | None \<Rightarrow>
                         (case zts_addr_get z nwid of
                            None \<Rightarrow> None
                          | Some localIP \<Rightarrow>
                              (case To4 localIP of
                                 None \<Rightarrow> None
                               | Some ip4 \<Rightarrow>
                                   Some [ip4 ! 0, ip4 ! 1, ucast (drop_bit 8 nid AND 0xFF), ucast (nid AND 0xFF)])))))) "

definition write_datagram :: "zts \<Rightarrow> bytes \<Rightarrow> bytes \<Rightarrow> ZTTransport \<Rightarrow> transport_error option \<times> ZTTransport" where
  "write_datagram z ip raw t =
     (if zt_conn t = OpenConn \<and> zts_WriteToUDP z ip raw
      then (None, t\<lparr>zt_written := zt_written t @ [(ip, unat (cfg_ListenPort (zt_cfg t)), raw)]\<rparr>)
      else (Some WriteFailed, t))"

definition ZT_Send :: "zts \<Rightarrow> gotime \<Rightarrow> NodeID \<Rightarrow> Packet \<Rightarrow> ZTTransport \<Rightarrow> transport_error option \<times> ZTTransport" where
  "ZT_Send z now to pkt t =
     (case zt_peers t to of
        Some peer \<Rightarrow> write_datagram z (pe_VirtualIP peer) (marshalPacket pkt) t
      | None \<Rightarrow>
          (case resolveNodeIP z to t of
             None \<Rightarrow> (Some UnknownPeer, t)
           | Some ip \<Rightarrow>
               let peer = \<lparr>pe_NodeID = to, pe_VirtualIP = ip, pe_LastSeen = now, pe_Latency = 0\<rparr>
               in write_datagram z ip (marshalPacket pkt) (t\<lparr>zt_peers := (zt_peers t)(to \<mapsto> peer)\<rparr>)))"

definition ZT_Broadcast :: "zts \<Rightarrow> NetworkID \<Rightarrow> Packet \<Rightarrow> ZTTransport \<Rightarrow> transport_error option \<times> ZTTransport" where
  "ZT_Broadcast z network pkt t = write_datagram z (replicate 10 0 @ [0xFF, 0xFF] @ replicate 4 0xFF) (marshalPacket pkt) t"

definition PeerReachable :: "zts \<Rightarrow> NodeID \<Rightarrow> bool" where
  "PeerReachable z nodeID = (case parseNodeID nodeID of None \<Rightarrow> False | Some nid \<Rightarrow> zts_query_path_count z nid > 0)"

subsection \<open>Receiving\<close>

text \<open>
  One round of \<open>recvLoop\<close> that reads a datagram from an address. The buffer has 65507 bytes; the
  rest of a longer datagram is lost. A malformed datagram changes nothing.
\<close>

definition maxPktSize :: nat where
  "maxPktSize = 65507"

definition recv_datagram :: "gotime \<Rightarrow> bytes \<Rightarrow> bytes \<Rightarrow> ZTTransport \<Rightarrow> ZTTransport" where
  "recv_datagram now ip data t =
     (if zt_stopped t \<or> zt_conn t \<noteq> OpenConn then t
      else case unmarshalPacket (take maxPktSize data) of
          Inl _ \<Rightarrow> t
        | Inr pkt \<Rightarrow>
            let fromNode = Sprintf_0x 10 (unat (nodeIDFromIP ip));
                pe = (case zt_peers t fromNode of
                        Some pe \<Rightarrow> pe\<lparr>pe_LastSeen := now\<rparr>
                      | None \<Rightarrow> \<lparr>pe_NodeID = fromNode, pe_VirtualIP = ip, pe_LastSeen = now, pe_Latency = 0\<rparr>)
            in t\<lparr>zt_peers := (zt_peers t)(fromNode \<mapsto> pe),
                 zt_recvCh := chan_offer \<lparr>ip_From = fromNode, ip_Pkt = pkt, ip_ReceivedAt = now\<rparr> (zt_recvCh t)\<rparr>)"

subsection \<open>Events of libzt\<close>

definition publish_zt :: "string \<Rightarrow> gotime \<Rightarrow> NodeID option \<Rightarrow> ZTTransport \<Rightarrow> ZTTransport" where
  "publish_zt ty now d t = t\<lparr>zt_events := zt_events t @ [\<lparr>evt_Type = ty, evt_Timestamp = now, evt_Data = d\<rparr>]\<rparr>"

definition SetEventBus :: "ZTTransport \<Rightarrow> ZTTransport" where
  "SetEventBus t = t\<lparr>zt_eventBus := True\<rparr>"

definition goZTNodeEvent :: "gotime \<Rightarrow> int \<Rightarrow> ZTTransport \<Rightarrow> ZTTransport" where
  "goZTNodeEvent now eventCode t =
     (if \<not> zt_eventBus t then t
      else if eventCode = 202 then publish_zt ''network.left'' now None t else t)"

definition goZTNetworkEvent :: "gotime \<Rightarrow> int \<Rightarrow> ZTTransport \<Rightarrow> ZTTransport" where
  "goZTNetworkEvent now eventCode t =
     (if \<not> zt_eventBus t then t
      else if eventCode = 215 \<or> eventCode = 216 then publish_zt ''network.joined'' now None t
      else if eventCode = 217 then publish_zt ''network.left'' now None t
      else t)"

definition goZTPeerEvent :: "gotime \<Rightarrow> int \<Rightarrow> 64 word option \<Rightarrow> ZTTransport \<Rightarrow> ZTTransport" where
  "goZTPeerEvent now eventCode metaData t =
     (if \<not> zt_eventBus t then t
      else case metaData of
          None \<Rightarrow> t
        | Some peer_id \<Rightarrow>
            if eventCode = 220 then publish_zt ''peer.online'' now (Some (nodeIDHex peer_id)) t
            else if eventCode = 222 then publish_zt ''peer.offline'' now (Some (nodeIDHex peer_id)) t
            else t)"

subsection \<open>The stub\<close>

record stub_transport =
  st_recvCh :: "IncomingPacket chan"

definition New_stub :: stub_transport where
  "New_stub = \<lparr>st_recvCh = make_chan 64\<rparr>"

definition stub_NodeID :: "stub_transport \<Rightarrow> NodeID" where
  "stub_NodeID t = ''0000000000''"

definition stub_Send :: "NodeID \<Rightarrow> Packet \<Rightarrow> stub_transport \<Rightarrow> transport_error option" where
  "stub_Send to pkt t = Some NotAvailable"

definition stub_JoinNetwork :: "NetworkID \<Rightarrow> stub_transport \<Rightarrow> transport_error option" where
  "stub_JoinNetwork nid t = Some NotAvailable"

subsection \<open>Locking of Stop and of the receive loop\<close>

text \<open>
  \<open>Stop\<close> holds the mutex from its first line to its return: it closes \<open>stopCh\<close> and the socket and
  waits for the loop. The loop tests \<open>stopCh\<close>, reads, and takes the mutex to update the peer table.
\<close>

datatype stop_pc = StopIdle | StopLocked | StopWaiting | StopDone
datatype loop_pc = LoopTest | LoopRead | LoopHavePacket | LoopLocked | LoopDone

record lock_state =
  ls_stop :: stop_pc
  ls_loop :: loop_pc
  ls_stopCh_closed :: bool

definition mutex_free :: "lock_state \<Rightarrow> bool" where
  "mutex_free s = (ls_stop s \<in> {StopIdle, StopDone} \<and> ls_loop s \<noteq> LoopLocked)"

inductive lock_step :: "lock_state \<Rightarrow> lock_state \<Rightarrow> bool" where
  stop_lock: "ls_stop s = StopIdle \<Longrightarrow> mutex_free s \<Longrightarrow> lock_step s (s\<lparr>ls_stop := StopLocked\<rparr>)"
| stop_close: "ls_stop s = StopLocked \<Longrightarrow> lock_step s (s\<lparr>ls_stop := StopWaiting, ls_stopCh_closed := True\<rparr>)"
| stop_joined: "ls_stop s = StopWaiting \<Longrightarrow> ls_loop s = LoopDone \<Longrightarrow> lock_step s (s\<lparr>ls_stop := StopDone\<rparr>)"
| loop_exit: "ls_loop s = LoopTest \<Longrightarrow> ls_stopCh_closed s \<Longrightarrow> lock_step s (s\<lparr>ls_loop := LoopDone\<rparr>)"
| loop_go_on: "ls_loop s = LoopTest \<Longrightarrow> \<not> ls_stopCh_closed s \<Longrightarrow> lock_step s (s\<lparr>ls_loop := LoopRead\<rparr>)"
| loop_nothing: "ls_loop s = LoopRead \<Longrightarrow> lock_step s (s\<lparr>ls_loop := LoopTest\<rparr>)"
| loop_packet: "ls_loop s = LoopRead \<Longrightarrow> \<not> ls_stopCh_closed s \<Longrightarrow> lock_step s (s\<lparr>ls_loop := LoopHavePacket\<rparr>)"
| loop_lock: "ls_loop s = LoopHavePacket \<Longrightarrow> mutex_free s \<Longrightarrow> lock_step s (s\<lparr>ls_loop := LoopLocked\<rparr>)"
| loop_unlock: "ls_loop s = LoopLocked \<Longrightarrow> lock_step s (s\<lparr>ls_loop := LoopTest\<rparr>)"

definition lock_init :: lock_state where
  "lock_init = \<lparr>ls_stop = StopIdle, ls_loop = LoopTest, ls_stopCh_closed = False\<rparr>"

section \<open>Lemmas\<close>

subsection \<open>Addresses\<close>

lemma or_byte: "push_bit 8 (of_nat v :: 64 word) OR ucast (b :: byte) = of_nat (v * 256 + unat b)"
proof -
  have "push_bit 8 (of_nat v) + ucast b = push_bit 8 (of_nat v) OR (ucast b :: 64 word)"
    by (rule disjunctive_add) (auto simp: bit_simps dest: bit_imp_le_length)
  moreover have "(ucast b :: 64 word) = of_nat (unat b)" by simp
  ultimately show ?thesis by (simp add: push_bit_eq_mult del: of_nat_unat)
qed

lemma nodeID_bytes:
  assumes "length bs = 5"
  shows "push_bit 32 (ucast (bs ! 0)) OR push_bit 24 (ucast (bs ! 1)) OR push_bit 16 (ucast (bs ! 2)) OR
    push_bit 8 (ucast (bs ! 3)) OR ucast (bs ! 4) = (GetUint bs :: 64 word)"
proof -
  obtain a b c d e where bs: "bs = [a, b, c, d, e]"
    using assms by (auto simp: length_Suc_conv numeral_eq_Suc)
  have 0: "(ucast a :: 64 word) = of_nat (unat a)" by simp
  have "push_bit 32 (ucast a :: 64 word) OR push_bit 24 (ucast b) OR push_bit 16 (ucast c) OR push_bit 8 (ucast d) OR ucast e =
    push_bit 8 (push_bit 8 (push_bit 8 (push_bit 8 (ucast a) OR ucast b) OR ucast c) OR ucast d) OR ucast e"
    by (simp add: push_bit_or or.assoc)
  also have "\<dots> = GetUint bs" unfolding 0 or_byte by (simp add: GetUint_def get_be_def bs del: of_nat_add of_nat_mult)
  finally show ?thesis by (simp add: bs)
qed

text \<open>The documented layout of ZeroTier's RFC 4193 addresses: the node ID is in the last five bytes.\<close>

definition rfc4193_law :: "zts \<Rightarrow> bool" where
  "rfc4193_law z = (\<forall>nwid nid. zts_addr_rfc4193 z nwid nid = Some (0xFD # PutUint nwid @ [0x99, 0x93] @ put_be 5 (unat nid)))"

lemma nodeIDFromIP_rfc4193:
  assumes "unat nid < 2 ^ 40"
  shows "nodeIDFromIP (0xFD # PutUint (nwid :: 64 word) @ [0x99, 0x93] @ put_be 5 (unat nid)) = nid"
proof -
  let ?ip = "0xFD # PutUint (nwid :: 64 word) @ [0x99, 0x93] @ put_be 5 (unat nid)"
  have len: "length ?ip = 16" by simp
  have "take 12 ?ip ! 0 = (0xFD :: byte)" "(replicate 10 0 @ [0xFF, 0xFF]) ! 0 = (0 :: byte)"
    by (simp, simp add: nth_append)
  moreover have "(0xFD :: byte) \<noteq> 0" by simp
  ultimately have "take 12 ?ip \<noteq> replicate 10 0 @ [0xFF, 0xFF]" by metis
  then have no4: "To4 ?ip = None" using len by (simp only: To4_def) simp
  have d: "?ip ! (11 + k) = put_be 5 (unat nid) ! k" for k by (simp add: nth_append)
  have "get_be (put_be 5 (unat nid)) = unat nid" using assms by (intro get_be_put_be) simp
  then have "(GetUint (put_be 5 (unat nid)) :: 64 word) = nid" by (simp add: GetUint_def)
  then show ?thesis
    using no4 len d [of 0] d [of 1] d [of 2] d [of 3] d [of 4] nodeID_bytes [of "put_be 5 (unat nid)"]
    by (simp only: nodeIDFromIP_def option.case if_True refl) (simp del: put_be.simps)
qed

lemma parse_nodeIDHex: "unat nid < 2 ^ 40 \<Longrightarrow> parseNodeID (nodeIDHex nid) = Some nid"
  using Sprintf_parse [of 10 "unat nid"] by (simp add: parseNodeID_def nodeIDHex_def)

lemma resolve_rfc4193:
  assumes "rfc4193_law z" and "unat nid < 2 ^ 40" and "zt_networks t = nw # nws" and "parseNetworkID nw = Some nwid"
  shows "resolveNodeIP z (nodeIDHex nid) t = Some (0xFD # PutUint nwid @ [0x99, 0x93] @ put_be 5 (unat nid))"
proof -
  have "nw \<noteq> ''''" using assms(4) by (auto simp: parseNetworkID_def)
  then show ?thesis
    using assms unfolding resolveNodeIP_def parse_nodeIDHex [OF assms(2)] rfc4193_law_def by simp
qed

lemma fallback_identity:
  "nodeIDFromIP [a, b, ucast (drop_bit 8 nid AND 0xFF), ucast (nid AND 0xFF)] = (nid AND 0xFFFF :: 64 word)"
proof -
  have ff: "(0xFF :: 64 word) = mask 8" "(0xFFFF :: 64 word) = mask 16" by (simp_all add: mask_eq_exp_minus_1)
  have "push_bit 8 (ucast (ucast (drop_bit 8 nid AND mask 8 :: 64 word) :: byte)) OR ucast (ucast (nid AND mask 8) :: byte) = nid AND mask 16"
    by (rule bit_word_eqI) (auto simp: bit_simps)
  then show ?thesis by (simp add: nodeIDFromIP_def To4_def ff)
qed

subsection \<open>Datagrams\<close>

lemma recv_accepted:
  assumes "wf_packet pkt" and "pkt_Magic pkt = PacketMagic" and "pkt_Version pkt = PacketVersion"
    and "length (marshalPacket pkt) \<le> maxPktSize"
  shows "unmarshalPacket (take maxPktSize (marshalPacket pkt)) = Inr pkt"
  using unmarshal_marshal_aux [of pkt "[]"] assms by (simp add: length_marshalPacket maxPktSize_def)

subsection \<open>Locks\<close>

lemma lock_stuck:
  "(\<exists>s'. lock_step s s') \<longleftrightarrow> ls_stop s = StopIdle \<and> mutex_free s \<or> ls_stop s = StopLocked \<or>
     ls_stop s = StopWaiting \<and> ls_loop s = LoopDone \<or> ls_loop s \<in> {LoopTest, LoopRead, LoopLocked} \<or>
     ls_loop s = LoopHavePacket \<and> mutex_free s" (is "?L \<longleftrightarrow> ?R")
proof
  assume ?L
  then obtain s' where "lock_step s s'" by blast
  then show ?R by cases simp_all
next
  assume ?R
  then show ?L by (cases "ls_stopCh_closed s") (auto intro: lock_step.intros)
qed

definition lock_ok :: "lock_state \<Rightarrow> bool" where
  "lock_ok s = ((ls_stop s \<in> {StopLocked, StopWaiting} \<longrightarrow> ls_loop s \<noteq> LoopLocked) \<and>
    (ls_stopCh_closed s \<longleftrightarrow> ls_stop s \<in> {StopWaiting, StopDone}) \<and> (ls_stop s = StopDone \<longrightarrow> ls_loop s = LoopDone) \<and>
    (ls_loop s = LoopDone \<longrightarrow> ls_stopCh_closed s))"

lemma lock_step_ok: "lock_step s s' \<Longrightarrow> lock_ok s \<Longrightarrow> lock_ok s'"
  by (induction rule: lock_step.induct) (simp_all add: lock_ok_def mutex_free_def, blast+)

interpretation locks: safe_system lock_step lock_ok
  by unfold_locales (rule lock_step_ok)

lemma lock_reachable_ok: "lock_step\<^sup>*\<^sup>* lock_init s \<Longrightarrow> lock_ok s"
  by (erule locks.run_inv) (simp add: lock_ok_def lock_init_def)

section \<open>Properties\<close>

text \<open>
  C19: A datagram from one node to another. Two nodes have addresses in the same network, the first
  does not know the second yet, and both sockets are open. What \<open>Send\<close> writes is addressed to the
  second node; received there from the address of the first, it is queued as the same packet
  under the node ID of the first; and when the second node did not know the first before, an
  answer sent to that ID goes to the address the packet came from.
\<close>

theorem datagram_delivery:
  assumes "rfc4193_law z" and "\<forall>ip raw. zts_WriteToUDP z ip raw" and "unat nA < 2 ^ 40" and "unat nB < 2 ^ 40"
    and "zt_networks A = nw # nws" and "parseNetworkID nw = Some nwid" and "zt_peers A (nodeIDHex nB) = None"
    and "zt_conn A = OpenConn" and "zt_conn B = OpenConn" and "\<not> zt_stopped B"
    and "length (ch_buf (zt_recvCh B)) < ch_cap (zt_recvCh B)" and "zts_addr_rfc4193 z nwid nA = Some ipA"
    and "wf_packet pkt" and "pkt_Magic pkt = PacketMagic" and "pkt_Version pkt = PacketVersion"
    and "length (marshalPacket pkt) \<le> maxPktSize" and "zt_peers B (nodeIDHex nA) = None"
  shows "\<exists>ipB. zts_addr_rfc4193 z nwid nB = Some ipB \<and> fst (ZT_Send z now (nodeIDHex nB) pkt A) = None \<and>
    zt_written (snd (ZT_Send z now (nodeIDHex nB) pkt A)) =
      zt_written A @ [(ipB, unat (cfg_ListenPort (zt_cfg A)), marshalPacket pkt)] \<and>
    ch_buf (zt_recvCh (recv_datagram now' ipA (marshalPacket pkt) B)) =
      ch_buf (zt_recvCh B) @ [\<lparr>ip_From = nodeIDHex nA, ip_Pkt = pkt, ip_ReceivedAt = now'\<rparr>] \<and>
    zt_written (snd (ZT_Send z now'' (nodeIDHex nA) answer (recv_datagram now' ipA (marshalPacket pkt) B))) =
      zt_written B @ [(ipA, unat (cfg_ListenPort (zt_cfg B)), marshalPacket answer)]"
proof -
  let ?ip = "\<lambda>n :: 64 word. 0xFD # PutUint nwid @ [0x99, 0x93] @ put_be 5 (unat n)"
  have ipA: "ipA = ?ip nA" and ipB: "zts_addr_rfc4193 z nwid nB = Some (?ip nB)"
    using assms(1,12) by (simp_all add: rfc4193_law_def)
  have res: "resolveNodeIP z (nodeIDHex nB) A = Some (?ip nB)"
    using resolve_rfc4193 [OF assms(1,4,5,6)] .
  have send: "ZT_Send z now (nodeIDHex nB) pkt A = write_datagram z (?ip nB) (marshalPacket pkt)
      (A\<lparr>zt_peers := (zt_peers A)(nodeIDHex nB \<mapsto> \<lparr>pe_NodeID = nodeIDHex nB, pe_VirtualIP = ?ip nB, pe_LastSeen = now, pe_Latency = 0\<rparr>)\<rparr>)"
    unfolding ZT_Send_def assms(7) res by (simp only: option.case Let_def)
  have "nodeIDFromIP ipA = nA" unfolding ipA by (rule nodeIDFromIP_rfc4193 [OF assms(3)])
  then have from_A: "Sprintf_0x 10 (unat (nodeIDFromIP ipA)) = nodeIDHex nA" by (simp add: nodeIDHex_def)
  have recv: "recv_datagram now' ipA (marshalPacket pkt) B = B\<lparr>
     zt_peers := (zt_peers B)(nodeIDHex nA \<mapsto> \<lparr>pe_NodeID = nodeIDHex nA, pe_VirtualIP = ipA, pe_LastSeen = now', pe_Latency = 0\<rparr>),
     zt_recvCh := chan_offer \<lparr>ip_From = nodeIDHex nA, ip_Pkt = pkt, ip_ReceivedAt = now'\<rparr> (zt_recvCh B)\<rparr>"
    using assms(9,10,17) recv_accepted [OF assms(13-16)] by (simp add: recv_datagram_def from_A Let_def)
  show ?thesis
    using assms(2,8,9,11) ipB unfolding send recv by (simp add: write_datagram_def ZT_Send_def chan_simps)
qed

text \<open>
  Over the IPv4 fallback identities are lost: the address that \<open>resolveNodeIP\<close> makes up for a node
  is read back as the low sixteen bits of the node ID, so that a packet from a node whose ID has
  more bits arrives under a foreign ID, and two nodes that agree in these bits share an address.
\<close>

theorem ipv4_identity_truncated:
  assumes "parseNodeID to = Some nid" and "zt_networks t = nw # nws" and "parseNetworkID nw = Some nwid"
    and "zts_addr_rfc4193 z nwid nid = None" and "zts_addr_get z nwid = Some localIP" and "To4 localIP = Some ip4"
  shows "\<exists>ip. resolveNodeIP z to t = Some ip \<and> nodeIDFromIP ip = nid AND 0xFFFF \<and>
    (\<forall>to' nid'. parseNodeID to' = Some nid' \<and> zts_addr_rfc4193 z nwid nid' = None \<and> nid' AND 0xFFFF = nid AND 0xFFFF \<longrightarrow>
       nodeIDFromIP (the (resolveNodeIP z to' t)) = nodeIDFromIP ip)"
proof -
  have nw: "nw \<noteq> ''''" using assms(3) by (auto simp: parseNetworkID_def)
  have "resolveNodeIP z to' t = Some [ip4 ! 0, ip4 ! 1, ucast (drop_bit 8 nid' AND 0xFF), ucast (nid' AND 0xFF)]"
    if "parseNodeID to' = Some nid'" "zts_addr_rfc4193 z nwid nid' = None" for to' nid'
    using assms(2,3,5,6) that nw by (simp add: resolveNodeIP_def)
  with assms(1,4) show ?thesis by (simp add: fallback_identity)
qed

text \<open>
  C40: Stopping can block for ever. If the receive loop has read a packet when \<open>Stop\<close> takes the mutex,
  the loop waits for the mutex and \<open>Stop\<close> waits for the loop. This is the only way in which the
  two can get stuck before \<open>Stop\<close> has returned.
\<close>

theorem stop_deadlock:
  "(\<exists>s. lock_step\<^sup>*\<^sup>* lock_init s \<and> ls_stop s = StopWaiting \<and> ls_loop s = LoopHavePacket) \<and>
   (\<forall>s. lock_step\<^sup>*\<^sup>* lock_init s \<longrightarrow> ls_stop s \<noteq> StopDone \<longrightarrow>
      (\<not> (\<exists>s'. lock_step s s')) = (ls_stop s = StopWaiting \<and> ls_loop s = LoopHavePacket))"
proof -
  let ?s1 = "lock_init\<lparr>ls_loop := LoopRead\<rparr>"
  let ?s2 = "?s1\<lparr>ls_loop := LoopHavePacket\<rparr>"
  let ?s3 = "?s2\<lparr>ls_stop := StopLocked\<rparr>"
  let ?s4 = "?s3\<lparr>ls_stop := StopWaiting, ls_stopCh_closed := True\<rparr>"
  have "lock_step lock_init ?s1" by (rule loop_go_on) (simp_all add: lock_init_def)
  moreover have "lock_step ?s1 ?s2" by (rule loop_packet) (simp_all add: lock_init_def)
  moreover have "lock_step ?s2 ?s3" by (rule stop_lock) (simp_all add: lock_init_def mutex_free_def)
  moreover have "lock_step ?s3 ?s4" by (rule stop_close) simp
  ultimately have "lock_step\<^sup>*\<^sup>* lock_init ?s4" by (meson rtranclp.rtrancl_refl converse_rtranclp_into_rtranclp)
  moreover have "ls_stop ?s4 = StopWaiting \<and> ls_loop ?s4 = LoopHavePacket" by simp
  moreover have "(\<not> (\<exists>s'. lock_step s s')) = (ls_stop s = StopWaiting \<and> ls_loop s = LoopHavePacket)"
    if "lock_step\<^sup>*\<^sup>* lock_init s" "ls_stop s \<noteq> StopDone" for s
    using lock_reachable_ok [OF that(1)] that(2) unfolding lock_stuck
    by (cases "ls_stop s"; cases "ls_loop s") (simp_all add: mutex_free_def lock_ok_def)
  ultimately show ?thesis by blast
qed

text \<open>
  \<open>Stop\<close> closes \<open>stopCh\<close> and \<open>Start\<close> does not make a new one: a transport that is stopped and started
  again receives nothing, and stopping it again is a panic.
\<close>

theorem restart_cannot_stop:
  assumes "ZT_Stop t = Inr t1" and "zt_started t" and "ZT_Start z t1 = (None, t2)"
  shows "ZT_Stop (startNetworking z t2) = Inl CloseOfClosedChannel \<and>
    recv_datagram now ip data (startNetworking z t2) = startNetworking z t2"
proof -
  have join: "zt_stopped (snd (joinNetworkLocked z n t)) = zt_stopped t \<and> zt_started (snd (joinNetworkLocked z n t)) = zt_started t" for n t
    by (simp add: joinNetworkLocked_def split: option.splits)
  have "zt_stopped (fold (\<lambda>n t. snd (joinNetworkLocked z n t)) ns t) = zt_stopped t \<and>
    zt_started (fold (\<lambda>n t. snd (joinNetworkLocked z n t)) ns t) = zt_started t" for ns t
    by (induction ns arbitrary: t) (simp_all add: join)
  then have "zt_stopped (startNetworking z t) = zt_stopped t \<and> zt_started (startNetworking z t) = zt_started t" for t
    by (simp add: startNetworking_def Let_def)
  moreover have "zt_stopped t1" using assms(1,2) by (auto simp: ZT_Stop_def split: if_splits)
  then have "zt_stopped t2 \<and> zt_started t2" using assms(3) by (auto simp: ZT_Start_def Let_def split: if_splits)
  ultimately show ?thesis by (simp add: ZT_Stop_def recv_datagram_def)
qed


section \<open>Witnesses\<close>

definition demo_zts :: zts where
  "demo_zts = \<lparr>zts_init_from_storage = True, zts_identity_public = Some ''0000000001:0:key'', zts_node_is_online = True,
     zts_net_join = (\<lambda>_. True), zts_net_leave = (\<lambda>_. True),
     zts_addr_rfc4193 = (\<lambda>nwid nid. Some (0xFD # PutUint nwid @ [0x99, 0x93] @ put_be 5 (unat nid))),
     zts_addr_get = (\<lambda>_. Some [10, 1, 0, 1]), zts_query_path_count = (\<lambda>_. 1), zts_ListenUDP = (\<lambda>_. True),
     zts_WriteToUDP = (\<lambda>_ _. True)\<rparr>"

definition demo_net :: NetworkID where
  "demo_net = hex_EncodeToString (PutUint (7 :: 64 word))"

definition demo_transport :: ZTTransport where
  "demo_transport = (NewZTTransport (DefaultConfig (Some ''/home'')))\<lparr>zt_networks := [demo_net], zt_conn := OpenConn, zt_started := True\<rparr>"

lemma demo_transport_simps:
  "zt_networks demo_transport = [demo_net]" "parseNetworkID demo_net = Some 7" "zt_peers demo_transport n = None"
  "zt_conn demo_transport = OpenConn" "\<not> zt_stopped demo_transport" "ch_buf (zt_recvCh demo_transport) = []"
  "ch_cap (zt_recvCh demo_transport) = 1024" "zt_written demo_transport = []" "zt_started demo_transport"
  by (simp_all add: demo_transport_def NewZTTransport_def demo_net_def parseNetworkID_def hex_Decode_Encode word_lengths)

text \<open>Node 1 sends a packet to node 2, both as \<open>demo_transport\<close>.\<close>

theorem datagram_delivery_witness:
  "ch_buf (zt_recvCh (recv_datagram 3 (the (zts_addr_rfc4193 demo_zts 7 1)) (marshalPacket demo_packet) demo_transport)) =
     [\<lparr>ip_From = nodeIDHex 1, ip_Pkt = demo_packet, ip_ReceivedAt = 3\<rparr>] \<and>
   fst (ZT_Send demo_zts 2 (nodeIDHex 2) demo_packet demo_transport) = None"
proof -
  have law: "rfc4193_law demo_zts" by (simp add: rfc4193_law_def demo_zts_def)
  have w: "\<forall>ip raw. zts_WriteToUDP demo_zts ip raw" by (simp add: demo_zts_def)
  have ip: "zts_addr_rfc4193 demo_zts 7 1 = Some (the (zts_addr_rfc4193 demo_zts 7 1))" by (simp add: demo_zts_def)
  have pkt: "wf_packet demo_packet" "pkt_Magic demo_packet = PacketMagic" "pkt_Version demo_packet = PacketVersion"
    by (simp_all add: demo_packet_def zero_packet_def wf_packet_def)
  have len: "length (marshalPacket demo_packet) \<le> maxPktSize"
    by (simp add: length_marshalPacket pkt maxPktSize_def) (simp add: demo_packet_def)
  show ?thesis
    using datagram_delivery [OF law w _ _ demo_transport_simps(1,2,3,4) demo_transport_simps(4,5) _ ip pkt len demo_transport_simps(3),
        of 2 2 3 2 demo_packet]
    by (simp add: demo_transport_simps(6,7)) blast
qed

text \<open>Without IPv6 the node \<open>0000010001\<close> is taken for node 1.\<close>

theorem ipv4_identity_truncated_witness:
  "\<exists>ip. resolveNodeIP (demo_zts\<lparr>zts_addr_rfc4193 := (\<lambda>_ _. None)\<rparr>) (nodeIDHex 0x10001) demo_transport = Some ip \<and> nodeIDFromIP ip = 1"
proof -
  have id: "parseNodeID (nodeIDHex 0x10001) = Some 0x10001" by (rule parse_nodeIDHex) simp
  let ?z = "demo_zts\<lparr>zts_addr_rfc4193 := (\<lambda>_ _. None)\<rparr>"
  have z: "zts_addr_rfc4193 ?z 7 0x10001 = None" "zts_addr_get ?z 7 = Some [10, 1, 0, 1]" "To4 [10, 1, 0, 1] = Some [10, 1, 0, 1]"
    by (simp_all add: demo_zts_def To4_def)
  have "(0x10001 :: 64 word) AND 0xFFFF = 1" by simp
  then show ?thesis
    using ipv4_identity_truncated [OF id demo_transport_simps(1,2) z] by auto
qed

text \<open>The deadlock is possible.\<close>

theorem stop_deadlock_witness:
  "\<exists>s. lock_step\<^sup>*\<^sup>* lock_init s \<and> ls_stop s \<noteq> StopDone \<and> \<not> (\<exists>s'. lock_step s s')"
proof -
  obtain s where "lock_step\<^sup>*\<^sup>* lock_init s" "ls_stop s = StopWaiting" "ls_loop s = LoopHavePacket"
    using stop_deadlock by blast
  then show ?thesis using stop_deadlock by (intro exI [of _ s]) simp
qed

theorem restart_cannot_stop_witness:
  "\<exists>t1 t2. ZT_Stop demo_transport = Inr t1 \<and> ZT_Start demo_zts t1 = (None, t2) \<and>
     ZT_Stop (startNetworking demo_zts t2) = Inl CloseOfClosedChannel"
proof -
  obtain t1 where t1: "ZT_Stop demo_transport = Inr t1" "\<not> zt_started t1" by (simp add: ZT_Stop_def demo_transport_simps)
  moreover obtain t2 where "ZT_Start demo_zts t1 = (None, t2)"
    using t1(2) by (simp add: ZT_Start_def demo_zts_def Let_def)
  ultimately show ?thesis using restart_cannot_stop demo_transport_simps(9) by blast
qed

end
