(* ===== verification/Media_Processor.thy ===== *)
theory Media_Processor
  imports Engine
begin

text \<open>
  The media processor of \<^verbatim>\<open>media/processor.go\<close>. The image codecs and the resizing library, SHA-256, the
  MIME table of the operating system and the external programs are the argument \<open>media_lib\<close>; an
  external program is a function of the data that were written to its input file. Durations are
  floating-point computations and are given by \<open>media_lib\<close> too, from the text that the code cuts out
  of the output of ffprobe. Temporary files and logging are not modelled.

  Results: whatever is processed is stored under the hash of its data with its true size and can
  be read back; images that are re-encoded fit the configured limits; the text that is parsed as
  a duration lacks its first digit.
\<close>

section \<open>Definitions\<close>

subsection \<open>Options and libraries\<close>

record ImageOptions =
  io_MaxWidth :: int
  io_MaxHeight :: int
  io_JpegQuality :: int
  io_ThumbWidth :: int
  io_ThumbHeight :: int

record AudioOptions =
  ao_BitrateKbps :: int
  ao_SampleRate :: int
  ao_Channels :: int

record VideoOptions =
  vo_MaxHeight :: int
  vo_BitrateKbps :: int
  vo_ThumbWidth :: int
  vo_ThumbHeight :: int
  vo_ThumbnailAt :: duration

datatype interp = Lanczos3 | Bilinear

record 'i media_lib =
  ml_Decode :: "bytes \<Rightarrow> 'i option"
  ml_DecodeConfig :: "bytes \<Rightarrow> string option"
  ml_Bounds :: "'i \<Rightarrow> int \<times> int"
  ml_Thumbnail :: "int \<Rightarrow> int \<Rightarrow> interp \<Rightarrow> 'i \<Rightarrow> 'i"
  ml_JpegEncode :: "int \<Rightarrow> 'i \<Rightarrow> bytes option"
  ml_PngEncode :: "'i \<Rightarrow> bytes option"
  ml_Sum256 :: "bytes \<Rightarrow> bytes"
  ml_TypeByExtension :: "string \<Rightarrow> string"
  ml_CreateTemp :: bool
  ml_ffmpegAudio :: "AudioOptions \<Rightarrow> bytes \<Rightarrow> bytes option"
  ml_ffmpegVideo :: "VideoOptions \<Rightarrow> bytes \<Rightarrow> bytes option"
  ml_ffmpegThumb :: "VideoOptions \<Rightarrow> bytes \<Rightarrow> bytes option"
  ml_ffprobe :: "bytes \<Rightarrow> string option"
  ml_seconds :: "string \<Rightarrow> duration"
  ml_estimate :: "nat \<Rightarrow> int \<Rightarrow> duration"

record Processor =
  pr_cfg :: Config
  pr_ffmpegOK :: bool

datatype media_error = ImageDecode | ImageEncode | DetectFormat | EmptyFile | TempFile | SliceBounds

definition NewProcessor :: "bool \<Rightarrow> Config \<Rightarrow> Processor" where
  "NewProcessor lookPathOK cfg = \<lparr>pr_cfg = cfg, pr_ffmpegOK = lookPathOK\<rparr>"

subsection \<open>Helpers\<close>

definition hashBytes :: "'i media_lib \<Rightarrow> bytes \<Rightarrow> string" where
  "hashBytes L data = hex_EncodeToString (ml_Sum256 L data)"

definition detectMime :: "bytes \<Rightarrow> string" where
  "detectMime data =
     (if length data < 4 then ''application/octet-stream''
      else if HasPrefix data [0xFF, 0xD8, 0xFF] then ''image/jpeg''
      else if HasPrefix data [0x89, 0x50, 0x4E, 0x47] then ''image/png''
      else if HasPrefix data [0x47, 0x49, 0x46] then ''image/gif''
      else if HasPrefix data [0x52, 0x49, 0x46, 0x46] \<and> length data \<ge> 12 \<and>
              take 4 (drop 8 data) = string_bytes ''WEBP'' then ''image/webp''
      else if HasPrefix data [0x4F, 0x67, 0x67, 0x53] then ''audio/ogg''
      else if HasPrefix data [0xFF, 0xFB] \<or> HasPrefix data [0xFF, 0xF3] then ''audio/mpeg''
      else if HasPrefix data [0x66, 0x4C, 0x61, 0x43] then ''audio/flac''
      else if HasPrefix data [0x1A, 0x45, 0xDF, 0xA3] then ''video/webm''
      else if HasPrefix data [0x50, 0x4B, 0x03, 0x04] then ''application/zip''
      else if HasPrefix data [0x25, 0x50, 0x44, 0x46] then ''application/pdf''
      else ''application/octet-stream'')"

definition estimateDuration :: "'i media_lib \<Rightarrow> bytes \<Rightarrow> int \<Rightarrow> duration" where
  "estimateDuration L data bitrateKbps = (if bitrateKbps \<le> 0 then 0 else ml_estimate L (length data) bitrateKbps)"

text \<open>\<open>bytes.Index\<close> and \<open>bytes.IndexByte\<close>.\<close>

fun index_of :: "string \<Rightarrow> string \<Rightarrow> nat option" where
  "index_of p [] = (if p = [] then Some 0 else None)"
| "index_of p (c # s) = (if HasPrefix (c # s) p then Some 0 else map_option Suc (index_of p s))"

definition duration_key :: string where
  "duration_key = [CHR 0x22] @ ''duration'' @ [CHR 0x22] @ '': '' @ [CHR 0x22]"

text \<open>
  The text that \<open>probeMediaDuration\<close> scans: \<open>Inr None\<close> when it returns zero without scanning,
  \<open>Inl\<close> when the slice expression is out of range. The key has thirteen characters.
\<close>

definition probe_text :: "string \<Rightarrow> media_error + string option" where
  "probe_text out =
     (case index_of duration_key out of
        None \<Rightarrow> Inr None
      | Some start0 \<Rightarrow>
          let start = start0 + 14 in
          if start > length out then Inl SliceBounds
          else (case index_of [CHR 0x22] (drop start out) of
                  None \<Rightarrow> Inr None
                | Some end \<Rightarrow> Inr (Some (take end (drop start out)))))"

definition probeMediaDuration :: "'i media_lib \<Rightarrow> bytes \<Rightarrow> media_error + duration" where
  "probeMediaDuration L data =
     (case ml_ffprobe L data of
        None \<Rightarrow> Inr 0
      | Some out \<Rightarrow>
          (case probe_text out of
             Inl e \<Rightarrow> Inl e
           | Inr None \<Rightarrow> Inr 0
           | Inr (Some t) \<Rightarrow> Inr (ml_seconds L t)))"

subsection \<open>Images\<close>

definition jpeg_thumbnail :: "'i media_lib \<Rightarrow> int \<Rightarrow> int \<Rightarrow> 'i \<Rightarrow> bytes" where
  "jpeg_thumbnail L w h src = (case ml_JpegEncode L 60 (ml_Thumbnail L w h Bilinear src) of None \<Rightarrow> [] | Some b \<Rightarrow> b)"

definition image_media :: "'i media_lib \<Rightarrow> string \<Rightarrow> bytes \<Rightarrow> bytes \<Rightarrow> int \<times> int \<Rightarrow> ProcessedMedia" where
  "image_media L mimeType processed thumb wh =
     \<lparr>pm_Hash = hashBytes L processed, pm_Data = processed, pm_Thumbnail = thumb, pm_MimeType = mimeType,
      pm_FileName = '''', pm_Size = int (length processed), pm_Width = fst wh, pm_Height = snd wh, pm_Duration = 0\<rparr>"

definition default_to :: "int \<Rightarrow> int \<Rightarrow> int" where
  "default_to d x = (if x = 0 then d else x)"

definition ProcessImage :: "'i media_lib \<Rightarrow> Processor \<Rightarrow> bytes \<Rightarrow> ImageOptions \<Rightarrow> media_error + ProcessedMedia" where
  "ProcessImage L p data opts =
     (let maxW = default_to (cfg_MaxImageWidthPx (pr_cfg p)) (io_MaxWidth opts);
          maxH = default_to (cfg_MaxImageWidthPx (pr_cfg p)) (io_MaxHeight opts);
          quality = default_to 85 (io_JpegQuality opts);
          thumbW = default_to 320 (io_ThumbWidth opts);
          thumbH = default_to 240 (io_ThumbHeight opts)
      in case ml_Decode L data of
           None \<Rightarrow> Inl ImageDecode
         | Some src0 \<Rightarrow>
             let src = (if fst (ml_Bounds L src0) > maxW \<or> snd (ml_Bounds L src0) > maxH
                        then ml_Thumbnail L maxW maxH Lanczos3 src0 else src0)
             in case ml_JpegEncode L quality src of
                  None \<Rightarrow> Inl ImageEncode
                | Some processed \<Rightarrow>
                    Inr (image_media L ''image/jpeg'' processed (jpeg_thumbnail L thumbW thumbH src) (ml_Bounds L src)))"

definition ProcessPNG :: "'i media_lib \<Rightarrow> Processor \<Rightarrow> bytes \<Rightarrow> ImageOptions \<Rightarrow> media_error + ProcessedMedia" where
  "ProcessPNG L p data opts =
     (let maxW = default_to (cfg_MaxImageWidthPx (pr_cfg p)) (io_MaxWidth opts);
          maxH = io_MaxHeight opts
      in case ml_Decode L data of
           None \<Rightarrow> Inl ImageDecode
         | Some src0 \<Rightarrow>
             let src = (if fst (ml_Bounds L src0) > maxW \<or> snd (ml_Bounds L src0) > maxH \<and> maxH > 0
                        then ml_Thumbnail L maxW maxH Lanczos3 src0 else src0)
             in case ml_PngEncode L src of
                  None \<Rightarrow> Inl ImageEncode
                | Some processed \<Rightarrow>
                    Inr (image_media L ''image/png'' processed (jpeg_thumbnail L 320 240 src) (ml_Bounds L src)))"

definition ProcessImageAuto :: "'i media_lib \<Rightarrow> Processor \<Rightarrow> bytes \<Rightarrow> ImageOptions \<Rightarrow> media_error + ProcessedMedia" where
  "ProcessImageAuto L p data opts =
     (case ml_DecodeConfig L data of
        None \<Rightarrow> Inl DetectFormat
      | Some format \<Rightarrow> if format = ''png'' then ProcessPNG L p data opts else ProcessImage L p data opts)"

definition ProcessSticker :: "'i media_lib \<Rightarrow> Processor \<Rightarrow> bytes \<Rightarrow> media_error + ProcessedMedia" where
  "ProcessSticker L p data = ProcessImageAuto L p data
     \<lparr>io_MaxWidth = 512, io_MaxHeight = 512, io_JpegQuality = 0, io_ThumbWidth = 96, io_ThumbHeight = 96\<rparr>"

subsection \<open>Audio, video and files\<close>

text \<open>The transcoder returns data and duration; an error inside it has the duration zero.\<close>

definition transcodeAudioFFmpeg :: "'i media_lib \<Rightarrow> bytes \<Rightarrow> AudioOptions \<Rightarrow> media_error + (bytes \<times> duration) option" where
  "transcodeAudioFFmpeg L data opts =
     (if \<not> ml_CreateTemp L then Inr None
      else case ml_ffmpegAudio L opts data of
          None \<Rightarrow> Inr None
        | Some result \<Rightarrow> (case probeMediaDuration L result of Inl e \<Rightarrow> Inl e | Inr d \<Rightarrow> Inr (Some (result, d))))"

definition plain_media :: "'i media_lib \<Rightarrow> bytes \<Rightarrow> bytes \<Rightarrow> string \<Rightarrow> string \<Rightarrow> duration \<Rightarrow> ProcessedMedia" where
  "plain_media L out thumb mimeType name dur =
     \<lparr>pm_Hash = hashBytes L out, pm_Data = out, pm_Thumbnail = thumb, pm_MimeType = mimeType,
      pm_FileName = name, pm_Size = int (length out), pm_Width = 0, pm_Height = 0, pm_Duration = dur\<rparr>"

definition ProcessAudio :: "'i media_lib \<Rightarrow> Processor \<Rightarrow> bytes \<Rightarrow> AudioOptions \<Rightarrow> media_error + ProcessedMedia" where
  "ProcessAudio L p data opts0 =
     (let opts = \<lparr>ao_BitrateKbps = default_to (cfg_AudioBitrateKbps (pr_cfg p)) (ao_BitrateKbps opts0),
                  ao_SampleRate = default_to 48000 (ao_SampleRate opts0), ao_Channels = default_to 1 (ao_Channels opts0)\<rparr>;
          mimeType = detectMime data
      in if pr_ffmpegOK p \<and> \<not> HasPrefix mimeType ''audio/ogg''
         then (case transcodeAudioFFmpeg L data opts of
                 Inl e \<Rightarrow> Inl e
               | Inr None \<Rightarrow> Inr (plain_media L data [] ''audio/ogg; codecs=opus'' '''' 0)
               | Inr (Some (out, dur)) \<Rightarrow> Inr (plain_media L out [] ''audio/ogg; codecs=opus'' '''' dur))
         else Inr (plain_media L data [] mimeType '''' (estimateDuration L data (ao_BitrateKbps opts))))"

definition ProcessVideo :: "'i media_lib \<Rightarrow> Processor \<Rightarrow> bytes \<Rightarrow> VideoOptions \<Rightarrow> media_error + ProcessedMedia" where
  "ProcessVideo L p data opts0 =
     (let opts = \<lparr>vo_MaxHeight = default_to (cfg_MaxVideoHeightPx (pr_cfg p)) (vo_MaxHeight opts0),
                  vo_BitrateKbps = default_to (cfg_VideoBitrateKbps (pr_cfg p)) (vo_BitrateKbps opts0),
                  vo_ThumbWidth = default_to 320 (vo_ThumbWidth opts0), vo_ThumbHeight = default_to 240 (vo_ThumbHeight opts0),
                  vo_ThumbnailAt = default_to Second (vo_ThumbnailAt opts0)\<rparr>;
          mimeType = detectMime data
      in if \<not> ml_CreateTemp L then Inl TempFile
         else if pr_ffmpegOK p then
           (case probeMediaDuration L data of
              Inl e \<Rightarrow> Inl e
            | Inr dur \<Rightarrow>
                let thumb = (case ml_ffmpegThumb L opts data of None \<Rightarrow> [] | Some t \<Rightarrow> t) in
                if mimeType \<noteq> ''video/mp4''
                then (case ml_ffmpegVideo L opts data of
                        None \<Rightarrow> Inr (plain_media L data thumb mimeType '''' dur)
                      | Some out \<Rightarrow> Inr (plain_media L out thumb ''video/mp4'' '''' dur))
                else Inr (plain_media L data thumb mimeType '''' dur))
         else Inr (plain_media L data [] mimeType '''' 0))"

definition filepath_Ext :: "string \<Rightarrow> string" where
  "filepath_Ext path =
     (let r = takeWhile (\<lambda>c. c \<noteq> CHR ''/'') (rev path) in
      if CHR ''.'' \<in> set r then CHR ''.'' # rev (takeWhile (\<lambda>c. c \<noteq> CHR ''.'') r) else '''')"

definition filepath_Base :: "string \<Rightarrow> string" where
  "filepath_Base path =
     (if path = '''' then ''.''
      else let r = dropWhile (\<lambda>c. c = CHR ''/'') (rev path) in
        if r = '''' then ''/'' else rev (takeWhile (\<lambda>c. c \<noteq> CHR ''/'') r))"

definition ProcessFile :: "'i media_lib \<Rightarrow> string \<Rightarrow> bytes \<Rightarrow> media_error + ProcessedMedia" where
  "ProcessFile L name data =
     (if data = [] then Inl EmptyFile
      else let mt = ml_TypeByExtension L (ToLower (filepath_Ext name));
               mimeType = (if mt = '''' then detectMime data else mt)
           in Inr (plain_media L data [] mimeType (filepath_Base name) 0))"

text \<open>The call of the processor in \<open>SendImage\<close>, \<open>SendAudio\<close>, \<open>SendVideo\<close> and \<open>SendFile\<close> of the engine.\<close>

definition process_for :: "'i media_lib \<Rightarrow> Processor \<Rightarrow> MessageType \<Rightarrow> string \<Rightarrow> bytes \<Rightarrow> media_error + ProcessedMedia" where
  "process_for L p t name data =
     (if t = MsgImage then ProcessImageAuto L p data
        \<lparr>io_MaxWidth = 0, io_MaxHeight = 0, io_JpegQuality = 0, io_ThumbWidth = 0, io_ThumbHeight = 0\<rparr>
      else if t = MsgAudio then ProcessAudio L p data \<lparr>ao_BitrateKbps = 0, ao_SampleRate = 0, ao_Channels = 0\<rparr>
      else if t = MsgVideo then ProcessVideo L p data
        \<lparr>vo_MaxHeight = 0, vo_BitrateKbps = 0, vo_ThumbWidth = 0, vo_ThumbHeight = 0, vo_ThumbnailAt = 0\<rparr>
      else ProcessFile L name data)"

section \<open>Lemmas\<close>

text \<open>The documented behaviour of \<open>resize.Thumbnail\<close>: the result fits the given box.\<close>

definition thumbnail_law :: "'i media_lib \<Rightarrow> bool" where
  "thumbnail_law L = (\<forall>w h k i. 0 < w \<longrightarrow> 0 < h \<longrightarrow>
     fst (ml_Bounds L (ml_Thumbnail L w h k i)) \<le> w \<and> snd (ml_Bounds L (ml_Thumbnail L w h k i)) \<le> h)"

definition described :: "'i media_lib \<Rightarrow> ProcessedMedia \<Rightarrow> bool" where
  "described L pm = (pm_Hash pm = hashBytes L (pm_Data pm) \<and> pm_Size pm = int (length (pm_Data pm)))"

lemma described_media [simp]:
  "described L (image_media L mt d t wh)" "described L (plain_media L d t mt n dur)"
  by (simp_all add: described_def image_media_def plain_media_def)

lemma images_described:
  "ProcessImage L p data opts = Inr pm \<Longrightarrow> described L pm" "ProcessPNG L p data opts = Inr pm \<Longrightarrow> described L pm"
  "ProcessImageAuto L p data opts = Inr pm \<Longrightarrow> described L pm"
  by (auto simp: ProcessImage_def ProcessPNG_def ProcessImageAuto_def Let_def split: option.splits if_splits)

lemma others_described:
  "ProcessAudio L p data ao = Inr pm \<Longrightarrow> described L pm" "ProcessVideo L p data vo = Inr pm \<Longrightarrow> described L pm"
  "ProcessFile L name data = Inr pm \<Longrightarrow> described L pm"
  by (auto simp: ProcessAudio_def ProcessVideo_def ProcessFile_def Let_def split: option.splits if_splits sum.splits)

lemma process_described: "process_for L p t name data = Inr pm \<Longrightarrow> described L pm"
  by (auto simp: process_for_def intro: images_described others_described split: if_splits)

lemma ProcessImage_fits:
  assumes "thumbnail_law L" and "0 < default_to (cfg_MaxImageWidthPx (pr_cfg p)) (io_MaxWidth opts)"
    and "0 < default_to (cfg_MaxImageWidthPx (pr_cfg p)) (io_MaxHeight opts)" and "ProcessImage L p data opts = Inr pm"
  shows "pm_Width pm \<le> default_to (cfg_MaxImageWidthPx (pr_cfg p)) (io_MaxWidth opts) \<and>
    pm_Height pm \<le> default_to (cfg_MaxImageWidthPx (pr_cfg p)) (io_MaxHeight opts)"
  using assms by (auto simp: ProcessImage_def thumbnail_law_def image_media_def Let_def split: option.splits if_splits)

lemma GetMedia_SaveMedia:
  "fst (GetMedia now' hash (snd (SaveMedia now True True hash data s))) = Inr data"
  by (simp add: GetMedia_def SaveMedia_def Let_def)

lemma png_mime: "ProcessPNG L p data opts = Inr pm \<Longrightarrow> pm_MimeType pm = ''image/png''"
  by (auto simp: ProcessPNG_def image_media_def Let_def split: option.splits)

section \<open>Properties\<close>


text \<open>
  The duration that is read from ffprobe lacks its first character: the code skips fourteen
  characters from the start of a key that has thirteen.
\<close>

lemma index_of_quote: "CHR 0x22 \<notin> set ds \<Longrightarrow> index_of [CHR 0x22] (ds @ CHR 0x22 # rest) = Some (length ds)"
  by (induction ds) (auto simp: HasPrefix_def)

theorem probe_skips_first_digit:
  assumes "index_of duration_key (pre @ duration_key @ d # ds @ CHR 0x22 # rest) = Some (length pre)"
    and "CHR 0x22 \<notin> set ds"
  shows "probe_text (pre @ duration_key @ d # ds @ CHR 0x22 # rest) = Inr (Some ds)"
proof -
  let ?out = "pre @ duration_key @ d # ds @ CHR 0x22 # rest"
  have len: "length duration_key = 13" by (simp add: duration_key_def)
  have "drop (length pre + 14) ?out = ds @ CHR 0x22 # rest" by (simp add: len)
  then show ?thesis
    unfolding probe_text_def assms(1) using index_of_quote [OF assms(2), of rest] by (simp add: len Let_def)
qed

section \<open>Witnesses\<close>

definition demo_media_lib :: "(int \<times> int) media_lib" where
  "demo_media_lib = \<lparr>ml_Decode = (\<lambda>d. if length d = 2 then Some (uint (d ! 0), uint (d ! 1)) else None),
     ml_DecodeConfig = (\<lambda>d. if length d = 2 then Some ''jpeg'' else None), ml_Bounds = (\<lambda>i. i),
     ml_Thumbnail = (\<lambda>w h k i. (min w (fst i), min h (snd i))), ml_JpegEncode = (\<lambda>q i. Some [of_int (fst i), of_int (snd i)]),
     ml_PngEncode = (\<lambda>i. Some [of_int (fst i), of_int (snd i)]), ml_Sum256 = copy_array 32, ml_TypeByExtension = (\<lambda>_. ''''),
     ml_CreateTemp = True, ml_ffmpegAudio = (\<lambda>_ d. Some d), ml_ffmpegVideo = (\<lambda>_ d. Some d), ml_ffmpegThumb = (\<lambda>_ _. None),
     ml_ffprobe = (\<lambda>_. None), ml_seconds = (\<lambda>_. 0), ml_estimate = (\<lambda>n k. 0)\<rparr>"

definition demo_processor :: Processor where
  "demo_processor = NewProcessor True ((DefaultConfig None)\<lparr>cfg_MaxImageWidthPx := 100\<rparr>)"


text \<open>A duration of 12.5 seconds is read as 2.5 seconds.\<close>

theorem probe_skips_first_digit_witness:
  "probe_text (duration_key @ ''12.5'' @ [CHR 0x22]) = Inr (Some ''2.5'')"
  using probe_skips_first_digit [of "[]" "CHR ''1''" "''2.5''" "[]"] by (simp add: duration_key_def HasPrefix_def)

end
