(* ===== verification/Web_UI.thy ===== *)
theory Web_UI
  imports Relay_Client Media_Processor
begin

text \<open>
  The web interface of \<^verbatim>\<open>messenger/webui.go\<close>: HTTP handlers over the engine and the relay connection, and the
  WebSocket clients that get events. A handler takes the method, the body and the form values it reads and returns
  the response and the new state. The state joins the engine, the relay connection the engine
  holds, the file with the saved login and the clients. The HTTP client, the texts of errors, the
  formatting of JSON values and the network of the relay client are the argument \<open>web_env\<close>.
  Routing and the pumps of the WebSocket clients are in \<open>Web_Push\<close>; the synchronisation that
  connecting starts in the background is not modelled.

  Result: logging in through the web interface works exactly for names that are written as the
  server stores them, although the server accepts the credentials in any spelling.
\<close>

section \<open>Definitions\<close>

subsection \<open>State\<close>

record authData =
  ad_ServerAddr :: string
  ad_Username :: string
  ad_Token :: string

record WebUI =
  wu_engine :: Engine
  wu_serverConn :: "serverRelay option"
  wu_auth :: "authData option"
  wu_clients :: "(string \<times> json chan) list"
  wu_onShutdown :: bool
  wu_shutdown :: bool

record 'i web_env =
  we_env :: env
  we_net :: network
  we_post :: "string \<Rightarrow> json \<Rightarrow> json option"
  we_get :: "string \<Rightarrow> json option"
  we_relayErr :: "relay_error \<Rightarrow> string"
  we_engineErr :: "engine_error \<Rightarrow> string"
  we_httpErr :: string
  we_fmt :: "json \<Rightarrow> string"
  we_lib :: "'i media_lib"

definition NewWebUI :: "Engine \<Rightarrow> WebUI" where
  "NewWebUI e = \<lparr>wu_engine = e, wu_serverConn = None, wu_auth = None, wu_clients = [], wu_onShutdown = False, wu_shutdown = False\<rparr>"

definition loadAuth :: "WebUI \<Rightarrow> authData option" where
  "loadAuth w = wu_auth w"

definition saveAuth :: "authData option \<Rightarrow> WebUI \<Rightarrow> WebUI" where
  "saveAuth a w = w\<lparr>wu_auth := a\<rparr>"

subsection \<open>Requests and responses\<close>

definition respond_error :: "string \<Rightarrow> http_response" where
  "respond_error e = HttpJson (JObj [(''error'', JStr e)])"

definition respond_ok :: http_response where
  "respond_ok = HttpJson (JObj [(''ok'', JStr ''true'')])"

text \<open>A string field of a body whose decoding errors are ignored.\<close>

definition body_field :: "json option \<Rightarrow> string \<Rightarrow> string" where
  "body_field body k =
     (case body of
        Some (JObj fs) \<Rightarrow> (case lookup_last k fs of Some (JStr v) \<Rightarrow> v | _ \<Rightarrow> '''')
      | _ \<Rightarrow> '''')"

definition with_port :: "string \<Rightarrow> string" where
  "with_port server = (if CHR '':'' \<in> set server then server else server @ '':8080'')"

text \<open>\<open>httpPost\<close> formats every value of the answer with \<^verbatim>\<open>%v\<close>.\<close>

fun format_v :: "'i web_env \<Rightarrow> json \<Rightarrow> string" where
  "format_v x (JStr s) = s"
| "format_v x (JBool b) = (if b then ''true'' else ''false'')"
| "format_v x j = we_fmt x j"

definition httpPost :: "'i web_env \<Rightarrow> string \<Rightarrow> (string \<times> string) list \<Rightarrow> (string \<times> string) list option" where
  "httpPost x url kvs =
     (case we_post x url (map_payload kvs) of
        None \<Rightarrow> None
      | Some (JObj fs) \<Rightarrow> Some (map (\<lambda>(k, j). (k, format_v x j)) fs)
      | Some _ \<Rightarrow> Some [])"

text \<open>A Go map: a missing key reads as the empty string.\<close>

definition entry :: "(string \<times> string) list \<Rightarrow> string \<Rightarrow> string" where
  "entry m k = (case map_of (rev m) k of None \<Rightarrow> '''' | Some v \<Rightarrow> v)"

subsection \<open>Connecting\<close>

text \<open>The engine's \<open>ConnectToServer\<close> and \<open>DisconnectServer\<close> with the relay connection they hold.\<close>

definition engine_connect ::
  "'i web_env \<Rightarrow> string \<Rightarrow> (string \<times> string) option \<Rightarrow> WebUI \<Rightarrow> relay_error option \<times> WebUI" where
  "engine_connect x addr auth w =
     (let sr0 = newServerRelay [addr] (local_id (wu_engine w));
          sr1 = (case auth of None \<Rightarrow> sr0 | Some (u, t) \<Rightarrow> SetAuth u t sr0);
          (err, sr2) = Connect (we_net x) (env_now (we_env x)) (sr1\<lparr>sr_OnMessage := True\<rparr>);
          e' = snd (ConnectToServer (we_env x) (err = None) addr (wu_engine w))
      in (err, w\<lparr>wu_serverConn := (if err = None then Some sr2 else None), wu_engine := e'\<rparr>))"

definition engine_disconnect :: "'i web_env \<Rightarrow> WebUI \<Rightarrow> WebUI" where
  "engine_disconnect x w = w\<lparr>wu_serverConn := None, wu_engine := DisconnectServer (we_env x) (wu_engine w)\<rparr>"

definition handleServerConnect :: "'i web_env \<Rightarrow> string \<Rightarrow> json option \<Rightarrow> WebUI \<Rightarrow> http_response \<times> WebUI" where
  "handleServerConnect x method body w =
     (if method \<noteq> ''POST'' then (HttpError 405 ''POST required'', w)
      else case (case body of None \<Rightarrow> None | Some j \<Rightarrow> (case json_fields j of None \<Rightarrow> None | Some fs \<Rightarrow> fld ''server'' dec_string '''' fs)) of
          None \<Rightarrow> (respond_error ''Invalid request payload'', w)
        | Some server0 \<Rightarrow>
            let server = TrimSpace server0 in
            if server = '''' then (respond_error ''Server address is required'', w)
            else (case engine_connect x (with_port server) None w of
                    (Some e, w') \<Rightarrow> (respond_error (we_relayErr x e), w')
                  | (None, w') \<Rightarrow> (respond_ok, w')))"

definition handleLogout :: "'i web_env \<Rightarrow> string \<Rightarrow> WebUI \<Rightarrow> http_response \<times> WebUI" where
  "handleLogout x method w =
     (if method \<noteq> ''POST'' then (HttpError 405 ''POST required'', w)
      else (respond_ok, engine_disconnect x (saveAuth None w)))"

text \<open>
  What \<open>handleLogin\<close> and \<open>handleRegister\<close> do with the answer of the server; \<open>prefix\<close> is the text of the
  error and \<open>profile\<close> what is taken over from the answer or the request.
\<close>

definition after_auth ::
  "'i web_env \<Rightarrow> string \<Rightarrow> (WebUI \<Rightarrow> WebUI) \<Rightarrow> string \<Rightarrow> string \<Rightarrow> (string \<times> string) list \<Rightarrow> WebUI \<Rightarrow> http_response \<times> WebUI" where
  "after_auth x pre profile server username result w =
     (let answer = HttpJson (map_payload result) in
      if entry result ''ok'' \<noteq> ''true'' then (answer, w)
      else let token = entry result ''token'' in
        case engine_connect x server (Some (username, token)) (engine_disconnect x w) of
          (Some e, w') \<Rightarrow> (respond_error (pre @ we_relayErr x e), w')
        | (None, w') \<Rightarrow>
            (answer, saveAuth (Some \<lparr>ad_ServerAddr = server, ad_Username = username, ad_Token = token\<rparr>) (profile w')))"

definition set_name :: "string \<Rightarrow> WebUI \<Rightarrow> WebUI" where
  "set_name n w = (if n = '''' then w else w\<lparr>wu_engine := SetDisplayName n (wu_engine w)\<rparr>)"

definition set_bio :: "'i web_env \<Rightarrow> string \<Rightarrow> WebUI \<Rightarrow> WebUI" where
  "set_bio x b w = (if b = '''' then w else w\<lparr>wu_engine := SetStatus (we_env x) PeerOnline b (wu_engine w)\<rparr>)"

definition web_handleLogin :: "'i web_env \<Rightarrow> string \<Rightarrow> json option \<Rightarrow> WebUI \<Rightarrow> http_response \<times> WebUI" where
  "web_handleLogin x method body w =
     (if method \<noteq> ''POST'' then (HttpError 405 ''POST required'', w)
      else let server = with_port (body_field body ''server''); username = body_field body ''username'' in
        case httpPost x (''http://'' @ server @ ''/auth/login'')
               [(''password'', body_field body ''password''), (''username'', username)] of
          None \<Rightarrow> (respond_error (we_httpErr x), w)
        | Some result \<Rightarrow>
            after_auth x ''Login success, but engine connection failed: ''
              (\<lambda>w. set_bio x (entry result ''bio'') (set_name (entry result ''nickname'') w)) server username result w)"

definition web_handleRegister :: "'i web_env \<Rightarrow> string \<Rightarrow> json option \<Rightarrow> WebUI \<Rightarrow> http_response \<times> WebUI" where
  "web_handleRegister x method body w =
     (if method \<noteq> ''POST'' then (HttpError 405 ''POST required'', w)
      else let server = with_port (body_field body ''server''); username = body_field body ''username'';
               nickname = body_field body ''nickname'' in
        case httpPost x (''http://'' @ server @ ''/auth/register'')
               [(''avatar_path'', ''''), (''bio'', ''''), (''nickname'', nickname),
                (''password'', body_field body ''password''), (''username'', username)] of
          None \<Rightarrow> (respond_error (we_httpErr x), w)
        | Some result \<Rightarrow>
            after_auth x ''Registration success, but engine connection failed: '' (set_name nickname) server username result w)"

definition web_handleAuthStatus :: "WebUI \<Rightarrow> json" where
  "web_handleAuthStatus w =
     (let sr = wu_serverConn w;
          lp = e_localPeer (wu_engine w);
          connected = (case sr of None \<Rightarrow> False | Some r \<Rightarrow> Connected r);
          authed0 = (case sr of None \<Rightarrow> False | Some r \<Rightarrow> sr_registered r \<and> sr_token r \<noteq> '''');
          user0 = (case sr of None \<Rightarrow> '''' | Some r \<Rightarrow> sr_username r);
          token0 = (case sr of None \<Rightarrow> '''' | Some r \<Rightarrow> sr_token r);
          (user, token, authed) =
            (if user0 = '''' \<or> token0 = ''''
             then (case loadAuth w of None \<Rightarrow> (user0, token0, authed0)
                   | Some a \<Rightarrow> (ad_Username a, ad_Token a, authed0 \<or> ad_Token a \<noteq> ''''))
             else (user0, token0, authed0));
          addr = (case sr of Some r \<Rightarrow> Address r | None \<Rightarrow> (case loadAuth w of None \<Rightarrow> '''' | Some a \<Rightarrow> ad_ServerAddr a))
      in JObj [(''authenticated'', JBool authed), (''avatar'', JStr ''''), (''bio'', JStr (peer_StatusText lp)),
               (''connected'', JBool connected), (''nickname'', JStr (peer_DisplayName lp)),
               (''node_id'', JStr (pid_NodeID (peer_ID lp))), (''server'', JStr addr), (''token'', JStr token),
               (''username'', JStr user)])"

definition handleProfileUpdate :: "'i web_env \<Rightarrow> string \<Rightarrow> json option \<Rightarrow> WebUI \<Rightarrow> http_response \<times> WebUI" where
  "handleProfileUpdate x method body w =
     (if method \<noteq> ''POST'' then (HttpError 405 ''POST required'', w)
      else case (case body of None \<Rightarrow> None | Some j \<Rightarrow> (case json_fields j of None \<Rightarrow> None | Some fs \<Rightarrow>
               (case (fld ''nickname'' dec_string '''' fs, fld ''bio'' dec_string '''' fs, fld ''avatar'' dec_string '''' fs) of
                  (Some n, Some b, Some a) \<Rightarrow> Some (n, b, a) | _ \<Rightarrow> None))) of
          None \<Rightarrow> (respond_error ''Invalid payload'', w)
        | Some (n, b, a) \<Rightarrow>
            let e' = SetStatus (we_env x) PeerOnline b (SetDisplayName n (wu_engine w));
                w1 = w\<lparr>wu_engine := e'\<rparr>
            in (case wu_serverConn w1 of
                  None \<Rightarrow> (respond_ok, w1)
                | Some r \<Rightarrow>
                    if \<not> Connected r then (respond_ok, w1)
                    else (case UpdateProfile (env_now (we_env x)) n b a r of
                            (Some err, r') \<Rightarrow> (respond_error (''Failed to update server profile: '' @ we_relayErr x err), w1\<lparr>wu_serverConn := Some r'\<rparr>)
                          | (None, r') \<Rightarrow> (respond_ok, w1\<lparr>wu_serverConn := Some r'\<rparr>))))"

subsection \<open>Chats and messages\<close>

definition handlePeers :: "'i web_env \<Rightarrow> WebUI \<Rightarrow> json" where
  "handlePeers x w =
     (case wu_serverConn w of
        None \<Rightarrow> JObj [(''peers'', JArr [])]
      | Some r \<Rightarrow>
          if \<not> Connected r then JObj [(''peers'', JArr [])]
          else (case we_get x (''http://'' @ Address r @ ''/peers'') of
                  None \<Rightarrow> JObj [(''error'', JStr (we_httpErr x))]
                | Some j \<Rightarrow> j))"

text \<open>The table of peers by node ID: the last peer with a node ID wins.\<close>

definition web_chat_name :: "Engine \<Rightarrow> Chat \<Rightarrow> Chat" where
  "web_chat_name e c =
     (if chat_Type c = ChatDirect \<and> chat_Name c = '''' then
        (case find (\<lambda>m. pid_NodeID (cm_PeerID m) \<noteq> pid_NodeID (local_id e)) (chat_Members c) of
           None \<Rightarrow> c
         | Some m \<Rightarrow>
             (case find (\<lambda>p. pid_NodeID (peer_ID p) = pid_NodeID (cm_PeerID m)) (rev (ListPeers (e_store e))) of
                Some p \<Rightarrow> c\<lparr>chat_Name := (if peer_DisplayName p \<noteq> '''' then peer_DisplayName p else pid_NodeID (cm_PeerID m))\<rparr>
              | None \<Rightarrow> c\<lparr>chat_Name := pid_NodeID (cm_PeerID m)\<rparr>))
      else c)"

definition handleChats :: "WebUI \<Rightarrow> json" where
  "handleChats w =
     (case ListChats (e_store (wu_engine w)) of [] \<Rightarrow> JNull
      | cs \<Rightarrow> JArr (map (enc_Chat \<circ> web_chat_name (wu_engine w)) cs))"

definition web_message :: "Message \<Rightarrow> json" where
  "web_message m = JObj (map (\<lambda>(k, j). if k = ''payload'' then (k, JStr (bytes_string (msg_Payload m))) else (k, j)) (message_fields m))"

definition handleMessages :: "'i web_env \<Rightarrow> string \<Rightarrow> WebUI \<Rightarrow> json" where
  "handleMessages x chatID w =
     (if chatID = '''' then JArr []
      else JArr (map web_message (rev (GetMessages (env_now (we_env x)) (e_store (wu_engine w)) chatID 100 0))))"

definition send_response :: "'i web_env \<Rightarrow> Message outcome \<times> Engine \<Rightarrow> WebUI \<Rightarrow> http_response option \<times> WebUI" where
  "send_response x r w =
     (case r of
        (Ok m, e) \<Rightarrow> (Some (HttpJson (JObj [(''msg_id'', JStr (msg_ID m)), (''ok'', JBool True)])), w\<lparr>wu_engine := e\<rparr>)
      | (Err err, e) \<Rightarrow> (Some (respond_error (we_engineErr x err)), w\<lparr>wu_engine := e\<rparr>)
      | (Panic, e) \<Rightarrow> (None, w\<lparr>wu_engine := e\<rparr>))"

text \<open>\<open>None\<close> as the response: the handler panics and the connection is dropped.\<close>

definition handleSend :: "'i web_env \<Rightarrow> string \<Rightarrow> json option \<Rightarrow> WebUI \<Rightarrow> http_response option \<times> WebUI" where
  "handleSend x method body w =
     (if method \<noteq> ''POST'' then (Some (HttpError 405 ''POST required''), w)
      else send_response x (SendText (we_env x) (body_field body ''chat_id'') (body_field body ''text'') None (wu_engine w)) w)"

definition handleSettings :: "string \<Rightarrow> json option \<Rightarrow> WebUI \<Rightarrow> http_response \<times> WebUI" where
  "handleSettings method body w =
     (if method = ''GET'' then
        (HttpJson (JObj [(''connected'', JBool (case wu_serverConn w of None \<Rightarrow> False | Some r \<Rightarrow> Connected r)),
           (''transport_mode'', JStr (cfg_TransportMode (e_cfg (wu_engine w)))),
           (''username'', JStr (case wu_serverConn w of None \<Rightarrow> '''' | Some r \<Rightarrow> sr_username r))]), w)
      else (respond_ok, w\<lparr>wu_engine := snd (SetTransportMode (body_field body ''transport_mode'') (wu_engine w))\<rparr>))"

definition find_dm :: "PeerID \<Rightarrow> Chat list \<Rightarrow> Chat option" where
  "find_dm peer cs =
     find (\<lambda>c. chat_Type c = ChatDirect \<and> (\<exists>m\<in>set (chat_Members c). PeerID_String (cm_PeerID m) = PeerID_String peer)) cs"

definition handleDM :: "'i web_env \<Rightarrow> string \<Rightarrow> json option \<Rightarrow> WebUI \<Rightarrow> http_response \<times> WebUI" where
  "handleDM x method body w =
     (if method \<noteq> ''POST'' then (HttpError 405 ''POST required'', w)
      else let peer = \<lparr>pid_NodeID = body_field body ''node_id'', pid_Fingerprint = body_field body ''fingerprint''\<rparr> in
        case find_dm peer (ListChats (e_store (wu_engine w))) of
          Some c \<Rightarrow> (HttpJson (JObj [(''chat_id'', JStr (chat_ID c)), (''existing'', JBool True), (''ok'', JBool True)]), w)
        | None \<Rightarrow>
            (case CreateChat (we_env x) '''' [peer] (wu_engine w) of
               (chat, e1) \<Rightarrow>
                 (HttpJson (JObj [(''chat_id'', JStr (chat_ID chat)), (''ok'', JBool True)]),
                  w\<lparr>wu_engine := snd (SendHandshake (we_env x) (pid_NodeID peer) e1)\<rparr>)))"

text \<open>The form: the file (\<open>None\<close> when there is none or it cannot be read), the chat and the name.\<close>

definition handleUpload ::
  "'i web_env \<Rightarrow> Processor \<Rightarrow> bool \<times> bool \<Rightarrow> string \<Rightarrow> bytes option \<Rightarrow> string \<Rightarrow> string \<Rightarrow> WebUI \<Rightarrow> http_response option \<times> WebUI" where
  "handleUpload x p fs method data chatID name w =
     (if method \<noteq> ''POST'' then (Some (HttpError 405 ''POST required''), w)
      else case data of
          None \<Rightarrow> (Some (respond_error ''No file provided''), w)
        | Some d \<Rightarrow>
            if chatID = '''' then (Some (respond_error ''chat_id required''), w)
            else let fileName = (if name = '''' then ''file'' else name);
                     res = (case ProcessFile (we_lib x) fileName d of Inl _ \<Rightarrow> Inl MediaError | Inr pm \<Rightarrow> Inr pm)
                 in send_response x (SendFile (we_env x) res fs chatID (wu_engine w)) w)"

definition handleShutdown :: "WebUI \<Rightarrow> http_response \<times> WebUI" where
  "handleShutdown w = (respond_ok, if wu_onShutdown w then w\<lparr>wu_shutdown := True\<rparr> else w)"

subsection \<open>Events\<close>

definition web_handleWS :: "string \<Rightarrow> WebUI \<Rightarrow> WebUI" where
  "web_handleWS uuid w = w\<lparr>wu_clients := AList.update uuid (make_chan 64) (wu_clients w)\<rparr>"

definition web_readPump_end :: "string \<Rightarrow> WebUI \<Rightarrow> WebUI" where
  "web_readPump_end uuid w = w\<lparr>wu_clients := AList.delete uuid (wu_clients w)\<rparr>"

definition BroadcastEvent :: "json \<Rightarrow> WebUI \<Rightarrow> WebUI" where
  "BroadcastEvent data w = w\<lparr>wu_clients := map (\<lambda>(i, ch). (i, chan_offer data ch)) (wu_clients w)\<rparr>"

section \<open>Lemmas\<close>

subsection \<open>The relay server as network and HTTP server\<close>

definition server_net :: "hashes \<Rightarrow> gotime \<Rightarrow> bytes \<Rightarrow> string \<Rightarrow> Server \<Rightarrow> network" where
  "server_net hs now rnd cid s addr f =
     (case srv_conns (handleFrame hs now rnd cid f (handleWSUpgrade cid s)) cid of
        None \<Rightarrow> None
      | Some c \<Rightarrow> (case ch_buf (cl_sendCh c) of [] \<Rightarrow> None | g # _ \<Rightarrow> Some g))"

definition server_login :: "hashes \<Rightarrow> gotime \<Rightarrow> Server \<Rightarrow> string \<Rightarrow> json \<Rightarrow> json option" where
  "server_login hs now s url j =
     (case fst (handleHTTPLogin hs now ''POST'' (Some j) s) of HttpJson r \<Rightarrow> Some r | _ \<Rightarrow> None)"

lemma username_char_plain: "username_char c \<Longrightarrow> ascii_lower c = c \<and> \<not> is_space c"
  by (auto simp: username_char_def ascii_lower_def is_space_def Let_def)

lemma dropWhile_none: "list_all (\<lambda>c. \<not> P c) xs \<Longrightarrow> dropWhile P xs = xs"
  by (cases xs) auto

text \<open>Account names are written as the server normalises them.\<close>

lemma valid_name_normal:
  assumes "isValidUsername u"
  shows "TrimSpace (ToLower u) = u"
proof -
  have all: "list_all username_char u" using assms by (auto simp: isValidUsername_def split: if_splits)
  then have "ToLower u = u" by (auto simp: ToLower_def list_all_iff username_char_plain intro!: map_idI)
  moreover have "list_all (\<lambda>c. \<not> is_space c) u" using all username_char_plain by (auto simp: list_all_iff)
  then have "TrimSpace u = u" by (simp add: TrimSpace_def dropWhile_none list_all_rev)
  ultimately show ?thesis by simp
qed

lemma account_name_normal:
  assumes "server_inv s" and "getUserByUsername s u = Some user"
  shows "TrimSpace (ToLower u) = u"
proof -
  have "isValidUsername (ua_Username user)"
    using assms by (auto simp: server_inv_def users_ok_def getUserByUsername_def find_row_def find_Some_iff)
  then show ?thesis using getUser_name [OF assms(2)] valid_name_normal by simp
qed

lemma server_login_ok:
  assumes "getUserByUsername s (TrimSpace (ToLower u)) = Some user"
    and "checkPassword hs (ua_PasswordHash user) (ua_Salt user) pw"
  shows "server_login hs now s url (map_payload [(''password'', pw), (''username'', u)]) =
    Some (JObj [(''ok'', JBool True), (''token'', JStr (generateToken hs (srv_cfg s) user)),
      (''username'', JStr (ua_Username user)), (''nickname'', JStr (ua_Nickname user)), (''bio'', JStr (ua_Bio user))])"
  using assms
  by (simp add: server_login_def handleHTTPLogin_def unmarshal_def dec_login_def map_payload_def fld_def Let_def)

text \<open>How the authentication of a new connection ends.\<close>

lemma auth_accepted:
  assumes "server_inv s" and "srv_conns s cid = None" and "int64_range now"
    and "getUserByUsername s (sr_username r) = Some user" and "sr_token r = generateToken hs (srv_cfg s) user" and "sr_token r \<noteq> ''''"
  shows "\<exists>f. server_net hs now rnd cid s addr (auth_frame now r) = Some f \<and> rf_Cmd f = CmdAuthOK"
proof -
  have inv: "server_inv (handleWSUpgrade cid s)" using connect_inv [of s cid] assms(1,2) by simp
  have "getUserByUsername (handleWSUpgrade cid s) (sr_username r) = Some user"
    "sr_token r = generateToken hs (srv_cfg (handleWSUpgrade cid s)) user" using assms(4,5) by simp_all
  from token_authenticates [OF inv handleWSUpgrade_frame(2) _ assms(3) this assms(6), of rnd]
  show ?thesis by (auto simp: server_net_def mk_frame_def)
qed

lemma auth_unknown_user:
  assumes "server_inv s" and "int64_range now" and "getUserByUsername s (sr_username r) = None" and "sr_username r \<noteq> ''''"
    and "sr_token r \<noteq> ''''"
  shows "\<exists>f. server_net hs now rnd cid s addr (auth_frame now r) = Some f \<and> rf_Cmd f = CmdError"
proof -
  have "rf_Cmd (auth_frame now r) = CmdAuth" by (simp add: auth_frame_def mk_frame_def)
  then have "handleFrame hs now rnd cid (auth_frame now r) (handleWSUpgrade cid s) =
    client_send cid (errFrame now ''user not found'') (handleWSUpgrade cid s)"
    using assms(2-5) by (simp add: handleFrame_def handleAuth_def dec_auth_frame Let_def)
  then show ?thesis by (simp add: server_net_def client_send_conns chan_simps errFrame_def mk_frame_def)
qed

text \<open>The client that \<open>engine_connect\<close> makes, and what becomes of it.\<close>

definition auth_client :: "string \<Rightarrow> string \<Rightarrow> string \<Rightarrow> WebUI \<Rightarrow> serverRelay" where
  "auth_client addr u t w = (SetAuth u t (newServerRelay [addr] (local_id (wu_engine w))))\<lparr>sr_OnMessage := True\<rparr>"

lemma auth_client_simps [simp]:
  "sr_username (auth_client addr u t w) = u" "sr_token (auth_client addr u t w) = t"
  "sr_addresses (auth_client addr u t w) = [addr]"
  by (simp_all add: auth_client_def SetAuth_def newServerRelay_def)

lemma engine_connect_client:
  "engine_connect x addr (Some (u, t)) w =
     (case Connect (we_net x) (env_now (we_env x)) (auth_client addr u t w) of
        (err, sr) \<Rightarrow> (err, w\<lparr>wu_serverConn := (if err = None then Some sr else None),
          wu_engine := snd (ConnectToServer (we_env x) (err = None) addr (wu_engine w))\<rparr>))"
  by (simp add: engine_connect_def auth_client_def Let_def)

lemma connect_refused:
  assumes "we_net x addr (auth_frame (env_now (we_env x)) (auth_client addr u t w)) = Some g" and "rf_Cmd g = CmdError"
  shows "\<exists>w'. engine_connect x addr (Some (u, t)) w = (Some AllAddressesFailed, w') \<and> wu_serverConn w' = None \<and> wu_auth w' = wu_auth w"
  using assms by (simp add: engine_connect_client Connect_def dial_def)

lemma connect_accepted:
  assumes "we_net x addr (auth_frame (env_now (we_env x)) (auth_client addr u t w)) = Some g" and "rf_Cmd g = CmdAuthOK" and "t \<noteq> ''''"
  shows "\<exists>w' r. engine_connect x addr (Some (u, t)) w = (None, w') \<and> wu_serverConn w' = Some r \<and> Connected r \<and>
    sr_registered r \<and> sr_username r = u \<and> sr_token r = t"
  using assms by (simp add: engine_connect_client Connect_def dial_def Connected_def)

lemma login_net:
  assumes "getUserByUsername s (TrimSpace (ToLower u)) = Some user" and "checkPassword hs (ua_PasswordHash user) (ua_Salt user) pw"
  shows "snd (handleHTTPLogin hs now ''POST'' (Some (map_payload [(''password'', pw), (''username'', u)])) s) =
    update_user (TrimSpace (ToLower u)) (\<lambda>y. y\<lparr>ua_LastLogin := UnixNano now\<rparr>) s"
  using assms by (simp add: handleHTTPLogin_def unmarshal_def dec_login_def map_payload_def fld_def Let_def)

text \<open>After a login over HTTP the token authenticates a connection under the name of the account.\<close>

lemma token_connects:
  assumes "server_inv s" and "srv_conns s cid = None" and "getUserByUsername s u = Some user"
    and "generateToken hs (srv_cfg s) user \<noteq> ''''" and "int64_range (env_now (we_env x))"
    and "we_net x = server_net hs (env_now (we_env x)) rnd cid (update_user u (\<lambda>y. y\<lparr>ua_LastLogin := t\<rparr>) s)"
  shows "\<exists>w' r. engine_connect x addr (Some (u, generateToken hs (srv_cfg s) user)) w = (None, w') \<and> wu_serverConn w' = Some r \<and>
    Connected r \<and> sr_registered r \<and> sr_token r = generateToken hs (srv_cfg s) user"
proof -
  let ?f = "\<lambda>y. y\<lparr>ua_LastLogin := t\<rparr>" and ?tok = "generateToken hs (srv_cfg s) user" and ?now = "env_now (we_env x)"
  let ?s2 = "update_user u ?f s" and ?r = "auth_client addr u ?tok w"
  have "server_inv ?s2" using update_user_inv [OF assms(1)] by simp
  moreover have "getUserByUsername ?s2 (sr_username ?r) = Some (?f user)" using getUser_update [OF assms(3), of ?f] by simp
  moreover have "sr_token ?r = generateToken hs (srv_cfg ?s2) (?f user)" by (simp add: generateToken_def)
  moreover have "srv_conns ?s2 cid = None" using assms(2) by simp
  ultimately obtain g where "we_net x addr (auth_frame ?now ?r) = Some g" "rf_Cmd g = CmdAuthOK"
    using auth_accepted [of ?s2 cid ?now ?r "?f user" hs rnd addr] assms(4,5) unfolding assms(6) by auto
  from connect_accepted [OF this assms(4)] show ?thesis by blast
qed

lemma profile_frame [simp]:
  "wu_serverConn (set_name n w) = wu_serverConn w" "wu_serverConn (set_bio x b w) = wu_serverConn w"
  "wu_auth (set_name n w) = wu_auth w" "wu_auth (set_bio x b w) = wu_auth w"
  by (simp_all add: set_name_def set_bio_def)

section \<open>Properties\<close>

text \<open>
  C27: Logging in through the web interface. The browser sends the credentials of an account, with the
  name spelled in any way that the server normalises to the account's name. The server accepts
  them and issues the token, but the interface authenticates the new connection with the name as
  it was typed: if that is the account's name, the engine is connected with the token and the login is
  saved; otherwise the connection is refused, nothing is saved and an error is reported.
\<close>

theorem web_login_spelling:
  assumes "server_reachable cfg s" and "srv_conns s cid = None"
    and "getUserByUsername s (TrimSpace (ToLower u)) = Some user"
    and "checkPassword hs (ua_PasswordHash user) (ua_Salt user) pw" and "generateToken hs (srv_cfg s) user \<noteq> ''''"
    and "int64_range (env_now (we_env x))" and "we_post x = server_login hs now s"
    and "we_net x = server_net hs (env_now (we_env x)) rnd cid
      (snd (handleHTTPLogin hs now ''POST'' (Some (map_payload [(''password'', pw), (''username'', u)])) s))"
    and "web_handleLogin x ''POST'' (Some (map_payload [(''password'', pw), (''server'', srv), (''username'', u)])) w = (resp, w')"
  shows "(u = TrimSpace (ToLower u) \<longrightarrow>
      wu_auth w' = Some \<lparr>ad_ServerAddr = with_port srv, ad_Username = u, ad_Token = generateToken hs (srv_cfg s) user\<rparr> \<and>
      (\<exists>r. wu_serverConn w' = Some r \<and> Connected r \<and> sr_registered r \<and> sr_token r = generateToken hs (srv_cfg s) user)) \<and>
    (u \<noteq> TrimSpace (ToLower u) \<longrightarrow>
      wu_serverConn w' = None \<and> wu_auth w' = wu_auth w \<and> (\<exists>e. resp = respond_error e))"
proof -
  let ?n = "TrimSpace (ToLower u)" and ?f = "\<lambda>y. y\<lparr>ua_LastLogin := UnixNano now\<rparr>" and ?now = "env_now (we_env x)"
  let ?tok = "generateToken hs (srv_cfg s) user" and ?s2 = "update_user ?n ?f s" and ?w = "engine_disconnect x w"
  let ?res = "[(''ok'', ''true''), (''token'', ?tok), (''username'', ua_Username user), (''nickname'', ua_Nickname user), (''bio'', ua_Bio user)]"
  let ?r = "auth_client (with_port srv) u ?tok ?w"
  have sinv: "server_inv s" using assms(1) by (rule server_reachable_inv)
  have sinv2: "server_inv ?s2" using update_user_inv [OF sinv] by simp
  have net: "we_net x = server_net hs ?now rnd cid ?s2" using assms(8) login_net [OF assms(3,4)] by simp
  have post: "httpPost x url [(''password'', pw), (''username'', u)] = Some ?res" for url
    by (simp add: httpPost_def assms(7) server_login_ok [OF assms(3,4)])
  have login: "(resp, w') = after_auth x ''Login success, but engine connection failed: ''
      (\<lambda>w. set_bio x (ua_Bio user) (set_name (ua_Nickname user) w)) (with_port srv) u ?res w"
    unfolding assms(9) [symmetric] by (simp add: web_handleLogin_def post body_field_def map_payload_def Let_def entry_def)
  show ?thesis
  proof (cases "u = ?n")
    case True
    have "getUserByUsername s u = Some user" "we_net x = server_net hs ?now rnd cid (update_user u ?f s)"
      using True assms(3) net by simp_all
    from token_connects [OF sinv assms(2) this(1) assms(5,6) this(2), of "with_port srv" ?w] show ?thesis
      using True login by (auto simp: after_auth_def entry_def saveAuth_def Let_def)
  next
    case False
    then have "getUserByUsername ?s2 (sr_username ?r) = None" using account_name_normal [OF sinv2] by fastforce
    moreover have "u \<noteq> ''''" using False by (auto simp: ToLower_def TrimSpace_def)
    ultimately obtain g where "we_net x (with_port srv) (auth_frame ?now ?r) = Some g" "rf_Cmd g = CmdError"
      using auth_unknown_user [OF sinv2 assms(6), of ?r hs rnd cid "with_port srv"] assms(5) unfolding net by auto
    from connect_refused [OF this] show ?thesis
      using False login by (auto simp: after_auth_def entry_def engine_disconnect_def Let_def)
  qed
qed

section \<open>Witnesses\<close>

definition demo_login_body :: "string \<Rightarrow> json" where
  "demo_login_body u = map_payload [(''password'', ''hunter2''), (''username'', u)]"

definition demo_web :: "string \<Rightarrow> (int \<times> int) web_env" where
  "demo_web u = \<lparr>we_env = demo_env ''w'',
     we_net = server_net demo_hashes (env_now (demo_env ''w'')) [] ''c2''
       (snd (handleHTTPLogin demo_hashes 9 ''POST'' (Some (demo_login_body u)) demo_accounts)),
     we_post = server_login demo_hashes 9 demo_accounts, we_get = (\<lambda>_. None), we_relayErr = (\<lambda>_. ''refused''),
     we_engineErr = (\<lambda>_. ''failed''), we_httpErr = ''unreachable'', we_fmt = (\<lambda>_. ''''), we_lib = demo_media_lib\<rparr>"

text \<open>Alice registered as \<open>Alice\<close>; she can log in as \<open>alice\<close> but not as \<open>Alice\<close>.\<close>

theorem web_login_spelling_witness:
  "wu_serverConn (snd (web_handleLogin (demo_web ''Alice'') ''POST''
     (Some (map_payload [(''password'', ''hunter2''), (''server'', ''host''), (''username'', ''Alice'')])) (NewWebUI (demo_engine ''alice'' 1)))) = None \<and>
   wu_serverConn (snd (web_handleLogin (demo_web ''alice'') ''POST''
     (Some (map_payload [(''password'', ''hunter2''), (''server'', ''host''), (''username'', ''alice'')])) (NewWebUI (demo_engine ''alice'' 1)))) \<noteq> None"
proof -
  have a: "char_of (97 :: nat) = CHR ''a''" by code_simp
  have name: "TrimSpace (ToLower ''Alice'') = ''alice''" "TrimSpace (ToLower ''alice'') = ''alice''"
    by (simp_all add: ToLower_def ascii_lower_def TrimSpace_def is_space_def a)
  have user: "getUserByUsername demo_accounts (TrimSpace (ToLower ''alice'')) = Some demo_account"
    using demo_accounts_facts(3) by (simp add: name)
  have free: "srv_conns demo_accounts ''c2'' = None" by (rule demo_accounts_facts)
  have now: "int64_range (env_now (we_env (demo_web u)))" for u by (simp add: demo_web_def demo_env_def int64_range_def)
  note hyps = demo_account_facts(1) demo_account_facts(2) now
  have "we_post (demo_web u) = server_login demo_hashes 9 demo_accounts"
    "we_net (demo_web u) = server_net demo_hashes (env_now (we_env (demo_web u))) [] ''c2''
      (snd (handleHTTPLogin demo_hashes 9 ''POST'' (Some (map_payload [(''password'', ''hunter2''), (''username'', u)])) demo_accounts))" for u
    by (simp_all add: demo_web_def demo_login_body_def)
  note env = this
  show ?thesis
    using web_login_spelling [OF demo_accounts_facts(1) free demo_accounts_facts(3) hyps env prod.collapse [symmetric], of "''host''" "NewWebUI (demo_engine ''alice'' 1)"]
      web_login_spelling [OF demo_accounts_facts(1) free user hyps env prod.collapse [symmetric], of "''host''" "NewWebUI (demo_engine ''alice'' 1)"]
    by (simp add: name) blast
qed

end
