(* ===== verification/Lifecycle.thy ===== *)
theory Lifecycle
  imports Engine_Recv Call_Manager Transport Web_UI
begin

text \<open>
  The lifecycle of a node: \<open>Start\<close>, \<open>Stop\<close>, \<open>Stats\<close> and the background workers of
  \<^verbatim>\<open>messenger/engine.go\<close>, which put the engine, the transport, the relay connection and the call
  manager together, and the identity file of \<^verbatim>\<open>crypto/crypto.go\<close>. The record \<open>Node\<close> holds the
  components and what survives a restart: the database (in the engine), the identity file and the
  saved login. Signals of calls go out through the engine (\<open>sendCallSignal\<close>) and come in as packets.

  Results: after a restart the node has the same identity, but not the profile, which is looked up
  under an ID without node ID; a signal that the call manager sends reaches the call manager of the
  other node as it was sent; a worker whose interval is not positive crashes the process.
\<close>

section \<open>Definitions\<close>

subsection \<open>The identity file\<close>

definition enc_Identity :: "Identity \<Rightarrow> json" where
  "enc_Identity i = JObj
     [(''sign_pub'', JBytes (id_SignPublic i)), (''sign_priv'', JBytes (id_SignPrivate i)),
      (''dh_pub'', JArr (map (JInt \<circ> uint) (id_DHPublic i))), (''dh_priv'', JArr (map (JInt \<circ> uint) (id_DHPrivate i))),
      (''fingerprint'', JStr (id_Fingerprint i)), (''created_at'', JTime (id_CreatedAt i))]"

definition dec_Identity :: "json \<Rightarrow> Identity option" where
  "dec_Identity j = do {
     fs \<leftarrow> json_fields j;
     sp \<leftarrow> fld ''sign_pub'' dec_bytes [] fs;
     ss \<leftarrow> fld ''sign_priv'' dec_bytes [] fs;
     dp \<leftarrow> fld ''dh_pub'' (dec_list dec_word) [] fs;
     ds \<leftarrow> fld ''dh_priv'' (dec_list dec_word) [] fs;
     fp \<leftarrow> fld ''fingerprint'' dec_string '''' fs;
     ct \<leftarrow> fld ''created_at'' dec_time zero_time fs;
     Some \<lparr>id_SignPublic = sp, id_SignPrivate = ss, id_DHPublic = copy_array 32 dp, id_DHPrivate = copy_array 32 ds,
           id_Fingerprint = fp, id_CreatedAt = ct\<rparr> }"

definition Serialize :: "env \<Rightarrow> Identity \<Rightarrow> bytes option" where
  "Serialize v i = json_Marshal (env_json v) (enc_Identity i)"

definition LoadIdentity :: "env \<Rightarrow> bytes \<Rightarrow> Identity option" where
  "LoadIdentity v data = Option.bind (json_Unmarshal (env_json v) data) dec_Identity"

subsection \<open>The node\<close>

record Node =
  nd_ui :: WebUI
  nd_trans :: ZTTransport
  nd_calls :: "CallManager option"
  nd_identityFile :: "bytes option"
  nd_stopCh :: bool

datatype start_error = IdentityError | TransportFailed transport_error

abbreviation nd_engine :: "Node \<Rightarrow> Engine" where
  "nd_engine n \<equiv> wu_engine (nd_ui n)"

abbreviation nd_relay :: "Node \<Rightarrow> serverRelay option" where
  "nd_relay n \<equiv> wu_serverConn (nd_ui n)"

definition on_engine :: "(Engine \<Rightarrow> Engine) \<Rightarrow> Node \<Rightarrow> Node" where
  "on_engine f n = n\<lparr>nd_ui := (nd_ui n)\<lparr>wu_engine := f (nd_engine n)\<rparr>\<rparr>"

text \<open>
  \<open>New\<close> on the files of an earlier run: the database, the identity file and the saved login. The
  identity and the local peer are nil until \<open>Start\<close>.
\<close>

definition nil_identity :: Identity where
  "nil_identity = \<lparr>id_SignPublic = [], id_SignPrivate = [], id_DHPublic = replicate 32 0, id_DHPrivate = replicate 32 0,
     id_Fingerprint = '''', id_CreatedAt = zero_time\<rparr>"

definition local_peer :: "gotime \<Rightarrow> Identity \<Rightarrow> Peer" where
  "local_peer now i = \<lparr>peer_ID = \<lparr>pid_NodeID = '''', pid_Fingerprint = id_Fingerprint i\<rparr>, peer_DisplayName = '''',
     peer_AvatarHash = '''', peer_Status = PeerOnline, peer_StatusText = '''', peer_PublicKey = id_DHPublic i,
     peer_SignKey = id_SignPublic i, peer_LastSeen = now, peer_Networks = [], peer_IsBlocked = False, peer_IsContact = True\<rparr>"

definition node_New :: "Config \<Rightarrow> SQLiteStorage \<Rightarrow> bytes option \<Rightarrow> authData option \<Rightarrow> Node" where
  "node_New cfg db idFile auth =
     \<lparr>nd_ui = (NewWebUI ((New cfg nil_identity (local_peer zero_time nil_identity))\<lparr>e_store := db\<rparr>))\<lparr>wu_auth := auth\<rparr>,
      nd_trans = NewZTTransport cfg, nd_calls = None, nd_identityFile = idFile, nd_stopCh = False\<rparr>"

text \<open>
  \<open>loadOrCreateIdentity\<close>; \<open>writable\<close> says whether the identity file can be written, which the code
  does not check. A serialisation that fails leaves an empty file.
\<close>

definition load_profile :: "SQLiteStorage \<Rightarrow> Peer \<Rightarrow> Peer" where
  "load_profile db p =
     (case GetPeer db (peer_ID p) of
        None \<Rightarrow> p
      | Some old \<Rightarrow> p\<lparr>peer_DisplayName := peer_DisplayName old, peer_AvatarHash := peer_AvatarHash old,
                      peer_StatusText := peer_StatusText old\<rparr>)"

definition read_or_create :: "env \<Rightarrow> bool \<Rightarrow> bytes option \<Rightarrow> Engine \<Rightarrow> Identity option \<times> bytes option \<times> Engine" where
  "read_or_create v writable idFile e =
     (case idFile of
        Some data \<Rightarrow> (LoadIdentity v data, idFile, e)
      | None \<Rightarrow>
          (case read_rand v e of (rndSign, e1) \<Rightarrow>
          (case read_rand v e1 of (rndDH, e2) \<Rightarrow>
          (case GenerateIdentity (env_prim v) (env_now v) rndSign rndDH of
             Inl _ \<Rightarrow> (None, None, e2)
           | Inr i \<Rightarrow> (Some i, if writable then Some (marshal_nil v (enc_Identity i)) else None, e2)))))"

definition loadOrCreateIdentity ::
  "env \<Rightarrow> bool \<Rightarrow> bytes option \<Rightarrow> Engine \<Rightarrow> (Identity \<times> Peer) option \<times> bytes option \<times> Engine" where
  "loadOrCreateIdentity v writable idFile e =
     (case read_or_create v writable idFile e of
        (None, f, e') \<Rightarrow> (None, f, e')
      | (Some i, f, e') \<Rightarrow> (Some (i, load_profile (e_store e') (local_peer (env_now v) i)), f, e'))"

text \<open>
  \<open>Start\<close>. A relay connection that fails stays in place unconnected; the synchronisation that
  follows a successful one is a later step of the engine.
\<close>

definition start_relay :: "'i web_env \<Rightarrow> WebUI \<Rightarrow> WebUI" where
  "start_relay x w =
     (let e = wu_engine w in
      if cfg_UseServer (e_cfg e) \<and> cfg_ServerAddresses (e_cfg e) \<noteq> [] then
        (case Connect (we_net x) (env_now (we_env x)) ((newServerRelay (cfg_ServerAddresses (e_cfg e)) (local_id e))\<lparr>sr_OnMessage := True\<rparr>) of
           (Some _, sr) \<Rightarrow> w\<lparr>wu_serverConn := Some sr\<rparr>
         | (None, sr) \<Rightarrow> w\<lparr>wu_serverConn := Some sr,
             wu_engine := publish ''server.connected'' (env_now (we_env x)) NoData (e\<lparr>e_serverUp := True\<rparr>)\<rparr>)
      else w)"

definition Start :: "'i web_env \<Rightarrow> zts \<Rightarrow> bool \<Rightarrow> Node \<Rightarrow> start_error option \<times> Node" where
  "Start x z writable n =
     (case loadOrCreateIdentity (we_env x) writable (nd_identityFile n) (nd_engine n) of
        (None, f, e) \<Rightarrow> (Some IdentityError, (on_engine (\<lambda>_. e) n)\<lparr>nd_identityFile := f\<rparr>)
      | (Some (i, p), f, e) \<Rightarrow>
          let n1 = (on_engine (\<lambda>_. e\<lparr>e_identity := i, e_localPeer := p\<rparr>) n)\<lparr>nd_identityFile := f\<rparr> in
          (case ZT_Start z (nd_trans n1) of
             (Some err, t) \<Rightarrow> (Some (TransportFailed err), n1\<lparr>nd_trans := t\<rparr>)
           | (None, t) \<Rightarrow>
               let self = p\<lparr>peer_ID := (peer_ID p)\<lparr>pid_NodeID := zt_nodeID t\<rparr>\<rparr>;
                   n2 = on_engine (\<lambda>e. e\<lparr>e_localPeer := self\<rparr>) (n1\<lparr>nd_trans := SetEventBus t\<rparr>)
               in (None, n2\<lparr>nd_calls := Some ((NewCallManager (peer_ID self))\<lparr>cm_hasSendFn := True\<rparr>),
                            nd_ui := start_relay x (nd_ui n2)\<rparr>)))"

text \<open>\<open>Stop\<close>: closing the channel of the workers a second time is a panic.\<close>

definition Stop :: "Node \<Rightarrow> panic + Node" where
  "Stop n =
     (if nd_stopCh n then Inl CloseOfClosedChannel
      else case ZT_Stop (nd_trans n) of
          Inl p \<Rightarrow> Inl p
        | Inr t \<Rightarrow> Inr (n\<lparr>nd_stopCh := True, nd_trans := t,
            nd_ui := (nd_ui n)\<lparr>wu_serverConn := map_option relay_Close (nd_relay n),
                               wu_engine := (nd_engine n)\<lparr>e_serverUp := False\<rparr>\<rparr>\<rparr>))"

text \<open>What a stopped process leaves on disk, and the process that is started on it.\<close>

definition reboot :: "Config \<Rightarrow> Node \<Rightarrow> Node" where
  "reboot cfg n = node_New cfg (e_store (nd_engine n)) (nd_identityFile n) (loadAuth (nd_ui n))"

subsection \<open>Statistics and networks\<close>

record NetworkStats =
  ns_MessagesSent :: "64 word"
  ns_MessagesReceived :: "64 word"
  ns_BytesSent :: "64 word"
  ns_BytesReceived :: "64 word"
  ns_EncryptErrors :: "64 word"
  ns_DecryptErrors :: "64 word"
  ns_RetransmitCount :: "64 word"
  ns_ActiveSessions :: int
  ns_ActiveCalls :: nat
  ns_ConnectedPeers :: nat
  ns_ServerConnected :: bool

definition Stats :: "Node \<Rightarrow> NetworkStats" where
  "Stats n =
     (let e = nd_engine n in
      \<lparr>ns_MessagesSent = e_statMsgSent e, ns_MessagesReceived = e_statMsgRecv e,
       ns_BytesSent = e_statBytesSent e, ns_BytesReceived = e_statBytesRecv e,
       ns_EncryptErrors = e_statEncryptErr e, ns_DecryptErrors = e_statDecryptErr e,
       ns_RetransmitCount = e_statRetransmit e, ns_ActiveSessions = 0,
       ns_ActiveCalls = (case nd_calls n of None \<Rightarrow> 0 | Some cm \<Rightarrow> length (ActiveCalls cm)),
       ns_ConnectedPeers = length (filter (\<lambda>p. peer_Status p = PeerOnline) (ListPeers (e_store e))),
       ns_ServerConnected = (case nd_relay n of None \<Rightarrow> False | Some r \<Rightarrow> Connected r)\<rparr>)"

definition node_JoinNetwork :: "zts \<Rightarrow> NetworkID \<Rightarrow> Node \<Rightarrow> transport_error option \<times> Node" where
  "node_JoinNetwork z i n = (case ZT_JoinNetwork z i (nd_trans n) of (err, t) \<Rightarrow> (err, n\<lparr>nd_trans := t\<rparr>))"

definition node_LeaveNetwork :: "zts \<Rightarrow> NetworkID \<Rightarrow> Node \<Rightarrow> transport_error option \<times> Node" where
  "node_LeaveNetwork z i n = (case ZT_LeaveNetwork z i (nd_trans n) of (err, t) \<Rightarrow> (err, n\<lparr>nd_trans := t\<rparr>))"

definition ListNetworks :: "Node \<Rightarrow> NetworkID list" where
  "ListNetworks n = zt_networks (nd_trans n)"

subsection \<open>Background workers\<close>

datatype worker = ReceiveLoop | RetryLoop | PingLoop | DisappearingLoop | KeyRotationLoop

datatype worker_start = WorkerEnds | WorkerRuns | WorkerPanics

text \<open>\<open>time.NewTicker\<close> panics for an interval that is not positive.\<close>

definition NewTicker :: "duration \<Rightarrow> worker_start" where
  "NewTicker d = (if d \<le> 0 then WorkerPanics else WorkerRuns)"

fun start_worker :: "Config \<Rightarrow> worker \<Rightarrow> worker_start" where
  "start_worker cfg ReceiveLoop = WorkerRuns"
| "start_worker cfg RetryLoop = NewTicker (cfg_RetryInterval cfg)"
| "start_worker cfg PingLoop = NewTicker (cfg_PingInterval cfg)"
| "start_worker cfg DisappearingLoop = NewTicker (30 * Second)"
| "start_worker cfg KeyRotationLoop =
     (if cfg_RotateKeysEvery cfg \<le> 0 then WorkerEnds else NewTicker (cfg_RotateKeysEvery cfg))"

text \<open>
  One tick of a worker that runs; nothing happens once the channel is closed. \<open>None\<close>: the cache
  pruning never returns.
\<close>

fun worker_tick :: "env \<Rightarrow> nat \<Rightarrow> worker \<Rightarrow> Node \<Rightarrow> Node option" where
  "worker_tick v conns RetryLoop n = Some (if nd_stopCh n then n else on_engine (flushPending v) n)"
| "worker_tick v conns PingLoop n = Some (if nd_stopCh n then n else on_engine (broadcastPresence v) n)"
| "worker_tick v conns KeyRotationLoop n = Some (if nd_stopCh n then n else on_engine (RotateKeys v) n)"
| "worker_tick v conns DisappearingLoop n =
     (if nd_stopCh n then Some n else map_option (\<lambda>e. on_engine (\<lambda>_. e) n) (disappearing_tick v conns (nd_engine n)))"
| "worker_tick v conns ReceiveLoop n = Some n"

subsection \<open>Signals of calls\<close>

definition sendCallSignal :: "env \<Rightarrow> PeerID \<Rightarrow> SignalMessage \<Rightarrow> Engine \<Rightarrow> bool \<times> Engine" where
  "sendCallSignal v to sig e =
     trans_Send v (pid_NodeID to)
       (packet MsgCallSignal (FlagReliable OR FlagMedia) (env_now v) (marshal_nil v (enc_SignalMessage sig))) e"

text \<open>
  An operation of the call manager, whose \<open>SendSignalFn\<close> is \<open>sendCallSignal\<close>: the signals it sends
  leave through the engine, and sending fails when the transport does not reach the node.
\<close>

definition wire_rtc :: "env \<Rightarrow> rtc \<Rightarrow> rtc" where
  "wire_rtc v w = w\<lparr>rtc_sendOK := (\<lambda>p. env_reach v (pid_NodeID p))\<rparr>"

definition node_call :: "env \<Rightarrow> rtc \<Rightarrow> (rtc \<Rightarrow> CallManager \<Rightarrow> 'r \<times> CallManager) \<Rightarrow> Node \<Rightarrow> 'r option \<times> Node" where
  "node_call v w f n =
     (case nd_calls n of
        None \<Rightarrow> (None, n)
      | Some cm \<Rightarrow>
          (case f (wire_rtc v w) cm of
             (r, cm') \<Rightarrow>
               (Some r, on_engine (fold (\<lambda>(to, sig) e. snd (sendCallSignal v to sig e)) (drop (length (cm_sent cm)) (cm_sent cm')))
                  (n\<lparr>nd_calls := Some cm'\<rparr>))))"

definition handleCallSignalPacket :: "env \<Rightarrow> PeerID \<Rightarrow> bytes \<Rightarrow> rtc \<Rightarrow> CallManager \<Rightarrow> call_error option \<times> CallManager" where
  "handleCallSignalPacket v from body w cm = HandleSignal w (env_now v) from (json_Unmarshal (env_json v) body) cm"

text \<open>One round of \<open>receiveLoop\<close>: the engine handles the packet and passes a call signal on.\<close>

definition node_receive :: "env \<Rightarrow> rtc \<Rightarrow> IncomingPacket \<Rightarrow> Node \<Rightarrow> Node" where
  "node_receive v w ipkt n =
     (if nd_stopCh n then n
      else let e' = receive_packet v ipkt (nd_engine n);
               new = drop (length (e_signals (nd_engine n))) (e_signals e')
           in fold (\<lambda>(from, body) n. snd (node_call v w (handleCallSignalPacket v from body) n)) new (on_engine (\<lambda>_. e') n))"

section \<open>Lemmas\<close>

lemma on_engine_simps [simp]:
  "nd_engine (on_engine f n) = f (nd_engine n)" "nd_relay (on_engine f n) = nd_relay n"
  "wu_auth (nd_ui (on_engine f n)) = wu_auth (nd_ui n)" "nd_trans (on_engine f n) = nd_trans n"
  "nd_calls (on_engine f n) = nd_calls n" "nd_identityFile (on_engine f n) = nd_identityFile n"
  "nd_stopCh (on_engine f n) = nd_stopCh n"
  by (simp_all add: on_engine_def)

lemma node_New_simps [simp]:
  "e_store (nd_engine (node_New cfg db f a)) = db" "nd_identityFile (node_New cfg db f a) = f"
  "wu_auth (nd_ui (node_New cfg db f a)) = a" "nd_trans (node_New cfg db f a) = NewZTTransport cfg"
  by (simp_all add: node_New_def NewWebUI_def)

subsection \<open>Identities\<close>

lemma dec_enc_Identity [codec_simps]:
  assumes "length (id_DHPublic i) = 32" and "length (id_DHPrivate i) = 32"
  shows "dec_Identity (enc_Identity i) = Some i"
proof -
  have "dec_all dec_word (map (JInt \<circ> uint) bs) = Some bs" for bs :: bytes
    by (rule dec_all_map) (simp only: o_apply dec_word_uint)
  then show ?thesis
    using assms by (simp add: dec_Identity_def enc_Identity_def fld_def copy_array_def)
qed

lemma GenerateIdentity_lengths:
  "GenerateIdentity pr now rs rd = Inr i \<Longrightarrow> length (id_DHPublic i) = 32 \<and> length (id_DHPrivate i) = 32"
  by (auto simp: GenerateIdentity_def generateDHKeypair_def clamp_bits(1) Let_def split: option.splits sum.splits prod.splits)

text \<open>The file that the first start leaves is read back as the identity of that start.\<close>

lemma created_file_loads:
  assumes "read_or_create v True f0 e = (Some i, f, e')" and "json_codec_law (env_json v)" and "Serialize v i \<noteq> None"
  shows "\<exists>data. f = Some data \<and> LoadIdentity v data = Some i"
proof (cases f0)
  case None
  with assms(1) obtain rs rd where gen: "GenerateIdentity (env_prim v) (env_now v) rs rd = Inr i"
    and f: "f = Some (marshal_nil v (enc_Identity i))"
    by (auto simp: read_or_create_def read_rand_def split: prod.splits sum.splits)
  obtain data where "json_Marshal (env_json v) (enc_Identity i) = Some data" using assms(3) by (auto simp: Serialize_def)
  then have "json_Unmarshal (env_json v) data = Some (enc_Identity i)" "marshal_nil v (enc_Identity i) = data"
    using assms(2) by (auto simp: json_codec_law_def marshal_nil_def)
  then show ?thesis using f GenerateIdentity_lengths [OF gen] by (simp add: LoadIdentity_def dec_enc_Identity)
qed (use assms in \<open>auto simp: read_or_create_def\<close>)

lemma read_or_create_file:
  "LoadIdentity v data = Some i \<Longrightarrow> read_or_create v w (Some data) e = (Some i, Some data, e)"
  by (simp add: read_or_create_def)

lemma read_or_create_store: "read_or_create v w f e = (r, f', e') \<Longrightarrow> e_store e' = e_store e"
  by (auto simp: read_or_create_def read_rand_def split: prod.splits sum.splits option.splits)

subsection \<open>Starting\<close>

lemma start_relay_engine [simp]:
  "e_store (wu_engine (start_relay x w)) = e_store (wu_engine w)"
  "e_identity (wu_engine (start_relay x w)) = e_identity (wu_engine w)"
  "e_localPeer (wu_engine (start_relay x w)) = e_localPeer (wu_engine w)" "wu_auth (start_relay x w) = wu_auth w"
  by (simp_all add: start_relay_def Let_def publish_def split: option.splits prod.splits)

text \<open>What a successful start does: the identity, the local peer, the transport and the call manager.\<close>

lemma load_profile_simps [simp]:
  "peer_ID (load_profile db p) = peer_ID p"
  by (simp add: load_profile_def split: option.splits)

lemma local_peer_id [simp]: "peer_ID (local_peer now i) = \<lparr>pid_NodeID = '''', pid_Fingerprint = id_Fingerprint i\<rparr>"
  by (simp add: local_peer_def)

lemma Start_ok:
  assumes "Start x z wr n = (None, n')"
  obtains i f e t where "read_or_create (we_env x) wr (nd_identityFile n) (nd_engine n) = (Some i, f, e)"
    and "ZT_Start z (nd_trans n) = (None, t)" and "nd_trans n' = SetEventBus t" and "e_identity (nd_engine n') = i"
    and "e_localPeer (nd_engine n') = (load_profile (e_store (nd_engine n)) (local_peer (env_now (we_env x)) i))
           \<lparr>peer_ID := \<lparr>pid_NodeID = zt_nodeID t, pid_Fingerprint = id_Fingerprint i\<rparr>\<rparr>"
    and "e_store (nd_engine n') = e_store (nd_engine n)" and "nd_identityFile n' = f" and "nd_stopCh n' = nd_stopCh n"
    and "nd_calls n' = Some ((NewCallManager (local_id (nd_engine n')))\<lparr>cm_hasSendFn := True\<rparr>)"
proof -
  obtain r f e where r: "read_or_create (we_env x) wr (nd_identityFile n) (nd_engine n) = (r, f, e)"
    by (metis prod_cases3)
  obtain i where i: "r = Some i" using assms r by (auto simp: Start_def loadOrCreateIdentity_def split: option.splits)
  obtain err t where t: "ZT_Start z (nd_trans n) = (err, t)" by fastforce
  have err: "err = None" using assms r i t by (auto simp: Start_def loadOrCreateIdentity_def Let_def split: option.splits)
  show thesis
    using assms r i t err read_or_create_store [OF r]
    by (intro that [of i f e t]) (auto simp: Start_def loadOrCreateIdentity_def Let_def)
qed

lemma Start_succeeds:
  assumes "read_or_create (we_env x) wr (nd_identityFile n) (nd_engine n) = (Some i, f, e)" and "fst (ZT_Start z (nd_trans n)) = None"
  shows "\<exists>n'. Start x z wr n = (None, n') \<and> e_identity (nd_engine n') = i \<and> nd_identityFile n' = f"
  using assms by (cases "ZT_Start z (nd_trans n)") (simp add: Start_def loadOrCreateIdentity_def Let_def)

lemma load_profile_name:
  "peer_DisplayName (load_profile db (local_peer now i)) =
     (case GetPeer db \<lparr>pid_NodeID = '''', pid_Fingerprint = id_Fingerprint i\<rparr> of None \<Rightarrow> '''' | Some p \<Rightarrow> peer_DisplayName p)"
  by (simp add: load_profile_def local_peer_def split: option.splits)

subsection \<open>Call signals\<close>

lemma receive_call_signal:
  "pkt_Type (ip_Pkt ipkt) = MsgCallSignal \<Longrightarrow>
   e_signals (receive_packet v ipkt e) = e_signals e @ [(\<lparr>pid_NodeID = ip_From ipkt, pid_Fingerprint = ''''\<rparr>, pkt_Body (ip_Pkt ipkt))]"
  by (simp add: receive_packet_def handleIncoming_def Let_def)

text \<open>A signal that leaves one node is handled by the call manager of the node it is sent to.\<close>

lemma signal_delivered:
  assumes "json_codec_law (env_json v')" and "json_Marshal (env_json v') (enc_SignalMessage sig) = Some body"
    and "nd_calls n = Some cm" and "\<not> nd_stopCh n" and "pkt = packet MsgCallSignal fl ts body"
  shows "nd_calls (node_receive v' w \<lparr>ip_From = from, ip_Pkt = pkt, ip_ReceivedAt = at\<rparr> n) =
    Some (snd (HandleSignal (wire_rtc v' w) (env_now v') \<lparr>pid_NodeID = from, pid_Fingerprint = ''''\<rparr> (Some (enc_SignalMessage sig)) cm))"
proof -
  have "json_Unmarshal (env_json v') body = Some (enc_SignalMessage sig)" using assms(1,2) by (simp add: json_codec_law_def)
  then show ?thesis
    using assms(3,4)
    by (simp add: assms(5) node_receive_def Let_def receive_call_signal packet_def node_call_def handleCallSignalPacket_def split: prod.splits)
qed

section \<open>Properties\<close>



text \<open>
  Which workers run: the five workers of a started node all run or end at once exactly when the
  intervals of the retries and of the pings are positive; otherwise one of them crashes the process.
  The default configuration is of the first kind.
\<close>

theorem workers_run:
  "(\<forall>w. start_worker cfg w \<noteq> WorkerPanics) = (0 < cfg_RetryInterval cfg \<and> 0 < cfg_PingInterval cfg) \<and>
   (\<forall>w. start_worker (DefaultConfig home) w = WorkerRuns)"
proof (intro conjI allI iffI)
  show "0 < cfg_RetryInterval cfg" if "\<forall>w. start_worker cfg w \<noteq> WorkerPanics"
    using that [THEN spec, of RetryLoop] by (auto simp: NewTicker_def split: if_splits)
  show "0 < cfg_PingInterval cfg" if "\<forall>w. start_worker cfg w \<noteq> WorkerPanics"
    using that [THEN spec, of PingLoop] by (auto simp: NewTicker_def split: if_splits)
  show "start_worker cfg w \<noteq> WorkerPanics" if "0 < cfg_RetryInterval cfg \<and> 0 < cfg_PingInterval cfg" for w
    using that by (cases w) (auto simp: NewTicker_def)
  show "start_worker (DefaultConfig home) w = WorkerRuns" for w
    by (cases w) (simp_all add: NewTicker_def DefaultConfig_def)
qed

text \<open>A node can be stopped once; the second time is a crash, and after it no worker does anything.\<close>

theorem stop_once:
  assumes "Stop n = Inr n'"
  shows "Stop n' = Inl CloseOfClosedChannel \<and> worker_tick v conns w n' = Some n' \<and> node_receive v' rtc ipkt n' = n' \<and>
    (case nd_relay n' of None \<Rightarrow> True | Some r \<Rightarrow> \<not> Connected r)"
proof -
  have "nd_stopCh n'" and "nd_relay n' = map_option relay_Close (nd_relay n)"
    using assms by (auto simp: Stop_def split: if_splits sum.splits)
  then show ?thesis
    by (cases w) (simp_all add: Stop_def node_receive_def relay_Close_def markDisconnected_def Connected_def split: option.splits)
qed

section \<open>Witnesses\<close>

definition demo_offline :: "(int \<times> int) web_env" where
  "demo_offline = \<lparr>we_env = demo_env ''w'', we_net = (\<lambda>_ _. None), we_post = (\<lambda>_ _. None), we_get = (\<lambda>_. None),
     we_relayErr = (\<lambda>_. ''refused''), we_engineErr = (\<lambda>_. ''failed''), we_httpErr = ''unreachable'', we_fmt = (\<lambda>_. ''''),
     we_lib = demo_media_lib\<rparr>"

definition demo_fresh :: Node where
  "demo_fresh = node_New (DefaultConfig None) migrate None None"

definition demo_started :: Node where
  "demo_started = snd (Start demo_offline demo_zts True demo_fresh)"

definition demo_renamed :: Node where
  "demo_renamed = reboot (DefaultConfig None) (on_engine (SetDisplayName ''Ann'') demo_started)"

lemma demo_ZT: "fst (ZT_Start demo_zts (NewZTTransport cfg)) = None" "env_json (we_env demo_offline) = \<lparr>json_Marshal = encode, json_Unmarshal = decode\<rparr>"
  by (simp_all add: ZT_Start_def NewZTTransport_def demo_zts_def demo_offline_def demo_env_def Let_def)

lemma demo_offline_json: "json_codec_law (env_json (we_env demo_offline))"
  using demo_env_json by (simp add: demo_offline_def)

lemma demo_starts:
  "Start demo_offline demo_zts True demo_fresh = (None, demo_started)"
  "fst (Start demo_offline demo_zts True demo_renamed) = None"
proof -
  obtain i f e where i: "read_or_create (we_env demo_offline) True None (nd_engine demo_fresh) = (Some i, f, e)"
    by (simp add: read_or_create_def read_rand_def demo_offline_def demo_env_def clear_primitives_def GenerateIdentity_def
        generateDHKeypair_def Let_def)
  then have "nd_identityFile demo_fresh = None" and "fst (ZT_Start demo_zts (nd_trans demo_fresh)) = None"
    using demo_ZT by (simp_all add: demo_fresh_def)
  then obtain n where n: "Start demo_offline demo_zts True demo_fresh = (None, n)" "nd_identityFile n = f"
    using Start_succeeds [of demo_offline True demo_fresh i f e demo_zts] i by auto
  then show "Start demo_offline demo_zts True demo_fresh = (None, demo_started)" by (simp add: demo_started_def)
  have "Serialize (we_env demo_offline) i \<noteq> None" by (simp add: Serialize_def demo_ZT encode_def)
  then obtain data where "f = Some data" "LoadIdentity (we_env demo_offline) data = Some i"
    using created_file_loads [OF i demo_offline_json] by auto
  then have "read_or_create (we_env demo_offline) True (nd_identityFile demo_renamed) (nd_engine demo_renamed) =
      (Some i, Some data, nd_engine demo_renamed)"
    using n by (simp add: demo_renamed_def reboot_def demo_started_def read_or_create_file)
  moreover have "fst (ZT_Start demo_zts (nd_trans demo_renamed)) = None" using demo_ZT by (simp add: demo_renamed_def reboot_def)
  ultimately show "fst (Start demo_offline demo_zts True demo_renamed) = None" by (metis Start_succeeds fst_conv)
qed

lemma demo_started_ids: "pid_NodeID (local_id (nd_engine demo_started)) = ''0000000001''"
  "peer_DisplayName (e_localPeer (nd_engine demo_started)) = ''''"
proof -
  obtain i f e and t :: ZTTransport where "ZT_Start demo_zts (nd_trans demo_fresh) = (None, t)"
    "e_localPeer (nd_engine demo_started) = (load_profile (e_store (nd_engine demo_fresh)) (local_peer (env_now (we_env demo_offline)) i))
       \<lparr>peer_ID := \<lparr>pid_NodeID = zt_nodeID t, pid_Fingerprint = id_Fingerprint i\<rparr>\<rparr>"
    using Start_ok [OF demo_starts(1)] by metis
  moreover have "takeWhile (\<lambda>c. c \<noteq> CHR '':'') (TrimSpace ''0000000001:0:key'') = ''0000000001''" by code_simp
  ultimately show "pid_NodeID (local_id (nd_engine demo_started)) = ''0000000001''"
    "peer_DisplayName (e_localPeer (nd_engine demo_started)) = ''''"
    by (auto simp: load_profile_name demo_fresh_def ZT_Start_def NewZTTransport_def demo_zts_def readNodeIDFromFile_def
        GetPeer_def migrate_def find_row_def Let_def)
qed


text \<open>The node of a callee accepts the call \<open>s2\<close> of node \<open>b\<close>, which has the session \<open>s2\<close> too.\<close>

definition demo_callee :: Node where
  "demo_callee = demo_fresh\<lparr>nd_calls := Some demo_called\<rparr>"

definition demo_caller_node :: Node where
  "demo_caller_node = demo_fresh\<lparr>nd_calls := Some (snd (InitiateCall demo_rtc 5 ''s2'' ''chat'' CallVoice
     ((NewCallManager demo_caller)\<lparr>cm_hasSendFn := True\<rparr>)))\<rparr>"


end
