(* ===== verification/Console.thy ===== *)
theory Console
  imports Prelude
begin

text \<open>
  What the two commands (\<^verbatim>\<open>cmd/client/main.go\<close>, \<^verbatim>\<open>cmd/server/main.go\<close>) use of Go's text library, on ASCII text:
  \<open>strings.Fields\<close>, \<open>strings.Join\<close>, \<open>strings.TrimPrefix\<close>, \<open>net.SplitHostPort\<close>, the decimal verb of
  \<open>fmt.Sscanf\<close>, and lines read from the terminal. A reader is the list of the lines that are left; at the end of the input
  \<open>ReadString\<close> returns the empty string and an error, which the commands ignore.

  Results: splitting and joining words are inverse; a prompt that is repeated until the answer
  is acceptable returns exactly when an acceptable line is left, and otherwise never.
\<close>

section \<open>Definitions\<close>

subsection \<open>Words\<close>

function Fields :: "string \<Rightarrow> string list" where
  "Fields s =
     (let r = dropWhile is_space s in
      if r = [] then [] else takeWhile (\<lambda>c. \<not> is_space c) r # Fields (dropWhile (\<lambda>c. \<not> is_space c) r))"
  by pat_completeness auto

lemma length_dropWhile_less: "xs \<noteq> [] \<Longrightarrow> P (hd xs) \<Longrightarrow> length (dropWhile P xs) < length xs"
  by (cases xs) (auto simp: le_imp_less_Suc length_dropWhile_le)

termination Fields
proof (relation "measure length")
  fix s r :: string
  assume r: "r = dropWhile is_space s" "r \<noteq> []"
  then have "length (dropWhile (\<lambda>c. \<not> is_space c) r) < length r"
    using hd_dropWhile [of is_space s] by (intro length_dropWhile_less) auto
  then show "(dropWhile (\<lambda>c. \<not> is_space c) r, s) \<in> measure length"
    using length_dropWhile_le [of is_space s] r by simp
qed simp

declare Fields.simps [simp del]

fun Join :: "string list \<Rightarrow> string \<Rightarrow> string" where
  "Join [] sep = ''''"
| "Join [w] sep = w"
| "Join (w # v # ws) sep = w @ sep @ Join (v # ws) sep"

definition TrimPrefix :: "string \<Rightarrow> string \<Rightarrow> string" where
  "TrimPrefix s p = (if HasPrefix s p then drop (length p) s else s)"

text \<open>A word: what \<open>Fields\<close> returns.\<close>

definition word :: "string \<Rightarrow> bool" where
  "word w = (w \<noteq> [] \<and> list_all (\<lambda>c. \<not> is_space c) w)"

subsection \<open>Addresses and numbers\<close>

definition SplitHostPort :: "string \<Rightarrow> (string \<times> string) option" where
  "SplitHostPort s =
     (if CHR '':'' \<notin> set s then None
      else let port = rev (takeWhile (\<lambda>c. c \<noteq> CHR '':'') (rev s));
               before = take (length s - length port - 1) s
           in if HasPrefix s ''['' then
                let r = drop 1 s; host = takeWhile (\<lambda>c. c \<noteq> CHR '']'') r; rest = drop (length host + 1) r in
                if CHR '']'' \<in> set r \<and> rest = CHR '':'' # port \<and> CHR ''['' \<notin> set r \<and> CHR '']'' \<notin> set rest
                then Some (host, port) else None
              else if CHR '':'' \<in> set before \<or> CHR ''['' \<in> set s \<or> CHR '']'' \<in> set s then None
              else Some (before, port))"

definition digit :: "char \<Rightarrow> bool" where
  "digit c = (48 \<le> (of_char c :: nat) \<and> (of_char c :: nat) \<le> 57)"

definition decimal :: "string \<Rightarrow> int" where
  "decimal ds = foldl (\<lambda>a c. 10 * a + (int (of_char c) - 48)) 0 ds"

text \<open>\<open>fmt.Sscanf(s, "%d", &v)\<close>: a sign and the digits at the beginning of a word; \<open>None\<close> leaves \<open>v\<close> as it is.\<close>

definition Sscanf_d :: "string \<Rightarrow> int option" where
  "Sscanf_d s =
     (let neg = HasPrefix s ''-''; r = (if neg \<or> HasPrefix s ''+'' then drop 1 s else s);
          ds = takeWhile digit r; i = (if neg then - decimal ds else decimal ds)
      in if ds = [] \<or> \<not> int64_range i then None else Some i)"

subsection \<open>Reading lines\<close>

fun read_line :: "string list \<Rightarrow> string \<times> string list" where
  "read_line [] = ('''', [])"
| "read_line (l # ls) = (l, ls)"

text \<open>A prompt that is repeated until the answer is acceptable; \<open>None\<close>: for ever.\<close>

partial_function (option) read_until :: "(string \<Rightarrow> 'a option) \<Rightarrow> string list \<Rightarrow> ('a \<times> string list) option" where
  "read_until accept ls =
     (case read_line ls of (l, ls') \<Rightarrow> (case accept l of Some a \<Rightarrow> Some (a, ls') | None \<Rightarrow> read_until accept ls'))"

section \<open>Lemmas\<close>

subsection \<open>Words\<close>

lemma Fields_Nil [simp]: "Fields [] = []"
  by (simp add: Fields.simps)

lemma Fields_space: "is_space c \<Longrightarrow> Fields (c # s) = Fields s"
  by (simp add: Fields.simps [of "c # s"] Fields.simps [of s])

lemma Fields_word: "word w \<Longrightarrow> s = [] \<or> is_space (hd s) \<Longrightarrow> Fields (w @ s) = w # Fields s"
proof -
  assume w: "word w" and s: "s = [] \<or> is_space (hd s)"
  have no: "takeWhile (\<lambda>c. \<not> is_space c) s = []" "dropWhile (\<lambda>c. \<not> is_space c) s = s" using s by (cases s; simp)+
  have all: "\<forall>c\<in>set w. \<not> is_space c" using w by (simp add: word_def list_all_iff)
  then have "dropWhile is_space (w @ s) = w @ s" using w by (cases w) (auto simp: word_def)
  moreover have "takeWhile (\<lambda>c. \<not> is_space c) (w @ s) = w" "dropWhile (\<lambda>c. \<not> is_space c) (w @ s) = s"
    using all no by (simp_all add: takeWhile_append2 dropWhile_append2)
  ultimately show ?thesis using w by (simp add: Fields.simps [of "w @ s"] word_def)
qed

lemma is_space_space [simp]: "is_space CHR '' ''"
  by (simp add: is_space_def)

lemma Fields_words: "list_all word ws \<Longrightarrow> Fields (Join ws '' '') = ws"
proof (induction ws "'' ''" rule: Join.induct)
  case (2 w) then show ?case using Fields_word [of w "[]"] by simp
next
  case (3 w v ws)
  then show ?case using Fields_word [of w "CHR '' '' # Join (v # ws) '' ''"] by (simp add: Fields_space)
qed simp

lemma word_Fields: "w \<in> set (Fields s) \<Longrightarrow> word w"
proof (induction s rule: Fields.induct)
  case (1 s)
  let ?r = "dropWhile is_space s"
  show ?case
  proof (cases "?r = []")
    case True then show ?thesis using 1(2) by (simp add: Fields.simps [of s])
  next
    case False
    then have "w = takeWhile (\<lambda>c. \<not> is_space c) ?r \<or> w \<in> set (Fields (dropWhile (\<lambda>c. \<not> is_space c) ?r))"
      using 1(2) by (subst (asm) Fields.simps) (auto simp: Let_def split: if_splits)
    moreover have "word (takeWhile (\<lambda>c. \<not> is_space c) ?r)"
      using False hd_dropWhile [of is_space s] by (cases ?r) (auto simp: word_def list_all_iff dest: set_takeWhileD)
    ultimately show ?thesis using 1(1) False by blast
  qed
qed

lemma Fields_all_words: "list_all word (Fields s)"
  by (simp add: list_all_iff word_Fields)

subsection \<open>Prompts\<close>

lemma read_until_empty:
  assumes empty: "accept '''' = None"
  shows "read_until accept [] = None"
proof (rule ccontr)
  assume "read_until accept [] \<noteq> None"
  then obtain y where "read_until accept [] = Some y" by blast
  then have "accept '''' = None \<longrightarrow> [] \<noteq> ([] :: string list)"
    by (rule read_until.raw_induct [of "\<lambda>accept ls y. accept '''' = None \<longrightarrow> ls \<noteq> []", rotated])
      (fastforce split: prod.splits option.splits)
  with empty show False by simp
qed

text \<open>If the empty answer is not acceptable, the prompt ends with the first acceptable line that is left.\<close>

lemma read_until_spec:
  assumes "accept '''' = None"
  shows "read_until accept ls =
    (case dropWhile (\<lambda>l. accept l = None) ls of [] \<Rightarrow> None | l # rest \<Rightarrow> Some (the (accept l), rest))"
proof (induction ls)
  case (Cons l ls)
  then show ?case by (subst read_until.simps) (auto split: option.splits)
qed (use assms in \<open>simp add: read_until_empty\<close>)

lemma read_until_accepts:
  assumes "read_until accept ls = Some (a, rest)"
  shows "\<exists>l. accept l = Some a"
proof -
  have "\<exists>l. accept l = Some (fst (a, rest))"
    using assms by (rule read_until.raw_induct [of "\<lambda>accept ls y. \<exists>l. accept l = Some (fst y)", rotated])
      (auto split: prod.splits option.splits)
  then show ?thesis by simp
qed

end
