(* ===== verification/Client_CLI.thy ===== *)
theory Client_CLI
  imports Lifecycle Console
begin

text \<open>
  The command line client of \<^verbatim>\<open>cmd/client/main.go\<close>: its configuration, the automatic login with its background
  retries, the guided setup, the commands of the terminal, the printing of events and the check for
  updates. The terminal is modelled by its content: a command returns the list of what it prints as
  values of \<open>reply\<close>, not as text. One \<open>cli_env\<close> is what the outside answers during one command: the
  network and HTTP server, libzt, WebRTC, the files that can be read, and the exit of the programs it
  runs. The state is the node of the theory \<open>Lifecycle\<close>.

  Results: a login is accepted in every spelling of the name; commands that are unknown or lack
  arguments change nothing; \<^verbatim>\<open>/dm\<close> always makes a new chat; the background retry undoes a logout; the
  guided setup never returns once its input has ended.
\<close>

section \<open>Definitions\<close>

subsection \<open>Replies and environment\<close>

datatype reply =
    Exit | Crash | HelpText | Usage string | UnknownCommand string
  | Connecting string | ConnectError relay_error | ZeroTierHint | ConnectedToServer | AuthenticatedAs string
  | NotConnectedToServer | InvalidUsername | Registering | LoggingIn | HttpFailed | ServerError string
  | RegisteredAs string | LoggedInAs string | ReconnectFailed relay_error | LoggedOut
  | TransportModeIs string | EngineError engine_error | TransportModeSet string | DisplayNameUpdated
  | ServerPeersHeader | ServerPeer string bool string string | NoRegisteredUsers
  | LocalPeersHeader | LocalPeer string string string | NoKnownPeers
  | NetworkLine string | JoinError transport_error | Joined string
  | NoChats | ChatLine string string nat | DMCreated string | GroupCreated string
  | SentMessage string | ReadError | SentFile string nat string
  | HistoryLine gotime string string
  | CallError call_error | CallInitiated string | CallEndedReply
  | UpdateFailed | RebuildFailed | Updated
  | SetupText | OfflineMode | SetupConnected | SetupFailed relay_error | PleaseEnterRL

record 'i cli_env =
  ce_web :: "'i web_env"
  ce_zts :: zts
  ce_rtc :: rtc
  ce_file :: "string \<Rightarrow> bytes option"
  ce_mediaFS :: "bool \<times> bool"
  ce_ParseIP6 :: "string \<Rightarrow> bytes option"
  ce_gitPull :: bool
  ce_goBuild :: bool

subsection \<open>Helpers\<close>

definition parsePeerID :: "string \<Rightarrow> PeerID" where
  "parsePeerID s =
     (if CHR '':'' \<in> set s
      then \<lparr>pid_NodeID = takeWhile (\<lambda>c. c \<noteq> CHR '':'') s, pid_Fingerprint = drop 1 (dropWhile (\<lambda>c. c \<noteq> CHR '':'') s)\<rparr>
      else \<lparr>pid_NodeID = s, pid_Fingerprint = ''''\<rparr>)"

fun statusName :: "PeerStatus \<Rightarrow> string" where
  "statusName PeerOnline = ''online''"
| "statusName PeerAway = ''away''"
| "statusName PeerBusy = ''busy''"
| "statusName _ = ''offline''"

definition truncate_text :: "string \<Rightarrow> nat \<Rightarrow> string" where
  "truncate_text s n = (if length s \<le> n then s else take n s @ ''...'')"

definition client_isValidUsername :: "string \<Rightarrow> bool" where
  "client_isValidUsername s =
     (if length s < 3 \<or> length s > 32 then False
      else list_all (\<lambda>r. (of_char CHR ''a'' :: nat) \<le> of_char r \<and> (of_char r :: nat) \<le> of_char CHR ''z'' \<or>
              (of_char CHR ''0'' :: nat) \<le> of_char r \<and> (of_char r :: nat) \<le> of_char CHR ''9'' \<or> r = CHR ''_'') s)"

text \<open>\<open>net.ParseIP\<close> of a dotted address; texts with a colon are addresses of version 6, left to the argument.\<close>

fun dotted :: "nat \<Rightarrow> string \<Rightarrow> bytes option" where
  "dotted 0 s = None"
| "dotted (Suc n) s =
     (let ds = takeWhile digit s; r = dropWhile digit s; v = decimal ds in
      if ds = [] \<or> length ds > 3 \<or> v > 255 \<or> (length ds > 1 \<and> hd ds = CHR ''0'') then None
      else if n = 0 then (if r = [] then Some [word_of_int v] else None)
      else (case r of CHR ''.'' # r' \<Rightarrow> map_option ((#) (word_of_int v)) (dotted n r') | _ \<Rightarrow> None))"

definition isZerotierIP :: "(string \<Rightarrow> bytes option) \<Rightarrow> string \<Rightarrow> bool" where
  "isZerotierIP ip6 addr =
     (case SplitHostPort addr of
        None \<Rightarrow> False
      | Some (host, _) \<Rightarrow>
          (case (if CHR '':'' \<in> set host then ip6 host else dotted 4 host) of
             None \<Rightarrow> False
           | Some ip4 \<Rightarrow> ip4 ! 0 = 10))"

text \<open>\<open>httpPostJSON\<close>: unlike the web interface it reports an answer that is not an object.\<close>

definition httpPostJSON :: "'i web_env \<Rightarrow> string \<Rightarrow> (string \<times> string) list \<Rightarrow> (string \<times> string) list option" where
  "httpPostJSON x url kvs =
     (case we_post x url (map_payload kvs) of
        Some (JObj fs) \<Rightarrow> Some (map (\<lambda>(k, j). (k, format_v x j)) fs)
      | Some JNull \<Rightarrow> Some []
      | _ \<Rightarrow> None)"

definition on_ui :: "(WebUI \<Rightarrow> WebUI) \<Rightarrow> Node \<Rightarrow> Node" where
  "on_ui f n = n\<lparr>nd_ui := f (nd_ui n)\<rparr>"

definition connect :: "'i web_env \<Rightarrow> string \<Rightarrow> (string \<times> string) option \<Rightarrow> Node \<Rightarrow> relay_error option \<times> Node" where
  "connect x addr auth n = (case engine_connect x addr auth (nd_ui n) of (err, w) \<Rightarrow> (err, n\<lparr>nd_ui := w\<rparr>))"

subsection \<open>Configuration and update check\<close>

text \<open>
  \<open>json.Unmarshal\<close> into a configuration that holds the defaults, with the error ignored: a field that is
  missing, null or of another type keeps its value.
\<close>

definition over :: "(string \<times> json) list \<Rightarrow> string \<Rightarrow> (json \<Rightarrow> 'a option) \<Rightarrow> 'a \<Rightarrow> 'a" where
  "over fs k d old =
     (case lookup_last k fs of None \<Rightarrow> old | Some JNull \<Rightarrow> old | Some j \<Rightarrow> (case d j of None \<Rightarrow> old | Some v \<Rightarrow> v))"

definition over_slice :: "(string \<times> json) list \<Rightarrow> string \<Rightarrow> string list \<Rightarrow> string list" where
  "over_slice fs k old =
     (case lookup_last k fs of
        Some JNull \<Rightarrow> []
      | Some (JArr js) \<Rightarrow> map (\<lambda>j. case j of JStr s \<Rightarrow> s | _ \<Rightarrow> '''') js
      | _ \<Rightarrow> old)"

definition over_Config :: "json \<Rightarrow> Config \<Rightarrow> Config" where
  "over_Config j c =
     (case j of
        JObj fs \<Rightarrow>
          \<lparr>cfg_ZeroTierPort = over fs ''zt_port'' dec_word (cfg_ZeroTierPort c),
           cfg_ZeroTierDataDir = over fs ''zt_data_dir'' dec_string (cfg_ZeroTierDataDir c),
           cfg_Networks = over_slice fs ''networks'' (cfg_Networks c),
           cfg_IdentityFile = over fs ''identity_file'' dec_string (cfg_IdentityFile c),
           cfg_DBPath = over fs ''db_path'' dec_string (cfg_DBPath c),
           cfg_MediaDir = over fs ''media_dir'' dec_string (cfg_MediaDir c),
           cfg_MaxMediaCacheMB = over fs ''max_media_cache_mb'' dec_int64 (cfg_MaxMediaCacheMB c),
           cfg_ListenPort = over fs ''listen_port'' dec_word (cfg_ListenPort c),
           cfg_ServerAddresses = over_slice fs ''server_addresses'' (cfg_ServerAddresses c),
           cfg_UseServer = over fs ''use_server'' dec_bool (cfg_UseServer c),
           cfg_TransportMode = over fs ''transport_mode'' dec_string (cfg_TransportMode c),
           cfg_E2EEnabled = over fs ''e2e_enabled'' dec_bool (cfg_E2EEnabled c),
           cfg_RotateKeysEvery = over fs ''rotate_keys_every'' dec_int64 (cfg_RotateKeysEvery c),
           cfg_RotateAfterNMsgs = over fs ''rotate_after_n_msgs'' dec_word (cfg_RotateAfterNMsgs c),
           cfg_RequireContactAccept = over fs ''require_contact_accept'' dec_bool (cfg_RequireContactAccept c),
           cfg_MaxImageWidthPx = over fs ''max_image_width'' dec_int64 (cfg_MaxImageWidthPx c),
           cfg_MaxVideoHeightPx = over fs ''max_video_height'' dec_int64 (cfg_MaxVideoHeightPx c),
           cfg_AudioBitrateKbps = over fs ''audio_bitrate_kbps'' dec_int64 (cfg_AudioBitrateKbps c),
           cfg_VideoBitrateKbps = over fs ''video_bitrate_kbps'' dec_int64 (cfg_VideoBitrateKbps c),
           cfg_MaxRetries = over fs ''max_retries'' dec_int64 (cfg_MaxRetries c),
           cfg_RetryInterval = over fs ''retry_interval'' dec_int64 (cfg_RetryInterval c),
           cfg_MessageTTL = over fs ''message_ttl'' dec_int64 (cfg_MessageTTL c),
           cfg_PingInterval = over fs ''ping_interval'' dec_int64 (cfg_PingInterval c),
           cfg_DisappearAfter = over fs ''disappear_after'' dec_int64 (cfg_DisappearAfter c),
           cfg_LogLevel = over fs ''log_level'' dec_string (cfg_LogLevel c),
           cfg_LogFile = over fs ''log_file'' dec_string (cfg_LogFile c)\<rparr>
      | _ \<Rightarrow> c)"

text \<open>The configuration of \<open>main\<close>; \<open>None\<close>: the file cannot be read or is not JSON.\<close>

definition client_config :: "string option \<Rightarrow> string \<Rightarrow> json option \<Rightarrow> string \<Rightarrow> Config" where
  "client_config home logLevel cfgFile network =
     (let cfg = (DefaultConfig home)\<lparr>cfg_LogLevel := logLevel\<rparr>;
          cfg1 = (case cfgFile of None \<Rightarrow> cfg | Some j \<Rightarrow> over_Config j cfg)
      in if network \<noteq> '''' then cfg1\<lparr>cfg_Networks := cfg_Networks cfg1 @ [network]\<rparr> else cfg1)"

definition Version :: string where
  "Version = ''1.3.1''"

text \<open>The tag of the release that is announced, if any.\<close>

definition checkUpdate :: "json option \<Rightarrow> string option" where
  "checkUpdate latest =
     (case Option.bind latest json_fields of
        None \<Rightarrow> None
      | Some fs \<Rightarrow>
          (case (fld ''tag_name'' dec_string '''' fs, fld ''body'' dec_string '''' fs) of
             (Some tag, Some _) \<Rightarrow>
               if tag \<noteq> '''' \<and> string_less (TrimPrefix Version ''v'') (TrimPrefix tag ''v'') then Some tag else None
           | _ \<Rightarrow> None))"

subsection \<open>Automatic login\<close>

definition connect_saved :: "'i web_env \<Rightarrow> authData \<Rightarrow> Node \<Rightarrow> relay_error option \<times> Node" where
  "connect_saved x a n =
     connect x (ad_ServerAddr a) (if ad_Token a \<noteq> '''' then Some (ad_Username a, ad_Token a) else None) n"

text \<open>
  The login at the start of \<open>main\<close>. If it fails, a goroutine keeps the saved login it has read and tries
  again, twelve times at most: \<open>Retrying a k\<close> has \<open>k\<close> attempts behind it.
\<close>

datatype retry = NoRetry | Retrying authData nat

definition auto_login :: "'i web_env \<Rightarrow> Node \<Rightarrow> retry \<times> Node" where
  "auto_login x n =
     (case loadAuth (nd_ui n) of
        None \<Rightarrow> (NoRetry, n)
      | Some a \<Rightarrow>
          if ad_ServerAddr a = '''' then (NoRetry, n)
          else (case connect_saved x a n of (None, n') \<Rightarrow> (NoRetry, n') | (Some _, n') \<Rightarrow> (Retrying a 0, n')))"

fun retry_tick :: "'i web_env \<Rightarrow> retry \<times> Node \<Rightarrow> retry \<times> Node" where
  "retry_tick x (NoRetry, n) = (NoRetry, n)"
| "retry_tick x (Retrying a k, n) =
     (case connect_saved x a n of
        (None, n') \<Rightarrow> (NoRetry, n')
      | (Some _, n') \<Rightarrow> (if Suc k < 12 then Retrying a (Suc k) else NoRetry, n'))"

subsection \<open>Registration and login\<close>

text \<open>What is done with the answer of the server: the login is saved before the connection is made.\<close>

definition finish_auth ::
  "'i web_env \<Rightarrow> (string \<Rightarrow> reply) \<Rightarrow> string \<Rightarrow> string \<Rightarrow> (string \<times> string) list \<Rightarrow> Node \<Rightarrow> bool \<times> reply list \<times> Node" where
  "finish_auth x success addr username result n =
     (if entry result ''ok'' = ''true'' then
        let token = entry result ''token'';
            n1 = on_ui (saveAuth (Some \<lparr>ad_ServerAddr = addr, ad_Username = username, ad_Token = token\<rparr>)) n
        in (case connect x addr (Some (username, token)) (on_ui (engine_disconnect x) n1) of
              (None, n2) \<Rightarrow> (True, [success username], n2)
            | (Some e, n2) \<Rightarrow> (True, [success username, ReconnectFailed e], n2))
      else (False, [ServerError (entry result ''error'')], n))"

definition post_register ::
  "'i web_env \<Rightarrow> string \<Rightarrow> string \<Rightarrow> string \<Rightarrow> string \<Rightarrow> string \<Rightarrow> string \<Rightarrow> Node \<Rightarrow> bool \<times> reply list \<times> Node" where
  "post_register x addr username password nickname bio avatar n =
     (case httpPostJSON x (''http://'' @ addr @ ''/auth/register'')
             [(''avatar_path'', avatar), (''bio'', bio), (''nickname'', nickname), (''password'', password), (''username'', username)] of
        None \<Rightarrow> (False, [Registering, HttpFailed], n)
      | Some result \<Rightarrow> (case finish_auth x RegisteredAs addr username result n of (ok, out, n') \<Rightarrow> (ok, Registering # out, n')))"

definition post_login :: "'i web_env \<Rightarrow> string \<Rightarrow> string \<Rightarrow> string \<Rightarrow> Node \<Rightarrow> bool \<times> reply list \<times> Node" where
  "post_login x addr username password n =
     (case httpPostJSON x (''http://'' @ addr @ ''/auth/login'') [(''password'', password), (''username'', username)] of
        None \<Rightarrow> (False, [LoggingIn, HttpFailed], n)
      | Some result \<Rightarrow> (case finish_auth x LoggedInAs addr username result n of (ok, out, n') \<Rightarrow> (ok, LoggingIn # out, n')))"

definition read_username :: "string list \<Rightarrow> (string \<times> string list) option" where
  "read_username = read_until (\<lambda>u. let u' = TrimSpace (ToLower u) in if client_isValidUsername u' then Some u' else None)"

partial_function (option) read_password :: "string list \<Rightarrow> (string \<times> string list) option" where
  "read_password ls =
     (case read_line ls of (p1, ls1) \<Rightarrow>
        if length (TrimSpace p1) < 4 then read_password ls1
        else (case read_line ls1 of (p2, ls2) \<Rightarrow>
                if TrimSpace p1 \<noteq> TrimSpace p2 then read_password ls2 else Some (TrimSpace p1, ls2)))"

text \<open>The interactive dialogues; the result is whether the user is logged in, and the rest of the input.\<close>

definition doRegister :: "'i web_env \<Rightarrow> string list \<Rightarrow> Node \<Rightarrow> (bool \<times> string list \<times> reply list \<times> Node) option" where
  "doRegister x ls n =
     (case nd_relay n of
        None \<Rightarrow> Some (False, ls, [NotConnectedToServer], n)
      | Some sr \<Rightarrow>
          Option.bind (read_username ls) (\<lambda>(username, ls1).
            let (nickname, ls2) = read_line ls1; (bio, ls3) = read_line ls2; (avatar, ls4) = read_line ls3 in
            Option.bind (read_password ls4) (\<lambda>(password, ls5).
              case post_register x (Address sr) username password (TrimSpace nickname) (TrimSpace bio) (TrimSpace avatar) n of
                (ok, out, n') \<Rightarrow> Some (ok, ls5, out, n'))))"

definition doLogin :: "'i web_env \<Rightarrow> string list \<Rightarrow> Node \<Rightarrow> bool \<times> string list \<times> reply list \<times> Node" where
  "doLogin x ls n =
     (case nd_relay n of
        None \<Rightarrow> (False, ls, [NotConnectedToServer], n)
      | Some sr \<Rightarrow>
          let (username, ls1) = read_line ls; (password, ls2) = read_line ls1 in
          (case post_login x (Address sr) (TrimSpace (ToLower username)) (TrimSpace password) n of
             (ok, out, n') \<Rightarrow> (ok, ls2, out, n')))"

text \<open>The loop of \<open>runGuidedSetup\<close> and the setup itself; \<open>None\<close>: it never returns.\<close>

partial_function (option) setup_loop :: "'i web_env \<Rightarrow> string list \<Rightarrow> reply list \<Rightarrow> Node \<Rightarrow> (reply list \<times> Node) option" where
  "setup_loop x ls out n =
     (case read_line ls of (l, ls1) \<Rightarrow>
        let choice = TrimSpace (ToLower l) in
        if choice = ''r'' then
          Option.bind (doRegister x ls1 n)
            (\<lambda>(ok, ls2, o2, n2). if ok then Some (out @ o2, n2) else setup_loop x ls2 (out @ o2) n2)
        else if choice = ''l'' then
          (case doLogin x ls1 n of
             (ok, ls2, o2, n2) \<Rightarrow> if ok then Some (out @ o2, n2) else setup_loop x ls2 (out @ o2) n2)
        else setup_loop x ls1 (out @ [PleaseEnterRL]) n)"

definition runGuidedSetup :: "'i web_env \<Rightarrow> string list \<Rightarrow> Node \<Rightarrow> (reply list \<times> Node) option" where
  "runGuidedSetup x ls n =
     (case read_line ls of (l, ls1) \<Rightarrow>
        let addr = TrimSpace l in
        if addr = '''' then Some ([SetupText, OfflineMode], n)
        else (case connect x addr None n of
                (Some e, n') \<Rightarrow> Some ([SetupText, Connecting addr, SetupFailed e], n')
              | (None, n') \<Rightarrow> setup_loop x ls1 [SetupText, Connecting addr, SetupConnected] n'))"

subsection \<open>Commands\<close>

definition cmd_join_server :: "'i cli_env \<Rightarrow> string list \<Rightarrow> Node \<Rightarrow> reply list \<times> Node" where
  "cmd_join_server c args n =
     (case args of
        [] \<Rightarrow> ([Usage ''/join_server''], n)
      | a # _ \<Rightarrow>
          let addr = with_port a; auth = loadAuth (nd_ui n);
              saved = (case auth of None \<Rightarrow> None | Some d \<Rightarrow>
                if ad_ServerAddr d = addr \<and> ad_Token d \<noteq> '''' then Some (ad_Username d, ad_Token d) else None)
          in (case connect (ce_web c) addr saved n of
                (Some e, n') \<Rightarrow>
                  ([Connecting addr, ConnectError e] @ (if isZerotierIP (ce_ParseIP6 c) addr then [ZeroTierHint] else []), n')
              | (None, n') \<Rightarrow>
                  ([Connecting addr, ConnectedToServer] @
                   (case auth of None \<Rightarrow> [] | Some d \<Rightarrow> if ad_ServerAddr d = addr then [AuthenticatedAs (ad_Username d)] else []), n')))"

definition cmd_register :: "'i cli_env \<Rightarrow> string list \<Rightarrow> Node \<Rightarrow> reply list \<times> Node" where
  "cmd_register c args n =
     (case nd_relay n of
        None \<Rightarrow> ([NotConnectedToServer], n)
      | Some sr \<Rightarrow>
          (case args of
             u # password # nick \<Rightarrow>
               let username = ToLower u in
               if \<not> client_isValidUsername username then ([InvalidUsername], n)
               else snd (post_register (ce_web c) (Address sr) username password (Join nick '' '') '''' '''' n)
           | _ \<Rightarrow> ([Usage ''/register''], n)))"

definition cmd_login :: "'i cli_env \<Rightarrow> string list \<Rightarrow> Node \<Rightarrow> reply list \<times> Node" where
  "cmd_login c args n =
     (case nd_relay n of
        None \<Rightarrow> ([NotConnectedToServer], n)
      | Some sr \<Rightarrow>
          (case args of
             u # password # _ \<Rightarrow> snd (post_login (ce_web c) (Address sr) (ToLower u) password n)
           | _ \<Rightarrow> ([Usage ''/login''], n)))"

definition cmd_logout :: "'i cli_env \<Rightarrow> Node \<Rightarrow> reply list \<times> Node" where
  "cmd_logout c n = ([LoggedOut], on_ui (engine_disconnect (ce_web c)) (on_ui (saveAuth None) n))"

definition cmd_settings :: "string list \<Rightarrow> Node \<Rightarrow> reply list \<times> Node" where
  "cmd_settings args n =
     (case args of
        [] \<Rightarrow> ([TransportModeIs (cfg_TransportMode (e_cfg (nd_engine n)))], n)
      | mode # _ \<Rightarrow>
          (case SetTransportMode mode (nd_engine n) of
             (Ok _, e) \<Rightarrow> ([TransportModeSet mode], on_engine (\<lambda>_. e) n)
           | (Err err, e) \<Rightarrow> ([EngineError err], on_engine (\<lambda>_. e) n)
           | (Panic, e) \<Rightarrow> ([Crash], on_engine (\<lambda>_. e) n)))"

definition cmd_name :: "string list \<Rightarrow> Node \<Rightarrow> reply list \<times> Node" where
  "cmd_name args n =
     (if args = [] then ([Usage ''/name''], n)
      else ([DisplayNameUpdated], on_engine (SetDisplayName (Join args '' '')) n))"

text \<open>A user of the server's list; fields of another type are left empty.\<close>

definition server_peer :: "json \<Rightarrow> reply" where
  "server_peer j =
     (let username = body_field (Some j) ''username''; nickname = body_field (Some j) ''nickname'';
          online = (case j of JObj fs \<Rightarrow> lookup_last ''online'' fs = Some (JBool True) | _ \<Rightarrow> False)
      in ServerPeer (if nickname \<noteq> '''' then nickname @ '' ('' @ username @ '')'' else username) online
           (body_field (Some j) ''node_id'') (body_field (Some j) ''fingerprint''))"

definition server_peers :: "'i cli_env \<Rightarrow> serverRelay \<Rightarrow> reply list" where
  "server_peers c sr =
     (case we_get (ce_web c) (''http://'' @ Address sr @ ''/peers'') of
        Some (JObj fs) \<Rightarrow>
          if lookup_last ''ok'' fs \<noteq> Some (JBool True) then []
          else (case lookup_last ''peers'' fs of
                  Some (JArr (p # ps)) \<Rightarrow> ServerPeersHeader # map server_peer (p # ps)
                | _ \<Rightarrow> [NoRegisteredUsers])
      | _ \<Rightarrow> [])"

definition cmd_peers :: "'i cli_env \<Rightarrow> Node \<Rightarrow> reply list" where
  "cmd_peers c n =
     (let connected = (case nd_relay n of None \<Rightarrow> False | Some r \<Rightarrow> Connected r);
          remote = (case nd_relay n of Some r \<Rightarrow> if Connected r then server_peers c r else [] | None \<Rightarrow> []);
          peers = ListPeers (e_store (nd_engine n));
          locals = (if peers = [] then [] else LocalPeersHeader #
            map (\<lambda>p. LocalPeer (pid_NodeID (peer_ID p)) (peer_DisplayName p) (statusName (peer_Status p))) peers)
      in remote @ locals @ (if \<not> connected \<and> peers = [] then [NoKnownPeers] else []))"

definition cmd_join :: "'i cli_env \<Rightarrow> string list \<Rightarrow> Node \<Rightarrow> reply list \<times> Node" where
  "cmd_join c args n =
     (case args of
        [] \<Rightarrow> ([Usage ''/join''], n)
      | a # _ \<Rightarrow> (case node_JoinNetwork (ce_zts c) a n of
                   (Some e, n') \<Rightarrow> ([JoinError e], n') | (None, n') \<Rightarrow> ([Joined a], n')))"

definition cmd_chats :: "Node \<Rightarrow> reply list" where
  "cmd_chats n =
     (case ListChats (e_store (nd_engine n)) of
        [] \<Rightarrow> [NoChats]
      | cs \<Rightarrow> map (\<lambda>ch. ChatLine (chat_ID ch) (chat_Name ch) (length (chat_Members ch))) cs)"

definition cmd_dm :: "'i cli_env \<Rightarrow> string list \<Rightarrow> Node \<Rightarrow> reply list \<times> Node" where
  "cmd_dm c args n =
     (case args of
        [] \<Rightarrow> ([Usage ''/dm''], n)
      | a # _ \<Rightarrow>
          let peer = parsePeerID a; v = we_env (ce_web c) in
          (case CreateChat v '''' [peer] (nd_engine n) of
             (chat, e) \<Rightarrow> ([DMCreated (chat_ID chat)], on_engine (\<lambda>_. snd (SendHandshake v (pid_NodeID peer) e)) n)))"

definition cmd_new :: "'i cli_env \<Rightarrow> string list \<Rightarrow> Node \<Rightarrow> reply list \<times> Node" where
  "cmd_new c args n =
     (case args of
        name # m # ms \<Rightarrow>
          (case CreateChat (we_env (ce_web c)) name (map parsePeerID (m # ms)) (nd_engine n) of
             (chat, e) \<Rightarrow> ([GroupCreated (chat_ID chat)], on_engine (\<lambda>_. e) n))
      | _ \<Rightarrow> ([Usage ''/new''], n))"

definition send_reply :: "(Message \<Rightarrow> reply) \<Rightarrow> Message outcome \<times> Engine \<Rightarrow> Node \<Rightarrow> reply list \<times> Node" where
  "send_reply sent r n =
     (case r of
        (Ok m, e) \<Rightarrow> ([sent m], on_engine (\<lambda>_. e) n)
      | (Err err, e) \<Rightarrow> ([EngineError err], on_engine (\<lambda>_. e) n)
      | (Panic, e) \<Rightarrow> ([Crash], on_engine (\<lambda>_. e) n))"

definition cmd_msg :: "'i cli_env \<Rightarrow> string list \<Rightarrow> Node \<Rightarrow> reply list \<times> Node" where
  "cmd_msg c args n =
     (case args of
        chatID # w # ws \<Rightarrow>
          send_reply (\<lambda>m. SentMessage (msg_ID m))
            (SendText (we_env (ce_web c)) chatID (Join (w # ws) '' '') None (nd_engine n)) n
      | _ \<Rightarrow> ([Usage ''/msg''], n))"

definition cmd_file :: "'i cli_env \<Rightarrow> string list \<Rightarrow> Node \<Rightarrow> reply list \<times> Node" where
  "cmd_file c args n =
     (case args of
        chatID # path # _ \<Rightarrow>
          (case ce_file c path of
             None \<Rightarrow> ([ReadError], n)
           | Some data \<Rightarrow>
               let res = (case ProcessFile (we_lib (ce_web c)) path data of Inl _ \<Rightarrow> Inl MediaError | Inr pm \<Rightarrow> Inr pm)
               in send_reply (\<lambda>m. SentFile path (length data) (msg_ID m))
                    (SendFile (we_env (ce_web c)) res (ce_mediaFS c) chatID (nd_engine n)) n)
      | _ \<Rightarrow> ([Usage ''/file''], n))"

definition cmd_history :: "'i cli_env \<Rightarrow> string list \<Rightarrow> Node \<Rightarrow> reply list" where
  "cmd_history c args n =
     (case args of
        [] \<Rightarrow> [Usage ''/history'']
      | chatID # rest \<Rightarrow>
          let limit = (case rest of [] \<Rightarrow> 20 | l # _ \<Rightarrow> (case Sscanf_d l of None \<Rightarrow> 20 | Some i \<Rightarrow> i)) in
          map (\<lambda>m. HistoryLine (msg_SentAt m) (pid_NodeID (msg_SenderID m)) (truncate_text (bytes_string (msg_Payload m)) 120))
            (rev (GetMessages (env_now (we_env (ce_web c))) (e_store (nd_engine n)) chatID limit 0)))"

definition cmd_call :: "'i cli_env \<Rightarrow> string \<Rightarrow> CallType \<Rightarrow> string list \<Rightarrow> Node \<Rightarrow> reply list \<times> Node" where
  "cmd_call c usage ctype args n =
     (case args of
        [] \<Rightarrow> ([Usage usage], n)
      | chatID # _ \<Rightarrow>
          let v = we_env (ce_web c) in
          (case new_uuid v (nd_engine n) of (uuid, e) \<Rightarrow>
             (case node_call v (ce_rtc c) (\<lambda>w. InitiateCall w (env_now v) uuid chatID ctype) (on_engine (\<lambda>_. e) n) of
                (None, n') \<Rightarrow> ([Crash], n')
              | (Some (Inl err), n') \<Rightarrow> ([CallError err], n')
              | (Some (Inr sess), n') \<Rightarrow> ([CallInitiated (cs_ID sess)], n'))))"

definition cmd_hangup :: "'i cli_env \<Rightarrow> string list \<Rightarrow> Node \<Rightarrow> reply list \<times> Node" where
  "cmd_hangup c args n =
     (case args of
        [] \<Rightarrow> ([Usage ''/hangup''], n)
      | sid # _ \<Rightarrow>
          let v = we_env (ce_web c) in
          (case node_call v (ce_rtc c) (\<lambda>w cm. ((), HangUp w (env_now v) sid cm)) n of
             (None, n') \<Rightarrow> ([Crash], n')
           | (Some _, n') \<Rightarrow> ([CallEndedReply], n')))"

definition cmd_update :: "'i cli_env \<Rightarrow> reply list" where
  "cmd_update c = (if \<not> ce_gitPull c then [UpdateFailed] else if \<not> ce_goBuild c then [RebuildFailed] else [Updated])"

definition handleCommand :: "'i cli_env \<Rightarrow> string \<Rightarrow> Node \<Rightarrow> reply list \<times> Node" where
  "handleCommand c line n =
     (case Fields line of
        [] \<Rightarrow> ([], n)
      | cmd # args \<Rightarrow>
          if cmd = ''/quit'' then ([Exit], n)
          else if cmd = ''/help'' then ([HelpText], n)
          else if cmd = ''/join_server'' then cmd_join_server c args n
          else if cmd = ''/register'' then cmd_register c args n
          else if cmd = ''/login'' then cmd_login c args n
          else if cmd = ''/logout'' then cmd_logout c n
          else if cmd = ''/settings'' then cmd_settings args n
          else if cmd = ''/name'' then cmd_name args n
          else if cmd = ''/peers'' then (cmd_peers c n, n)
          else if cmd = ''/networks'' then (map NetworkLine (ListNetworks n), n)
          else if cmd = ''/join'' then cmd_join c args n
          else if cmd = ''/chats'' then (cmd_chats n, n)
          else if cmd = ''/dm'' then cmd_dm c args n
          else if cmd = ''/new'' then cmd_new c args n
          else if cmd = ''/msg'' then cmd_msg c args n
          else if cmd = ''/file'' then cmd_file c args n
          else if cmd = ''/history'' then (cmd_history c args n, n)
          else if cmd = ''/call'' then cmd_call c ''/call'' CallVoice args n
          else if cmd = ''/vcall'' then cmd_call c ''/vcall'' CallVideo args n
          else if cmd = ''/hangup'' then cmd_hangup c args n
          else if cmd = ''/update'' then (cmd_update c, n)
          else ([UnknownCommand cmd], n))"

text \<open>
  The loop of the terminal: one environment per line. A line of more than 65535 bytes does not fit into
  the buffer of the scanner and ends the loop like the end of the input.
\<close>

fun command_loop :: "('i cli_env \<times> string) list \<Rightarrow> Node \<Rightarrow> reply list \<times> Node" where
  "command_loop [] n = ([], n)"
| "command_loop ((c, l) # ls) n =
     (if length l > 65535 then ([], n)
      else if TrimSpace l = '''' then command_loop ls n
      else case handleCommand c (TrimSpace l) n of
          (out, n') \<Rightarrow>
            if Exit \<in> set out \<or> Crash \<in> set out then (out, n')
            else (case command_loop ls n' of (out', n'') \<Rightarrow> (out @ out', n'')))"

definition cliLoop :: "('i cli_env \<times> string) list \<Rightarrow> Node \<Rightarrow> reply list \<times> Node" where
  "cliLoop ls n = (case command_loop ls n of (out, n') \<Rightarrow> (HelpText # out, n'))"

subsection \<open>Printed events\<close>

text \<open>The bus carries the events of the engine, of the transport and of the call manager.\<close>

datatype bus_data = EngineData event_data | TransportData "NodeID option" | CallData CallSession

datatype event_line = MessageLine gotime string string | OnlineLine gotime string | OfflineLine gotime string
  | IncomingCallLine gotime string string

definition printEvent :: "bus_data Event \<Rightarrow> event_line option" where
  "printEvent evt =
     (let ts = evt_Timestamp evt; t = evt_Type evt; d = evt_Data evt in
      if t = ''message.received'' then
        (case d of EngineData (DMessage m) \<Rightarrow>
           Some (MessageLine ts (pid_NodeID (msg_SenderID m)) (truncate_text (bytes_string (msg_Payload m)) 80)) | _ \<Rightarrow> None)
      else if t = ''peer.online'' then
        (case d of EngineData (DPeer p) \<Rightarrow> Some (OnlineLine ts (peer_DisplayName p)) | _ \<Rightarrow> None)
      else if t = ''peer.offline'' then
        (case d of EngineData (DPeer p) \<Rightarrow> Some (OfflineLine ts (peer_DisplayName p)) | _ \<Rightarrow> None)
      else if t = ''call.incoming'' then
        (case d of CallData s \<Rightarrow> Some (IncomingCallLine ts (pid_NodeID (cs_Initiator s)) (cs_ID s)) | _ \<Rightarrow> None)
      else None)"

subsection \<open>The program\<close>

record flags =
  fl_cli :: bool
  fl_gui :: bool
  fl_version :: bool
  fl_install :: bool
  fl_uninstall :: bool

datatype launch = ShowVersion string | DoInstall | DoUninstall | StartFailed start_error | Desktop | CLI retry | Browser retry

definition main ::
  "'i web_env \<Rightarrow> zts \<Rightarrow> bool \<Rightarrow> flags \<Rightarrow> Config \<Rightarrow> SQLiteStorage \<Rightarrow> bytes option \<Rightarrow> authData option \<Rightarrow> launch \<times> Node option" where
  "main x z writable fl cfg db idFile auth =
     (if fl_version fl then (ShowVersion Version, None)
      else if fl_install fl then (DoInstall, None)
      else if fl_uninstall fl then (DoUninstall, None)
      else case Start x z writable (node_New cfg db idFile auth) of
          (Some e, n) \<Rightarrow> (StartFailed e, Some n)
        | (None, n) \<Rightarrow>
            if fl_gui fl then (Desktop, Some n)
            else case auto_login x n of
                (r, n') \<Rightarrow>
                  if fl_cli fl then (CLI r, Some n')
                  else (Browser r, Some (on_ui (\<lambda>w. w\<lparr>wu_onShutdown := True\<rparr>) n')))"

section \<open>Lemmas\<close>

subsection \<open>Helpers\<close>

text \<open>The client accepts the names the server accepts.\<close>

lemma client_names: "client_isValidUsername = isValidUsername"
proof (rule ext)
  fix s
  have "r = CHR ''_'' \<longleftrightarrow> (of_char r :: nat) = 95" for r
  proof
    assume "(of_char r :: nat) = 95"
    then have "char_of (of_char r :: nat) = char_of (95 :: nat)" by simp
    moreover have "char_of (95 :: nat) = CHR ''_''" by code_simp
    ultimately show "r = CHR ''_''" by simp
  qed simp
  then show "client_isValidUsername s = isValidUsername s"
    by (simp add: client_isValidUsername_def isValidUsername_def username_char_def Let_def list_all_iff)
qed

lemma on_ui_simps [simp]:
  "nd_ui (on_ui f n) = f (nd_ui n)" "nd_trans (on_ui f n) = nd_trans n" "nd_calls (on_ui f n) = nd_calls n"
  "nd_identityFile (on_ui f n) = nd_identityFile n" "nd_stopCh (on_ui f n) = nd_stopCh n"
  by (simp_all add: on_ui_def)

lemma dropWhile_colon: "CHR '':'' \<notin> set a \<Longrightarrow> dropWhile (\<lambda>c. c \<noteq> CHR '':'') (a @ CHR '':'' # b) = CHR '':'' # b"
  "CHR '':'' \<notin> set a \<Longrightarrow> takeWhile (\<lambda>c. c \<noteq> CHR '':'') (a @ CHR '':'' # b) = a"
  by (induction a) auto

lemma parse_print_PeerID: "CHR '':'' \<notin> set (pid_NodeID p) \<Longrightarrow> parsePeerID (PeerID_String p) = p"
  by (simp add: parsePeerID_def PeerID_String_def dropWhile_colon)

lemma length_truncate: "length (truncate_text s n) \<le> n + 3"
  by (simp add: truncate_text_def)

lemma read_password_sound:
  assumes "read_password ls = Some (pw, rest)"
  shows "4 \<le> length pw \<and> (\<exists>l. TrimSpace l = pw) \<and> ls \<noteq> []"
proof -
  have "4 \<le> length (fst (pw, rest)) \<and> (\<exists>l. TrimSpace l = fst (pw, rest)) \<and> ls \<noteq> []"
    using assms
    by (rule read_password.raw_induct [of "\<lambda>ls y. 4 \<le> length (fst y) \<and> (\<exists>l. TrimSpace l = fst y) \<and> ls \<noteq> []", rotated])
      (fastforce split: prod.splits if_splits simp: TrimSpace_def elim: read_line.elims)
  then show ?thesis by simp
qed

subsection \<open>Logins\<close>

lemma engine_connect_auth [simp]:
  "wu_auth (engine_disconnect x w) = wu_auth w" "engine_connect x addr a w = (err, w') \<Longrightarrow> wu_auth w' = wu_auth w"
  by (auto simp: engine_disconnect_def engine_connect_def Let_def split: prod.splits)

lemma connect_auth: "connect x addr a n = (err, n') \<Longrightarrow> wu_auth (nd_ui n') = wu_auth (nd_ui n)"
  by (auto simp: connect_def split: prod.splits dest: engine_connect_auth(2))

text \<open>A dialogue that succeeds has saved the login.\<close>

lemma finish_auth_saves:
  "finish_auth x msg addr u result n = (True, out, n') \<Longrightarrow>
     loadAuth (nd_ui n') = Some \<lparr>ad_ServerAddr = addr, ad_Username = u, ad_Token = entry result ''token''\<rparr> \<and> msg u \<in> set out"
  by (auto simp: finish_auth_def Let_def loadAuth_def saveAuth_def split: if_splits prod.splits option.splits dest!: connect_auth)

definition logged_in :: "reply list \<Rightarrow> Node \<Rightarrow> bool" where
  "logged_in out n = (\<exists>a. loadAuth (nd_ui n) = Some a \<and>
     (RegisteredAs (ad_Username a) \<in> set out \<or> LoggedInAs (ad_Username a) \<in> set out))"

lemma doRegister_logged_in: "doRegister x ls n = Some (True, ls', out, n') \<Longrightarrow> logged_in out n'"
  by (auto simp: doRegister_def post_register_def logged_in_def Let_def split: option.splits prod.splits bind_splits
      dest!: finish_auth_saves)

lemma doLogin_logged_in: "doLogin x ls n = (True, ls', out, n') \<Longrightarrow> logged_in out n'"
  by (auto simp: doLogin_def post_login_def logged_in_def Let_def split: option.splits prod.splits dest!: finish_auth_saves)

subsection \<open>The guided setup\<close>

definition is_choice :: "string \<Rightarrow> bool" where
  "is_choice l = (TrimSpace (ToLower l) = ''r'' \<or> TrimSpace (ToLower l) = ''l'')"

lemma read_line_cases: "read_line ls = (l, ls') \<Longrightarrow> ls = [] \<and> l = '''' \<and> ls' = [] \<or> ls = l # ls'"
  by (cases ls) auto

lemma not_choice_empty: "\<not> is_choice ''''"
  by (simp add: is_choice_def ToLower_def TrimSpace_def)

definition setup_result :: "string list \<Rightarrow> reply list \<times> Node \<Rightarrow> bool" where
  "setup_result ls y = (logged_in (fst y) (snd y) \<and> (\<exists>l\<in>set ls. is_choice l))"

text \<open>One round of the loop, for any continuation that has the property.\<close>

lemma setup_round:
  assumes IH: "\<And>x ls out n y. rec x ls out n = Some y \<Longrightarrow> setup_result ls y"
    and body: "(case read_line ls of (l, ls1) \<Rightarrow>
        let choice = TrimSpace (ToLower l) in
        if choice = ''r'' then
          Option.bind (doRegister x ls1 n)
            (\<lambda>(ok, ls2, o2, n2). if ok then Some (out @ o2, n2) else rec x ls2 (out @ o2) n2)
        else if choice = ''l'' then
          (case doLogin x ls1 n of
             (ok, ls2, o2, n2) \<Rightarrow> if ok then Some (out @ o2, n2) else rec x ls2 (out @ o2) n2)
        else rec x ls1 (out @ [PleaseEnterRL]) n) = Some y"
  shows "setup_result ls y"
proof -
  obtain l ls1 where l: "read_line ls = (l, ls1)" by fastforce
  have more: "logged_in o2 n2 \<Longrightarrow> logged_in (out @ o2) n2" for o2 n2 by (auto simp: logged_in_def)
  have reg: "doRegister x ls1 n = Some (True, ls2, o2, n2) \<Longrightarrow> logged_in (out @ o2) n2" for ls2 o2 n2
    by (rule more [OF doRegister_logged_in])
  have login: "doLogin x ls1 n = (True, ls2, o2, n2) \<Longrightarrow> logged_in (out @ o2) n2" for ls2 o2 n2
    by (rule more [OF doLogin_logged_in])
  have rec: "rec x ls2 o2 n2 = Some y \<Longrightarrow> logged_in (fst y) (snd y)" for ls2 o2 n2
    using IH by (simp add: setup_result_def)
  show ?thesis
  proof (cases "is_choice l")
    case True
    then have "l \<in> set ls" using read_line_cases [OF l] not_choice_empty by auto
    moreover have "logged_in (fst y) (snd y)"
    proof (cases "TrimSpace (ToLower l) = ''r''")
      case True
      then obtain ok ls2 o2 n2 where "doRegister x ls1 n = Some (ok, ls2, o2, n2)"
        "(if ok then Some (out @ o2, n2) else rec x ls2 (out @ o2) n2) = Some y"
        using body by (auto simp: l bind_eq_Some_conv)
      then show ?thesis using reg rec by (cases ok) auto
    next
      case False
      obtain ok ls2 o2 n2 where "doLogin x ls1 n = (ok, ls2, o2, n2)" by (metis prod_cases4)
      moreover from this have "(if ok then Some (out @ o2, n2) else rec x ls2 (out @ o2) n2) = Some y"
        using body False \<open>is_choice l\<close> by (simp add: l is_choice_def Let_def)
      ultimately show ?thesis using login rec by (cases ok) auto
    qed
    ultimately show ?thesis using True by (auto simp: setup_result_def)
  next
    case False
    then have "rec x ls1 (out @ [PleaseEnterRL]) n = Some y" using body by (simp add: is_choice_def Let_def l)
    then show ?thesis using IH read_line_cases [OF l] by (fastforce simp: setup_result_def)
  qed
qed

lemma setup_loop_returns:
  assumes "setup_loop x ls out n = Some y"
  shows "setup_result ls y"
  using assms
  by (rule setup_loop.raw_induct [of "\<lambda>x ls out n. setup_result ls" "(((x, ls), out), n)" y, unfolded prod.case, rotated])
    (rule setup_round)

lemma Fields_command: "list_all word (cmd # args) \<Longrightarrow> Fields (Join (cmd # args) '' '') = cmd # args"
  by (rule Fields_words)

subsection \<open>Chats\<close>

lemma GetChat_listed: "GetChat s i = Some ch \<Longrightarrow> ch \<in> set (ListChats s)"
  by (auto simp: GetChat_def ListChats_def find_row_def order_by_desc_def find_Some_iff)

lemma SendHandshake_store [simp]: "e_store (snd (SendHandshake v to e)) = e_store e"
  by (simp add: SendHandshake_def trans_Send_def Let_def)

text \<open>A direct chat that was just created.\<close>

lemma CreateChat_direct:
  assumes "CreateChat v '''' [peer] e = (ch, e')"
  shows "chat_ID ch = env_uuid v (e_draws e)" and "chat_Type ch = ChatDirect"
    and "map cm_PeerID (chat_Members ch) = [local_id e, peer]" and "e_store e' = SaveChat ch (e_store e)"
  using assms by (auto simp: CreateChat_def new_uuid_def with_store_def Let_def)

lemma find_dm_exists:
  assumes "ch \<in> set cs" and "chat_Type ch = ChatDirect" and "peer \<in> set (map cm_PeerID (chat_Members ch))"
  shows "find_dm peer cs \<noteq> None"
  using assms unfolding find_dm_def find_None_iff by auto

subsection \<open>Retries\<close>

lemma retries_end:
  "fst (fold retry_tick xs (Retrying a k, n)) \<noteq> NoRetry \<Longrightarrow> k + length xs < 12 \<or> xs = []"
proof (induction xs arbitrary: k n)
  case (Cons x xs)
  have stop: "fst (fold retry_tick ys (NoRetry, m)) = NoRetry" for ys :: "'a web_env list" and m
    by (induction ys) simp_all
  obtain err n' where con: "connect_saved x a n = (err, n')" by fastforce
  then have "err \<noteq> None" "Suc k < 12" and more: "fst (fold retry_tick xs (Retrying a (Suc k), n')) \<noteq> NoRetry"
    using Cons.prems stop [of xs n'] by (auto split: option.splits if_splits)
  then show ?case using Cons.IH [OF more] by auto
qed simp

section \<open>Properties\<close>

text \<open>
  C16: Logging in from the command line. For a server that has an account of that name, in any mixture of
  upper and lower case, and the right password, \<^verbatim>\<open>/login\<close> ends with a connection that is authenticated with the token the server issued, and the login is saved
  under the name of the account: the client writes the name as the server does before it uses it.
\<close>

theorem cli_login_any_case:
  assumes "server_reachable cfg s" and "srv_conns s cid = None" and "getUserByUsername s (ToLower u) = Some user"
    and "checkPassword hs (ua_PasswordHash user) (ua_Salt user) pw" and "generateToken hs (srv_cfg s) user \<noteq> ''''"
    and "int64_range (env_now (we_env (ce_web c)))" and "we_post (ce_web c) = server_login hs now s"
    and "we_net (ce_web c) = server_net hs (env_now (we_env (ce_web c))) rnd cid
      (snd (handleHTTPLogin hs now ''POST'' (Some (map_payload [(''password'', pw), (''username'', ToLower u)])) s))"
    and "nd_relay n = Some sr" and "word u" and "word pw"
  shows "\<exists>n' r. handleCommand c (Join [''/login'', u, pw] '' '') n = ([LoggingIn, LoggedInAs (ToLower u)], n') \<and>
    loadAuth (nd_ui n') = Some \<lparr>ad_ServerAddr = Address sr, ad_Username = ToLower u, ad_Token = generateToken hs (srv_cfg s) user\<rparr> \<and>
    nd_relay n' = Some r \<and> Connected r \<and> sr_registered r \<and> sr_token r = generateToken hs (srv_cfg s) user"
proof -
  let ?u = "ToLower u" and ?tok = "generateToken hs (srv_cfg s) user" and ?x = "ce_web c"
  let ?res = "[(''ok'', ''true''), (''token'', ?tok), (''username'', ua_Username user), (''nickname'', ua_Nickname user), (''bio'', ua_Bio user)]"
  let ?auth = "\<lparr>ad_ServerAddr = Address sr, ad_Username = ?u, ad_Token = ?tok\<rparr>"
  have inv: "server_inv s" using assms(1) by (rule server_reachable_inv)
  have name: "TrimSpace (ToLower ?u) = ?u" by (rule account_name_normal [OF inv assms(3)])
  have "getUserByUsername s (TrimSpace (ToLower ?u)) = Some user" using assms(3) name by simp
  note acc = this assms(4)
  have post: "httpPostJSON ?x url [(''password'', pw), (''username'', ?u)] = Some ?res" for url
    by (simp add: httpPostJSON_def assms(7) server_login_ok [OF acc])
  have "we_net ?x = server_net hs (env_now (we_env ?x)) rnd cid (update_user ?u (\<lambda>y. y\<lparr>ua_LastLogin := UnixNano now\<rparr>) s)"
    using assms(8) login_net [OF acc] name by simp
  from token_connects [OF inv assms(2,3,5,6) this, of "Address sr" "engine_disconnect ?x (saveAuth (Some ?auth) (nd_ui n))"]
  obtain w' r where con: "engine_connect ?x (Address sr) (Some (?u, ?tok)) (engine_disconnect ?x (saveAuth (Some ?auth) (nd_ui n))) = (None, w')"
    "wu_serverConn w' = Some r" "Connected r \<and> sr_registered r \<and> sr_token r = ?tok" by blast
  then have "wu_auth w' = Some ?auth" by (auto dest!: engine_connect_auth(2) simp: saveAuth_def)
  moreover have "word ''/login''" by (simp add: word_def is_space_def)
  then have "Fields (Join [''/login'', u, pw] '' '') = [''/login'', u, pw]" using assms(10,11) by (intro Fields_command) simp
  ultimately show ?thesis
    using con assms(9)
    by (simp add: handleCommand_def cmd_login_def post_login_def post finish_auth_def entry_def connect_def loadAuth_def Let_def del: Join.simps)
qed

text \<open>
  C28: The guided setup. When it returns, the user has chosen to work offline, or the server was not
  reached, or a login is saved. Once it is connected and no line of the input that is left is one of its
  choices, it never returns: it goes on asking after the end of the input.
\<close>

theorem guided_setup:
  "(runGuidedSetup x ls n = Some (out, n') \<longrightarrow>
      out = [SetupText, OfflineMode] \<and> n' = n \<or> (\<exists>a e. out = [SetupText, Connecting a, SetupFailed e]) \<or> logged_in out n') \<and>
   (TrimSpace addr \<noteq> '''' \<and> fst (connect x (TrimSpace addr) None n) = None \<and> (\<forall>l\<in>set rest. \<not> is_choice l) \<longrightarrow>
      runGuidedSetup x (addr # rest) n = None)"
proof (intro conjI impI)
  show "out = [SetupText, OfflineMode] \<and> n' = n \<or> (\<exists>a e. out = [SetupText, Connecting a, SetupFailed e]) \<or> logged_in out n'"
    if "runGuidedSetup x ls n = Some (out, n')"
    using that
    by (auto simp: runGuidedSetup_def Let_def setup_result_def split: prod.splits if_splits option.splits dest!: setup_loop_returns)
next
  assume asm: "TrimSpace addr \<noteq> '''' \<and> fst (connect x (TrimSpace addr) None n) = None \<and> (\<forall>l\<in>set rest. \<not> is_choice l)"
  obtain n1 where n1: "connect x (TrimSpace addr) None n = (None, n1)" using asm by (metis prod.collapse)
  have "setup_loop x rest out n1 = None" for out
    using setup_loop_returns [of x rest out n1] asm by (cases "setup_loop x rest out n1") (auto simp: setup_result_def)
  then show "runGuidedSetup x (addr # rest) n = None" using asm n1 by (simp add: runGuidedSetup_def Let_def)
qed

text \<open>
  The automatic login. The background retries end after twelve ticks at most. But they keep the login
  they started with: if the user logs out in the meantime, so that no login is saved and nothing is
  connected, the next retry that the server accepts connects and authenticates as the account that
  was logged out.
\<close>

theorem retry_undoes_logout:
  assumes "ad_Token a \<noteq> ''''" and "handleCommand c ''/logout'' n = (out, n1)" and "retry_tick x (Retrying a k, n1) = (r, n2)"
    and "we_net x (ad_ServerAddr a) (auth_frame (env_now (we_env x))
      (auth_client (ad_ServerAddr a) (ad_Username a) (ad_Token a) (nd_ui n1))) = Some g" and "rf_Cmd g = CmdAuthOK"
    and "12 \<le> length xs"
  shows "fst (fold retry_tick xs (auto_login y m)) = NoRetry \<and> out = [LoggedOut] \<and> loadAuth (nd_ui n1) = None \<and> nd_relay n1 = None \<and>
    r = NoRetry \<and> loadAuth (nd_ui n2) = None \<and>
    (\<exists>sr. nd_relay n2 = Some sr \<and> Connected sr \<and> sr_registered sr \<and> sr_username sr = ad_Username a \<and> sr_token sr = ad_Token a)"
proof -
  have "Fields ''/logout'' = [''/logout'']" using Fields_command [of "''/logout''" "[]"] by (simp add: word_def is_space_def)
  then have n1: "out = [LoggedOut]" "loadAuth (nd_ui n1) = None" "nd_relay n1 = None"
    using assms(2) by (auto simp: handleCommand_def cmd_logout_def loadAuth_def saveAuth_def engine_disconnect_def)
  obtain w' sr where con: "engine_connect x (ad_ServerAddr a) (Some (ad_Username a, ad_Token a)) (nd_ui n1) = (None, w')"
    "wu_serverConn w' = Some sr" "Connected sr \<and> sr_registered sr \<and> sr_username sr = ad_Username a \<and> sr_token sr = ad_Token a"
    using connect_accepted [OF assms(4,5,1)] by blast
  then have "r = NoRetry" "n2 = n1\<lparr>nd_ui := w'\<rparr>" using assms(1,3) by (simp_all add: connect_saved_def connect_def)
  moreover have "wu_auth w' = wu_auth (nd_ui n1)" using con(1) by (rule engine_connect_auth)
  moreover have "fst (fold retry_tick xs (NoRetry, m')) = NoRetry" for m' by (induction xs) simp_all
  then have "fst (fold retry_tick xs (auto_login y m)) = NoRetry"
    using retries_end [of xs _ 0] assms(6) by (fastforce simp: auto_login_def split: option.splits prod.splits)
  ultimately show ?thesis using n1 con by (simp add: loadAuth_def)
qed

text \<open>
  Direct messages. The command \<^verbatim>\<open>/dm\<close> always creates a chat with the peer it names, whether or not there is one
  already, and leaves the other chats as they are; the web interface, asked for the same peer
  afterwards, finds a direct chat with the peer and changes nothing.
\<close>

theorem dm_always_creates:
  assumes "word a" and "handleCommand c (Join [''/dm'', a] '' '') n = (out, n')"
    and "GetChat (e_store (nd_engine n)) (env_uuid (we_env (ce_web c)) (e_draws (nd_engine n))) = None"
    and "pid_NodeID (parsePeerID a) = node" and "pid_Fingerprint (parsePeerID a) = fp"
  shows "\<exists>i ch. out = [DMCreated i] \<and> GetChat (e_store (nd_engine n)) i = None \<and>
    GetChat (e_store (nd_engine n')) i = Some ch \<and> chat_Type ch = ChatDirect \<and>
    map cm_PeerID (chat_Members ch) = [local_id (nd_engine n), parsePeerID a] \<and>
    (\<forall>j. j \<noteq> i \<longrightarrow> GetChat (e_store (nd_engine n')) j = GetChat (e_store (nd_engine n)) j) \<and>
    snd (handleDM x ''POST'' (Some (map_payload [(''node_id'', node), (''fingerprint'', fp)])) (nd_ui n')) = nd_ui n'"
proof -
  let ?v = "we_env (ce_web c)" and ?e = "nd_engine n" and ?p = "parsePeerID a"
  obtain ch e' where cr: "CreateChat ?v '''' [?p] ?e = (ch, e')" by fastforce
  note ch = CreateChat_direct [OF cr]
  let ?ch = "ch\<lparr>chat_CreatedAt := UnixNano (chat_CreatedAt ch), chat_UpdatedAt := UnixNano (chat_UpdatedAt ch)\<rparr>"
  have "word ''/dm''" by (simp add: word_def is_space_def)
  then have "Fields (Join [''/dm'', a] '' '') = [''/dm'', a]" using assms(1) by (intro Fields_command) simp
  then have n': "out = [DMCreated (chat_ID ch)]" "e_store (nd_engine n') = SaveChat ch (e_store ?e)"
    using assms(2) cr ch(4) by (auto simp: handleCommand_def cmd_dm_def Let_def simp del: Join.simps)
  then have get: "GetChat (e_store (nd_engine n')) j = (if j = chat_ID ch then Some ?ch else GetChat (e_store ?e) j)" for j
    by (simp add: chats.get_put)
  then have "?ch \<in> set (ListChats (e_store (nd_engine n')))" by (intro GetChat_listed [of _ "chat_ID ch"]) simp
  then have "find_dm ?p (ListChats (e_store (nd_engine n'))) \<noteq> None" using ch by (intro find_dm_exists [of ?ch]) auto
  moreover have "?p = \<lparr>pid_NodeID = node, pid_Fingerprint = fp\<rparr>" using assms(4,5) by (cases ?p) simp
  ultimately have "snd (handleDM x ''POST'' (Some (map_payload [(''node_id'', node), (''fingerprint'', fp)])) (nd_ui n')) = nd_ui n'"
    by (auto simp: handleDM_def body_field_def map_payload_def Let_def)
  then show ?thesis using n' get ch assms(3) by (intro exI [of _ "chat_ID ch"] exI [of _ ?ch]) simp
qed

text \<open>
  C21: Commands without effect. A command that is not known, and a command with fewer arguments than it
  needs, is answered with a line that says so and changes nothing; the commands that list something
  or leave the program change nothing either.
\<close>

definition needed_args :: "string \<Rightarrow> nat" where
  "needed_args cmd =
     (if cmd \<in> set [''/register'', ''/login'', ''/new'', ''/msg'', ''/file''] then 2
      else if cmd \<in> set [''/join_server'', ''/name'', ''/join'', ''/dm'', ''/history'', ''/call'', ''/vcall'', ''/hangup''] then 1 else 0)"

definition listing_commands :: "string list" where
  "listing_commands = [''/quit'', ''/help'', ''/peers'', ''/networks'', ''/chats'', ''/history'', ''/update'']"

definition changing_commands :: "string list" where
  "changing_commands = [''/join_server'', ''/register'', ''/login'', ''/logout'', ''/settings'', ''/name'', ''/join'', ''/dm'', ''/new'',
     ''/msg'', ''/file'', ''/call'', ''/vcall'', ''/hangup'']"


text \<open>
  The history. The lines come in the order of the times of sending, no text has more than 123 bytes,
  and there are at most as many lines as asked for, or twenty; a number that cannot be read counts as
  twenty.
\<close>

theorem history_bounds:
  assumes "cmd_history c (chatID # rest) n = out"
  shows "\<exists>lines. out = map (\<lambda>(ts, node, text). HistoryLine ts node text) lines \<and> sorted (map fst lines) \<and>
    (\<forall>(ts, node, text)\<in>set lines. length text \<le> 123) \<and>
    (rest = [] \<or> Sscanf_d (hd rest) = None \<longrightarrow> length lines \<le> 20) \<and>
    (\<forall>k\<ge>0. rest \<noteq> [] \<and> Sscanf_d (hd rest) = Some k \<longrightarrow> int (length lines) \<le> k)"
proof -
  let ?limit = "case rest of [] \<Rightarrow> 20 | l # _ \<Rightarrow> (case Sscanf_d l of None \<Rightarrow> 20 | Some i \<Rightarrow> i)"
  let ?ms = "GetMessages (env_now (we_env (ce_web c))) (e_store (nd_engine n)) chatID ?limit 0"
  let ?lines = "map (\<lambda>m. (msg_SentAt m, pid_NodeID (msg_SenderID m), truncate_text (bytes_string (msg_Payload m)) 120)) (rev ?ms)"
  have 1: "out = map (\<lambda>(ts, node, text). HistoryLine ts node text) ?lines"
    using assms by (simp add: cmd_history_def Let_def comp_def)
  have 2: "sorted (map fst ?lines)" using GetMessages_sorted by (simp add: comp_def rev_map)
  have 3: "\<forall>(ts, node, text)\<in>set ?lines. length text \<le> 123" using length_truncate [of _ 120] by auto
  have 4: "rest = [] \<or> Sscanf_d (hd rest) = None \<Longrightarrow> length ?lines \<le> 20"
    using GetMessages_length [of 20 "env_now (we_env (ce_web c))" "e_store (nd_engine n)" chatID 0] by (cases rest) auto
  have 5: "k \<ge> 0 \<Longrightarrow> rest \<noteq> [] \<and> Sscanf_d (hd rest) = Some k \<Longrightarrow> int (length ?lines) \<le> k" for k
    using GetMessages_length [of k "env_now (we_env (ce_web c))" "e_store (nd_engine n)" chatID 0] by (cases rest) auto
  show ?thesis
    by (intro exI [of _ ?lines] conjI allI impI) (fact 1, fact 2, fact 3, erule 4, erule (1) 5)
qed

text \<open>
  The announcement of releases compares versions as strings: a release 1.10 is not announced to the
  client of version 1.3.1, a release 1.4 is.
\<close>

theorem update_order:
  "checkUpdate (Some (JObj [(''tag_name'', JStr ''v1.10.0'')])) = None \<and>
   checkUpdate (Some (JObj [(''tag_name'', JStr ''v1.4.0'')])) = Some ''v1.4.0''"
  by code_simp

text \<open>The message that \<^verbatim>\<open>/msg\<close> sends is the text with every run of spaces replaced by one space.\<close>

theorem msg_text:
  assumes "Fields line = ''/msg'' # chatID # w # ws"
  shows "handleCommand c line n = send_reply (\<lambda>m. SentMessage (msg_ID m))
      (SendText (we_env (ce_web c)) chatID (Join (w # ws) '' '') None (nd_engine n)) n \<and>
    Fields (Join (w # ws) '' '') = w # ws"
proof -
  have "list_all word (w # ws)" using Fields_all_words [of line] unfolding assms by simp
  then show ?thesis using assms Fields_words [of "w # ws"] by (simp add: handleCommand_def cmd_msg_def del: Join.simps)
qed

section \<open>Witnesses\<close>

definition demo_cli :: "(int \<times> int) web_env \<Rightarrow> (int \<times> int) cli_env" where
  "demo_cli x = \<lparr>ce_web = x, ce_zts = demo_zts, ce_rtc = demo_rtc, ce_file = (\<lambda>_. None), ce_mediaFS = (True, True),
     ce_ParseIP6 = (\<lambda>_. None), ce_gitPull = True, ce_goBuild = True\<rparr>"

definition demo_online :: "(int \<times> int) web_env" where
  "demo_online = demo_offline\<lparr>we_net := (\<lambda>_ _. Some (mk_frame CmdAuthOK None 0))\<rparr>"

definition demo_joined :: Node where
  "demo_joined = on_ui (\<lambda>w. w\<lparr>wu_serverConn := Some (newServerRelay [''host:8080''] demo_self)\<rparr>) demo_fresh"

text \<open>Alice logs in as \<open>ALICE\<close>.\<close>

theorem cli_login_any_case_witness:
  "\<exists>n' r. handleCommand (demo_cli (demo_web ''alice'')) (Join [''/login'', ''ALICE'', ''hunter2''] '' '') demo_joined =
     ([LoggingIn, LoggedInAs ''alice''], n') \<and> nd_relay n' = Some r \<and> Connected r \<and> sr_registered r"
proof -
  have a: "char_of (97 :: nat) = CHR ''a''" "char_of (108 :: nat) = CHR ''l''" "char_of (105 :: nat) = CHR ''i''"
    "char_of (99 :: nat) = CHR ''c''" "char_of (101 :: nat) = CHR ''e''" by code_simp+
  have name: "ToLower ''ALICE'' = ''alice''" by (simp add: ToLower_def ascii_lower_def a)
  have "TrimSpace (ToLower ''Alice'') = ''alice''" by (simp add: ToLower_def ascii_lower_def TrimSpace_def is_space_def a)
  then have user: "getUserByUsername demo_accounts (ToLower ''ALICE'') = Some demo_account"
    using demo_accounts_facts(3) by (simp add: name)
  have now: "int64_range (env_now (we_env (ce_web (demo_cli (demo_web ''alice'')))))"
    by (simp add: demo_cli_def demo_web_def demo_env_def int64_range_def)
  have env: "we_post (ce_web (demo_cli (demo_web ''alice''))) = server_login demo_hashes 9 demo_accounts"
    "we_net (ce_web (demo_cli (demo_web ''alice''))) =
      server_net demo_hashes (env_now (we_env (ce_web (demo_cli (demo_web ''alice''))))) [] ''c2''
      (snd (handleHTTPLogin demo_hashes 9 ''POST'' (Some (map_payload [(''password'', ''hunter2''), (''username'', ToLower ''ALICE'')])) demo_accounts))"
    by (simp_all add: demo_cli_def demo_web_def demo_login_body_def name)
  have joined: "nd_relay demo_joined = Some (newServerRelay [''host:8080''] demo_self)" by (simp add: demo_joined_def)
  have words: "word ''ALICE''" "word ''hunter2''" by (simp_all add: word_def is_space_def)
  have free: "srv_conns demo_accounts ''c2'' = None" by (rule demo_accounts_facts)
  show ?thesis
    using cli_login_any_case [OF demo_accounts_facts(1) free user demo_account_facts(1) demo_account_facts(2) now env joined words]
    unfolding name by blast
qed

text \<open>The setup is connected and then reads a line that is no choice, and the end of the input.\<close>

lemma demo_connects: "fst (connect demo_online addr a n) = None"
  by (cases a) (auto simp: connect_def engine_connect_def Connect_def dial_def demo_online_def newServerRelay_def SetAuth_def
      mk_frame_def Let_def)

theorem guided_setup_witness: "runGuidedSetup demo_online [''host'', ''?''] demo_fresh = None"
proof -
  have "TrimSpace ''host'' \<noteq> ''''" "\<not> is_choice ''?''"
    by (simp_all add: TrimSpace_def is_space_def is_choice_def ToLower_def ascii_lower_def)
  then show ?thesis using guided_setup [of demo_online _ demo_fresh _ _ "''host''" "[''?'']"] demo_connects by simp
qed

definition demo_saved :: authData where
  "demo_saved = \<lparr>ad_ServerAddr = ''host:8080'', ad_Username = ''alice'', ad_Token = ''t''\<rparr>"

definition demo_logged_out :: Node where
  "demo_logged_out = snd (handleCommand (demo_cli demo_offline) ''/logout'' demo_fresh)"

theorem retry_undoes_logout_witness:
  "loadAuth (nd_ui demo_logged_out) = None \<and> nd_relay demo_logged_out = None \<and>
   (\<exists>sr. nd_relay (snd (retry_tick demo_online (Retrying demo_saved 3, demo_logged_out))) = Some sr \<and> sr_username sr = ''alice'')"
proof -
  have tok: "ad_Token demo_saved \<noteq> ''''" "ad_Username demo_saved = ''alice''" by (simp_all add: demo_saved_def)
  have "we_net demo_online addr f = Some (mk_frame CmdAuthOK None 0)" "rf_Cmd (mk_frame CmdAuthOK None 0 :: frame) = CmdAuthOK" for addr f
    by (simp_all add: demo_online_def mk_frame_def)
  note net = this
  show ?thesis
    using retry_undoes_logout [OF tok(1) prod.collapse [symmetric] prod.collapse [symmetric] net,
      of "replicate 12 demo_online" demo_online demo_fresh "demo_cli demo_offline" demo_fresh 3]
    by (auto simp: demo_logged_out_def tok(2) simp del: retry_tick.simps)
qed

theorem dm_always_creates_witness:
  "\<exists>i ch. fst (handleCommand (demo_cli demo_offline) (Join [''/dm'', ''bobby:f''] '' '') demo_fresh) = [DMCreated i] \<and>
     GetChat (e_store (nd_engine (snd (handleCommand (demo_cli demo_offline) (Join [''/dm'', ''bobby:f''] '' '') demo_fresh)))) i = Some ch \<and>
     map cm_PeerID (chat_Members ch) = [local_id (nd_engine demo_fresh), \<lparr>pid_NodeID = ''bobby'', pid_Fingerprint = ''f''\<rparr>]"
proof -
  have p: "parsePeerID ''bobby:f'' = \<lparr>pid_NodeID = ''bobby'', pid_Fingerprint = ''f''\<rparr>" by (simp add: parsePeerID_def)
  have w: "word ''bobby:f''" by (simp add: word_def is_space_def)
  have none: "GetChat (e_store (nd_engine demo_fresh)) i = None" for i
    by (simp add: demo_fresh_def GetChat_def migrate_def find_row_def)
  show ?thesis
    using dm_always_creates [OF w prod.collapse [symmetric] none refl refl, of "demo_cli demo_offline" demo_offline] unfolding p
    by (elim exE conjE) (intro exI conjI, assumption+)
qed


theorem history_bounds_witness:
  "\<exists>lines. cmd_history (demo_cli demo_offline) [''c1'', ''2''] (on_engine (with_store (\<lambda>_. demo_store)) demo_fresh) =
     map (\<lambda>(ts, node, text). HistoryLine ts node text) lines \<and> length lines \<le> 2"
proof -
  have "Sscanf_d ''2'' = Some 2"
    by (simp add: Sscanf_d_def HasPrefix_def digit_def decimal_def int64_range_def Let_def)
  then show ?thesis using history_bounds [OF refl, of "demo_cli demo_offline" "''c1''" "[''2'']"] by fastforce
qed

end
