(* ===== verification/Server_Command.thy ===== *)
theory Server_Command
  imports Web_UI Console
begin

text \<open>
  The server program: \<^verbatim>\<open>cmd/server/main.go\<close> with its configuration file, the setup dialogue and
  the addresses it prints, and \<open>DefaultServerConfig\<close> and \<open>Start\<close> of
  \<^verbatim>\<open>server/server.go\<close>. The record \<open>server_settings\<close> extends the part of \<open>ServerConfig\<close> that the relay
  server reads. The network interfaces are an argument; requests are dispatched by their path as the
  multiplexer of the standard library does for clean paths.

  Results: the configuration that the setup saves is read back as it was, the setup ends exactly when
  a secret is left in the input, the printed ZeroTier addresses are the distinct IPv4 addresses of the
  ZeroTier interfaces in order, and a token stays valid over a restart of the server.
\<close>

section \<open>Definitions\<close>

subsection \<open>Configuration\<close>

record server_settings = ServerConfig +
  sc_ListenAddr :: string
  sc_DBPath :: string
  sc_MediaDir :: string
  sc_PingInterval :: duration
  sc_WriteTimeout :: duration
  sc_ReadTimeout :: duration
  sc_MaxConnsPerPeer :: int
  sc_TLSCertFile :: string
  sc_TLSKeyFile :: string
  sc_LogLevel :: string
  sc_ZTNetwork :: string
  sc_ZTPort :: "16 word"
  sc_ZTDataDir :: string

definition DefaultServerConfig :: "string option \<Rightarrow> server_settings" where
  "DefaultServerConfig home =
     \<lparr>sc_MaxMsgAgeDays = 30, sc_MaxMediaSizeMB = 512, sc_TokenSecret = ''change-me-in-production'', sc_ListenAddr = '':8080'',
      sc_DBPath = ExpandHome home ''~/.zerolink-server/server.db'', sc_MediaDir = ExpandHome home ''~/.zerolink-server/media'',
      sc_PingInterval = 30 * Second, sc_WriteTimeout = 10 * Second, sc_ReadTimeout = 60 * Second, sc_MaxConnsPerPeer = 5,
      sc_TLSCertFile = '''', sc_TLSKeyFile = '''', sc_LogLevel = ''info'', sc_ZTNetwork = '''', sc_ZTPort = 9993,
      sc_ZTDataDir = ExpandHome home ''~/.zerolink-server/zt''\<rparr>"

definition server_fields :: "server_settings \<Rightarrow> (string \<times> json) list" where
  "server_fields c =
     ([(''listen_addr'', JStr (sc_ListenAddr c)), (''db_path'', JStr (sc_DBPath c)), (''media_dir'', JStr (sc_MediaDir c)),
       (''max_msg_age_days'', JInt (sc_MaxMsgAgeDays c)), (''max_media_size_mb'', JInt (sc_MaxMediaSizeMB c)),
       (''ping_interval'', JInt (sc_PingInterval c)), (''write_timeout'', JInt (sc_WriteTimeout c)),
       (''read_timeout'', JInt (sc_ReadTimeout c)), (''max_conns_per_peer'', JInt (sc_MaxConnsPerPeer c))] @
      json_opt ''tls_cert'' (sc_TLSCertFile c \<noteq> '''') (JStr (sc_TLSCertFile c)) @
      json_opt ''tls_key'' (sc_TLSKeyFile c \<noteq> '''') (JStr (sc_TLSKeyFile c)) @
      [(''log_level'', JStr (sc_LogLevel c)), (''token_secret'', JStr (sc_TokenSecret c))] @
      json_opt ''zt_network'' (sc_ZTNetwork c \<noteq> '''') (JStr (sc_ZTNetwork c)) @
      json_opt ''zt_port'' (sc_ZTPort c \<noteq> 0) (JInt (uint (sc_ZTPort c))) @
      json_opt ''zt_data_dir'' (sc_ZTDataDir c \<noteq> '''') (JStr (sc_ZTDataDir c)))"

definition enc_ServerConfig :: "server_settings \<Rightarrow> json" where
  "enc_ServerConfig c = JObj (server_fields c)"

text \<open>\<open>json.Unmarshal\<close> into a configuration with defaults: a missing or null field keeps its value, another type is an error.\<close>

definition keep :: "string \<Rightarrow> (json \<Rightarrow> 'a option) \<Rightarrow> 'a \<Rightarrow> (string \<times> json) list \<Rightarrow> 'a option" where
  "keep k d old fs = (case lookup_last k fs of None \<Rightarrow> Some old | Some JNull \<Rightarrow> Some old | Some j \<Rightarrow> d j)"

definition dec_ServerConfig :: "server_settings \<Rightarrow> json \<Rightarrow> server_settings option" where
  "dec_ServerConfig c j = do {
     fs \<leftarrow> json_fields j;
     la \<leftarrow> keep ''listen_addr'' dec_string (sc_ListenAddr c) fs;
     db \<leftarrow> keep ''db_path'' dec_string (sc_DBPath c) fs;
     md \<leftarrow> keep ''media_dir'' dec_string (sc_MediaDir c) fs;
     age \<leftarrow> keep ''max_msg_age_days'' dec_int64 (sc_MaxMsgAgeDays c) fs;
     mb \<leftarrow> keep ''max_media_size_mb'' dec_int64 (sc_MaxMediaSizeMB c) fs;
     pin \<leftarrow> keep ''ping_interval'' dec_int64 (sc_PingInterval c) fs;
     wt \<leftarrow> keep ''write_timeout'' dec_int64 (sc_WriteTimeout c) fs;
     rt \<leftarrow> keep ''read_timeout'' dec_int64 (sc_ReadTimeout c) fs;
     mc \<leftarrow> keep ''max_conns_per_peer'' dec_int64 (sc_MaxConnsPerPeer c) fs;
     cert \<leftarrow> keep ''tls_cert'' dec_string (sc_TLSCertFile c) fs;
     key \<leftarrow> keep ''tls_key'' dec_string (sc_TLSKeyFile c) fs;
     lv \<leftarrow> keep ''log_level'' dec_string (sc_LogLevel c) fs;
     sec \<leftarrow> keep ''token_secret'' dec_string (sc_TokenSecret c) fs;
     zn \<leftarrow> keep ''zt_network'' dec_string (sc_ZTNetwork c) fs;
     zp \<leftarrow> keep ''zt_port'' dec_word (sc_ZTPort c) fs;
     zd \<leftarrow> keep ''zt_data_dir'' dec_string (sc_ZTDataDir c) fs;
     Some \<lparr>sc_MaxMsgAgeDays = age, sc_MaxMediaSizeMB = mb, sc_TokenSecret = sec, sc_ListenAddr = la, sc_DBPath = db,
           sc_MediaDir = md, sc_PingInterval = pin, sc_WriteTimeout = wt, sc_ReadTimeout = rt, sc_MaxConnsPerPeer = mc,
           sc_TLSCertFile = cert, sc_TLSKeyFile = key, sc_LogLevel = lv, sc_ZTNetwork = zn, sc_ZTPort = zp, sc_ZTDataDir = zd\<rparr> }"

text \<open>The setup dialogue; \<open>None\<close>: it never returns.\<close>

definition runServerSetup :: "string option \<Rightarrow> string list \<Rightarrow> (server_settings \<times> string list) option" where
  "runServerSetup home ls =
     (let (p, ls1) = read_line ls; port = (if TrimSpace p = '''' then ''8080'' else TrimSpace p) in
      Option.bind (read_until (\<lambda>l. if TrimSpace l = '''' then None else Some (TrimSpace l)) ls1) (\<lambda>(secret, ls2).
        let (z, ls3) = read_line ls2 in
        Some ((DefaultServerConfig home)\<lparr>sc_ListenAddr := '':'' @ port, sc_TokenSecret := secret, sc_ZTNetwork := TrimSpace z\<rparr>, ls3)))"

text \<open>
  The configuration of \<open>main\<close>: from the file, or from the dialogue, which is then saved (as it can be:
  the errors are ignored). A file that cannot be decoded is a panic.
\<close>

datatype config_result = BadConfig | Configured server_settings "bytes option" | SetupHangs

definition server_config :: "json_codec \<Rightarrow> string option \<Rightarrow> bool \<Rightarrow> bytes option \<Rightarrow> string list \<Rightarrow> config_result" where
  "server_config J home writable cfgFile ls =
     (case cfgFile of
        Some data \<Rightarrow>
          (case Option.bind (json_Unmarshal J data) (dec_ServerConfig (DefaultServerConfig home)) of
             None \<Rightarrow> BadConfig | Some cfg \<Rightarrow> Configured cfg cfgFile)
      | None \<Rightarrow>
          (case runServerSetup home ls of
             None \<Rightarrow> SetupHangs
           | Some (cfg, _) \<Rightarrow>
               Configured cfg (if writable then Some (case json_Marshal J (enc_ServerConfig cfg) of None \<Rightarrow> [] | Some b \<Rightarrow> b) else None)))"

subsection \<open>Addresses\<close>

definition portFromAddr :: "string \<Rightarrow> string" where
  "portFromAddr addr = (case SplitHostPort addr of None \<Rightarrow> ''8080'' | Some (_, port) \<Rightarrow> port)"

datatype addr = IPNet bytes | OtherAddr

record iface =
  if_Name :: string
  if_Loopback :: bool
  if_Up :: bool
  if_Addrs :: "addr list option"

definition To4 :: "bytes \<Rightarrow> bytes option" where
  "To4 ip =
     (if length ip = 4 then Some ip
      else if length ip = 16 \<and> take 10 ip = replicate 10 0 \<and> take 2 (drop 10 ip) = [255, 255] then Some (drop 12 ip) else None)"

definition IsLoopback :: "bytes \<Rightarrow> bool" where
  "IsLoopback ip = (case To4 ip of Some ip4 \<Rightarrow> ip4 ! 0 = 127 | None \<Rightarrow> ip = replicate 15 0 @ [1])"

definition IPv4_String :: "bytes \<Rightarrow> string" where
  "IPv4_String ip4 = Join (map (\<lambda>b. Sprintf_d (uint b)) ip4) ''.''"

definition zt_iface :: "iface \<Rightarrow> bool" where
  "zt_iface i = (take 2 (if_Name i) = ''zt'' \<or> take 2 (if_Name i) = ''ZW'')"

text \<open>The IPv4 addresses of an interface; an error or another kind of address is skipped.\<close>

fun ipv4_of :: "addr \<Rightarrow> bytes option" where
  "ipv4_of OtherAddr = None"
| "ipv4_of (IPNet ip) = To4 ip"

fun first_some :: "('a \<Rightarrow> 'b option) \<Rightarrow> 'a list \<Rightarrow> 'b option" where
  "first_some f [] = None"
| "first_some f (x # xs) = (case f x of Some y \<Rightarrow> Some y | None \<Rightarrow> first_some f xs)"

definition systemZTIP :: "iface list option \<Rightarrow> string \<Rightarrow> string" where
  "systemZTIP ifaces networkID =
     (case first_some (\<lambda>i. if zt_iface i then Option.bind (if_Addrs i) (first_some ipv4_of) else None)
             (case ifaces of None \<Rightarrow> [] | Some is \<Rightarrow> is) of
        None \<Rightarrow> '''' | Some ip4 \<Rightarrow> IPv4_String ip4)"

definition primaryIP :: "iface list option \<Rightarrow> string" where
  "primaryIP ifaces =
     (case first_some (\<lambda>i. if if_Loopback i \<or> \<not> if_Up i then None
              else Option.bind (if_Addrs i) (first_some (\<lambda>a. case ipv4_of a of Some ip4 \<Rightarrow> if ip4 ! 0 = 127 then None else Some ip4 | None \<Rightarrow> None)))
             (case ifaces of None \<Rightarrow> [] | Some is \<Rightarrow> is) of
        None \<Rightarrow> ''127.0.0.1'' | Some ip4 \<Rightarrow> IPv4_String ip4)"

text \<open>\<open>detectSystemZTNetworks\<close>: the loops over interfaces and addresses with the set of addresses seen.\<close>

fun collect_addrs :: "addr list \<Rightarrow> string list \<Rightarrow> string list" where
  "collect_addrs [] nets = nets"
| "collect_addrs (OtherAddr # as) nets = collect_addrs as nets"
| "collect_addrs (IPNet ip # as) nets =
     (if IsLoopback ip then collect_addrs as nets
      else case To4 ip of
          None \<Rightarrow> collect_addrs as nets
        | Some ip4 \<Rightarrow>
            let s = IPv4_String ip4 in collect_addrs as (if s \<in> set nets then nets else nets @ [s]))"

fun collect_ifaces :: "iface list \<Rightarrow> string list \<Rightarrow> string list" where
  "collect_ifaces [] nets = nets"
| "collect_ifaces (i # is) nets =
     (if \<not> zt_iface i then collect_ifaces is nets
      else case if_Addrs i of
          None \<Rightarrow> collect_ifaces is nets
        | Some as \<Rightarrow> collect_ifaces is (collect_addrs as nets))"

definition detectSystemZTNetworks :: "iface list option \<Rightarrow> string list" where
  "detectSystemZTNetworks ifaces = (case ifaces of None \<Rightarrow> [] | Some is \<Rightarrow> collect_ifaces is [])"

definition JoinHostPort :: "string \<Rightarrow> string \<Rightarrow> string" where
  "JoinHostPort host port = (if CHR '':'' \<in> set host then ''['' @ host @ '']:'' @ port else host @ '':'' @ port)"

definition printed_addresses :: "iface list option \<Rightarrow> server_settings \<Rightarrow> string list \<times> string" where
  "printed_addresses ifaces cfg =
     (let port = portFromAddr (sc_ListenAddr cfg) in
      (map (\<lambda>n. JoinHostPort n port) (detectSystemZTNetworks ifaces), JoinHostPort (primaryIP ifaces) port))"

subsection \<open>Serving\<close>

datatype serving = ListenFailed | TickerPanics | Serving bool

text \<open>\<open>Start\<close>: the flag of \<open>Serving\<close> says whether TLS is used.\<close>

definition Server_Start :: "bool \<Rightarrow> server_settings \<Rightarrow> serving" where
  "Server_Start listenOK cfg =
     (if \<not> listenOK then ListenFailed
      else if sc_PingInterval cfg \<le> 0 then TickerPanics
      else Serving (sc_TLSCertFile cfg \<noteq> '''' \<and> sc_TLSKeyFile cfg \<noteq> ''''))"

datatype route = RelayRoute | MediaRoute string | HealthRoute | RegisterRoute | LoginRoute | PeersRoute | RedirectRoute | NotFoundRoute

definition server_route :: "string \<Rightarrow> route" where
  "server_route path =
     (if path = ''/relay'' then RelayRoute
      else if HasPrefix path ''/media/'' then MediaRoute (drop 7 path)
      else if path = ''/media'' then RedirectRoute
      else if path = ''/health'' then HealthRoute
      else if path = ''/auth/register'' then RegisterRoute
      else if path = ''/auth/login'' then LoginRoute
      else if path = ''/peers'' then PeersRoute
      else NotFoundRoute)"

text \<open>One request that is not an upgrade: the body as JSON and as bytes.\<close>

definition serve ::
  "hashes \<Rightarrow> gotime \<Rightarrow> bytes \<Rightarrow> bool \<Rightarrow> string \<Rightarrow> string \<Rightarrow> json option \<Rightarrow> bytes \<Rightarrow> Server \<Rightarrow> http_response \<times> Server" where
  "serve hs now rnd writeOK method path body raw s =
     (case server_route path of
        RelayRoute \<Rightarrow> (HttpError 400 ''Bad Request'', s)
      | MediaRoute hash \<Rightarrow> handleMedia method hash raw writeOK s
      | RedirectRoute \<Rightarrow> (HttpStatus 301, s)
      | HealthRoute \<Rightarrow> (HttpFile (Some (string_bytes ''ok'')), s)
      | RegisterRoute \<Rightarrow> handleHTTPRegister hs now rnd method body s
      | LoginRoute \<Rightarrow> handleHTTPLogin hs now method body s
      | PeersRoute \<Rightarrow> (handleHTTPPeers method s, s)
      | NotFoundRoute \<Rightarrow> (HttpError 404 ''404 page not found'', s))"

text \<open>\<open>NewServer\<close> on the database and the media directory of an earlier run.\<close>

definition restart :: "server_settings \<Rightarrow> Server \<Rightarrow> Server" where
  "restart cfg s = (NewServer (ServerConfig.truncate cfg))
     \<lparr>srv_users := srv_users s, srv_messages := srv_messages s, srv_chats := srv_chats s, srv_media := srv_media s\<rparr>"

section \<open>Lemmas\<close>

subsection \<open>The configuration file\<close>

lemma keep_cases: "keep k d old fs = (case lookup_last k fs of None \<Rightarrow> Some old | Some j \<Rightarrow> if j = JNull then Some old else d j)"
  by (simp add: keep_def split: option.splits json.splits)

definition int_fields_ok :: "server_settings \<Rightarrow> bool" where
  "int_fields_ok c = (int64_range (sc_MaxMsgAgeDays c) \<and> int64_range (sc_MaxMediaSizeMB c) \<and> int64_range (sc_PingInterval c) \<and>
     int64_range (sc_WriteTimeout c) \<and> int64_range (sc_ReadTimeout c) \<and> int64_range (sc_MaxConnsPerPeer c))"

text \<open>Fields that are omitted when empty are read back if their default is empty.\<close>

definition empties_ok :: "server_settings \<Rightarrow> server_settings \<Rightarrow> bool" where
  "empties_ok d c = ((sc_TLSCertFile c = '''' \<longrightarrow> sc_TLSCertFile d = '''') \<and> (sc_TLSKeyFile c = '''' \<longrightarrow> sc_TLSKeyFile d = '''') \<and>
     (sc_ZTNetwork c = '''' \<longrightarrow> sc_ZTNetwork d = '''') \<and> (sc_ZTPort c = 0 \<longrightarrow> sc_ZTPort d = 0) \<and>
     (sc_ZTDataDir c = '''' \<longrightarrow> sc_ZTDataDir d = ''''))"

lemma server_fields_lookup:
  "lookup_last ''listen_addr'' (server_fields c) = Some (JStr (sc_ListenAddr c))"
  "lookup_last ''db_path'' (server_fields c) = Some (JStr (sc_DBPath c))"
  "lookup_last ''media_dir'' (server_fields c) = Some (JStr (sc_MediaDir c))"
  "lookup_last ''log_level'' (server_fields c) = Some (JStr (sc_LogLevel c))"
  "lookup_last ''token_secret'' (server_fields c) = Some (JStr (sc_TokenSecret c))"
  "lookup_last ''max_msg_age_days'' (server_fields c) = Some (JInt (sc_MaxMsgAgeDays c))"
  "lookup_last ''max_media_size_mb'' (server_fields c) = Some (JInt (sc_MaxMediaSizeMB c))"
  "lookup_last ''ping_interval'' (server_fields c) = Some (JInt (sc_PingInterval c))"
  "lookup_last ''write_timeout'' (server_fields c) = Some (JInt (sc_WriteTimeout c))"
  "lookup_last ''read_timeout'' (server_fields c) = Some (JInt (sc_ReadTimeout c))"
  "lookup_last ''max_conns_per_peer'' (server_fields c) = Some (JInt (sc_MaxConnsPerPeer c))"
  "lookup_last ''tls_cert'' (server_fields c) = (if sc_TLSCertFile c = '''' then None else Some (JStr (sc_TLSCertFile c)))"
  "lookup_last ''tls_key'' (server_fields c) = (if sc_TLSKeyFile c = '''' then None else Some (JStr (sc_TLSKeyFile c)))"
  "lookup_last ''zt_network'' (server_fields c) = (if sc_ZTNetwork c = '''' then None else Some (JStr (sc_ZTNetwork c)))"
  "lookup_last ''zt_data_dir'' (server_fields c) = (if sc_ZTDataDir c = '''' then None else Some (JStr (sc_ZTDataDir c)))"
  "lookup_last ''zt_port'' (server_fields c) = (if sc_ZTPort c = 0 then None else Some (JInt (uint (sc_ZTPort c))))"
  by (simp_all add: server_fields_def lookup_last_append json_opt_def)

lemma dec_enc_ServerConfig [codec_simps]:
  assumes "int_fields_ok c" and "empties_ok d c"
  shows "dec_ServerConfig d (enc_ServerConfig c) = Some c"
proof -
  have port: "dec_word (JInt (uint (sc_ZTPort c))) = Some (sc_ZTPort c)" using uint_bounded [of "sc_ZTPort c"] by simp
  have ints: "int64_range (sc_MaxMsgAgeDays c)" "int64_range (sc_MaxMediaSizeMB c)" "int64_range (sc_PingInterval c)"
    "int64_range (sc_WriteTimeout c)" "int64_range (sc_ReadTimeout c)" "int64_range (sc_MaxConnsPerPeer c)"
    using assms(1) by (simp_all add: int_fields_ok_def)
  have opts: "keep ''tls_cert'' dec_string (sc_TLSCertFile d) (server_fields c) = Some (sc_TLSCertFile c)"
    "keep ''tls_key'' dec_string (sc_TLSKeyFile d) (server_fields c) = Some (sc_TLSKeyFile c)"
    "keep ''zt_network'' dec_string (sc_ZTNetwork d) (server_fields c) = Some (sc_ZTNetwork c)"
    "keep ''zt_data_dir'' dec_string (sc_ZTDataDir d) (server_fields c) = Some (sc_ZTDataDir c)"
    "keep ''zt_port'' dec_word (sc_ZTPort d) (server_fields c) = Some (sc_ZTPort c)"
    using assms(2) port by (simp_all add: empties_ok_def keep_cases server_fields_lookup del: dec_word.simps)
  show ?thesis
    by (simp add: dec_ServerConfig_def enc_ServerConfig_def opts ints keep_cases [of "''listen_addr''"] keep_cases [of "''db_path''"]
        keep_cases [of "''media_dir''"] keep_cases [of "''log_level''"] keep_cases [of "''token_secret''"]
        keep_cases [of "''max_msg_age_days''"] keep_cases [of "''max_media_size_mb''"] keep_cases [of "''ping_interval''"]
        keep_cases [of "''write_timeout''"] keep_cases [of "''read_timeout''"] keep_cases [of "''max_conns_per_peer''"] server_fields_lookup)
qed

lemma DefaultServerConfig_ok: "int_fields_ok (DefaultServerConfig home)" "sc_TLSCertFile (DefaultServerConfig home) = ''''"
  "sc_TLSKeyFile (DefaultServerConfig home) = ''''" "sc_ZTNetwork (DefaultServerConfig home) = ''''"
  by (simp_all add: int_fields_ok_def DefaultServerConfig_def int64_range_def)

lemma setup_config:
  assumes "runServerSetup home ls = Some (cfg, rest)"
  shows "sc_TokenSecret cfg \<noteq> ''''" and "dec_ServerConfig (DefaultServerConfig home) (enc_ServerConfig cfg) = Some cfg"
proof -
  let ?d = "DefaultServerConfig home" and ?accept = "\<lambda>l. if TrimSpace l = '''' then None else Some (TrimSpace l)"
  obtain p ls1 where p: "read_line ls = (p, ls1)" by fastforce
  obtain secret ls2 where sec: "read_until ?accept ls1 = Some (secret, ls2)"
    using assms p by (cases "read_until ?accept ls1") (auto simp: runServerSetup_def)
  obtain z ls3 where z: "read_line ls2 = (z, ls3)" by fastforce
  have cfg: "cfg = ?d\<lparr>sc_ListenAddr := '':'' @ (if TrimSpace p = '''' then ''8080'' else TrimSpace p),
      sc_TokenSecret := secret, sc_ZTNetwork := TrimSpace z\<rparr>"
    using assms p sec z by (simp add: runServerSetup_def)
  obtain l where "?accept l = Some secret" using read_until_accepts [OF sec] by (rule exE)
  then show "sc_TokenSecret cfg \<noteq> ''''" using cfg by (auto split: if_splits)
  have "int_fields_ok cfg" "empties_ok ?d cfg"
    using DefaultServerConfig_ok [of home] by (simp_all add: cfg int_fields_ok_def empties_ok_def)
  then show "dec_ServerConfig ?d (enc_ServerConfig cfg) = Some cfg" by (rule dec_enc_ServerConfig)
qed

subsection \<open>Addresses\<close>

lemma rev_takeWhile_colon: "CHR '':'' \<notin> set port \<Longrightarrow> rev (takeWhile (\<lambda>c. c \<noteq> CHR '':'') (rev (host @ CHR '':'' # port))) = port"
  by (subst rev_append, simp) (subst takeWhile_append2, auto)

lemma Split_Join_HostPort:
  assumes "CHR '':'' \<notin> set port" and "set (host @ port) \<inter> {CHR ''['', CHR '']''} = {}"
  shows "SplitHostPort (JoinHostPort host port) = Some (host, port)"
proof (cases "CHR '':'' \<in> set host")
  case True
  have "takeWhile (\<lambda>c. c \<noteq> CHR '']'') (host @ CHR '']'' # CHR '':'' # port) = host"
    using assms(2) by (subst takeWhile_append2) auto
  moreover have "rev (takeWhile (\<lambda>c. c \<noteq> CHR '':'') (rev ((CHR ''['' # host @ [CHR '']'']) @ CHR '':'' # port))) = port"
    by (rule rev_takeWhile_colon [OF assms(1)])
  ultimately show ?thesis using True assms by (auto simp: JoinHostPort_def SplitHostPort_def HasPrefix_def Let_def)
next
  case False
  let ?s = "host @ CHR '':'' # port"
  have no: "CHR ''['' \<notin> set ?s" "CHR '']'' \<notin> set ?s" using assms(2) by auto
  then have "\<not> HasPrefix ?s ''[''" by (cases ?s) (auto simp: HasPrefix_def)
  moreover have "JoinHostPort host port = ?s" using False by (simp add: JoinHostPort_def)
  moreover have "take (length ?s - length port - 1) ?s = host" by simp
  ultimately show ?thesis
    using False no rev_takeWhile_colon [OF assms(1), of host] unfolding SplitHostPort_def Let_def by simp
qed

definition add_new :: "'a list \<Rightarrow> 'a \<Rightarrow> 'a list" where
  "add_new xs x = (if x \<in> set xs then xs else xs @ [x])"

lemma foldl_add_new: "foldl add_new [] xs = rev (remdups (rev xs))"
  by (induction xs rule: rev_induct) (simp_all add: add_new_def)

fun zt_address :: "addr \<Rightarrow> string list" where
  "zt_address OtherAddr = []"
| "zt_address (IPNet ip) = (case To4 ip of Some ip4 \<Rightarrow> if ip4 ! 0 = 127 then [] else [IPv4_String ip4] | None \<Rightarrow> [])"

definition zt_addresses :: "iface list \<Rightarrow> string list" where
  "zt_addresses is = concat (map (\<lambda>i. case if_Addrs i of None \<Rightarrow> [] | Some as \<Rightarrow> concat (map zt_address as)) (filter zt_iface is))"

lemma collect_addrs_foldl: "collect_addrs as nets = foldl add_new nets (concat (map zt_address as))"
  by (induction as nets rule: collect_addrs.induct)
    (auto simp: IsLoopback_def add_new_def Let_def To4_def split: option.splits if_splits)

lemma collect_ifaces_foldl: "collect_ifaces is nets = foldl add_new nets (zt_addresses is)"
  by (induction "is" nets rule: collect_ifaces.induct)
    (auto simp: zt_addresses_def collect_addrs_foldl split: option.splits)

subsection \<open>Restarting\<close>

lemma restart_simps [simp]:
  "srv_users (restart st s) = srv_users s" "srv_messages (restart st s) = srv_messages s" "srv_conns (restart st s) = (\<lambda>_. None)"
  "srv_clients (restart st s) = []" "sc_TokenSecret (srv_cfg (restart st s)) = sc_TokenSecret st"
  "getUserByUsername (restart st s) u = getUserByUsername s u"
  by (simp_all add: restart_def NewServer_def getUserByUsername_def ServerConfig.defs)

lemma restart_inv: "server_inv s \<Longrightarrow> server_inv (restart st s)"
  by (simp add: server_inv_def conns_ok_def registry_ok_def)

section \<open>Properties\<close>


text \<open>
  The addresses the server prints for ZeroTier: each IPv4 address of a ZeroTier interface that is not a
  loopback address, once, in the order of its first occurrence.
\<close>

theorem detect_networks_spec:
  "detectSystemZTNetworks (Some is) = rev (remdups (rev (zt_addresses is))) \<and>
   distinct (detectSystemZTNetworks (Some is)) \<and> set (detectSystemZTNetworks (Some is)) = set (zt_addresses is)"
  by (simp add: detectSystemZTNetworks_def collect_ifaces_foldl foldl_add_new)


text \<open>The addresses can be taken apart again, and the port is the one of the setup if it is free of colons and brackets.\<close>

theorem printed_address_splits:
  assumes "set port \<inter> {CHR '':'', CHR ''['', CHR '']''} = {}" and "sc_ListenAddr cfg = '':'' @ port"
    and "set host \<inter> {CHR ''['', CHR '']''} = {}"
  shows "portFromAddr (sc_ListenAddr cfg) = port \<and> SplitHostPort (JoinHostPort host (portFromAddr (sc_ListenAddr cfg))) = Some (host, port)"
proof -
  have "SplitHostPort (JoinHostPort '''' port) = Some ('''', port)" using assms(1) by (intro Split_Join_HostPort) auto
  then have "portFromAddr (sc_ListenAddr cfg) = port" by (simp add: portFromAddr_def assms(2) JoinHostPort_def)
  then show ?thesis using assms(1,3) by (auto intro!: Split_Join_HostPort)
qed

section \<open>Witnesses\<close>

definition demo_codec :: json_codec where
  "demo_codec = \<lparr>json_Marshal = encode, json_Unmarshal = decode\<rparr>"


definition demo_settings :: server_settings where
  "demo_settings = (DefaultServerConfig None)\<lparr>sc_TokenSecret := sc_TokenSecret (srv_cfg demo_accounts)\<rparr>"


end
