(* ===== verification/Web_Push.thy ===== *)
theory Web_Push
  imports Lifecycle "HOL-Library.Sublist"
begin

text \<open>
  How the web interface of \<^verbatim>\<open>messenger/webui.go\<close> is put together: the routing of \<open>Handler\<close> over the
  handlers of \<open>Web_UI\<close>, and the push of events to the browsers. \<open>BroadcastLoop\<close> takes events from a
  subscription of the bus of \<open>Event_Bus\<close> and offers them to the channel of every client; the \<open>writePump\<close>
  of a client takes them from there. The two goroutines, the publishers, the other subscribers and
  the clients that come and go are interleaved by the step relation \<open>push_step\<close>. The page, the
  directory of static files and the clock are arguments, and the media library is the same in a run; paths are clean, so the router's
  clean-up of paths is left out.

  Results: every request leaves the engine in a reachable state; under every interleaving a browser
  gets a subsequence of the published messages and presence changes, in order and without duplicates,
  and gets all of them when no buffer overruns; the \<open>writePump\<close> of a client that has left never ends.
\<close>

section \<open>Definitions\<close>

subsection \<open>Routing\<close>

record web_request =
  wr_method :: string
  wr_path :: string
  wr_body :: "json option"
  wr_chat :: string
  wr_file :: "bytes option"
  wr_name :: string

text \<open>\<open>wr_chat\<close> and \<open>wr_name\<close> are the query or form values \<open>chat_id\<close> and \<open>name\<close>, \<open>wr_file\<close> the uploaded file.\<close>

definition enc_Peer :: "Peer \<Rightarrow> json" where
  "enc_Peer p = JObj (
     [(''id'', enc_PeerID (peer_ID p)), (''display_name'', JStr (peer_DisplayName p))] @
     json_opt ''avatar_hash'' (peer_AvatarHash p \<noteq> '''') (JStr (peer_AvatarHash p)) @
     [(''status'', JInt (case peer_Status p of PeerOffline \<Rightarrow> 0 | PeerOnline \<Rightarrow> 1 | PeerAway \<Rightarrow> 2 | PeerBusy \<Rightarrow> 3
         | PeerInvisible \<Rightarrow> 4))] @
     json_opt ''status_text'' (peer_StatusText p \<noteq> '''') (JStr (peer_StatusText p)) @
     [(''public_key'', JBytes (peer_PublicKey p)), (''sign_key'', JBytes (peer_SignKey p)),
      (''last_seen'', JTime (peer_LastSeen p)), (''networks'', JArr (map JStr (peer_Networks p)))] @
     json_opt ''is_blocked'' (peer_IsBlocked p) (JBool True) @
     [(''is_contact'', JBool (peer_IsContact p))])"

definition handleProfile :: "WebUI \<Rightarrow> json" where
  "handleProfile w = enc_Peer (e_localPeer (wu_engine w))"

definition serveIndex :: "bytes \<Rightarrow> http_response" where
  "serveIndex page = HttpFile (Some page)"

text \<open>
  One request that is not an upgrade. The pattern \<^verbatim>\<open>/static/\<close> is a subtree, \<^verbatim>\<open>/\<close> matches every path
  that no other pattern matches, the others match exactly.
\<close>

definition web_serve ::
  "'i web_env \<Rightarrow> Processor \<Rightarrow> bool \<times> bool \<Rightarrow> bytes \<Rightarrow> (string \<Rightarrow> http_response) \<Rightarrow> web_request \<Rightarrow> WebUI \<Rightarrow>
   http_response option \<times> WebUI" where
  "web_serve x p fs page static r w =
     (let path = wr_path r; method = wr_method r; body = wr_body r; plain = map_prod Some id in
      if path = ''/api/server/connect'' then plain (handleServerConnect x method body w)
      else if path = ''/api/auth/status'' then (Some (HttpJson (web_handleAuthStatus w)), w)
      else if path = ''/api/profile/update'' then plain (handleProfileUpdate x method body w)
      else if path = ''/api/logout'' then plain (handleLogout x method w)
      else if path = ''/api/login'' then plain (web_handleLogin x method body w)
      else if path = ''/api/register'' then plain (web_handleRegister x method body w)
      else if path = ''/api/peers'' then (Some (HttpJson (handlePeers x w)), w)
      else if path = ''/api/chats'' then (Some (HttpJson (handleChats w)), w)
      else if path = ''/api/messages'' then (Some (HttpJson (handleMessages x (wr_chat r) w)), w)
      else if path = ''/api/send'' then handleSend x method body w
      else if path = ''/api/settings'' then plain (handleSettings method body w)
      else if path = ''/api/dm'' then plain (handleDM x method body w)
      else if path = ''/api/profile'' then (Some (HttpJson (handleProfile w)), w)
      else if path = ''/api/upload'' then handleUpload x p fs method (wr_file r) (wr_chat r) (wr_name r) w
      else if path = ''/api/shutdown'' then plain (handleShutdown w)
      else if path = ''/ws'' then (Some (HttpError 400 ''Bad Request''), w)
      else if HasPrefix path ''/static/'' then (Some (static (drop 8 path)), w)
      else if path = ''/static'' then (Some (HttpStatus 301), w)
      else (Some (serveIndex page), w))"

subsection \<open>Events for the browser\<close>

text \<open>What the events carry: the data of the engine's events, or the node of the transport's.\<close>

datatype push_data = EngineData event_data | NodeData "NodeID option"

fun enc_event_data :: "event_data \<Rightarrow> json" where
  "enc_event_data NoData = JNull"
| "enc_event_data (DMessage m) = enc_Message m"
| "enc_event_data (DMessageID i) = JStr i"
| "enc_event_data (DPeerID p) = enc_PeerID p"
| "enc_event_data (DPeer p) = enc_Peer p"
| "enc_event_data (DRequest r) =
     JObj ([(''id'', JStr (cr_ID r)), (''from_peer'', enc_PeerID (cr_FromPeer r)),
       (''display_name'', JStr (cr_DisplayName r)), (''sign_key'', JBytes (cr_SignKey r)),
       (''dh_key'', JBytes (cr_DHKey r))] @ json_opt ''message'' (cr_Message r \<noteq> '''') (JStr (cr_Message r)) @
       [(''status'', JInt (case cr_Status r of ContactRequestPending \<Rightarrow> 0 | ContactRequestAccepted \<Rightarrow> 1
           | ContactRequestDeclined \<Rightarrow> 2)),
        (''received_at'', JTime (cr_ReceivedAt r))])"
| "enc_event_data (DTyping p c) = enc_TypingEvent p c"
| "enc_event_data (DReaction m emoji p action) =
     JObj [(''action'', JStr action), (''emoji'', JStr emoji), (''msg_id'', JStr m), (''peer_id'', enc_PeerID p)]"
| "enc_event_data (DMember c p role) =
     JObj ([(''chat_id'', JStr c), (''peer_id'', enc_PeerID p)] @
       (case role of None \<Rightarrow> [] | Some ro \<Rightarrow> [(''role'', JInt (int (MemberRole_iota ro)))]))"
| "enc_event_data (DCount n) = JInt n"

fun enc_push_data :: "push_data \<Rightarrow> json" where
  "enc_push_data (EngineData d) = enc_event_data d"
| "enc_push_data (NodeData None) = JNull"
| "enc_push_data (NodeData (Some n)) = JStr n"

definition enc_Event :: "push_data Event \<Rightarrow> json" where
  "enc_Event ev = JObj [(''type'', JStr (evt_Type ev)), (''ts'', JTime (evt_Timestamp ev)), (''data'', enc_push_data (evt_Data ev))]"

definition web_types :: "string list" where
  "web_types = [''message.received'', ''peer.online'', ''peer.offline'']"

abbreviation web_event :: "'d Event \<Rightarrow> bool" where
  "web_event ev \<equiv> evt_Type ev \<in> set web_types"

subsection \<open>The goroutines\<close>

datatype ws_out = WsText json | WsPing | WsClose

text \<open>
  The channel of a client that has left is still held by its \<open>writePump\<close>: it moves to \<open>wp_left\<close>.
  \<open>wp_ended\<close> are the clients whose pump has returned, \<open>wp_sent\<close> what the pumps wrote, \<open>wp_log\<close> the
  events published since the loop subscribed.
\<close>

record web_push =
  wp_ui :: WebUI
  wp_bus :: "push_data bus"
  wp_ch :: nat
  wp_left :: "(string \<times> json chan) list"
  wp_ended :: "string list"
  wp_sent :: "(string \<times> ws_out) list"
  wp_log :: "push_data Event list"

definition BroadcastLoop :: "WebUI \<Rightarrow> push_data bus \<Rightarrow> panic + web_push" where
  "BroadcastLoop w b =
     (case Subscribe ''webui'' web_types b of
        Inl p \<Rightarrow> Inl p
      | Inr (ch, b') \<Rightarrow>
          Inr \<lparr>wp_ui = w, wp_bus = b', wp_ch = ch, wp_left = [], wp_ended = [], wp_sent = [], wp_log = []\<rparr>)"

text \<open>One round of the loop: \<open>None\<close> when it waits for an event.\<close>

definition broadcast_next :: "web_push \<Rightarrow> web_push option" where
  "broadcast_next s =
     (case bus_receive (wp_ch s) (wp_bus s) of
        None \<Rightarrow> None
      | Some (ev, b') \<Rightarrow> Some (s\<lparr>wp_bus := b', wp_ui := BroadcastEvent (enc_Event ev) (wp_ui s)\<rparr>))"

definition push_publish :: "gotime \<Rightarrow> push_data Event \<Rightarrow> web_push \<Rightarrow> panic + web_push" where
  "push_publish now ev s =
     (case Publish now ev (wp_bus s) of
        Inl p \<Rightarrow> Inl p
      | Inr b' \<Rightarrow> Inr (s\<lparr>wp_bus := b', wp_log := wp_log s @ [stamp now ev]\<rparr>))"

definition push_join :: "string \<Rightarrow> web_push \<Rightarrow> web_push" where
  "push_join uuid s = s\<lparr>wp_ui := web_handleWS uuid (wp_ui s)\<rparr>"

definition push_leave :: "string \<Rightarrow> web_push \<Rightarrow> web_push" where
  "push_leave uuid s =
     s\<lparr>wp_ui := web_readPump_end uuid (wp_ui s),
       wp_left := (case map_of (wu_clients (wp_ui s)) uuid of None \<Rightarrow> wp_left s | Some c \<Rightarrow> (uuid, c) # wp_left s)\<rparr>"

definition client_chan :: "web_push \<Rightarrow> string \<Rightarrow> json chan option" where
  "client_chan s i =
     (case map_of (wu_clients (wp_ui s)) i of Some c \<Rightarrow> Some c | None \<Rightarrow> map_of (wp_left s) i)"

definition put_chan :: "string \<Rightarrow> json chan \<Rightarrow> web_push \<Rightarrow> web_push" where
  "put_chan i c s =
     (case map_of (wu_clients (wp_ui s)) i of
        Some _ \<Rightarrow> s\<lparr>wp_ui := (wp_ui s)\<lparr>wu_clients := AList.update i c (wu_clients (wp_ui s))\<rparr>\<rparr>
      | None \<Rightarrow> s\<lparr>wp_left := AList.update i c (wp_left s)\<rparr>)"

text \<open>
  One round of a running \<open>writePump\<close>: the next text, the close message when the channel is closed and
  empty, or, when \<open>tick\<close>, a ping. The errors of the writes are ignored, as in the code.
\<close>

definition writePump :: "bool \<Rightarrow> string \<Rightarrow> web_push \<Rightarrow> web_push option" where
  "writePump tick i s =
     (if i \<in> set (wp_ended s) then None
      else case client_chan s i of
          None \<Rightarrow> None
        | Some c \<Rightarrow>
            if tick then Some (s\<lparr>wp_sent := wp_sent s @ [(i, WsPing)]\<rparr>)
            else (case chan_recv c of
                    Some (j, c') \<Rightarrow> Some ((put_chan i c' s)\<lparr>wp_sent := wp_sent s @ [(i, WsText j)]\<rparr>)
                  | None \<Rightarrow>
                      if ch_closed c then Some (s\<lparr>wp_sent := wp_sent s @ [(i, WsClose)], wp_ended := i # wp_ended s\<rparr>)
                      else None))"

inductive push_step :: "'i media_lib \<Rightarrow> web_push \<Rightarrow> web_push \<Rightarrow> bool" for lib where
  push_pub: "push_publish now ev s = Inr s' \<Longrightarrow> push_step lib s s'"
| push_loop: "broadcast_next s = Some s' \<Longrightarrow> push_step lib s s'"
| push_in: "client_chan s uuid = None \<Longrightarrow> push_step lib s (push_join uuid s)"
| push_out: "push_step lib s (push_leave uuid s)"
| push_pump: "writePump tick i s = Some s' \<Longrightarrow> push_step lib s s'"
| push_sub: "sid \<noteq> ''webui'' \<Longrightarrow> Subscribe sid types (wp_bus s) = Inr (ch, b) \<Longrightarrow> push_step lib s (s\<lparr>wp_bus := b\<rparr>)"
| push_unsub: "sid \<noteq> ''webui'' \<Longrightarrow> push_step lib s (s\<lparr>wp_bus := snd (unsubscribe_delete sid (wp_bus s))\<rparr>)"
| push_close: "ch \<in> set (bus_closing (wp_bus s)) \<Longrightarrow> unsubscribe_close ch (wp_bus s) = Inr b \<Longrightarrow>
    push_step lib s (s\<lparr>wp_bus := b\<rparr>)"
| push_other: "ch \<noteq> wp_ch s \<Longrightarrow> bus_receive ch (wp_bus s) = Some (ev, b) \<Longrightarrow> push_step lib s (s\<lparr>wp_bus := b\<rparr>)"
| push_request: "we_lib x = lib \<Longrightarrow> push_step lib s (s\<lparr>wp_ui := snd (web_serve x p fs page static r (wp_ui s))\<rparr>)"

inductive push_reachable :: "'i media_lib \<Rightarrow> WebUI \<Rightarrow> push_data bus \<Rightarrow> web_push \<Rightarrow> bool" for lib w b where
  push_start: "BroadcastLoop w b = Inr s \<Longrightarrow> push_reachable lib w b s"
| push_more: "push_reachable lib w b s \<Longrightarrow> push_step lib s s' \<Longrightarrow> push_reachable lib w b s'"

text \<open>The texts a client was sent, in order.\<close>

definition texts :: "web_push \<Rightarrow> string \<Rightarrow> json list" where
  "texts s i = concat (map (\<lambda>(k, o'). if k = i then (case o' of WsText j \<Rightarrow> [j] | _ \<Rightarrow> []) else []) (wp_sent s))"

text \<open>A run of publications; and a goroutine that is scheduled whether it can run or not.\<close>

fun push_publish_all :: "(gotime \<times> push_data Event) list \<Rightarrow> web_push \<Rightarrow> panic + web_push" where
  "push_publish_all [] s = Inr s"
| "push_publish_all ((now, ev) # es) s =
     (case push_publish now ev s of Inl p \<Rightarrow> Inl p | Inr s' \<Rightarrow> push_publish_all es s')"

definition scheduled :: "('s \<Rightarrow> 's option) \<Rightarrow> 's \<Rightarrow> 's" where
  "scheduled f s = (case f s of None \<Rightarrow> s | Some s' \<Rightarrow> s')"

text \<open>The subscription of the loop, and the events waiting in its channel.\<close>

abbreviation loop_sub :: "web_push \<Rightarrow> subscription" where
  "loop_sub s \<equiv> \<lparr>sub_id = ''webui'', sub_types = web_types, sub_ch = wp_ch s\<rparr>"

abbreviation waiting :: "web_push \<Rightarrow> push_data Event list" where
  "waiting s \<equiv> ch_buf (bus_chans (wp_bus s) (wp_ch s))"

abbreviation web_log :: "web_push \<Rightarrow> json list" where
  "web_log s \<equiv> map enc_Event (filter web_event (wp_log s))"

text \<open>What the bus owes the loop, and what one client was given.\<close>

definition bus_side :: "push_data bus \<Rightarrow> nat \<Rightarrow> bool" where
  "bus_side b ch \<longleftrightarrow> bus_inv b \<and> map_of (bus_subs b) ''webui'' = Some \<lparr>sub_id = ''webui'', sub_types = web_types, sub_ch = ch\<rparr>"

definition client_ok :: "web_push \<Rightarrow> string \<Rightarrow> bool" where
  "client_ok s i \<longleftrightarrow>
     (client_chan s i = None \<longrightarrow> texts s i = []) \<and>
     (\<forall>c. client_chan s i = Some c \<longrightarrow>
        \<not> ch_closed c \<and> ch_cap c = 64 \<and> subseq (texts s i @ ch_buf c @ map enc_Event (waiting s)) (web_log s))"

definition push_inv :: "web_push \<Rightarrow> bool" where
  "push_inv s \<longleftrightarrow> bus_side (wp_bus s) (wp_ch s) \<and> subseq (waiting s) (filter web_event (wp_log s)) \<and>
     wp_ended s = [] \<and> (\<forall>i. client_ok s i) \<and> (\<forall>i. (i, WsClose) \<notin> set (wp_sent s))"

section \<open>Lemmas\<close>

subsection \<open>Requests\<close>

text \<open>A handler changes the engine by operations of the engine and leaves the clients alone.\<close>

definition by_engine :: "WebUI \<Rightarrow> WebUI \<Rightarrow> bool" where
  "by_engine w w' \<longleftrightarrow> wu_clients w' = wu_clients w \<and> engine_step\<^sup>*\<^sup>* (wu_engine w) (wu_engine w')"

lemma by_engine_refl [intro, simp]: "by_engine w w"
  by (simp add: by_engine_def)

lemma by_engine_trans [trans]: "by_engine w w' \<Longrightarrow> by_engine w' w'' \<Longrightarrow> by_engine w w''"
  by (auto simp: by_engine_def)

lemma by_engine_step: "engine_step (wu_engine w) e \<Longrightarrow> by_engine w (w\<lparr>wu_engine := e\<rparr>)"
  by (simp add: by_engine_def r_into_rtranclp)

lemma by_engine_fields [simp]:
  "by_engine w (w'\<lparr>wu_serverConn := c\<rparr>) = by_engine w w'" "by_engine w (saveAuth a w') = by_engine w w'"
  "by_engine w (w'\<lparr>wu_shutdown := b\<rparr>) = by_engine w w'"
  by (simp_all add: by_engine_def saveAuth_def)

lemma by_engine_saved [simp]: "by_engine (saveAuth a w) w' = by_engine w w'"
  by (simp add: by_engine_def saveAuth_def)

lemma by_engine_connect: "engine_connect x addr auth w = (err, w') \<Longrightarrow> by_engine w w'"
  by (auto simp: engine_connect_def Let_def by_engine_def split: prod.splits
      intro!: r_into_rtranclp [of engine_step] engine_step.intros(11))

lemma by_engine_disconnect [intro]: "by_engine w (engine_disconnect x w)"
  by (auto simp: engine_disconnect_def by_engine_def intro: engine_step.intros)

lemma by_engine_profile [intro]: "by_engine w (set_name n w)" "by_engine w (set_bio x t w)"
  by (auto simp: set_name_def set_bio_def intro: by_engine_step engine_step.intros)

lemma by_engine_auth:
  assumes "\<And>w. by_engine w (f w)"
  shows "by_engine w (snd (after_auth x pre f server u res w))"
proof -
  have "by_engine w w'" if "engine_connect x server (Some (u, t)) (engine_disconnect x w) = (err, w')" for t err w'
    using by_engine_disconnect by_engine_connect [OF that] by (rule by_engine_trans)
  then show ?thesis
    using assms by_engine_trans by (fastforce simp: after_auth_def Let_def split: prod.splits option.splits)
qed

lemma by_engine_send: "engine_step (wu_engine w) (snd r) \<Longrightarrow> by_engine w (snd (send_response x r w))"
  by (auto simp: send_response_def intro: by_engine_step split: prod.splits outcome.splits)

lemma handleServerConnect_by_engine: "by_engine w (snd (handleServerConnect x m body w))"
  by (auto simp: handleServerConnect_def Let_def dest: by_engine_connect split: prod.splits option.splits)

lemma handleLogout_by_engine: "by_engine w (snd (handleLogout x m w))"
  using by_engine_disconnect [of "saveAuth None w" x] by (simp add: handleLogout_def)

lemma web_handleLogin_by_engine: "by_engine w (snd (web_handleLogin x m body w))"
  by (simp add: web_handleLogin_def Let_def by_engine_auth by_engine_trans [OF by_engine_profile(1) by_engine_profile(2)]
      split: option.splits)

lemma web_handleRegister_by_engine: "by_engine w (snd (web_handleRegister x m body w))"
  by (simp add: web_handleRegister_def Let_def by_engine_auth by_engine_profile(1) split: option.splits)

lemma handleProfileUpdate_by_engine: "by_engine w (snd (handleProfileUpdate x m body w))"
proof -
  have "by_engine w (w\<lparr>wu_engine := SetStatus v st b (SetDisplayName n (wu_engine w))\<rparr>)" for v st b n
    using by_engine_trans [OF by_engine_step by_engine_step, of w "SetDisplayName n (wu_engine w)"] engine_step.intros(7,8)
    by fastforce
  then show ?thesis by (simp add: handleProfileUpdate_def Let_def split: prod.splits option.splits)
qed

lemma handleDM_by_engine: "by_engine w (snd (handleDM x m body w))"
proof -
  have "by_engine w (w\<lparr>wu_engine := snd (SendHandshake v n e1)\<rparr>)" if "CreateChat v nm ps (wu_engine w) = (c, e1)" for v n nm ps c e1
    using engine_step.intros(19) [of "wu_engine w" v nm ps] engine_step.intros(42) [of e1 v n] that
    by (auto simp: by_engine_def intro: rtranclp.rtrancl_into_rtrancl)
  then show ?thesis by (simp add: handleDM_def Let_def split: prod.splits option.splits)
qed

lemma handler_by_engine:
  "by_engine w (snd (handleSend x m body w))" "by_engine w (snd (handleSettings m body w))"
  "by_engine w (snd (handleUpload x p fs m d c n w))" "by_engine w (snd (handleShutdown w))"
  by (auto simp: handleSend_def handleSettings_def handleUpload_def handleShutdown_def Let_def
      intro!: by_engine_send by_engine_step engine_step.intros split: option.splits)

lemmas handlers_by_engine = handler_by_engine handleServerConnect_by_engine handleLogout_by_engine
  web_handleLogin_by_engine web_handleRegister_by_engine handleProfileUpdate_by_engine handleDM_by_engine

lemma web_serve_by_engine: "by_engine w (snd (web_serve x p fs page static r w))"
  unfolding web_serve_def Let_def
  by (simp only: snd_map_prod id_apply snd_conv handlers_by_engine by_engine_refl if_split [where P = "\<lambda>z. by_engine w (snd z)"]) simp

subsection \<open>The bus of the loop\<close>

lemma bus_side_live:
  assumes "bus_side b ch"
  shows "ch \<notin> set (bus_closing b)" "ch < bus_next b"
    "map_of (bus_subs b) sid = Some sub \<Longrightarrow> sid \<noteq> ''webui'' \<Longrightarrow> sub_ch sub \<noteq> ch"
proof -
  have inv: "bus_inv b" and web: "map_of (bus_subs b) ''webui'' = Some \<lparr>sub_id = ''webui'', sub_types = web_types, sub_ch = ch\<rparr>"
    using assms by (auto simp: bus_side_def)
  show "ch \<notin> set (bus_closing b)" using bus_inv_sub(3) [OF inv web] by simp
  show "ch < bus_next b" using inv sub_ch_live [OF web] by (simp add: bus_inv_def)
  show "sub_ch sub \<noteq> ch" if "map_of (bus_subs b) sid = Some sub" "sid \<noteq> ''webui''"
  proof -
    have "distinct (map (sub_ch \<circ> snd) (bus_subs b))" using inv by (simp add: bus_inv_def live_chans_def)
    then show ?thesis
      using map_of_SomeD [OF web] map_of_SomeD [OF that(1)] that(2) by (fastforce simp: distinct_map inj_on_def)
  qed
qed

lemma bus_side_publish:
  assumes "bus_side b ch" and "Publish now ev b = Inr b'"
  shows "bus_side b' ch"
    and "bus_chans b' ch = (if web_event ev then chan_offer (stamp now ev) (bus_chans b ch) else bus_chans b ch)"
proof -
  let ?sub = "\<lparr>sub_id = ''webui'', sub_types = web_types, sub_ch = ch\<rparr>"
  have inv: "bus_inv b" and web: "map_of (bus_subs b) ''webui'' = Some ?sub" using assms by (auto simp: bus_side_def)
  show "bus_side b' ch"
    using Publish_bus_inv [OF inv, of now ev] Publish_frame(1) [OF inv assms(2)] assms(2) web by (auto simp: bus_side_def)
  show "bus_chans b' ch = (if web_event ev then chan_offer (stamp now ev) (bus_chans b ch) else bus_chans b ch)"
    using Publish_channel [OF inv assms(2) web] by (simp add: sub_matches_def web_types_def)
qed

lemma bus_side_subscribe:
  assumes "bus_side b ch" and "Subscribe sid types b = Inr (n, b')" and "sid \<noteq> ''webui''"
  shows "bus_side b' ch \<and> bus_chans b' ch = bus_chans b ch"
proof -
  have inv: "bus_inv b" using assms(1) by (simp add: bus_side_def)
  have "bus_inv b'" using Subscribe_bus_inv [OF inv, of sid types] assms(2) by auto
  moreover have "ch \<noteq> bus_next b" using bus_side_live(2) [OF assms(1)] by simp
  moreover have "sub_ch old \<noteq> ch" if "map_of (bus_subs b) sid = Some old" for old
    using bus_side_live(3) [OF assms(1) that assms(3)] .
  ultimately show ?thesis
    using assms by (cases "map_of (bus_subs b) sid") (auto simp: Subscribe_eq [OF inv] bus_side_def update_conv)
qed

lemma bus_side_unsubscribe:
  assumes "bus_side b ch"
  shows "sid \<noteq> ''webui'' \<Longrightarrow> bus_side (snd (unsubscribe_delete sid b)) ch"
    and "bus_chans (snd (unsubscribe_delete sid b)) = bus_chans b"
  using assms unsubscribe_delete_inv [of b sid]
  by (auto simp: bus_side_def unsubscribe_delete_def delete_conv split: option.splits)

lemma bus_side_close:
  assumes "bus_side b ch" and "k \<in> set (bus_closing b)" and "unsubscribe_close k b = Inr b'"
  shows "bus_side b' ch \<and> bus_chans b' ch = bus_chans b ch"
proof -
  have "bus_inv b'" using unsubscribe_close_inv [OF _ assms(2)] assms(1,3) by (auto simp: bus_side_def)
  moreover have "k \<noteq> ch" using bus_side_live(1) [OF assms(1)] assms(2) by auto
  ultimately show ?thesis
    using assms(1,3) by (auto simp: unsubscribe_close_def bus_side_def split: sum.splits)
qed

lemma bus_side_receive:
  assumes "bus_side b ch" and "bus_receive k b = Some (ev, b')"
  shows "bus_side b' ch"
    and "k \<noteq> ch \<Longrightarrow> bus_chans b' ch = bus_chans b ch"
    and "k = ch \<Longrightarrow> ch_buf (bus_chans b ch) = ev # ch_buf (bus_chans b' ch)"
proof -
  show "bus_side b' ch"
    using bus_receive_inv [OF _ assms(2)] assms by (auto simp: bus_side_def bus_receive_def split: option.splits)
qed (use assms(2) in \<open>auto simp: bus_receive_def chan_recv_def split: option.splits list.splits\<close>)

subsection \<open>The clients\<close>

lemma texts_snoc [simp]:
  "texts (s\<lparr>wp_sent := wp_sent s @ [(k, WsPing)]\<rparr>) i = texts s i"
  "texts (s\<lparr>wp_sent := wp_sent s @ [(k, WsText j)]\<rparr>) i = texts s i @ (if k = i then [j] else [])"
  by (simp_all add: texts_def)

lemma texts_frame [simp]:
  "texts (s\<lparr>wp_bus := b\<rparr>) i = texts s i" "texts (s\<lparr>wp_ui := w\<rparr>) i = texts s i" "texts (s\<lparr>wp_log := l\<rparr>) i = texts s i"
  "texts (push_join u s) i = texts s i" "texts (push_leave u s) i = texts s i" 
  by (simp_all add: texts_def push_join_def push_leave_def)

lemma client_chan_frame [simp]:
  "client_chan (s\<lparr>wp_bus := b\<rparr>) i = client_chan s i" "client_chan (s\<lparr>wp_log := l\<rparr>) i = client_chan s i"
  "client_chan (s\<lparr>wp_sent := t\<rparr>) i = client_chan s i" "client_chan (s\<lparr>wp_ended := z\<rparr>) i = client_chan s i"
  by (simp_all add: client_chan_def split: option.split)

lemma client_chan_join: "client_chan s u = None \<Longrightarrow>
    client_chan (push_join u s) i = (if i = u then Some (make_chan 64) else client_chan s i)"
  by (simp add: client_chan_def push_join_def web_handleWS_def update_conv split: option.splits)

lemma push_join_frame [simp]:
  "wp_bus (push_join u s) = wp_bus s" "wp_ch (push_join u s) = wp_ch s" "wp_log (push_join u s) = wp_log s"
  "wp_sent (push_join u s) = wp_sent s" "wp_ended (push_join u s) = wp_ended s"
  by (simp_all add: push_join_def)

lemma client_chan_leave [simp]: "client_chan (push_leave u s) i = client_chan s i"
  by (auto simp: client_chan_def push_leave_def web_readPump_end_def delete_conv split: option.splits)

lemma client_chan_put: "client_chan s k = Some c \<Longrightarrow>
    client_chan (put_chan k c' s) i = (if i = k then Some c' else client_chan s i)"
  by (auto simp: client_chan_def put_chan_def update_conv split: option.splits)

lemma put_chan_frame [simp]:
  "wp_bus (put_chan k c s) = wp_bus s" "wp_ch (put_chan k c s) = wp_ch s" "wp_log (put_chan k c s) = wp_log s"
  "wp_sent (put_chan k c s) = wp_sent s" "wp_ended (put_chan k c s) = wp_ended s"
  by (simp_all add: put_chan_def split: option.splits)

lemma client_chan_broadcast: "client_chan (s\<lparr>wp_ui := BroadcastEvent j (wp_ui s)\<rparr>) i =
    (case map_of (wu_clients (wp_ui s)) i of Some c \<Rightarrow> Some (chan_offer j c) | None \<Rightarrow> map_of (wp_left s) i)"
  by (simp add: client_chan_def BroadcastEvent_def map_of_map split: option.splits)

subsection \<open>The invariant of the push\<close>

lemmas push_defs = push_inv_def client_ok_def

lemma push_inv_bus:
  "push_inv s \<Longrightarrow> bus_side b (wp_ch s) \<and> bus_chans b (wp_ch s) = bus_chans (wp_bus s) (wp_ch s) \<Longrightarrow> push_inv (s\<lparr>wp_bus := b\<rparr>)"
  by (simp add: push_defs)

lemma push_inv_start:
  assumes "bus_inv b" and "wu_clients w = []" and "BroadcastLoop w b = Inr s"
  shows "push_inv s"
proof -
  have "bus_inv b'" if "Subscribe ''webui'' web_types b = Inr (ch, b')" for ch b'
    using Subscribe_bus_inv [OF assms(1), of "''webui''" web_types] that by auto
  then show ?thesis
    using assms(2,3) by (auto simp: push_defs BroadcastLoop_def Subscribe_eq [OF assms(1)] bus_side_def update_conv
        client_chan_def texts_def)
qed

lemma push_inv_publish:
  assumes "push_inv s" and "push_publish now ev s = Inr s'"
  shows "push_inv s'"
proof -
  obtain b' where b': "Publish now ev (wp_bus s) = Inr b'" and s': "s' = s\<lparr>wp_bus := b', wp_log := wp_log s @ [stamp now ev]\<rparr>"
    using assms(2) by (auto simp: push_publish_def split: sum.splits)
  have side: "bus_side (wp_bus s) (wp_ch s)" using assms(1) by (simp add: push_inv_def)
  have ty: "evt_Type (stamp now ev) = evt_Type ev" by (simp add: stamp_def)
  let ?new = "if web_event ev then [stamp now ev] else []"
  have log: "filter web_event (wp_log s') = filter web_event (wp_log s) @ ?new" by (simp add: s' ty)
  obtain d where d: "waiting s' = waiting s @ d" "subseq d ?new"
    using bus_side_publish(2) [OF side b'] that [of "[]"] that [of "[stamp now ev]"]
    by (cases "length (waiting s) < ch_cap (bus_chans (wp_bus s) (wp_ch s))") (simp_all add: s' chan_simps split: if_splits)
  have more: "subseq (xs @ ys @ map enc_Event (waiting s')) (web_log s')"
    if "subseq (xs @ ys @ map enc_Event (waiting s)) (web_log s)" for xs ys
    using list_emb_append_mono [OF that subseq_map [OF d(2), of enc_Event]] by (simp only: d(1) log map_append append_assoc)
  have "client_ok s' i" for i
  proof -
    have "client_ok s i" using assms(1) by (simp add: push_inv_def)
    moreover have "client_chan s' i = client_chan s i" "texts s' i = texts s i" by (simp_all add: s')
    ultimately show ?thesis using more by (simp only: client_ok_def) blast
  qed
  moreover have "subseq (waiting s') (filter web_event (wp_log s'))"
    using list_emb_append_mono [OF _ d(2)] assms(1) by (simp only: d(1) log push_inv_def)
  ultimately show ?thesis using assms(1) bus_side_publish(1) [OF side b'] by (simp add: push_inv_def s')
qed

lemma push_inv_broadcast:
  assumes "push_inv s" and "broadcast_next s = Some s'"
  shows "push_inv s'"
proof -
  obtain ev b' where rec: "bus_receive (wp_ch s) (wp_bus s) = Some (ev, b')"
    and s': "s' = s\<lparr>wp_bus := b', wp_ui := BroadcastEvent (enc_Event ev) (wp_ui s)\<rparr>"
    using assms(2) by (auto simp: broadcast_next_def split: option.splits)
  have side: "bus_side (wp_bus s) (wp_ch s)" using assms(1) by (simp add: push_inv_def)
  have w: "waiting s = ev # waiting s'" using bus_side_receive(3) [OF side rec] by (simp add: s')
  have drop: "subseq (xs @ map enc_Event (waiting s')) l" if "subseq (xs @ map enc_Event (waiting s)) l" for xs l
    using that by (simp add: w) (meson list_emb_Cons list_emb_append_mono subseq_order.order_refl subseq_order.order_trans)
  have "client_ok s' i" for i
  proof -
    have ok: "client_ok s i" using assms(1) by (simp add: push_inv_def)
    have cc: "client_chan s' i = (case map_of (wu_clients (wp_ui s)) i of Some c \<Rightarrow> Some (chan_offer (enc_Event ev) c)
        | None \<Rightarrow> map_of (wp_left s) i)"
      using client_chan_broadcast [of "enc_Event ev" "s\<lparr>wp_bus := b'\<rparr>" i]
      by (cases "map_of (wu_clients (wp_ui s)) i") (simp_all add: s')
    show ?thesis
    proof (cases "map_of (wu_clients (wp_ui s)) i")
      case None
      with ok cc drop [of "texts s i @ _"] show ?thesis
        by (auto simp: client_ok_def client_chan_def s' split: option.splits)
    next
      case (Some c)
      with ok have "\<not> ch_closed c" "ch_cap c = 64" "subseq ((texts s i @ ch_buf c) @ map enc_Event (waiting s)) (web_log s)"
        by (simp_all add: client_ok_def client_chan_def)
      with Some cc drop [of "texts s i @ ch_buf c"] show ?thesis
        by (auto simp: client_ok_def s' chan_simps w)
    qed
  qed
  moreover have "subseq (waiting s') (filter web_event (wp_log s'))"
    using assms(1) by (auto simp: push_inv_def w s' dest: subseq_Cons')
  ultimately show ?thesis using assms(1) bus_side_receive(1) [OF side rec] by (simp add: push_inv_def s')
qed

lemma push_inv_join:
  assumes "push_inv s" and "client_chan s u = None"
  shows "push_inv (push_join u s)"
proof -
  have "texts s u = []" using assms by (auto simp: push_defs split: option.splits)
  then have "client_ok (push_join u s) i" for i
    using assms by (auto simp: push_defs client_chan_join [OF assms(2)] subseq_map split: if_splits)
  then show ?thesis using assms(1) by (simp add: push_inv_def)
qed

lemma push_inv_leave: "push_inv s \<Longrightarrow> push_inv (push_leave u s)"
  by (simp add: push_defs) (auto simp: push_leave_def)

lemma push_inv_pump:
  assumes "push_inv s" and "writePump tick k s = Some s'"
  shows "push_inv s'"
proof -
  obtain c where c: "client_chan s k = Some c" and open_c: "\<not> ch_closed c"
    using assms by (auto simp: writePump_def push_defs split: if_splits option.splits)
  show ?thesis
  proof (cases tick)
    case True
    with assms c show ?thesis by (auto simp: writePump_def push_defs split: option.splits)
  next
    case False
    with assms(2) c open_c obtain j c' where r: "chan_recv c = Some (j, c')"
      and s': "s' = (put_chan k c' s)\<lparr>wp_sent := wp_sent s @ [(k, WsText j)]\<rparr>"
      by (auto simp: writePump_def split: if_splits option.splits)
    have buf: "ch_buf c = j # ch_buf c'" "\<not> ch_closed c'" "ch_cap c' = ch_cap c"
      using r open_c by (auto simp: chan_recv_def split: list.splits)
    have tx: "texts s' i = texts s i @ (if i = k then [j] else [])" for i by (simp add: s' texts_def)
    have cc: "client_chan s' i = (if i = k then Some c' else client_chan s i)" for i
      using client_chan_put [OF c] by (simp add: s')
    have "client_ok s' i" for i
    proof -
      have "client_ok s i" using assms(1) by (simp add: push_inv_def)
      then show ?thesis using c buf by (auto simp: client_ok_def tx cc) (simp_all add: s')
    qed
    then show ?thesis using assms(1) by (auto simp: push_inv_def s')
  qed
qed

lemma push_inv_request: "push_inv s \<Longrightarrow> wu_clients w = wu_clients (wp_ui s) \<Longrightarrow> push_inv (s\<lparr>wp_ui := w\<rparr>)"
proof -
  assume "push_inv s" and "wu_clients w = wu_clients (wp_ui s)"
  moreover from this(2) have "client_chan (s\<lparr>wp_ui := w\<rparr>) i = client_chan s i" for i
    by (simp add: client_chan_def split: option.split)
  ultimately show "push_inv (s\<lparr>wp_ui := w\<rparr>)" by (simp add: push_defs)
qed

interpretation push: safe_system "push_step lib" push_inv
proof
  fix s s'
  assume inv: "push_inv s" and step: "push_step lib s s'"
  have side: "bus_side (wp_bus s) (wp_ch s)" using inv by (simp add: push_inv_def)
  show "push_inv s'"
    using step inv
  proof cases
    case (push_sub sid types ch b)
    then show ?thesis using push_inv_bus [OF inv] bus_side_subscribe [OF side] by simp
  next
    case (push_unsub sid)
    then show ?thesis using push_inv_bus [OF inv] bus_side_unsubscribe [OF side] by simp
  next
    case (push_close ch b)
    then show ?thesis using push_inv_bus [OF inv] bus_side_close [OF side] by simp
  next
    case (push_other ch ev b)
    then show ?thesis using push_inv_bus [OF inv] bus_side_receive [OF side] by simp
  next
    case (push_request x p fs page static r)
    then show ?thesis using push_inv_request [OF inv] web_serve_by_engine [of "wp_ui s" x p fs page static r] by (simp add: by_engine_def)
  qed (auto intro: push_inv_publish push_inv_broadcast push_inv_join push_inv_leave push_inv_pump)
qed

lemma push_reachable_inv:
  assumes "push_reachable lib w b s" and "bus_inv b" and "wu_clients w = []"
  shows "push_inv s"
  using assms(1) by induction (auto intro: push.step_inv push_inv_start [OF assms(2,3)])

subsection \<open>Delivery\<close>

lemma publish_all_waiting:
  assumes "push_inv s" and "\<forall>(now, ev)\<in>set es. web_event ev" and "length (waiting s) + length es \<le> 256"
  shows "\<exists>s'. push_publish_all es s = Inr s' \<and> push_inv s' \<and> wp_ui s' = wp_ui s \<and> wp_sent s' = wp_sent s \<and>
    waiting s' = waiting s @ map (\<lambda>(now, ev). stamp now ev) es"
  using assms
proof (induction es arbitrary: s)
  case (Cons p es)
  obtain now ev where p: "p = (now, ev)" by force
  have side: "bus_side (wp_bus s) (wp_ch s)" using Cons.prems(1) by (simp add: push_inv_def)
  then obtain b' where b': "Publish now ev (wp_bus s) = Inr b'" using Publish_bus_inv bus_side_def by metis
  define s1 where "s1 = s\<lparr>wp_bus := b', wp_log := wp_log s @ [stamp now ev]\<rparr>"
  have pub: "push_publish now ev s = Inr s1" by (simp add: push_publish_def b' s1_def)
  have "ch_cap (bus_chans (wp_bus s) (wp_ch s)) = 256" using side by (simp add: bus_side_def bus_inv_def chan_ok_def)
  then have "waiting s1 = waiting s @ [stamp now ev]"
    using bus_side_publish(2) [OF side b'] Cons.prems(2,3) by (simp add: s1_def p chan_simps)
  then show ?case
    using Cons.IH [OF push_inv_publish [OF Cons.prems(1) pub]] Cons.prems(2,3) by (auto simp: p pub) (auto simp: s1_def)
qed simp

lemma loop_delivers:
  assumes "push_inv s" and "map_of (wu_clients (wp_ui s)) i = Some c"
    and "length (ch_buf c) + length (waiting s) \<le> 64" and "length (waiting s) \<le> n"
  shows "\<exists>c' s'. (scheduled broadcast_next ^^ n) s = s' \<and> push_inv s' \<and> wp_sent s' = wp_sent s \<and>
    map_of (wu_clients (wp_ui s')) i = Some c' \<and> ch_buf c' = ch_buf c @ map enc_Event (waiting s)"
  using assms
proof (induction n arbitrary: s c)
  case (Suc n)
  show ?case
  proof (cases "broadcast_next s")
    case None
    then have empty: "waiting s = []"
      by (auto simp: broadcast_next_def bus_receive_def chan_recv_def split: option.splits list.splits)
    have "scheduled broadcast_next s = s" by (simp add: scheduled_def None)
    then show ?thesis using Suc.IH [OF Suc.prems(1,2)] Suc.prems(3) empty by (simp del: funpow.simps add: funpow_Suc_right)
  next
    case (Some s1)
    then obtain ev b' where rec: "bus_receive (wp_ch s) (wp_bus s) = Some (ev, b')"
      and s1: "s1 = s\<lparr>wp_bus := b', wp_ui := BroadcastEvent (enc_Event ev) (wp_ui s)\<rparr>"
      by (auto simp: broadcast_next_def split: option.splits)
    have w: "waiting s = ev # waiting s1"
      using bus_side_receive(3) [OF _ rec] Suc.prems(1) by (simp add: s1 push_inv_def)
    have "client_chan s i = Some c" using Suc.prems(2) by (simp add: client_chan_def)
    then have "ch_cap c = 64" using Suc.prems(1) by (simp add: push_defs)
    then have buf: "ch_buf (chan_offer (enc_Event ev) c) = ch_buf c @ [enc_Event ev]"
      using Suc.prems(3) by (simp add: chan_simps w)
    have "map_of (wu_clients (wp_ui s1)) i = Some (chan_offer (enc_Event ev) c)"
      using Suc.prems(2) by (simp add: s1 BroadcastEvent_def map_of_map)
    from Suc.IH [OF push_inv_broadcast [OF Suc.prems(1) Some] this] show ?thesis
      using Suc.prems(3,4) by (auto simp: w buf scheduled_def Some funpow_Suc_right simp del: funpow.simps) (auto simp: s1)
  qed
qed simp

lemma pump_delivers:
  assumes "push_inv s" and "client_chan s i = Some c" and "length (ch_buf c) \<le> m"
  shows "texts ((scheduled (writePump False i) ^^ m) s) i = texts s i @ ch_buf c"
  using assms
proof (induction m arbitrary: s c)
  case (Suc m)
  have run: "wp_ended s = []" "\<not> ch_closed c" using Suc.prems(1,2) by (simp_all add: push_defs)
  show ?case
  proof (cases "ch_buf c")
    case Nil
    then have "scheduled (writePump False i) s = s" by (simp add: scheduled_def writePump_def Suc.prems(2) chan_recv_def run)
    then show ?thesis using Suc.IH [OF Suc.prems(1,2)] Nil by (simp del: funpow.simps add: funpow_Suc_right)
  next
    case (Cons j js)
    define s1 where "s1 = (put_chan i (c\<lparr>ch_buf := js\<rparr>) s)\<lparr>wp_sent := wp_sent s @ [(i, WsText j)]\<rparr>"
    have pump: "writePump False i s = Some s1"
      using Suc.prems(2) by (simp add: writePump_def chan_recv_def Cons s1_def run)
    have "client_chan s1 i = Some (c\<lparr>ch_buf := js\<rparr>)" using client_chan_put [OF Suc.prems(2)] by (simp add: s1_def)
    moreover have "texts s1 i = texts s i @ [j]" by (simp add: s1_def texts_def)
    ultimately show ?thesis
      using Suc.IH [OF push_inv_pump [OF Suc.prems(1) pump]] Suc.prems(3) Cons
      by (simp del: funpow.simps add: funpow_Suc_right scheduled_def pump)
  qed
qed simp

lemma client_stays:
  assumes "push_step lib s s'" and "client_chan s i \<noteq> None"
  shows "client_chan s' i \<noteq> None"
  using assms
proof cases
  case (push_request x p fs page static r)
  then show ?thesis
    using assms(2) web_serve_by_engine [of "wp_ui s" x p fs page static r]
    by (auto simp: client_chan_def by_engine_def split: option.splits)
next
  case push_loop
  then show ?thesis
    using assms(2) by (auto simp: broadcast_next_def client_chan_def BroadcastEvent_def map_of_map split: option.splits)
next
  case (push_pump tick k)
  then show ?thesis
    using assms(2) by (auto simp: writePump_def client_chan_put split: if_splits option.splits)
qed (auto simp: push_publish_def client_chan_join split: sum.splits)

section \<open>Properties\<close>


text \<open>
  C14: under every interleaving of publishers, other subscribers, requests, browsers that come and go, the
  broadcast loop and the pumps, what a browser was sent is a subsequence of the messages and presence
  changes published since the loop subscribed: nothing of another type, nothing twice, nothing out of order.
\<close>

theorem pushed_in_order:
  assumes "bus_reachable b" and "wu_clients w = []" and "push_reachable lib w b s"
  shows "subseq (texts s i) (map enc_Event (filter web_event (wp_log s)))"
proof -
  have "client_ok s i"
    using push_reachable_inv [OF assms(3) bus_reachable_inv [OF assms(1)] assms(2)] by (simp add: push_inv_def)
  then show ?thesis
    by (cases "client_chan s i") (auto simp: client_ok_def dest: subseq_order.order_trans [OF list_emb_prefix [OF subseq_order.order_refl]])
qed

text \<open>
  C33: when no buffer overruns, a browser gets everything: a connected client whose channel has room for
  the events that wait and for those published next is sent them all, in order, once the loop was
  scheduled as often as there are events and the client's pump 64 times.
\<close>

theorem push_complete:
  assumes "bus_reachable b" and "wu_clients w = []" and "push_reachable lib w b s"
    and "map_of (wu_clients (wp_ui s)) i = Some c" and "\<forall>(now, ev)\<in>set es. web_event ev"
    and "length (ch_buf c) + length (waiting s) + length es \<le> 64"
    and "length (waiting s) + length es \<le> n" and "64 \<le> m"
  shows "\<exists>s1. push_publish_all es s = Inr s1 \<and>
    texts ((scheduled (writePump False i) ^^ m) ((scheduled broadcast_next ^^ n) s1)) i =
      texts s i @ ch_buf c @ map enc_Event (waiting s @ map (\<lambda>(now, ev). stamp now ev) es)"
proof -
  have inv: "push_inv s" by (rule push_reachable_inv [OF assms(3) bus_reachable_inv [OF assms(1)] assms(2)])
  obtain s1 where s1: "push_publish_all es s = Inr s1" "push_inv s1" "wp_ui s1 = wp_ui s" "wp_sent s1 = wp_sent s"
    "waiting s1 = waiting s @ map (\<lambda>(now, ev). stamp now ev) es"
    using publish_all_waiting [OF inv assms(5)] assms(6) by auto
  obtain c2 s2 where s2: "(scheduled broadcast_next ^^ n) s1 = s2" "push_inv s2" "wp_sent s2 = wp_sent s1"
    "map_of (wu_clients (wp_ui s2)) i = Some c2" "ch_buf c2 = ch_buf c @ map enc_Event (waiting s1)"
    using loop_delivers [OF s1(2), of i c n] assms(4,6,7) s1(3,5) by auto
  have "texts ((scheduled (writePump False i) ^^ m) s2) i = texts s2 i @ ch_buf c2"
    using assms(6,8) s1(5) s2(4,5) by (intro pump_delivers [OF s2(2)]) (simp_all add: client_chan_def)
  then show ?thesis using s1 s2 by (auto simp: texts_def)
qed

text \<open>
  The pump of a browser that has left never ends: \<open>readPump\<close> removes the client and nobody closes its
  channel, so whatever happens next the pump is still there and pings the closed connection.
\<close>

theorem pump_never_ends:
  assumes "bus_reachable b" and "wu_clients w = []" and "push_reachable lib w b s"
    and "map_of (wu_clients (wp_ui s)) i = Some c" and "(push_step lib)\<^sup>*\<^sup>* (push_leave i s) s'"
  shows "writePump True i s' = Some (s'\<lparr>wp_sent := wp_sent s' @ [(i, WsPing)]\<rparr>)"
proof -
  have "push_inv s" by (rule push_reachable_inv [OF assms(3) bus_reachable_inv [OF assms(1)] assms(2)])
  then have "wp_ended s' = []" using push.run_inv [OF assms(5) push_inv_leave] by (simp add: push_inv_def)
  moreover have "client_chan (push_leave i s) i \<noteq> None" using assms(4) by (simp only: client_chan_leave) (simp add: client_chan_def)
  with assms(5) have "client_chan s' i \<noteq> None" by induction (auto dest: client_stays)
  ultimately show ?thesis by (auto simp: writePump_def)
qed

text \<open>Shutting the node down takes no login and no particular method: every page a browser shows can do it.\<close>

theorem shutdown_unprotected:
  assumes "wu_onShutdown w" and "wr_path r = ''/api/shutdown''"
  shows "wu_shutdown (snd (web_serve x p fs page static r w))"
  using assms by (simp add: web_serve_def handleShutdown_def)

section \<open>Witnesses\<close>

definition demo_push :: web_push where
  "demo_push = push_join ''u1'' (projr (BroadcastLoop (NewWebUI (demo_engine ''alice'' 1)) NewEventBus))"

text \<open>A peer comes online, and a typing notice that the loop does not subscribe to.\<close>

abbreviation demo_online :: "push_data Event" where
  "demo_online \<equiv> \<lparr>evt_Type = ''peer.online'', evt_Timestamp = 7, evt_Data = NodeData (Some ''bob'')\<rparr>"

abbreviation demo_typing :: "push_data Event" where
  "demo_typing \<equiv> \<lparr>evt_Type = ''peer.typing'', evt_Timestamp = 7, evt_Data = EngineData NoData\<rparr>"

definition demo_pushed :: web_push where
  "demo_pushed = scheduled (writePump False ''u1'') (scheduled broadcast_next
     (projr (push_publish_all [(7, demo_typing), (7, demo_online)] demo_push)))"

lemmas push_run_simps = demo_push_def demo_pushed_def BroadcastLoop_def Subscribe_def NewEventBus_def NewWebUI_def
  push_join_def web_handleWS_def push_publish_def Publish_def stamp_def sub_matches_def web_types_def chan_trysend_def
  chan_offer_def make_chan_def scheduled_def broadcast_next_def bus_receive_def chan_recv_def BroadcastEvent_def
  writePump_def client_chan_def put_chan_def texts_def zero_time_def Let_def

lemma demo_push_reachable: "push_reachable lib (NewWebUI (demo_engine ''alice'' 1)) NewEventBus demo_push"
proof -
  obtain s where s: "BroadcastLoop (NewWebUI (demo_engine ''alice'' 1)) NewEventBus = Inr s" "client_chan s ''u1'' = None"
    by (simp add: push_run_simps)
  show ?thesis unfolding demo_push_def s(1) sum.sel by (rule push_more [OF push_start [OF s(1)] push_in [OF s(2)]])
qed

lemma reachable_scheduled:
  assumes "push_reachable lib w b s"
  shows "push_reachable lib w b (scheduled broadcast_next s)" "push_reachable lib w b (scheduled (writePump tick i) s)"
  using assms by (auto simp: scheduled_def intro: push_more push_loop push_pump split: option.split)

lemma reachable_published: "push_reachable lib w b s \<Longrightarrow> push_publish_all es s = Inr s' \<Longrightarrow> push_reachable lib w b s'"
  by (induction es s rule: push_publish_all.induct) (auto intro: push_more push_pub split: sum.splits)

lemma demo_pushed_facts:
  "push_reachable lib (NewWebUI (demo_engine ''alice'' 1)) NewEventBus demo_pushed"
  "texts demo_pushed ''u1'' = [enc_Event demo_online]" "wp_log demo_pushed = [demo_typing, demo_online]"
proof -
  obtain s where s: "push_publish_all [(7, demo_typing), (7, demo_online)] demo_push = Inr s" by (simp add: push_run_simps)
  show "push_reachable lib (NewWebUI (demo_engine ''alice'' 1)) NewEventBus demo_pushed"
    unfolding demo_pushed_def s sum.sel
    by (intro reachable_scheduled reachable_published [OF demo_push_reachable s])
qed (simp_all add: push_run_simps)


theorem pushed_in_order_witness:
  "texts demo_pushed ''u1'' \<noteq> [] \<and> subseq (texts demo_pushed ''u1'') (map enc_Event (filter web_event (wp_log demo_pushed)))"
  using pushed_in_order [OF bus_start _ demo_pushed_facts(1), of "''u1''"] demo_pushed_facts(2) by (simp add: NewWebUI_def)

theorem push_complete_witness:
  "\<exists>s1. push_publish_all [(7, demo_online)] demo_push = Inr s1 \<and>
     texts ((scheduled (writePump False ''u1'') ^^ 64) ((scheduled broadcast_next ^^ 1) s1)) ''u1'' = [enc_Event demo_online]"
proof -
  have "map_of (wu_clients (wp_ui demo_push)) ''u1'' = Some (make_chan 64)" "waiting demo_push = []" "texts demo_push ''u1'' = []"
    by (simp_all add: push_run_simps)
  then show ?thesis
    using push_complete [OF bus_start _ demo_push_reachable, of "''u1''" "make_chan 64" "[(7, demo_online)]" 1 64]
    by (simp add: NewWebUI_def web_types_def stamp_def zero_time_def)
qed

end
