(* ===== verification/Server_Shutdown.thy ===== *)
theory Server_Shutdown
  imports Server_Command
begin

text \<open>
  The goroutines of the relay server of \<^verbatim>\<open>server/server.go\<close> and its shutdown: \<open>Start\<close> starts the two loops,
  every upgrade starts a \<open>readPump\<close> and a \<open>writePump\<close>, \<open>Stop\<close> closes \<open>stopCh\<close>, shuts the HTTP server down, waits for
  the wait group and closes the database; \<open>main\<close> of \<^verbatim>\<open>cmd/server/main.go\<close> calls \<open>Stop\<close> when a signal comes and
  returns when \<open>Start\<close> does. Each piece of a goroutine is a step of \<open>run_step\<close>, and the server they work on
  is the one of \<open>Relay_Server\<close>. The shutdown of the HTTP server ends \<open>Serve\<close> at once and does not touch
  upgraded connections, as its documentation says. A handler is one step, so a request that
  is being upgraded while the server shuts down is left out.

  Results: the wait group counts the running goroutines, so the database is closed only when none is
  left; the running server simulates the transition system of \<open>Relay_Server\<close>; \<open>Stop\<close> can always
  finish, but a client that keeps sending holds it up for as long as it likes, while \<open>main\<close> can return.
\<close>

section \<open>Definitions\<close>

datatype stop_stage = StopNotCalled | StopClosed | StopShutdown | StopWaited | StopDone

text \<open>\<open>run_readers\<close> are the connections whose \<open>readPump\<close> runs, with their read deadline.\<close>

record running =
  run_server :: Server
  run_now :: gotime
  run_readers :: "(string \<times> gotime) list"
  run_writers :: "string list"
  run_prune :: bool
  run_ping :: bool
  run_wg :: int
  run_stopCh :: bool
  run_listening :: bool
  run_stop :: stop_stage
  run_dbOpen :: bool
  run_main :: bool

definition start_server :: "gotime \<Rightarrow> Server \<Rightarrow> running" where
  "start_server now s =
     \<lparr>run_server = s, run_now = now, run_readers = [], run_writers = [], run_prune = True, run_ping = True, run_wg = 2,
      run_stopCh = False, run_listening = True, run_stop = StopNotCalled, run_dbOpen = True, run_main = True\<rparr>"

definition run_upgrade :: "server_settings \<Rightarrow> string \<Rightarrow> running \<Rightarrow> running" where
  "run_upgrade cfg uuid r =
     r\<lparr>run_server := handleWSUpgrade uuid (run_server r), run_wg := run_wg r + 2,
       run_readers := (uuid, run_now r + sc_ReadTimeout cfg) # run_readers r, run_writers := uuid # run_writers r\<rparr>"

definition extend_deadline :: "server_settings \<Rightarrow> string \<Rightarrow> running \<Rightarrow> running" where
  "extend_deadline cfg cid r = r\<lparr>run_readers := AList.update cid (run_now r + sc_ReadTimeout cfg) (run_readers r)\<rparr>"

text \<open>One round of \<open>readPump\<close>; \<open>None\<close> when the deadline has passed and the read fails.\<close>

definition read_frame :: "server_settings \<Rightarrow> hashes \<Rightarrow> bytes \<Rightarrow> string \<Rightarrow> frame \<Rightarrow> running \<Rightarrow> running option" where
  "read_frame cfg hs rnd cid f r =
     (case map_of (run_readers r) cid of
        None \<Rightarrow> None
      | Some dl \<Rightarrow>
          if dl < run_now r then None
          else let r1 = extend_deadline cfg cid r
               in Some (r1\<lparr>run_server := handleFrame hs (run_now r) rnd cid f (run_server r1)\<rparr>))"

definition read_end :: "string \<Rightarrow> running \<Rightarrow> running" where
  "read_end cid r =
     r\<lparr>run_wg := run_wg r - 1, run_server := disconnect (run_now r) cid (run_server r),
       run_readers := AList.delete cid (run_readers r)\<rparr>"

definition write_end :: "string \<Rightarrow> running \<Rightarrow> running" where
  "write_end cid r = r\<lparr>run_wg := run_wg r - 1, run_writers := remove1 cid (run_writers r)\<rparr>"

text \<open>\<open>Stop\<close>, statement by statement.\<close>

definition stop_close :: "running \<Rightarrow> panic + running" where
  "stop_close r = (if run_stopCh r then Inl CloseOfClosedChannel else Inr (r\<lparr>run_stopCh := True, run_stop := StopClosed\<rparr>))"

definition stop_shutdown :: "running \<Rightarrow> running" where
  "stop_shutdown r = r\<lparr>run_listening := False, run_stop := StopShutdown\<rparr>"

definition stop_wait :: "running \<Rightarrow> running option" where
  "stop_wait r = (if run_wg r = 0 then Some (r\<lparr>run_stop := StopWaited\<rparr>) else None)"

definition stop_db :: "running \<Rightarrow> running" where
  "stop_db r = r\<lparr>run_dbOpen := False, run_stop := StopDone\<rparr>"

inductive run_step :: "server_settings \<Rightarrow> running \<Rightarrow> running \<Rightarrow> bool" for cfg where
  run_clock: "0 \<le> d \<Longrightarrow> run_step cfg r (r\<lparr>run_now := run_now r + d\<rparr>)"
| run_accept: "run_listening r \<Longrightarrow> srv_conns (run_server r) uuid = None \<Longrightarrow> uuid \<notin> fst ` set (run_readers r) \<Longrightarrow>
    run_step cfg r (run_upgrade cfg uuid r)"
| run_frame: "read_frame cfg hs rnd cid f r = Some r' \<Longrightarrow> run_step cfg r r'"
| run_pong: "map_of (run_readers r) cid = Some dl \<Longrightarrow> run_now r \<le> dl \<Longrightarrow> run_step cfg r (extend_deadline cfg cid r)"
| run_leave: "cid \<in> fst ` set (run_readers r) \<Longrightarrow> run_step cfg r (read_end cid r)"
| run_write: "cid \<in> set (run_writers r) \<Longrightarrow> write_next cid (run_server r) = Some (f, s) \<Longrightarrow>
    run_step cfg r (r\<lparr>run_server := s\<rparr>)"
| run_write_end: "cid \<in> set (run_writers r) \<Longrightarrow> run_step cfg r (write_end cid r)"
| run_http: "run_listening r \<Longrightarrow>
    run_step cfg r (r\<lparr>run_server := snd (serve hs (run_now r) rnd ok method path body raw (run_server r))\<rparr>)"
| run_prune_tick: "run_prune r \<Longrightarrow> run_step cfg r (r\<lparr>run_server := prune_tick (run_now r) (run_server r)\<rparr>)"
| run_ping_tick: "run_ping r \<Longrightarrow> run_step cfg r (r\<lparr>run_server := ping_tick (run_now r) (run_server r)\<rparr>)"
| run_prune_end: "run_prune r \<Longrightarrow> run_stopCh r \<Longrightarrow> run_step cfg r (r\<lparr>run_prune := False, run_wg := run_wg r - 1\<rparr>)"
| run_ping_end: "run_ping r \<Longrightarrow> run_stopCh r \<Longrightarrow> run_step cfg r (r\<lparr>run_ping := False, run_wg := run_wg r - 1\<rparr>)"
| run_stop1: "run_stop r = StopNotCalled \<Longrightarrow> stop_close r = Inr r' \<Longrightarrow> run_step cfg r r'"
| run_stop2: "run_stop r = StopClosed \<Longrightarrow> run_step cfg r (stop_shutdown r)"
| run_stop3: "run_stop r = StopShutdown \<Longrightarrow> stop_wait r = Some r' \<Longrightarrow> run_step cfg r r'"
| run_stop4: "run_stop r = StopWaited \<Longrightarrow> run_step cfg r (stop_db r)"
| run_return: "\<not> run_listening r \<Longrightarrow> run_step cfg r (r\<lparr>run_main := False\<rparr>)"

text \<open>The goroutines the wait group counts, and what the stages of \<open>Stop\<close> mean.\<close>

definition goroutines :: "running \<Rightarrow> int" where
  "goroutines r = int (length (run_readers r)) + int (length (run_writers r)) + of_bool (run_prune r) + of_bool (run_ping r)"

definition run_inv :: "running \<Rightarrow> bool" where
  "run_inv r \<longleftrightarrow>
     server_inv (run_server r) \<and> run_wg r = goroutines r \<and> distinct (map fst (run_readers r)) \<and>
     (run_stopCh r \<longleftrightarrow> run_stop r \<noteq> StopNotCalled) \<and>
     (run_listening r \<longleftrightarrow> run_stop r \<in> {StopNotCalled, StopClosed}) \<and>
     (run_stop r \<in> {StopWaited, StopDone} \<longrightarrow> goroutines r = 0) \<and>
     (run_dbOpen r \<longleftrightarrow> run_stop r \<noteq> StopDone) \<and> (\<not> run_main r \<longrightarrow> \<not> run_listening r)"

section \<open>Lemmas\<close>

lemma goroutines_none:
  "goroutines r = 0 \<longleftrightarrow> run_readers r = [] \<and> run_writers r = [] \<and> \<not> run_prune r \<and> \<not> run_ping r"
  by (auto simp: goroutines_def of_bool_def simp flip: of_nat_add)

lemma length_update_known: "k \<in> fst ` set xs \<Longrightarrow> length (AList.update k v xs) = length xs"
  by (induction xs) auto

lemma length_delete_known:
  "distinct (map fst xs) \<Longrightarrow> k \<in> fst ` set xs \<Longrightarrow> int (length (AList.delete k xs)) = int (length xs) - 1"
proof (induction xs)
  case (Cons x xs)
  show ?case
  proof (cases "fst x = k")
    case True
    with Cons.prems(1) have "\<forall>y\<in>set xs. fst y \<noteq> k" by (auto simp: image_iff)
    then have "AList.delete k xs = xs" by (auto simp: AList.delete_eq intro!: filter_True)
    with True show ?thesis by simp
  qed (use Cons in auto)
qed simp

lemma serve_steps: "server_step\<^sup>=\<^sup>= s (snd (serve hs now rnd ok m p b raw s))"
  by (auto simp: serve_def intro: server_step.intros split: route.splits)

lemma map_of_known: "map_of xs k = Some v \<Longrightarrow> k \<in> fst ` set xs"
  by (metis domI dom_map_of_conv_image_fst)

lemma run_step_server: "run_step cfg r r' \<Longrightarrow> server_step\<^sup>=\<^sup>= (run_server r) (run_server r')"
proof (induction rule: run_step.induct)
  case (run_http r hs rnd ok m p b raw)
  show ?case using serve_steps by simp
qed (auto simp: run_upgrade_def read_frame_def extend_deadline_def read_end_def write_end_def stop_close_def
    stop_shutdown_def stop_wait_def stop_db_def Let_def intro: server_step.intros split: option.splits if_splits)

lemma run_step_goroutines:
  assumes "run_step cfg r r'" and "distinct (map fst (run_readers r))"
  shows "run_wg r' - goroutines r' = run_wg r - goroutines r \<and> distinct (map fst (run_readers r'))"
  using assms
proof (induction rule: run_step.induct)
  case (run_frame hs rnd cid f r r')
  then show ?case
    by (auto simp: read_frame_def extend_deadline_def goroutines_def Let_def length_update_known [OF map_of_known]
        distinct_update split: option.splits if_splits)
next
  case (run_pong r cid dl)
  then show ?case
    by (simp add: extend_deadline_def goroutines_def length_update_known [OF map_of_known] distinct_update)
next
  case (run_leave cid r)
  then show ?case by (simp add: read_end_def goroutines_def length_delete_known distinct_delete)
next
  case (run_write_end cid r)
  then have "int (length (remove1 cid (run_writers r))) = int (length (run_writers r)) - 1"
    using length_pos_if_in_set [of cid "run_writers r"] by (simp add: length_remove1 int_ops(6))
  with run_write_end show ?case by (simp add: write_end_def goroutines_def)
qed (auto simp: run_upgrade_def goroutines_def stop_close_def stop_shutdown_def stop_wait_def stop_db_def
    split: if_splits)

lemma run_step_inv:
  assumes "run_inv r" and "run_step cfg r r'"
  shows "run_inv r'"
proof -
  have "server_inv (run_server r')"
    using run_step_server [OF assms(2)] assms(1) by (auto simp: run_inv_def intro: server.step_inv)
  moreover have "run_wg r' = goroutines r' \<and> distinct (map fst (run_readers r'))"
    using run_step_goroutines [OF assms(2)] assms(1) by (simp add: run_inv_def)
  moreover have "run_stop r' \<in> {StopWaited, StopDone} \<longrightarrow> goroutines r' = 0"
    using assms(2,1)
    by induction (auto simp: run_inv_def goroutines_none run_upgrade_def read_frame_def extend_deadline_def read_end_def write_end_def
        stop_close_def stop_shutdown_def stop_wait_def stop_db_def Let_def split: option.splits if_splits)
  moreover have "(run_stopCh r' \<longleftrightarrow> run_stop r' \<noteq> StopNotCalled) \<and>
     (run_listening r' \<longleftrightarrow> run_stop r' \<in> {StopNotCalled, StopClosed}) \<and>
     (run_dbOpen r' \<longleftrightarrow> run_stop r' \<noteq> StopDone) \<and> (\<not> run_main r' \<longrightarrow> \<not> run_listening r')"
    using assms(2,1)
    by induction (auto simp: run_inv_def run_upgrade_def read_frame_def extend_deadline_def read_end_def write_end_def
        stop_close_def stop_shutdown_def stop_wait_def stop_db_def Let_def split: option.splits if_splits)
  ultimately show ?thesis unfolding run_inv_def by blast
qed

lemma run_inv_start: "server_inv s \<Longrightarrow> run_inv (start_server now s)"
  by (simp add: run_inv_def start_server_def goroutines_def)

text \<open>The goroutines run on the server of \<open>Relay_Server\<close>.\<close>

interpretation running: simulation "run_step cfg" run_inv "server_step\<^sup>=\<^sup>=" run_server
  by unfold_locales (erule (1) run_step_inv, erule run_step_server)

subsection \<open>Stopping\<close>

text \<open>While \<open>Stop\<close> waits, one of the goroutines that are left can end.\<close>

lemma goroutine_ends:
  assumes "run_inv r" and "run_stop r = StopShutdown" and "goroutines r \<noteq> 0"
  shows "\<exists>r'. run_step cfg r r' \<and> run_stop r' = StopShutdown \<and> goroutines r' = goroutines r - 1"
proof -
  have d: "distinct (map fst (run_readers r))" and ch: "run_stopCh r" using assms(1,2) by (simp_all add: run_inv_def)
  consider cid where "cid \<in> fst ` set (run_readers r)" | cid where "cid \<in> set (run_writers r)" | "run_prune r" | "run_ping r"
    using assms(3) by (auto simp: goroutines_none) (metis image_eqI list.set_intros(1) neq_Nil_conv)+
  then show ?thesis
  proof cases
    case 1
    then show ?thesis
      using run_leave [OF 1] assms(2) by (intro exI [of _ "read_end cid r"]) (simp add: read_end_def goroutines_def length_delete_known [OF d])
  next
    case 2
    then have "int (length (remove1 cid (run_writers r))) = int (length (run_writers r)) - 1"
      using length_pos_if_in_set [of cid "run_writers r"] by (simp add: length_remove1 int_ops(6))
    then show ?thesis
      using run_write_end [OF 2] assms(2) by (intro exI [of _ "write_end cid r"]) (simp add: write_end_def goroutines_def)
  next
    case 3
    then show ?thesis using run_prune_end [OF 3 ch] assms(2) by (intro exI conjI) (assumption | simp add: goroutines_def)+
  next
    case 4
    then show ?thesis using run_ping_end [OF 4 ch] assms(2) by (intro exI conjI) (assumption | simp add: goroutines_def)+
  qed
qed

text \<open>A client that sends a frame within its deadline is read, and gets a new deadline.\<close>

lemma frame_extends:
  assumes "map_of (run_readers r) cid = Some dl" and "run_now r \<le> dl" and "0 \<le> sc_ReadTimeout cfg"
  shows "\<exists>r'. (run_step cfg)\<^sup>*\<^sup>* r r' \<and> run_now r' = run_now r + sc_ReadTimeout cfg \<and>
    run_stop r' = run_stop r \<and> map_of (run_readers r') cid = Some (run_now r')"
proof -
  fix hs :: hashes
  let ?f = "mk_frame CmdPing None 0"
  define r1 where "r1 = (extend_deadline cfg cid r)\<lparr>run_server := handleFrame hs (run_now r) [] cid ?f (run_server r)\<rparr>"
  have "read_frame cfg hs [] cid ?f r = Some r1"
    using assms(1,2) by (simp add: read_frame_def r1_def Let_def extend_deadline_def)
  then have "run_step cfg r r1" by (rule run_frame)
  moreover have "run_step cfg r1 (r1\<lparr>run_now := run_now r1 + sc_ReadTimeout cfg\<rparr>)" by (rule run_clock [OF assms(3)])
  ultimately have "(run_step cfg)\<^sup>*\<^sup>* r (r1\<lparr>run_now := run_now r1 + sc_ReadTimeout cfg\<rparr>)"
    by (simp add: rtranclp.rtrancl_into_rtrancl [OF r_into_rtranclp])
  then show ?thesis
    by (intro exI [of _ "r1\<lparr>run_now := run_now r1 + sc_ReadTimeout cfg\<rparr>"])
      (simp add: r1_def extend_deadline_def update_conv)
qed

section \<open>Properties\<close>


text \<open>
  once \<open>Stop\<close> has been called it can always finish: whatever clients are connected, there is a
  continuation, with the goroutines ending one after the other, at whose end the database is closed.
\<close>

theorem stop_can_finish:
  assumes "server_reachable scfg s" and "(run_step cfg)\<^sup>*\<^sup>* (start_server now s) r" and "run_stop r \<noteq> StopNotCalled"
  shows "\<exists>r'. (run_step cfg)\<^sup>*\<^sup>* r r' \<and> run_stop r' = StopDone \<and> \<not> run_dbOpen r'"
proof -
  have inv: "run_inv r"
    by (rule running.run_inv [OF assms(2) run_inv_start [OF server_reachable_inv [OF assms(1)]]])
  have finish: "\<exists>r'. (run_step cfg)\<^sup>*\<^sup>* r r' \<and> run_stop r' = StopDone \<and> \<not> run_dbOpen r'"
    if "run_stop r = StopWaited" for r
    using r_into_rtranclp [of "run_step cfg", OF run_stop4 [OF that]] by (auto simp: stop_db_def)
  have wait: "\<exists>r'. (run_step cfg)\<^sup>*\<^sup>* r r' \<and> run_stop r' = StopDone \<and> \<not> run_dbOpen r'"
    if "run_inv r" and "run_stop r = StopShutdown" for r
    using that
  proof (induction "nat (goroutines r)" arbitrary: r)
    case 0
    moreover have "0 \<le> goroutines r" by (simp add: goroutines_def)
    ultimately have "run_wg r = 0" by (simp add: run_inv_def)
    then have "run_step cfg r (r\<lparr>run_stop := StopWaited\<rparr>)" using 0 by (intro run_stop3) (simp_all add: stop_wait_def)
    then show ?case using finish [of "r\<lparr>run_stop := StopWaited\<rparr>"] by (auto intro: converse_rtranclp_into_rtranclp)
  next
    case (Suc n)
    then obtain r1 where r1: "run_step cfg r r1" "run_stop r1 = StopShutdown" "goroutines r1 = goroutines r - 1"
      using goroutine_ends [OF Suc.prems] by force
    then have "n = nat (goroutines r1)" using Suc.hyps(2) by simp
    from Suc.hyps(1) [OF this running.step_inv [OF Suc.prems(1) r1(1)] r1(2)] show ?case
      using r1(1) by (auto intro: converse_rtranclp_into_rtranclp)
  qed
  show ?thesis
  proof (cases "run_stop r")
    case StopClosed
    then have step: "run_step cfg r (stop_shutdown r)" by (rule run_stop2)
    then show ?thesis
      using wait [OF running.step_inv [OF inv step]] by (auto simp: stop_shutdown_def intro: converse_rtranclp_into_rtranclp)
  next
    case StopDone
    then show ?thesis using inv by (auto simp: run_inv_def)
  qed (use assms(3) inv wait finish in auto)
qed

text \<open>
  A client that sends a frame before each of its deadlines holds \<open>Stop\<close> up for any time, past the
  15 seconds \<open>main\<close> allows; and \<open>main\<close> returns meanwhile, so the process ends with the database open.
\<close>

theorem stop_held_up:
  assumes "run_stop r = StopShutdown" and "map_of (run_readers r) cid = Some dl" and "run_now r \<le> dl"
    and "0 \<le> sc_ReadTimeout cfg" and "run_inv r"
  shows "\<exists>r'. (run_step cfg)\<^sup>*\<^sup>* r r' \<and> run_now r' = run_now r + int k * sc_ReadTimeout cfg \<and>
    run_stop r' = StopShutdown \<and> run_dbOpen r' \<and> \<not> run_main r'"
proof -
  have "\<exists>r'. (run_step cfg)\<^sup>*\<^sup>* r r' \<and> run_now r' = run_now r + int k * sc_ReadTimeout cfg \<and> run_stop r' = StopShutdown \<and>
      (\<exists>dl. map_of (run_readers r') cid = Some dl \<and> run_now r' \<le> dl)"
  proof (induction k)
    case (Suc k)
    then obtain r1 dl1 where r1: "(run_step cfg)\<^sup>*\<^sup>* r r1" "run_now r1 = run_now r + int k * sc_ReadTimeout cfg"
      "run_stop r1 = StopShutdown" "map_of (run_readers r1) cid = Some dl1" "run_now r1 \<le> dl1" by auto
    from frame_extends [OF r1(4,5) assms(4)] show ?case
      using r1 by (auto simp: algebra_simps intro: rtranclp_trans)
  qed (use assms in auto)
  then obtain r1 where r1: "(run_step cfg)\<^sup>*\<^sup>* r r1" "run_now r1 = run_now r + int k * sc_ReadTimeout cfg" "run_stop r1 = StopShutdown"
    by auto
  then have inv: "run_inv r1" using running.run_inv [OF r1(1) assms(5)] by simp
  then have "run_step cfg r1 (r1\<lparr>run_main := False\<rparr>)" using r1(3) by (intro run_return) (simp add: run_inv_def)
  then show ?thesis
    using r1 inv by (intro exI [of _ "r1\<lparr>run_main := False\<rparr>"]) (auto simp: run_inv_def intro: rtranclp.rtrancl_into_rtrancl)
qed

section \<open>Witnesses\<close>

definition demo_running :: server_settings where
  "demo_running = DefaultServerConfig None"

text \<open>A client connects, and \<open>Stop\<close> is called.\<close>

definition demo_stopping :: running where
  "demo_stopping = projr (stop_close (run_upgrade demo_running ''c1'' (start_server 0 (NewServer (ServerConfig.truncate demo_running)))))"

lemma demo_stopping_run:
  "(run_step demo_running)\<^sup>*\<^sup>* (start_server 0 (NewServer (ServerConfig.truncate demo_running))) demo_stopping"
proof -
  let ?r = "start_server 0 (NewServer (ServerConfig.truncate demo_running))"
  have "run_step demo_running ?r (run_upgrade demo_running ''c1'' ?r)"
    by (rule run_accept) (simp_all add: start_server_def NewServer_def)
  moreover have "run_step demo_running (run_upgrade demo_running ''c1'' ?r) demo_stopping"
    by (rule run_stop1) (simp_all add: start_server_def run_upgrade_def stop_close_def demo_stopping_def)
  ultimately show ?thesis by (simp only: rtranclp.rtrancl_into_rtrancl [OF r_into_rtranclp])
qed


theorem stop_can_finish_witness:
  "\<exists>r'. (run_step demo_running)\<^sup>*\<^sup>* demo_stopping r' \<and> run_stop r' = StopDone \<and> \<not> run_dbOpen r'"
  by (rule stop_can_finish [OF srv_start demo_stopping_run])
    (simp add: demo_stopping_def start_server_def run_upgrade_def stop_close_def)

end
