(* ===== verification/Spec2Isabelle.thy ===== *)
theory Spec2Isabelle
  imports Event_Bus Compress Wire Crypto_Provider Storage Transfers Relay_Server Engine_Recv Delivery
    Call_Manager Call_Quality Relay_Client Transport Media_Processor Web_UI Lifecycle Console Client_CLI Server_Command
    Web_Push Server_Shutdown
begin

text \<open>
  Verification of ZeroLink, a peer-to-peer messenger with an optional relay server.

  \<^bold>\<open>The program.\<close> A client runs an \<open>Engine\<close> (\<^verbatim>\<open>messenger/engine.go\<close>) over a crypto provider, an SQLite store, an
  event bus, a transport in a ZeroTier network, and, if configured, a WebSocket connection to a relay
  server. To send, the engine checks the permissions of the sender in the chat, compresses and encrypts
  the payload with the ratchet session of the peer or the sender key of the group, stores the
  plaintext, wraps the message as JSON in a binary packet and hands it to the transport and to the
  relay. An incoming packet goes the other way, ends in the store and raises an event. The server
  authenticates connections, stores and forwards relayed messages and delivers them when the
  recipient connects. Calls, file transfers and media have managers of their own. The client is
  driven from a terminal or from a web interface that the engine serves; both save the login in one
  file. The two commands start the client and the server.

  \<^bold>\<open>Theories.\<close>
  \<^item> \<open>Prelude\<close>: Go's integers, times, channels, strings and hexadecimal text, SQL tables as lists of rows;
    the locales \<open>mailbox\<close> (a bounded queue with dropping sends), \<open>keyed_store\<close> (last write wins),
    \<open>safe_system\<close> (an invariant of steps holds along runs) and \<open>simulation\<close> (steps that follow an abstract
    system do so along runs). \<open>mailbox\<close> is interpreted by the channels, \<open>keyed_store\<close> by four tables of
    the store and of the crypto provider, \<open>safe_system\<close> by the store, the server, the engine, the relay
    client, the locks of the transport and the push of events, \<open>simulation\<close> by the call manager and the
    running server.
  \<^item> \<open>Core_Types\<close>, \<open>Json\<close>: the data model of \<^verbatim>\<open>core/types.go\<close> with permissions, identifiers and configuration,
    and \<^verbatim>\<open>encoding/json\<close> on its struct tags. \<open>Json_Codec\<close> is a concrete invertible encoding of JSON trees
    as bytes, which shows that the law assumed of \<^verbatim>\<open>json.Marshal\<close> can hold.
  \<^item> \<open>Event_Bus\<close> (\<^verbatim>\<open>core/bus.go\<close>): subscriptions and channels; \<open>Unsubscribe\<close> is two steps, so that publications come
    in between. No panic in any interleaving, exact delivery, bursts of events.
  \<^item> \<open>Compress\<close> (\<^verbatim>\<open>transport/compress.go\<close>) and \<open>Wire\<close> (packet format and identifiers of \<^verbatim>\<open>transport/zerotier.go\<close>): round
    trips, and that exactly the marshalled packets are accepted.
  \<^item> \<open>Crypto_Provider\<close> (\<^verbatim>\<open>crypto/crypto.go\<close>): identities, the symmetric ratchet, sealing, sender keys, safety numbers
    over abstract primitives.
  \<^item> \<open>Storage\<close> (\<^verbatim>\<open>storage/sqlite.go\<close>): the tables with their foreign keys, paging, expiry, media cache.
  \<^item> \<open>Transfers\<close> (\<^verbatim>\<open>messenger/transfer.go\<close>): the upload worker interleaved with \<open>Pause\<close>, \<open>Resume\<close> and \<open>Cancel\<close>.
  \<^item> \<open>Relay_Server\<close> (\<^verbatim>\<open>server/server.go\<close>) and \<open>Relay_Client\<close> (\<^verbatim>\<open>messenger/server_relay.go\<close>): frame handlers, registry,
    accounts, offline delivery; queues, pumps and requests of the client; both composed in the login.
  \<^item> \<open>Transport\<close> (\<^verbatim>\<open>transport/zerotier.go\<close>, \<^verbatim>\<open>zt_events.go\<close>, \<^verbatim>\<open>stub.go\<close>): networks, addresses, sending and receiving
    datagrams, and the locking of \<open>Stop\<close> against the receive loop.
  \<^item> \<open>Call_Manager\<close> (\<^verbatim>\<open>media/call.go\<close>): sessions as objects on a heap, shared with the callbacks of their
    connections; refinement of an abstract register of calls.
    \<open>Call_Quality\<close>: the quality reports of a call.
  \<^item> \<open>Media_Processor\<close> (\<^verbatim>\<open>media/processor.go\<close>): what is made of images, audio, video and files.
  \<^item> \<open>Web_UI\<close> (\<^verbatim>\<open>messenger/webui.go\<close>): the HTTP handlers over engine and relay connection, composed with the
    server in the login. \<open>Web_Push\<close>: its routes, and the broadcast loop and the pumps interleaved with
    publishers and clients; requests keep the engine reachable, browsers get events in order.
  \<^item> \<open>Lifecycle\<close> (\<^verbatim>\<open>messenger/engine.go\<close>, \<^verbatim>\<open>crypto/crypto.go\<close>): \<open>Start\<close> and \<open>Stop\<close> of a node, which joins the engine, the transport, the relay
    connection and the call manager; the identity file, the background workers, restarts, and the
    way of a call signal from one node to another.
  \<^item> \<open>Console\<close>, \<open>Client_CLI\<close> (\<^verbatim>\<open>cmd/client/main.go\<close>) and \<open>Server_Command\<close> (\<^verbatim>\<open>cmd/server/main.go\<close>, \<open>Start\<close> of \<^verbatim>\<open>server/server.go\<close>): words,
    addresses and lines of a terminal; configuration, automatic login, dialogues and commands of the
    client over a node; setup, addresses, routes and restart of the server.
  \<^item> \<open>Server_Shutdown\<close> (\<open>Stop\<close>, pumps and loops of \<^verbatim>\<open>server/server.go\<close>): the goroutines of the running server with their wait
    group, read deadlines and the stages of \<open>Stop\<close>, simulating the server of \<open>Relay_Server\<close>.
  \<^item> \<open>Engine\<close> and \<open>Engine_Recv\<close> (\<^verbatim>\<open>messenger/engine.go\<close>): the outgoing and the incoming half of the engine; every
    API call and handler is a state transformer on the record \<open>Engine\<close>. \<open>Delivery\<close> has the lemmas that
    follow one message through both halves, and this theory the theorems that span components.

  \<^bold>\<open>How the code is modelled.\<close> A struct is a record, an operation a function from the state to its result and
  the new state; every raise, early return and panic is a branch. Handlers run atomically, except
  where the code releases its locks and a property is about what happens then (bus, upload worker,
  relay client, locks of the transport, push to the browsers, shutdown of the server); reachability predicates close the operations under arbitrary
  sequences. The clock is read once per call and passed as an argument, randomness and UUIDs are
  draws from the argument \<open>env\<close>. Byte slices are lists of 8-bit words (nil and empty are not
  distinguished), counters and flags are words of their width, times are nanoseconds. JSON is a tree
  with leaves for base64 and time texts, field names are exact, and an enumeration out of range is
  a decoding error. Database columns that hold JSON hold the value.

  \<^bold>\<open>Parameters.\<close> Code outside the repository is an argument with its documented laws as hypotheses: AEAD, HKDF,
  X25519, Ed25519 and hash functions (\<open>aead_law\<close>, \<open>hkdf_law\<close>, ...), the compression libraries (\<open>zstd_law\<close>), the
  byte form of JSON (\<open>json_codec_law\<close>), WebRTC, libzt (\<open>rfc4193_law\<close>), image codecs (\<open>thumbnail_law\<close>) and
  external programs. Each law is satisfied by a concrete instance in the witness of the properties
  that assume it. No fuel is used: loops are structural recursions or steps of a relation, and
  \<open>upload_completes\<close> and \<open>push_complete\<close> bound the rounds of the loops whose end is a property. Prompts that are
  repeated until the answer is acceptable are partial functions into \<open>option\<close>, where \<open>None\<close> means that
  they never return; \<open>guided_setup\<close> and \<open>server_setup_roundtrip\<close> say when that happens.

  \<^bold>\<open>Not modelled.\<close> The desktop shell (\<^verbatim>\<open>gui/\<close>), a window and a tray icon around a browser; installing, opening a
  browser and process signals of the commands; the text of what the terminal prints, which is
  abstracted to values. In the modelled files: logging, the scheduling of goroutines beyond the
  interleavings named above, sockets, TLS, floating-point statistics and durations, cleaning of file paths, and text outside ASCII in
  lower-casing and trimming. Interfaces of \<^verbatim>\<open>core/types.go\<close> have no definition of their own: they are the
  operations of the components that implement them.
\<close>

section \<open>Properties that span components\<close>



text \<open>
  Synchronisation does not synchronise. The server answers a sync request with the list of the
  stored messages, or with null when there are none; the engine decodes the payload of the answer
  as one message. Whatever the server has stored, feeding the answer to the engine stores no
  message and publishes no event, and if there is something to deliver the engine does not change
  at all.
\<close>

theorem sync_response_lost:
  assumes "unmarshal dec_sync (rf_Payload f) = Some (chatID, afterTS)"
    and "json_Unmarshal (env_json v) body = Some payload"
  shows "\<exists>r. handleSync now cid f s = client_send cid r s \<and> rf_Cmd r = CmdSyncResp \<and>
    (rf_Payload r = Some payload \<longrightarrow>
      (let e' = handleRelayFrame v \<lparr>rf_Cmd = rf_Cmd r, rf_ID = rf_ID r, rf_PeerID = rf_PeerID r, rf_Payload = body,
                  rf_Timestamp = rf_Timestamp r\<rparr> e
       in tb_messages (e_store e') = tb_messages (e_store e) \<and> e_events e' = e_events e \<and>
          (sync_rows s chatID afterTS \<noteq> [] \<longrightarrow> e' = e)))"
proof -
  let ?p = "case sync_rows s chatID afterTS of [] \<Rightarrow> JNull | rows \<Rightarrow> JArr (map sm_payload rows)"
  let ?r = "\<lparr>rf_Cmd = CmdSyncResp, rf_ID = rf_ID f, rf_PeerID = '''', rf_Payload = Some ?p, rf_Timestamp = UnixNano now\<rparr>"
  let ?f = "\<lparr>rf_Cmd = CmdSyncResp, rf_ID = rf_ID f, rf_PeerID = '''', rf_Payload = body, rf_Timestamp = UnixNano now\<rparr>"
  have r: "handleSync now cid f s = client_send cid ?r s" using assms(1) by (simp add: handleSync_def)
  have "tb_messages (e_store (handleRelayFrame v ?f e)) = tb_messages (e_store e) \<and>
      e_events (handleRelayFrame v ?f e) = e_events e \<and> (sync_rows s chatID afterTS \<noteq> [] \<longrightarrow> handleRelayFrame v ?f e = e)"
    if "?p = payload"
  proof (cases "sync_rows s chatID afterTS")
    case Nil
    then show ?thesis using sync_null_ignored [of v body ?f e] assms(2) that by simp
  next
    case (Cons row rows)
    then have "handleRelayFrame v ?f e = e"
      using assms(2) that by (auto simp: handleRelayFrame_def unmarshal_body_def dec_Message_JArr)
    then show ?thesis by simp
  qed
  with r show ?thesis by (intro exI [of _ ?r]) (simp add: Let_def)
qed

section \<open>Witnesses\<close>

definition alice :: Engine where
  "alice = put_session \<lparr>pid_NodeID = ''bobby'', pid_Fingerprint = ''f''\<rparr> clear_session (demo_engine ''alice'' 1)"

definition bobby :: Engine where
  "bobby = put_session \<lparr>pid_NodeID = ''alice'', pid_Fingerprint = ''f''\<rparr> clear_mirror (demo_engine ''bobby'' 2)"

lemma demo_parties:
  "e_cfg alice = DefaultConfig None" "e_cfg bobby = DefaultConfig None" "local_id alice = \<lparr>pid_NodeID = ''alice'', pid_Fingerprint = ''f''\<rparr>"
  "e_draws alice = 0" "e_draws bobby = 0" "e_store alice = e_store (demo_engine ''alice'' 1)"
  "e_store bobby = e_store (demo_engine ''bobby'' 2)"
  by (simp_all add: alice_def bobby_def put_session_def demo_engine_def demo_peer_def)

lemma demo_env_simps:
  "env_prim (demo_env x) = clear_primitives" "env_codecs (demo_env x) = run_codecs"
  "env_json (demo_env x) = \<lparr>json_Marshal = encode, json_Unmarshal = decode\<rparr>" "env_rand (demo_env x) n = Some [1]"
  "env_uuid (demo_env x) n = x @ replicate n CHR ''u''"
  by (simp_all add: demo_env_def)

lemma demo_accepts: "sender_accepted \<lparr>pid_NodeID = ''alice'', pid_Fingerprint = ''f''\<rparr> bobby"
  by (simp add: sender_accepted_def demo_parties demo_engine_def GetPeer_def SavePeer_def table_simps peer_key_def
      peer_values_def demo_peer_def scanPeer_def boolToInt_def)



theorem sync_response_lost_witness:
  "\<exists>r. handleSync 0 ''c1'' (mk_frame CmdSync (Some (JObj [(''chat_id'', JStr ''c'')])) 0) demo_server = client_send ''c1'' r demo_server \<and>
     rf_Cmd r = CmdSyncResp"
proof -
  have "unmarshal dec_sync (rf_Payload (mk_frame CmdSync (Some (JObj [(''chat_id'', JStr ''c'')])) 0)) = Some (''c'', 0)"
    by (simp add: unmarshal_def mk_frame_def dec_sync_def fld_def)
  from sync_response_lost [OF this, of "demo_env ''a''" "[0]" JNull 0 "''c1''" demo_server alice]
  show ?thesis by (simp add: demo_env_simps decode_def) blast
qed

end
